(* ===== verification/Prelude.thy ===== *)
theory Prelude
  imports Main "HOL-Library.Word" "HOL-Library.AList" "HOL-Library.Monad_Syntax" "HOL-Library.Multiset"
begin

text \<open>
  Shared vocabulary of the development: names for Go's integer types, the values of Go's
  \<open>error\<close> interface, Go slices that distinguish nil from empty, association lists that stand
  for \<open>sync.Map\<close> and Go maps (their list order is the iteration order, which Go leaves
  unspecified), and the generic lemmas and theorem collections the components use.
\<close>

named_theorems model_defs "unfolding rules of the operations of the model"
named_theorems view_simps "effect of the operations on the observable state"

type_synonym int64 = "64 word"
type_synonym uint64 = "64 word"
type_synonym int32 = "32 word"
type_synonym byte = "8 word"

text \<open>
  Error values. \<open>Errorf\<close> is \<open>fmt.Errorf\<close> or \<open>errors.New\<close> with the text it builds,
  \<open>StatusErrorf\<close> is \<open>status.Errorf(codes.Unimplemented, \<dots>)\<close> of gRPC, and
  \<open>DriverError\<close> is an error a database driver hands back.
\<close>

datatype goerror = Errorf string | StatusErrorf string | DriverError string

text \<open>A Go slice: \<open>None\<close> is nil, and ranging over it or taking its length reads the list.\<close>

type_synonym 'a slice = "'a list option"

definition elems :: "'a slice \<Rightarrow> 'a list" where
  "elems s = (case s of None \<Rightarrow> [] | Some xs \<Rightarrow> xs)"

lemma elems_simps [simp]: "elems None = []" "elems (Some xs) = xs"
  by (simp_all add: elems_def)

subsection \<open>Association lists as Go maps\<close>

lemma map_of_update [simp]: "map_of (AList.update k v al) = (map_of al)(k \<mapsto> v)"
  by (simp add: update_conv')

lemma map_of_delete [simp]: "map_of (AList.delete k al) = (map_of al)(k := None)"
  by (simp add: delete_conv')

lemma map_of_delete_eq: "map_of (AList.delete k al) x = (if x = k then None else map_of al x)"
  by simp

lemma distinct_keys_delete [simp]:
  "distinct (map fst al) \<Longrightarrow> distinct (map fst (AList.delete k al))"
  by (rule distinct_delete)

lemma distinct_keys_update [simp]:
  "distinct (map fst al) \<Longrightarrow> distinct (map fst (AList.update k v al))"
  by (rule distinct_update)

lemma in_alist_iff_map_of:
  "distinct (map fst al) \<Longrightarrow> (k, v) \<in> set al \<longleftrightarrow> map_of al k = Some v"
  by (auto simp: map_of_eq_Some_iff)

subsection \<open>Options and binds\<close>

lemma bind_eq_Some_pairE:
  assumes "Option.bind m f = Some r"
  obtains x where "m = Some x" and "f x = Some r"
  using assms by (cases m) auto

end
