(* ===== verification/Go_Strings.thy ===== *)
theory Go_Strings
  imports Prelude
begin

text \<open>
  The part of Go's \<open>strings\<close>, \<open>strconv\<close> and \<open>fmt\<close> packages the source uses, on byte strings
  (a Go string is a sequence of bytes, a HOL \<open>string\<close> a list of 8-bit characters): \<open>Index\<close>,
  \<open>LastIndex\<close> and \<open>Split\<close> with a one-byte separator, \<open>%d\<close>, \<open>ParseInt(s, 10, 64)\<close> and
  \<open>ToUpper\<close> on ASCII, with the laws the components rest on.
\<close>

subsection \<open>Index, LastIndex, Split\<close>

fun Index :: "string \<Rightarrow> char \<Rightarrow> int" where
  "Index [] c = -1"
| "Index (x # xs) c = (if x = c then 0 else (let i = Index xs c in if i < 0 then -1 else i + 1))"

fun LastIndex :: "string \<Rightarrow> char \<Rightarrow> int" where
  "LastIndex [] c = -1"
| "LastIndex (x # xs) c =
     (let i = LastIndex xs c in if 0 \<le> i then i + 1 else if x = c then 0 else -1)"

fun Split :: "string \<Rightarrow> char \<Rightarrow> string list" where
  "Split [] c = [[]]"
| "Split (x # xs) c =
     (if x = c then [] # Split xs c
      else (case Split xs c of [] \<Rightarrow> [[x]] | w # ws \<Rightarrow> (x # w) # ws))"

fun Join :: "string list \<Rightarrow> char \<Rightarrow> string" where
  "Join [] c = []"
| "Join [w] c = w"
| "Join (w # v # ws) c = w @ c # Join (v # ws) c"

lemma Index_append: "c \<notin> set xs \<Longrightarrow> Index (xs @ c # ys) c = int (length xs)"
  by (induction xs) (auto simp: Let_def)

lemma Index_absent: "Index xs c < 0 \<longleftrightarrow> c \<notin> set xs"
  by (induction xs) (auto simp: Let_def)

lemma LastIndex_absent: "c \<notin> set xs \<Longrightarrow> LastIndex xs c = -1"
  by (induction xs) auto

lemma LastIndex_append: "c \<notin> set ys \<Longrightarrow> LastIndex (xs @ c # ys) c = int (length xs)"
  by (induction xs) (auto simp: Let_def LastIndex_absent)

lemma Split_nonempty [simp]: "Split xs c \<noteq> []"
  by (induction xs) (auto split: list.splits)

lemma Split_absent: "c \<notin> set xs \<Longrightarrow> Split xs c = [xs]"
  by (induction xs) auto

lemma Split_append: "c \<notin> set xs \<Longrightarrow> Split (xs @ c # ys) c = xs # Split ys c"
  by (induction xs) auto

lemma Split_Join:
  assumes "ws \<noteq> []" and "\<forall>w \<in> set ws. c \<notin> set w"
  shows "Split (Join ws c) c = ws"
  using assms
proof (induction ws c rule: Join.induct)
  case (3 w v ws c)
  then show ?case by (simp add: Split_append)
qed (simp_all add: Split_absent)

lemma Join_Split: "Join (Split xs c) c = xs"
proof (induction xs)
  case (Cons x xs)
  obtain w ws where "Split xs c = w # ws" by (cases "Split xs c") simp_all
  with Cons show ?case by (cases ws) simp_all
qed simp

lemma Split_parts_free: "w \<in> set (Split xs c) \<Longrightarrow> c \<notin> set w"
proof (induction xs arbitrary: w)
  case (Cons x xs)
  obtain v vs where "Split xs c = v # vs" by (cases "Split xs c") simp_all
  with Cons show ?case by (auto split: if_splits)
qed simp

subsection \<open>Decimal text of integers\<close>

definition digit_char :: "nat \<Rightarrow> char" where
  "digit_char d = char_of (48 + d)"

definition is_digit :: "char \<Rightarrow> bool" where
  "is_digit c \<longleftrightarrow> 48 \<le> (of_char c :: nat) \<and> (of_char c :: nat) \<le> 57"

definition digit_val :: "char \<Rightarrow> nat" where
  "digit_val c = of_char c - 48"

fun show_nat :: "nat \<Rightarrow> string" where
  "show_nat n = (if n < 10 then [digit_char n] else show_nat (n div 10) @ [digit_char (n mod 10)])"

declare show_nat.simps [simp del]

definition show_int :: "int \<Rightarrow> string" where
  "show_int i = (if i < 0 then CHR ''-'' # show_nat (nat (- i)) else show_nat (nat i))"

text \<open>\<open>%d\<close> of an \<open>int64\<close>.\<close>

definition show_int64 :: "int64 \<Rightarrow> string" where
  "show_int64 w = show_int (sint w)"

lemma of_char_digit [simp]: "d < 10 \<Longrightarrow> (of_char (digit_char d) :: nat) = 48 + d"
  by (simp add: digit_char_def)

lemma digit_char_facts [simp]:
  assumes "d < 10"
  shows "is_digit (digit_char d)" and "digit_val (digit_char d) = d"
  using assms by (simp_all add: is_digit_def digit_val_def)

lemma show_nat_digits: "c \<in> set (show_nat n) \<Longrightarrow> is_digit c"
proof (induction n rule: show_nat.induct)
  case (1 n)
  then show ?case by (subst (asm) show_nat.simps) (auto split: if_splits)
qed

lemma show_nat_nonempty [simp]: "show_nat n \<noteq> []"
  by (subst show_nat.simps) simp

lemma not_digit_chars [simp]:
  "\<not> is_digit (CHR '':'')" "\<not> is_digit (CHR ''-'')" "\<not> is_digit (CHR ''+'')"
  by (simp_all add: is_digit_def)

lemma colon_not_in_show_int64 [simp]: "CHR '':'' \<notin> set (show_int64 w)"
  by (auto simp: show_int64_def show_int_def dest: show_nat_digits)

subsection \<open>ParseInt\<close>

datatype num_error = ErrSyntax | ErrRange

text \<open>
  \<open>strconv.ParseUint(s, 10, 64)\<close>: the digits are read from the left; the first byte that is
  not a digit is a syntax error, the first step that leaves 64 bits a range error, whichever
  comes first. \<open>ParseInt\<close> takes the sign off, and hands back 0 with a syntax error and the
  nearest bound with a range error.
\<close>

fun ParseUint_from :: "nat \<Rightarrow> string \<Rightarrow> num_error + nat" where
  "ParseUint_from n [] = Inr n"
| "ParseUint_from n (c # cs) =
     (if \<not> is_digit c then Inl ErrSyntax
      else if n * 10 + digit_val c > 2 ^ 64 - 1 then Inl ErrRange
      else ParseUint_from (n * 10 + digit_val c) cs)"

definition ParseUint :: "string \<Rightarrow> num_error + nat" where
  "ParseUint s = (if s = [] then Inl ErrSyntax else ParseUint_from 0 s)"

definition ParseInt :: "string \<Rightarrow> int64 \<times> num_error option" where
  "ParseInt s =
     (case s of [] \<Rightarrow> (0, Some ErrSyntax)
      | c # cs \<Rightarrow>
         (let neg = (c = CHR ''-'');
              body = (if c = CHR ''+'' \<or> c = CHR ''-'' then cs else s)
          in case ParseUint body of
               Inl ErrSyntax \<Rightarrow> (0, Some ErrSyntax)
             | Inl ErrRange \<Rightarrow>
                 (if neg then (- (2 ^ 63), Some ErrRange) else (2 ^ 63 - 1, Some ErrRange))
             | Inr un \<Rightarrow>
                 (if \<not> neg \<and> un \<ge> 2 ^ 63 then (2 ^ 63 - 1, Some ErrRange)
                  else if neg \<and> un > 2 ^ 63 then (- (2 ^ 63), Some ErrRange)
                  else (if neg then - of_nat un else of_nat un, None))))"

lemma ParseUint_from_append:
  "ParseUint_from n xs = Inr m \<Longrightarrow> ParseUint_from n (xs @ ys) = ParseUint_from m ys"
  by (induction n xs rule: ParseUint_from.induct) (auto split: if_splits)

lemma ParseUint_from_show_nat: "n \<le> 2 ^ 64 - 1 \<Longrightarrow> ParseUint_from 0 (show_nat n) = Inr n"
proof (induction n rule: show_nat.induct)
  case (1 n)
  show ?case
  proof (cases "n < 10")
    case True
    then show ?thesis by (subst show_nat.simps) simp
  next
    case False
    with 1 have "ParseUint_from 0 (show_nat (n div 10)) = Inr (n div 10)" by simp
    moreover have "n div 10 * 10 + n mod 10 = n" by presburger
    ultimately show ?thesis
      using False 1(2) by (subst show_nat.simps) (simp add: ParseUint_from_append)
  qed
qed

lemma ParseUint_show_nat: "n \<le> 2 ^ 64 - 1 \<Longrightarrow> ParseUint (show_nat n) = Inr n"
  by (simp add: ParseUint_def ParseUint_from_show_nat)

lemma sint_bounds64: "- (2 ^ 63) \<le> sint (w :: int64)" "sint (w :: int64) < 2 ^ 63"
  using sint_greater_eq [of w] sint_less [of w] by simp_all

lemma ParseInt_show_int64: "ParseInt (show_int64 w) = (w, None)"
proof (cases "sint w < 0")
  case True
  let ?n = "nat (- sint w)"
  have "?n \<le> 2 ^ 63" using sint_bounds64(1) [of w] True by simp
  moreover from this have "ParseUint (show_nat ?n) = Inr ?n" by (simp add: ParseUint_show_nat)
  moreover have "- of_nat ?n = w" using True by simp
  ultimately show ?thesis using True by (simp add: ParseInt_def show_int64_def show_int_def)
next
  case False
  let ?n = "nat (sint w)"
  have b: "?n < 2 ^ 63" using sint_bounds64(2) [of w] False by simp
  then have p: "ParseUint (show_nat ?n) = Inr ?n" by (simp add: ParseUint_show_nat)
  obtain c cs where c: "show_nat ?n = c # cs" by (cases "show_nat ?n") simp_all
  then have "is_digit c" using show_nat_digits [of c ?n] by simp
  then have "c \<noteq> CHR ''-''" "c \<noteq> CHR ''+''" using not_digit_chars by auto
  moreover have "of_nat ?n = w" using False by simp
  ultimately show ?thesis
    using False b p c by (simp add: ParseInt_def show_int64_def show_int_def Let_def)
qed

lemma show_int64_nonempty [simp]: "show_int64 w \<noteq> []"
  by (simp add: show_int64_def show_int_def)

lemma show_int64_inject [simp]: "show_int64 v = show_int64 w \<longleftrightarrow> v = w"
  by (metis ParseInt_show_int64 prod.inject)

subsection \<open>ToUpper on ASCII\<close>

definition upper_char :: "char \<Rightarrow> char" where
  "upper_char c =
     (let n = (of_char c :: nat) in if 97 \<le> n \<and> n \<le> 122 then char_of (n - 32) else c)"

definition ToUpper :: "string \<Rightarrow> string" where
  "ToUpper s = map upper_char s"

lemma of_char_upper:
  "(of_char (upper_char c) :: nat) =
     (if 97 \<le> (of_char c :: nat) \<and> (of_char c :: nat) \<le> 122 then of_char c - 32 else of_char c)"
  by (auto simp: upper_char_def Let_def intro!: mod_less)

lemma upper_char_idem [simp]: "upper_char (upper_char c) = upper_char c"
proof -
  have "(of_char (upper_char (upper_char c)) :: nat) = of_char (upper_char c)"
    by (auto simp: of_char_upper)
  then show ?thesis by simp
qed

lemma ToUpper_idem [simp]: "ToUpper (ToUpper s) = ToUpper s"
  by (simp add: ToUpper_def)

lemma ToUpper_Nil [simp]: "ToUpper [] = []" "ToUpper s = [] \<longleftrightarrow> s = []"
  by (simp_all add: ToUpper_def)

end
