(* ===== verification/Apis.thy ===== *)
theory Apis
  imports Go_Strings
begin

text \<open>
  The data of \<open>pkg/apis\<close>: the enumerations and messages of \<open>seata.proto\<close> as the generated
  \<open>seata.pb.go\<close> declares them. An enumeration is a datatype with the source's constants; its
  wire number and its text are functions on it. A message is a record whose fields carry the
  message's initials. Application data is a byte string, \<open>None\<close> being a nil slice.
\<close>

subsection \<open>Enumerations\<close>

datatype ResultCode = ResultCodeFailed | ResultCodeSuccess

datatype ExceptionCode =
    UnknownErr | BeginFailed | LockKeyConflict | IO | BranchRollbackFailedRetryable
  | BranchRollbackFailedUnretryable | BranchRegisterFailed | BranchReportFailed
  | LockableCheckFailed | BranchTransactionNotExist | GlobalTransactionNotExist
  | GlobalTransactionNotActive | GlobalTransactionStatusInvalid
  | FailedToSendBranchCommitRequest | FailedToSendBranchRollbackRequest | FailedToAddBranch
  | FailedLockGlobalTransaction | FailedWriteSession | FailedStore

datatype BranchMessageType =
    TypeBranchCommit | TypeBranchCommitResult | TypeBranchRollback | TypeBranchRollBackResult

datatype GlobalStatus =
    UnknownGlobalStatus | Begin | Committing | CommitRetrying | RollingBack
  | RollbackRetrying | TimeoutRollingBack | TimeoutRollbackRetrying | AsyncCommitting
  | Committed | CommitFailed | RolledBack | RollbackFailed | TimeoutRolledBack
  | TimeoutRollbackFailed | Finished

datatype BranchType = AT | TCC | SAGA | XA

datatype BranchStatus =
    UnknownBranchStatus | Registered | PhaseOneDone | PhaseOneFailed | PhaseOneTimeout
  | PhaseTwoCommitted | PhaseTwoCommitFailedRetryable | PhaseTwoCommitFailedCanNotRetry
  | PhaseTwoRolledBack | PhaseTwoRollbackFailedRetryable | PhaseTwoRollbackFailedCanNotRetry

fun GlobalStatus_num :: "GlobalStatus \<Rightarrow> nat" where
  "GlobalStatus_num UnknownGlobalStatus = 0"
| "GlobalStatus_num Begin = 1"
| "GlobalStatus_num Committing = 2"
| "GlobalStatus_num CommitRetrying = 3"
| "GlobalStatus_num RollingBack = 4"
| "GlobalStatus_num RollbackRetrying = 5"
| "GlobalStatus_num TimeoutRollingBack = 6"
| "GlobalStatus_num TimeoutRollbackRetrying = 7"
| "GlobalStatus_num AsyncCommitting = 8"
| "GlobalStatus_num Committed = 9"
| "GlobalStatus_num CommitFailed = 10"
| "GlobalStatus_num RolledBack = 11"
| "GlobalStatus_num RollbackFailed = 12"
| "GlobalStatus_num TimeoutRolledBack = 13"
| "GlobalStatus_num TimeoutRollbackFailed = 14"
| "GlobalStatus_num Finished = 15"

fun BranchType_name :: "BranchType \<Rightarrow> string" where
  "BranchType_name AT = ''AT''"
| "BranchType_name TCC = ''TCC''"
| "BranchType_name SAGA = ''SAGA''"
| "BranchType_name XA = ''XA''"

text \<open>A Go map read with an absent key yields the zero value, here the branch type numbered 0.\<close>

definition BranchType_value :: "string \<Rightarrow> BranchType" where
  "BranchType_value s =
     (if s = ''AT'' then AT else if s = ''TCC'' then TCC else if s = ''SAGA'' then SAGA
      else if s = ''XA'' then XA else AT)"

lemma BranchType_value_name: "BranchType_value (BranchType_name t) = t"
  by (cases t) (simp_all add: BranchType_value_def)

subsection \<open>Sessions and row locks\<close>

record GlobalSession =
  gs_Addressing :: string
  gs_XID :: string
  gs_TransactionID :: int64
  gs_TransactionName :: string
  gs_Timeout :: int32
  gs_BeginTime :: int64
  gs_Status :: GlobalStatus
  gs_Active :: bool

record BranchSession =
  bs_Addressing :: string
  bs_XID :: string
  bs_BranchID :: int64
  bs_TransactionID :: int64
  bs_ResourceID :: string
  bs_LockKey :: string
  bs_Type :: BranchType
  bs_Status :: BranchStatus
  bs_ApplicationData :: "string option"
  bs_AsyncCommit :: bool

record RowLock =
  rl_XID :: string
  rl_TransactionID :: int64
  rl_BranchID :: int64
  rl_ResourceID :: string
  rl_TableName :: string
  rl_PK :: string
  rl_RowKey :: string

subsection \<open>Requests and responses of the transaction manager service\<close>

record GlobalBeginRequest =
  gbq_Addressing :: string
  gbq_Timeout :: int32
  gbq_TransactionName :: string

record GlobalBeginResponse =
  gbp_ResultCode :: ResultCode
  gbp_ExceptionCode :: ExceptionCode
  gbp_Message :: string
  gbp_XID :: string

text \<open>
  \<open>GlobalStatusResponse\<close>, \<open>GlobalCommitResponse\<close> and \<open>GlobalRollbackResponse\<close> have the same
  four fields, and the three requests hold an XID only: the requests are that string.
\<close>

record GlobalResponse =
  gr_ResultCode :: ResultCode
  gr_ExceptionCode :: ExceptionCode
  gr_Message :: string
  gr_GlobalStatus :: GlobalStatus

subsection \<open>Requests and responses of the resource manager service\<close>

record BranchRegisterRequest =
  brq_Addressing :: string
  brq_XID :: string
  brq_ResourceID :: string
  brq_LockKey :: string
  brq_BranchType :: BranchType
  brq_ApplicationData :: "string option"
  brq_AsyncCommit :: bool

record BranchRegisterResponse =
  brp_ResultCode :: ResultCode
  brp_ExceptionCode :: ExceptionCode
  brp_Message :: string
  brp_BranchID :: int64

record BranchReportRequest =
  btq_XID :: string
  btq_BranchID :: int64
  btq_ResourceID :: string
  btq_BranchType :: BranchType
  btq_BranchStatus :: BranchStatus
  btq_ApplicationData :: "string option"

record BranchReportResponse =
  btp_ResultCode :: ResultCode
  btp_ExceptionCode :: ExceptionCode
  btp_Message :: string

record GlobalLockQueryRequest =
  glq_XID :: string
  glq_ResourceID :: string
  glq_LockKey :: string
  glq_BranchType :: BranchType

record GlobalLockQueryResponse =
  glp_ResultCode :: ResultCode
  glp_ExceptionCode :: ExceptionCode
  glp_Message :: string
  glp_Lockable :: bool

subsection \<open>Branch messages\<close>

text \<open>
  \<open>BranchCommitRequest\<close> and \<open>BranchRollbackRequest\<close> have the same fields, as have the two
  responses; what tells them apart is the message type.
\<close>

record BranchRequest =
  bq_XID :: string
  bq_BranchID :: int64
  bq_ResourceID :: string
  bq_LockKey :: string
  bq_BranchType :: BranchType
  bq_ApplicationData :: "string option"

record BranchResponse =
  bp_ResultCode :: ResultCode
  bp_ExceptionCode :: ExceptionCode
  bp_Message :: string
  bp_XID :: string
  bp_BranchID :: int64
  bp_BranchStatus :: BranchStatus

text \<open>
  A branch message, its payload kept as the value before protobuf's wire encoding (the
  encoding is generated code of a third party).
\<close>

record BranchMessage =
  bm_ID :: int64
  bm_BranchMessageType :: BranchMessageType
  bm_Message :: BranchRequest

end
