(* ===== verification/Xid.thy ===== *)
theory Xid
  imports Apis
begin

text \<open>
  \<open>pkg/util/common/xid.go\<close>: a global transaction's XID is its client's address, a colon and
  the decimal transaction ID.
\<close>

definition GenerateXID :: "string \<Rightarrow> int64 \<Rightarrow> string" where
  "GenerateXID addressing tranID = addressing @ '':'' @ show_int64 tranID"

text \<open>
  \<open>ParseInt\<close>'s error is dropped by the code, so a suffix that is no number yields 0 and one
  out of range the nearest bound. \<open>xid[idx+1:]\<close> is the whole XID when no colon is found.
\<close>

definition GetTransactionID :: "string \<Rightarrow> int64" where
  "GetTransactionID xid =
     (if xid = [] then -1
      else let idx = LastIndex xid (CHR '':'')
           in if int (length xid) = idx + 1 then -1
              else fst (ParseInt (drop (nat (idx + 1)) xid)))"

lemma GetTransactionID_GenerateXID [simp]:
  "GetTransactionID (GenerateXID addressing tranID) = tranID"
proof -
  have "LastIndex (GenerateXID addressing tranID) (CHR '':'') = int (length addressing)"
    by (simp add: GenerateXID_def LastIndex_append)
  then show ?thesis
    by (simp add: GetTransactionID_def GenerateXID_def ParseInt_show_int64 nat_add_distrib)
qed

lemma GenerateXID_inject [simp]:
  "GenerateXID a i = GenerateXID b j \<longleftrightarrow> a = b \<and> i = j"
proof
  assume eq: "GenerateXID a i = GenerateXID b j"
  then have "i = j" by (metis GetTransactionID_GenerateXID)
  with eq show "a = b \<and> i = j" by (simp add: GenerateXID_def)
qed simp

lemma GenerateXID_nonempty [simp]: "GenerateXID a i \<noteq> []"
  by (simp add: GenerateXID_def)

text \<open>\<open>GetTransactionID\<close> recovers the transaction ID from every XID \<open>GenerateXID\<close> builds,
  for every address (colons in it included) and every 64-bit transaction ID; so two
  transactions share an XID only if they share the address and the ID.\<close>

theorem xid_roundtrip:
  "GetTransactionID (GenerateXID addressing tranID) = tranID \<and>
   (GenerateXID addressing tranID = GenerateXID addressing' tranID' \<longleftrightarrow>
      addressing = addressing' \<and> tranID = tranID')"
  by simp

end
