(* ===== verification/Row_Locker.thy ===== *)
theory Row_Locker
  imports Xid
begin

text \<open>
  \<open>pkg/tc/storage/row_locker.go\<close>: a lock key such as \<open>t1:1,2;t2:3\<close> is split into row locks.
  The result distinguishes the nil slice the code returns for a malformed key from an empty
  one. \<open>print_lock_key\<close> is the inverse the format implies: well-formed groups survive the
  round trip, and row keys tell rows apart when the resource and table hold no caret.
\<close>

definition LockSplit :: string where
  "LockSplit = ''^^^''"

definition getRowKey :: "string \<Rightarrow> string \<Rightarrow> string \<Rightarrow> string" where
  "getRowKey resourceID tableName pk = resourceID @ ''^^^'' @ tableName @ ''^^^'' @ pk"

definition mkRowLock :: "string \<Rightarrow> string \<Rightarrow> int64 \<Rightarrow> int64 \<Rightarrow> string \<Rightarrow> string \<Rightarrow> RowLock" where
  "mkRowLock resourceID xid transactionID branchID tableName pk =
     \<lparr>rl_XID = xid, rl_TransactionID = transactionID, rl_BranchID = branchID,
      rl_ResourceID = resourceID, rl_TableName = tableName, rl_PK = pk,
      rl_RowKey = getRowKey resourceID tableName pk\<rparr>"

text \<open>The loop over the table groups of the key; \<open>locks\<close> is what has been appended so far.\<close>

fun collectGroups ::
    "string \<Rightarrow> string \<Rightarrow> int64 \<Rightarrow> int64 \<Rightarrow> string list \<Rightarrow> RowLock list \<Rightarrow> RowLock slice" where
  "collectGroups resourceID xid transactionID branchID [] locks = Some locks"
| "collectGroups resourceID xid transactionID branchID (g # gs) locks =
     (if g \<noteq> [] then
        (let idx = Index g (CHR '':'')
         in if idx < 0 then None
            else
              (let tableName = take (nat idx) g; mergedPKs = drop (nat idx + 1) g
               in if mergedPKs = [] then None
                  else
                    (let pks = Split mergedPKs (CHR '','')
                     in if pks = [] then None
                        else collectGroups resourceID xid transactionID branchID gs
                               (locks @ map (mkRowLock resourceID xid transactionID branchID tableName)
                                  (filter (\<lambda>pk. pk \<noteq> []) pks)))))
      else collectGroups resourceID xid transactionID branchID gs locks)"

definition collectRowLocks ::
    "string \<Rightarrow> string \<Rightarrow> string \<Rightarrow> int64 \<Rightarrow> int64 \<Rightarrow> RowLock slice" where
  "collectRowLocks lockKey resourceID xid transactionID branchID =
     collectGroups resourceID xid transactionID branchID (Split lockKey (CHR '';'')) []"

definition CollectRowLocks :: "string \<Rightarrow> string \<Rightarrow> string \<Rightarrow> RowLock slice" where
  "CollectRowLocks lockKey resourceID xid =
     collectRowLocks lockKey resourceID xid (GetTransactionID xid) 0"

text \<open>The argument is the session behind the pointer; \<open>None\<close> is the nil pointer.\<close>

definition CollectBranchSessionRowLocks :: "BranchSession option \<Rightarrow> RowLock slice" where
  "CollectBranchSessionRowLocks branchSession =
     (case branchSession of None \<Rightarrow> None
      | Some b \<Rightarrow>
          (if bs_LockKey b = [] then None
           else collectRowLocks (bs_LockKey b) (bs_ResourceID b) (bs_XID b)
                  (bs_TransactionID b) (bs_BranchID b)))"

subsection \<open>Every collected lock names its transaction, branch and row\<close>

definition lock_of :: "string \<Rightarrow> string \<Rightarrow> int64 \<Rightarrow> int64 \<Rightarrow> RowLock \<Rightarrow> bool" where
  "lock_of resourceID xid transactionID branchID l \<longleftrightarrow>
     rl_XID l = xid \<and> rl_TransactionID l = transactionID \<and> rl_BranchID l = branchID \<and>
     rl_ResourceID l = resourceID \<and> rl_RowKey l = getRowKey resourceID (rl_TableName l) (rl_PK l) \<and>
     rl_PK l \<noteq> []"

lemma mkRowLock_simps [simp]:
  "rl_XID (mkRowLock r x t b n p) = x" "rl_TransactionID (mkRowLock r x t b n p) = t"
  "rl_BranchID (mkRowLock r x t b n p) = b" "rl_ResourceID (mkRowLock r x t b n p) = r"
  "rl_TableName (mkRowLock r x t b n p) = n" "rl_PK (mkRowLock r x t b n p) = p"
  "rl_RowKey (mkRowLock r x t b n p) = getRowKey r n p"
  by (simp_all add: mkRowLock_def)

lemma lock_ofD:
  assumes "lock_of r x t b l"
  shows "rl_XID l = x" and "rl_TransactionID l = t" and "rl_BranchID l = b"
    and "rl_ResourceID l = r" and "rl_RowKey l = getRowKey r (rl_TableName l) (rl_PK l)"
  using assms by (simp_all add: lock_of_def)

lemma collectGroups_step:
  assumes "collectGroups r x t b (g # gs) acc = Some ls"
  obtains new where "\<forall>l \<in> set new. lock_of r x t b l"
    and "collectGroups r x t b gs (acc @ new) = Some ls"
proof (cases "g = []")
  case True
  with assms that [of "[]"] show ?thesis by simp
next
  case False
  let ?new = "map (mkRowLock r x t b (take (nat (Index g (CHR '':''))) g))
    (filter (\<lambda>pk. pk \<noteq> []) (Split (drop (nat (Index g (CHR '':'')) + 1) g) (CHR '','')))"
  from False assms have "collectGroups r x t b gs (acc @ ?new) = Some ls"
    by (simp add: Let_def split: if_splits)
  moreover have "\<forall>l \<in> set ?new. lock_of r x t b l" by (auto simp: lock_of_def)
  ultimately show ?thesis by (rule that [rotated])
qed

lemma collectGroups_sound:
  assumes "collectGroups r x t b gs acc = Some ls" and "\<forall>l \<in> set acc. lock_of r x t b l"
  shows "\<forall>l \<in> set ls. lock_of r x t b l"
  using assms
proof (induction gs arbitrary: acc)
  case (Cons g gs)
  from Cons.prems(1) obtain new where "\<forall>l \<in> set new. lock_of r x t b l"
    and "collectGroups r x t b gs (acc @ new) = Some ls"
    by (rule collectGroups_step)
  with Cons.prems(2) show ?case by (intro Cons.IH [of "acc @ new"]) auto
qed simp

lemma collectRowLocks_sound:
  "collectRowLocks k r x t b = Some ls \<Longrightarrow> l \<in> set ls \<Longrightarrow> lock_of r x t b l"
  using collectGroups_sound [of r x t b "Split k (CHR '';'')" "[]" ls]
  by (auto simp: collectRowLocks_def)

lemma CollectBranchSessionRowLocks_sound:
  assumes "l \<in> set (elems (CollectBranchSessionRowLocks (Some b)))"
  shows "lock_of (bs_ResourceID b) (bs_XID b) (bs_TransactionID b) (bs_BranchID b) l"
  using assms
  by (auto simp: CollectBranchSessionRowLocks_def elems_def
      split: if_splits option.splits intro: collectRowLocks_sound [OF sym])

subsection \<open>The round trip of the lock key format\<close>

definition print_group :: "string \<times> string list \<Rightarrow> string" where
  "print_group tp = fst tp @ CHR '':'' # Join (snd tp) (CHR '','')"

definition print_lock_key :: "(string \<times> string list) list \<Rightarrow> string" where
  "print_lock_key tps = Join (map print_group tps) (CHR '';'')"

text \<open>A table name without colon or semicolon, and a non-empty list of non-empty primary keys
  without comma or semicolon. A primary key may hold a colon: only the first one is read.\<close>

definition wf_group :: "string \<times> string list \<Rightarrow> bool" where
  "wf_group tp \<longleftrightarrow>
     CHR '':'' \<notin> set (fst tp) \<and> CHR '';'' \<notin> set (fst tp) \<and> snd tp \<noteq> [] \<and>
     (\<forall>pk \<in> set (snd tp). pk \<noteq> [] \<and> CHR '','' \<notin> set pk \<and> CHR '';'' \<notin> set pk)"

lemma set_Join: "set (Join ws c) \<subseteq> insert c (\<Union>w \<in> set ws. set w)"
  by (induction ws c rule: Join.induct) auto

lemma Join_Nil_iff: "(\<forall>w \<in> set ws. w \<noteq> []) \<Longrightarrow> ws \<noteq> [] \<Longrightarrow> Join ws c \<noteq> []"
  by (induction ws c rule: Join.induct) auto

lemma print_group_no_semicolon: "wf_group tp \<Longrightarrow> CHR '';'' \<notin> set (print_group tp)"
  using set_Join [of "snd tp" "CHR '',''"] by (auto simp: wf_group_def print_group_def)

lemma collectGroups_print:
  assumes "\<forall>tp \<in> set tps. wf_group tp"
  shows "collectGroups r x t b (map print_group tps) acc =
    Some (acc @ concat (map (\<lambda>tp. map (mkRowLock r x t b (fst tp)) (snd tp)) tps))"
  using assms
proof (induction tps arbitrary: acc)
  case (Cons tp tps)
  from Cons.prems have wf: "wf_group tp" by simp
  then have s: "snd tp \<noteq> []" and j: "Join (snd tp) (CHR '','') \<noteq> []" and ne: "filter (\<lambda>pk. pk \<noteq> []) (snd tp) = snd tp"
    by (auto simp: wf_group_def Join_Nil_iff filter_id_conv)
  from wf have sp: "Split (Join (snd tp) (CHR '','')) (CHR '','') = snd tp"
    by (intro Split_Join) (auto simp: wf_group_def)
  from wf have ix: "Index (print_group tp) (CHR '':'') = int (length (fst tp))"
    by (simp add: print_group_def wf_group_def Index_append)
  have "print_group tp \<noteq> []" by (simp add: print_group_def)
  moreover have "take (length (fst tp)) (print_group tp) = fst tp"
    and "drop (length (fst tp) + 1) (print_group tp) = Join (snd tp) (CHR '','')"
    by (simp_all add: print_group_def)
  ultimately show ?case
    using Cons s j ne sp ix by (simp add: Let_def)
qed simp

lemma collectRowLocks_print:
  assumes "tps \<noteq> []" and "\<forall>tp \<in> set tps. wf_group tp"
  shows "collectRowLocks (print_lock_key tps) r x t b =
    Some (concat (map (\<lambda>tp. map (mkRowLock r x t b (fst tp)) (snd tp)) tps))"
proof -
  have "Split (print_lock_key tps) (CHR '';'') = map print_group tps"
    unfolding print_lock_key_def
    using assms print_group_no_semicolon by (intro Split_Join) auto
  with collectGroups_print [OF assms(2), of r x t b "[]"] show ?thesis
    by (simp add: collectRowLocks_def)
qed

text \<open>C14: a lock key written from well-formed table groups parses back to exactly one row lock
  per table and primary key, in order, each carrying the branch's resource, XID, transaction
  and branch ID and its row key.\<close>

theorem lock_key_roundtrip:
  assumes "tps \<noteq> []" and "\<forall>tp \<in> set tps. wf_group tp"
  shows "collectRowLocks (print_lock_key tps) resourceID xid transactionID branchID =
    Some (concat (map (\<lambda>tp. map (mkRowLock resourceID xid transactionID branchID (fst tp)) (snd tp)) tps))"
  using assms by (rule collectRowLocks_print)

theorem lock_key_roundtrip_witness:
  "collectRowLocks ''a:1,x:2;b:7'' ''db'' ''h:5'' 5 9 =
     Some [mkRowLock ''db'' ''h:5'' 5 9 ''a'' ''1'', mkRowLock ''db'' ''h:5'' 5 9 ''a'' ''x:2'',
           mkRowLock ''db'' ''h:5'' 5 9 ''b'' ''7'']"
proof -
  let ?g = "[(''a'', [''1'', ''x:2'']), (''b'', [''7''])]"
  have "?g \<noteq> []" and "\<forall>tp \<in> set ?g. wf_group tp" by (simp_all add: wf_group_def)
  from lock_key_roundtrip [OF this, of "''db''" "''h:5''" 5 9] show ?thesis
    by (simp add: print_lock_key_def print_group_def)
qed

subsection \<open>Row keys\<close>

lemma caret_split:
  assumes "u @ ''^^^'' @ v = u' @ ''^^^'' @ v'" and "CHR ''^'' \<notin> set u" and "CHR ''^'' \<notin> set u'"
  shows "u = u' \<and> v = v'"
  using assms
proof (induction u arbitrary: u')
  case Nil
  then show ?case by (cases u') auto
next
  case (Cons a u)
  then show ?case by (cases u') auto
qed

lemma getRowKey_inject:
  assumes "CHR ''^'' \<notin> set r" and "CHR ''^'' \<notin> set r'"
    and "CHR ''^'' \<notin> set n" and "CHR ''^'' \<notin> set n'"
  shows "getRowKey r n p = getRowKey r' n' p' \<longleftrightarrow> r = r' \<and> n = n' \<and> p = p'"
proof
  assume eq: "getRowKey r n p = getRowKey r' n' p'"
  then have "r = r' \<and> n @ ''^^^'' @ p = n' @ ''^^^'' @ p'"
    unfolding getRowKey_def using assms(1,2) by (intro caret_split) auto
  then show "r = r' \<and> n = n' \<and> p = p'"
    using caret_split [OF _ assms(3,4)] by auto
qed simp

end
