(* ===== verification/Transaction_Model.thy ===== *)
theory Transaction_Model
  imports Row_Locker
begin

text \<open>
  The Go heap as far as the coordinator shares objects through it, and
  \<open>pkg/tc/model/global_transaction.go\<close>. \<open>*apis.GlobalSession\<close> and \<open>*apis.BranchSession\<close>
  are references into two object tables of the \<open>world\<close>; a write through one reference is seen
  through every other, which the in-memory driver relies on. The driver's own state is the
  field \<open>drv\<close>, of any type. A \<open>GlobalTransaction\<close> embeds a session reference and the keys of
  its branch map as a list in iteration order; a nil and an empty branch map are both the empty
  list, since no operation of the coordinator writes to it.
\<close>

type_synonym gref = nat
type_synonym bref = nat

record 'd world =
  gobj :: "gref \<Rightarrow> GlobalSession"
  bobj :: "bref \<Rightarrow> BranchSession"
  gtop :: gref
  btop :: bref
  drv :: 'd

definition new_gs :: "GlobalSession \<Rightarrow> 'd world \<Rightarrow> gref \<times> 'd world" where
  "new_gs s w = (gtop w, w\<lparr>gobj := (gobj w)(gtop w := s), gtop := Suc (gtop w)\<rparr>)"

definition new_bs :: "BranchSession \<Rightarrow> 'd world \<Rightarrow> bref \<times> 'd world" where
  "new_bs s w = (btop w, w\<lparr>bobj := (bobj w)(btop w := s), btop := Suc (btop w)\<rparr>)"

definition set_gs :: "gref \<Rightarrow> (GlobalSession \<Rightarrow> GlobalSession) \<Rightarrow> 'd world \<Rightarrow> 'd world" where
  "set_gs g f w = w\<lparr>gobj := (gobj w)(g := f (gobj w g))\<rparr>"

definition set_bs :: "bref \<Rightarrow> (BranchSession \<Rightarrow> BranchSession) \<Rightarrow> 'd world \<Rightarrow> 'd world" where
  "set_bs b f w = w\<lparr>bobj := (bobj w)(b := f (bobj w b))\<rparr>"

lemma set_gs_simps [simp]:
  "gobj (set_gs g f w) = (gobj w)(g := f (gobj w g))" "bobj (set_gs g f w) = bobj w"
  "gtop (set_gs g f w) = gtop w" "btop (set_gs g f w) = btop w" "drv (set_gs g f w) = drv w"
  by (simp_all add: set_gs_def)

lemma set_bs_simps [simp]:
  "bobj (set_bs b h w) = (bobj w)(b := h (bobj w b))" "gobj (set_bs b h w) = gobj w"
  "gtop (set_bs b h w) = gtop w" "btop (set_bs b h w) = btop w" "drv (set_bs b h w) = drv w"
  by (simp_all add: set_bs_def)

record GlobalTransaction =
  gt_GlobalSession :: gref
  gt_BranchSessions :: "bref list"

text \<open>The session a transaction embeds.\<close>

definition gt_session :: "'d world \<Rightarrow> GlobalTransaction \<Rightarrow> GlobalSession" where
  "gt_session w gt = gobj w (gt_GlobalSession gt)"

text \<open>\<open>Remove\<close>, and the coordinator's \<open>delete(gt.BranchSessions, bs)\<close>.\<close>

definition gt_Remove :: "GlobalTransaction \<Rightarrow> bref \<Rightarrow> GlobalTransaction" where
  "gt_Remove gt b = gt\<lparr>gt_BranchSessions := removeAll b (gt_BranchSessions gt)\<rparr>"

definition GetBranch :: "'d world \<Rightarrow> GlobalTransaction \<Rightarrow> int64 \<Rightarrow> bref option" where
  "GetBranch w gt branchID = find (\<lambda>b. bs_BranchID (bobj w b) = branchID) (gt_BranchSessions gt)"

definition CanBeCommittedAsync :: "'d world \<Rightarrow> GlobalTransaction \<Rightarrow> bool" where
  "CanBeCommittedAsync w gt = list_all (\<lambda>b. bs_AsyncCommit (bobj w b)) (gt_BranchSessions gt)"

definition IsSaga :: "'d world \<Rightarrow> GlobalTransaction \<Rightarrow> bool" where
  "IsSaga w gt = list_ex (\<lambda>b. bs_Type (bobj w b) = SAGA) (gt_BranchSessions gt)"

text \<open>\<open>uint64(gt.Timeout)\<close> extends the sign of the \<open>int32\<close>; the comparison is unsigned.\<close>

definition session_timeout :: "uint64 \<Rightarrow> GlobalSession \<Rightarrow> bool" where
  "session_timeout now s \<longleftrightarrow> now - gs_BeginTime s > scast (gs_Timeout s)"

definition IsTimeout :: "uint64 \<Rightarrow> 'd world \<Rightarrow> GlobalTransaction \<Rightarrow> bool" where
  "IsTimeout now w gt = session_timeout now (gt_session w gt)"

definition timeout_status :: "GlobalStatus \<Rightarrow> bool" where
  "timeout_status st \<longleftrightarrow>
     st = TimeoutRolledBack \<or> st = TimeoutRollbackFailed \<or>
     st = TimeoutRollingBack \<or> st = TimeoutRollbackRetrying"

definition IsTimeoutGlobalStatus :: "'d world \<Rightarrow> GlobalTransaction \<Rightarrow> bool" where
  "IsTimeoutGlobalStatus w gt = timeout_status (gs_Status (gt_session w gt))"

definition HasBranch :: "GlobalTransaction \<Rightarrow> bool" where
  "HasBranch gt = (length (gt_BranchSessions gt) > 0)"

definition gt_Begin :: "uint64 \<Rightarrow> GlobalTransaction \<Rightarrow> 'd world \<Rightarrow> 'd world" where
  "gt_Begin now gt = set_gs (gt_GlobalSession gt)
     (\<lambda>s. s\<lparr>gs_Status := Begin, gs_BeginTime := now, gs_Active := True\<rparr>)"

lemma HasBranch_iff: "HasBranch gt \<longleftrightarrow> gt_BranchSessions gt \<noteq> []"
  by (simp add: HasBranch_def)

lemma gt_Remove_simps [simp]:
  "gt_GlobalSession (gt_Remove gt b) = gt_GlobalSession gt"
  "gt_BranchSessions (gt_Remove gt b) = removeAll b (gt_BranchSessions gt)"
  by (simp_all add: gt_Remove_def)

subsection \<open>The order of the branch map does not matter\<close>

lemma gt_queries_order:
  assumes "set (gt_BranchSessions gt) = set (gt_BranchSessions gt')"
  shows "CanBeCommittedAsync w gt = CanBeCommittedAsync w gt'"
    and "IsSaga w gt = IsSaga w gt'"
  using assms by (simp_all add: CanBeCommittedAsync_def IsSaga_def list_all_iff list_ex_iff)

lemma GetBranch_SomeD:
  "GetBranch w gt i = Some b \<Longrightarrow> b \<in> set (gt_BranchSessions gt) \<and> bs_BranchID (bobj w b) = i"
  by (auto simp: GetBranch_def find_Some_iff)

lemma GetBranch_None_iff:
  "GetBranch w gt i = None \<longleftrightarrow> (\<forall>b \<in> set (gt_BranchSessions gt). bs_BranchID (bobj w b) \<noteq> i)"
  by (auto simp: GetBranch_def find_None_iff)

lemma GetBranch_order:
  assumes "set (gt_BranchSessions gt) = set (gt_BranchSessions gt')"
    and "inj_on (\<lambda>b. bs_BranchID (bobj w b)) (set (gt_BranchSessions gt))"
  shows "GetBranch w gt i = GetBranch w gt' i"
proof (cases "GetBranch w gt i")
  case None
  with assms(1) show ?thesis by (metis GetBranch_None_iff)
next
  case (Some b)
  then have b: "b \<in> set (gt_BranchSessions gt)" "bs_BranchID (bobj w b) = i"
    by (simp_all add: GetBranch_SomeD)
  then have "GetBranch w gt' i \<noteq> None" using assms(1) by (auto simp: GetBranch_None_iff)
  then obtain b' where b': "GetBranch w gt' i = Some b'" by auto
  then have "b' \<in> set (gt_BranchSessions gt)" "bs_BranchID (bobj w b') = i"
    using assms(1) by (simp_all add: GetBranch_SomeD)
  with b have "b = b'" using inj_onD [OF assms(2), of b b'] by simp
  with Some b' show ?thesis by simp
qed

subsection \<open>The deadline test\<close>

text \<open>For a non-negative timeout and a session begun at or before the present moment the test is
  the comparison of the elapsed milliseconds; a begin time ahead of the clock wraps round to
  an enormous elapsed time, and a negative timeout becomes an enormous limit.\<close>

lemma scast_nonneg:
  assumes "0 \<le> sint (t :: int32)"
  shows "unat (scast t :: uint64) = nat (sint t)"
proof -
  have "sint t < 2 ^ 31" using sint_less [of t] by simp
  then have "sint t < 2 ^ 64" by simp
  with assms have t: "take_bit 64 (sint t) = sint t" by (rule take_bit_int_eq_self)
  have "uint (word_of_int (sint t) :: uint64) = take_bit LENGTH(64) (sint t)"
    by (rule uint_word_of_int_eq)
  then have "uint (scast t :: uint64) = sint t" by (simp only: scast_eq len_num0 t) (simp add: t)
  then show ?thesis by (simp add: unat_eq_nat_uint)
qed

lemma session_timeout_past:
  assumes "gs_BeginTime s \<le> now" and "0 \<le> sint (gs_Timeout s)"
  shows "session_timeout now s \<longleftrightarrow>
    unat now - unat (gs_BeginTime s) > nat (sint (gs_Timeout s))"
  using assms by (simp add: session_timeout_def word_less_nat_alt unat_sub scast_nonneg)

end
