(* ===== verification/Storage.thy ===== *)
theory Storage
  imports Transaction_Model
begin

text \<open>
  The interfaces of \<open>pkg/tc/storage/storagedriver.go\<close> and \<open>pkg/tc/server/global_session_locker.go\<close>.
  An interface value is a record of functions on the world; what a driver keeps is the world's
  \<open>drv\<close>. A lock operation that can hit a run-time panic in one of the drivers returns an
  option, \<open>None\<close> being the panic. The promises of the lock interface are the locale
  \<open>row_lock_store\<close>, with what its clients may conclude from them.
\<close>

record 'd SessionManager =
  sm_AddGlobalSession :: "gref \<Rightarrow> 'd world \<Rightarrow> goerror option \<times> 'd world"
  sm_FindGlobalSession :: "string \<Rightarrow> 'd world \<Rightarrow> gref option \<times> 'd world"
  sm_FindGlobalSessions :: "GlobalStatus list \<Rightarrow> 'd world \<Rightarrow> gref list \<times> 'd world"
  sm_FindGlobalSessionsWithAddressingIdentities ::
    "GlobalStatus list \<Rightarrow> string list \<Rightarrow> 'd world \<Rightarrow> gref list \<times> 'd world"
  sm_AllSessions :: "'d world \<Rightarrow> gref list \<times> 'd world"
  sm_UpdateGlobalSessionStatus ::
    "gref \<Rightarrow> GlobalStatus \<Rightarrow> 'd world \<Rightarrow> goerror option \<times> 'd world"
  sm_InactiveGlobalSession :: "gref \<Rightarrow> 'd world \<Rightarrow> goerror option \<times> 'd world"
  sm_RemoveGlobalSession :: "gref \<Rightarrow> 'd world \<Rightarrow> goerror option \<times> 'd world"
  sm_AddBranchSession :: "gref \<Rightarrow> bref \<Rightarrow> 'd world \<Rightarrow> goerror option \<times> 'd world"
  sm_FindBranchSessions :: "string \<Rightarrow> 'd world \<Rightarrow> bref list \<times> 'd world"
  sm_FindBatchBranchSessions :: "string list \<Rightarrow> 'd world \<Rightarrow> bref list \<times> 'd world"
  sm_UpdateBranchSessionStatus ::
    "bref \<Rightarrow> BranchStatus \<Rightarrow> 'd world \<Rightarrow> goerror option \<times> 'd world"
  sm_RemoveBranchSession :: "gref \<Rightarrow> bref \<Rightarrow> 'd world \<Rightarrow> goerror option \<times> 'd world"

record 'd StorageLockManager =
  lm_AcquireLock :: "RowLock slice \<Rightarrow> bool \<Rightarrow> 'd world \<Rightarrow> (bool \<times> 'd world) option"
  lm_ReleaseLock :: "RowLock slice \<Rightarrow> 'd world \<Rightarrow> (bool \<times> 'd world) option"
  lm_IsLockable :: "string \<Rightarrow> string \<Rightarrow> string \<Rightarrow> 'd world \<Rightarrow> (bool \<times> 'd world) option"

text \<open>\<open>storage.Driver\<close> embeds both interfaces.\<close>

record 'd Driver =
  dr_SessionManager :: "'d SessionManager"
  dr_LockManager :: "'d StorageLockManager"

record 'd GlobalSessionLocker =
  gl_TryLock :: "gref \<Rightarrow> int64 \<Rightarrow> 'd world \<Rightarrow> (bool \<times> goerror option) \<times> 'd world"
  gl_Unlock :: "gref \<Rightarrow> 'd world \<Rightarrow> 'd world"

text \<open>The locker the coordinator is built with: it grants every request and holds nothing.\<close>

definition UnimplementedGlobalSessionLocker :: "'d GlobalSessionLocker" where
  "UnimplementedGlobalSessionLocker =
     \<lparr>gl_TryLock = (\<lambda>g timeout w. ((True, None), w)), gl_Unlock = (\<lambda>g w. w)\<rparr>"

lemma UnimplementedGlobalSessionLocker_simps [simp]:
  "gl_TryLock UnimplementedGlobalSessionLocker g t w = ((True, None), w)"
  "gl_Unlock UnimplementedGlobalSessionLocker g w = w"
  by (simp_all add: UnimplementedGlobalSessionLocker_def)

subsection \<open>The contract of the row lock interface\<close>

text \<open>
  \<open>held w k\<close> is the owner recorded for row key \<open>k\<close>, \<open>owner l\<close> the owner a row lock would
  record, \<open>lok\<close> the driver's invariant. A request names one owner, as every request built from
  a branch session does. Acquiring never disturbs another owner's lock, a success leaves every
  requested row with the owner, and nothing happens outside the requested rows. Releasing
  frees requested rows the owner holds and no others, all of them when it reports success.
\<close>

definition row_keys :: "RowLock list \<Rightarrow> string set" where
  "row_keys ls = rl_RowKey ` set ls"

definition one_owner :: "(RowLock \<Rightarrow> 'o) \<Rightarrow> 'o \<Rightarrow> RowLock list \<Rightarrow> bool" where
  "one_owner owner x ls \<longleftrightarrow> (\<forall>l \<in> set ls. owner l = x)"

lemma one_owner_simps [simp]:
  "one_owner f x []" "one_owner f x (l # ls) \<longleftrightarrow> f l = x \<and> one_owner f x ls"
  "one_owner f x (ls @ ms) \<longleftrightarrow> one_owner f x ls \<and> one_owner f x ms"
  by (auto simp: one_owner_def)

lemma row_keys_simps [simp]:
  "row_keys [] = {}" "row_keys (l # ls) = insert (rl_RowKey l) (row_keys ls)"
  "row_keys (ls @ ms) = row_keys ls \<union> row_keys ms"
  by (auto simp: row_keys_def)

locale row_lock_store =
  fixes lm :: "'d StorageLockManager"
    and held :: "'d world \<Rightarrow> string \<Rightarrow> 'o option"
    and owner :: "RowLock \<Rightarrow> 'o"
    and lok :: "'d world \<Rightarrow> bool"
  assumes acquire_total:
      "lok w \<Longrightarrow> ls \<noteq> [] \<Longrightarrow> \<exists>r w'. lm_AcquireLock lm (Some ls) skip w = Some (r, w')"
    and acquire_lok: "lok w \<Longrightarrow> lm_AcquireLock lm (Some ls) skip w = Some (r, w') \<Longrightarrow> lok w'"
    and acquire_others:
      "lok w \<Longrightarrow> one_owner owner x ls \<Longrightarrow> lm_AcquireLock lm (Some ls) skip w = Some (r, w') \<Longrightarrow>
       x' \<noteq> x \<Longrightarrow> held w' k = Some x' \<longleftrightarrow> held w k = Some x'"
    and acquire_success:
      "lok w \<Longrightarrow> one_owner owner x ls \<Longrightarrow> lm_AcquireLock lm (Some ls) skip w = Some (True, w') \<Longrightarrow>
       k \<in> row_keys ls \<Longrightarrow> held w' k = Some x"
    and acquire_frame:
      "lok w \<Longrightarrow> lm_AcquireLock lm (Some ls) skip w = Some (r, w') \<Longrightarrow> k \<notin> row_keys ls \<Longrightarrow>
       held w' k = held w k"
    and release_total: "lok w \<Longrightarrow> \<exists>r w'. lm_ReleaseLock lm (Some ls) w = Some (r, w')"
    and release_lok: "lok w \<Longrightarrow> lm_ReleaseLock lm (Some ls) w = Some (r, w') \<Longrightarrow> lok w'"
    and release_held:
      "lok w \<Longrightarrow> one_owner owner x ls \<Longrightarrow> lm_ReleaseLock lm (Some ls) w = Some (r, w') \<Longrightarrow>
       held w' k = held w k \<or> k \<in> row_keys ls \<and> held w k = Some x \<and> held w' k = None"
    and release_frees:
      "lok w \<Longrightarrow> one_owner owner x ls \<Longrightarrow> lm_ReleaseLock lm (Some ls) w = Some (True, w') \<Longrightarrow>
       k \<in> row_keys ls \<Longrightarrow> held w' k \<noteq> Some x"
begin

lemma acquire_keeps_or_takes:
  assumes "lok w" and "one_owner owner x ls" and "lm_AcquireLock lm (Some ls) skip w = Some (r, w')"
    and "held w' k = Some y"
  shows "held w k = Some y \<or> (y = x \<and> k \<in> row_keys ls)"
  using assms acquire_others [OF assms(1-3)] acquire_frame [OF assms(1,3)] by metis

lemma acquire_conflict:
  assumes "lok w" and "one_owner owner x ls" and "lm_AcquireLock lm (Some ls) skip w = Some (r, w')"
    and "k \<in> row_keys ls" and "held w k = Some y" and "y \<noteq> x"
  shows "\<not> r"
proof
  assume r
  with assms have "held w' k = Some x" by (auto intro: acquire_success)
  moreover have "held w' k = Some y" using assms by (simp add: acquire_others)
  ultimately show False using assms by simp
qed

lemma release_others:
  assumes "lok w" and "one_owner owner x ls" and "lm_ReleaseLock lm (Some ls) w = Some (r, w')"
    and "y \<noteq> x"
  shows "held w' k = Some y \<longleftrightarrow> held w k = Some y"
  using release_held [OF assms(1-3), of k] assms(4) by auto

end

end
