(* ===== verification/Inmemory.thy ===== *)
theory Inmemory
  imports Storage
begin

text \<open>
  \<open>pkg/tc/storage/driver/inmemory/inmemory.go\<close>: the driver that keeps session pointers and row
  locks in two \<open>sync.Map\<close>s. Both maps are association lists; the list order is the order in
  which \<open>Range\<close> visits the entries. The driver stores the caller's pointers, so an update
  through one of them is an update of the store. The lock operations satisfy the contract
  \<open>row_lock_store\<close>, the owner being the transaction ID.
\<close>

record inmem =
  SessionMap :: "(string \<times> GlobalTransaction) list"
  LockMap :: "(string \<times> int64) list"

definition inmem_Create :: inmem where
  "inmem_Create = \<lparr>SessionMap = [], LockMap = []\<rparr>"

definition put_session :: "string \<Rightarrow> GlobalTransaction \<Rightarrow> inmem world \<Rightarrow> inmem world" where
  "put_session xid gt w = w\<lparr>drv := (drv w)\<lparr>SessionMap := AList.update xid gt (SessionMap (drv w))\<rparr>\<rparr>"

definition no_such_xid :: "string \<Rightarrow> goerror" where
  "no_such_xid xid = Errorf (''could not find global transaction xid = '' @ xid)"

definition inmem_AddGlobalSession :: "gref \<Rightarrow> inmem world \<Rightarrow> goerror option \<times> inmem world" where
  "inmem_AddGlobalSession session w =
     (None, put_session (gs_XID (gobj w session))
        \<lparr>gt_GlobalSession = session, gt_BranchSessions = []\<rparr> w)"

definition inmem_FindGlobalSession :: "string \<Rightarrow> inmem world \<Rightarrow> gref option \<times> inmem world" where
  "inmem_FindGlobalSession xid w =
     (case map_of (SessionMap (drv w)) xid of
        Some gt \<Rightarrow> (Some (gt_GlobalSession gt), w)
      | None \<Rightarrow> (None, w))"

text \<open>The helper closures of the two queries.\<close>

fun inmem_contain :: "'a list \<Rightarrow> 'a \<Rightarrow> bool" where
  "inmem_contain [] x = False"
| "inmem_contain (s # ss) x = (if s = x then True else inmem_contain ss x)"

definition inmem_FindGlobalSessions :: "GlobalStatus list \<Rightarrow> inmem world \<Rightarrow> gref list \<times> inmem world" where
  "inmem_FindGlobalSessions statuses w =
     (map (\<lambda>(xid, gt). gt_GlobalSession gt)
        (filter (\<lambda>(xid, gt). inmem_contain statuses (gs_Status (gt_session w gt))) (SessionMap (drv w))), w)"

definition inmem_FindGlobalSessionsWithAddressingIdentities ::
    "GlobalStatus list \<Rightarrow> string list \<Rightarrow> inmem world \<Rightarrow> gref list \<times> inmem world" where
  "inmem_FindGlobalSessionsWithAddressingIdentities statuses addressingIdentities w =
     (map (\<lambda>(xid, gt). gt_GlobalSession gt)
        (filter (\<lambda>(xid, gt). inmem_contain statuses (gs_Status (gt_session w gt)) \<and>
             inmem_contain addressingIdentities (gs_Addressing (gt_session w gt)))
           (SessionMap (drv w))), w)"

definition inmem_AllSessions :: "inmem world \<Rightarrow> gref list \<times> inmem world" where
  "inmem_AllSessions w = (map (\<lambda>(xid, gt). gt_GlobalSession gt) (SessionMap (drv w)), w)"

definition inmem_UpdateGlobalSessionStatus ::
    "gref \<Rightarrow> GlobalStatus \<Rightarrow> inmem world \<Rightarrow> goerror option \<times> inmem world" where
  "inmem_UpdateGlobalSessionStatus session status w =
     (case map_of (SessionMap (drv w)) (gs_XID (gobj w session)) of
        Some gt \<Rightarrow> (None, set_gs (gt_GlobalSession gt) (\<lambda>s. s\<lparr>gs_Status := status\<rparr>) w)
      | None \<Rightarrow> (Some (no_such_xid (gs_XID (gobj w session))), w))"

definition inmem_InactiveGlobalSession :: "gref \<Rightarrow> inmem world \<Rightarrow> goerror option \<times> inmem world" where
  "inmem_InactiveGlobalSession session w =
     (case map_of (SessionMap (drv w)) (gs_XID (gobj w session)) of
        Some gt \<Rightarrow> (None, set_gs (gt_GlobalSession gt) (\<lambda>s. s\<lparr>gs_Active := False\<rparr>) w)
      | None \<Rightarrow> (Some (no_such_xid (gs_XID (gobj w session))), w))"

definition inmem_RemoveGlobalSession :: "gref \<Rightarrow> inmem world \<Rightarrow> goerror option \<times> inmem world" where
  "inmem_RemoveGlobalSession session w =
     (None, w\<lparr>drv := (drv w)\<lparr>SessionMap :=
        AList.delete (gs_XID (gobj w session)) (SessionMap (drv w))\<rparr>\<rparr>)"

text \<open>A new key enters the branch map once; the error text names the branch's XID.\<close>

definition inmem_AddBranchSession ::
    "gref \<Rightarrow> bref \<Rightarrow> inmem world \<Rightarrow> goerror option \<times> inmem world" where
  "inmem_AddBranchSession globalSession session w =
     (let xid = gs_XID (gobj w globalSession)
      in case map_of (SessionMap (drv w)) xid of
           Some gt \<Rightarrow>
             (None, put_session xid
                (if session \<in> set (gt_BranchSessions gt) then gt
                 else gt\<lparr>gt_BranchSessions := gt_BranchSessions gt @ [session]\<rparr>) w)
         | None \<Rightarrow> (Some (no_such_xid (bs_XID (bobj w session))), w))"

definition inmem_FindBranchSessions :: "string \<Rightarrow> inmem world \<Rightarrow> bref list \<times> inmem world" where
  "inmem_FindBranchSessions xid w =
     (case map_of (SessionMap (drv w)) xid of
        Some gt \<Rightarrow> (gt_BranchSessions gt, w)
      | None \<Rightarrow> ([], w))"

fun inmem_batch :: "string list \<Rightarrow> inmem world \<Rightarrow> bref list" where
  "inmem_batch [] w = []"
| "inmem_batch (xid # xids) w =
     (case map_of (SessionMap (drv w)) xid of
        Some gt \<Rightarrow> gt_BranchSessions gt @ inmem_batch xids w
      | None \<Rightarrow> inmem_batch xids w)"

definition inmem_FindBatchBranchSessions :: "string list \<Rightarrow> inmem world \<Rightarrow> bref list \<times> inmem world" where
  "inmem_FindBatchBranchSessions xids w = (inmem_batch xids w, w)"

definition inmem_UpdateBranchSessionStatus ::
    "bref \<Rightarrow> BranchStatus \<Rightarrow> inmem world \<Rightarrow> goerror option \<times> inmem world" where
  "inmem_UpdateBranchSessionStatus session status w =
     (None, set_bs session (\<lambda>s. s\<lparr>bs_Status := status\<rparr>) w)"

definition inmem_RemoveBranchSession ::
    "gref \<Rightarrow> bref \<Rightarrow> inmem world \<Rightarrow> goerror option \<times> inmem world" where
  "inmem_RemoveBranchSession globalSession session w =
     (let xid = gs_XID (gobj w globalSession)
      in case map_of (SessionMap (drv w)) xid of
           Some gt \<Rightarrow> (None, put_session xid (gt_Remove gt session) w)
         | None \<Rightarrow> (Some (no_such_xid (bs_XID (bobj w session))), w))"

subsection \<open>Row locks\<close>

fun releaseLoop :: "RowLock list \<Rightarrow> (string \<times> int64) list \<Rightarrow> (string \<times> int64) list" where
  "releaseLoop [] m = m"
| "releaseLoop (l # ls) m =
     (case map_of m (rl_RowKey l) of
        Some lockedTransactionID \<Rightarrow>
          (if lockedTransactionID = rl_TransactionID l then releaseLoop ls (AList.delete (rl_RowKey l) m)
           else releaseLoop ls m)
      | None \<Rightarrow> releaseLoop ls m)"

text \<open>On a conflict the loop calls \<open>ReleaseLock\<close> on all the rows of the request.\<close>

fun acquireLoop :: "RowLock list \<Rightarrow> RowLock list \<Rightarrow> (string \<times> int64) list \<Rightarrow> bool \<times> (string \<times> int64) list" where
  "acquireLoop rowLocks [] m = (True, m)"
| "acquireLoop rowLocks (l # ls) m =
     (case map_of m (rl_RowKey l) of
        Some previousLockTransactionID \<Rightarrow>
          (if previousLockTransactionID = rl_TransactionID l then acquireLoop rowLocks ls m
           else (False, releaseLoop rowLocks m))
      | None \<Rightarrow> acquireLoop rowLocks ls (AList.update (rl_RowKey l) (rl_TransactionID l) m))"

definition inmem_AcquireLock :: "RowLock slice \<Rightarrow> bool \<Rightarrow> inmem world \<Rightarrow> (bool \<times> inmem world) option" where
  "inmem_AcquireLock rowLocks skipCheckLock w =
     (case rowLocks of
        None \<Rightarrow> Some (True, w)
      | Some ls \<Rightarrow>
          (let (r, m) = acquireLoop ls ls (LockMap (drv w)) in Some (r, w\<lparr>drv := (drv w)\<lparr>LockMap := m\<rparr>\<rparr>)))"

definition inmem_ReleaseLock :: "RowLock slice \<Rightarrow> inmem world \<Rightarrow> (bool \<times> inmem world) option" where
  "inmem_ReleaseLock rowLocks w =
     (case rowLocks of
        None \<Rightarrow> Some (True, w)
      | Some ls \<Rightarrow> Some (True, w\<lparr>drv := (drv w)\<lparr>LockMap := releaseLoop ls (LockMap (drv w))\<rparr>\<rparr>))"

fun lockableLoop :: "RowLock list \<Rightarrow> (string \<times> int64) list \<Rightarrow> bool" where
  "lockableLoop [] m = True"
| "lockableLoop (l # ls) m =
     (case map_of m (rl_RowKey l) of
        Some lockedTransactionID \<Rightarrow>
          (if lockedTransactionID \<noteq> rl_TransactionID l then False else lockableLoop ls m)
      | None \<Rightarrow> lockableLoop ls m)"

definition inmem_IsLockable ::
    "string \<Rightarrow> string \<Rightarrow> string \<Rightarrow> inmem world \<Rightarrow> (bool \<times> inmem world) option" where
  "inmem_IsLockable xid resourceID lockKey w =
     Some (lockableLoop (elems (CollectRowLocks lockKey resourceID xid)) (LockMap (drv w)), w)"

subsection \<open>The driver as interface values\<close>

definition inmem_sm :: "inmem SessionManager" where
  "inmem_sm =
     \<lparr>sm_AddGlobalSession = inmem_AddGlobalSession,
      sm_FindGlobalSession = inmem_FindGlobalSession,
      sm_FindGlobalSessions = inmem_FindGlobalSessions,
      sm_FindGlobalSessionsWithAddressingIdentities = inmem_FindGlobalSessionsWithAddressingIdentities,
      sm_AllSessions = inmem_AllSessions,
      sm_UpdateGlobalSessionStatus = inmem_UpdateGlobalSessionStatus,
      sm_InactiveGlobalSession = inmem_InactiveGlobalSession,
      sm_RemoveGlobalSession = inmem_RemoveGlobalSession,
      sm_AddBranchSession = inmem_AddBranchSession,
      sm_FindBranchSessions = inmem_FindBranchSessions,
      sm_FindBatchBranchSessions = inmem_FindBatchBranchSessions,
      sm_UpdateBranchSessionStatus = inmem_UpdateBranchSessionStatus,
      sm_RemoveBranchSession = inmem_RemoveBranchSession\<rparr>"

definition inmem_lm :: "inmem StorageLockManager" where
  "inmem_lm =
     \<lparr>lm_AcquireLock = inmem_AcquireLock, lm_ReleaseLock = inmem_ReleaseLock,
      lm_IsLockable = inmem_IsLockable\<rparr>"

definition inmem_driver :: "inmem Driver" where
  "inmem_driver = \<lparr>dr_SessionManager = inmem_sm, dr_LockManager = inmem_lm\<rparr>"

lemma inmem_lm_simps [simp]:
  "lm_AcquireLock inmem_lm = inmem_AcquireLock" "lm_ReleaseLock inmem_lm = inmem_ReleaseLock"
  "lm_IsLockable inmem_lm = inmem_IsLockable"
  by (simp_all add: inmem_lm_def)

lemma inmem_sm_simps [simp]:
  "sm_AddGlobalSession inmem_sm = inmem_AddGlobalSession"
  "sm_FindGlobalSession inmem_sm = inmem_FindGlobalSession"
  "sm_FindGlobalSessions inmem_sm = inmem_FindGlobalSessions"
  "sm_FindGlobalSessionsWithAddressingIdentities inmem_sm = inmem_FindGlobalSessionsWithAddressingIdentities"
  "sm_AllSessions inmem_sm = inmem_AllSessions"
  "sm_UpdateGlobalSessionStatus inmem_sm = inmem_UpdateGlobalSessionStatus"
  "sm_InactiveGlobalSession inmem_sm = inmem_InactiveGlobalSession"
  "sm_RemoveGlobalSession inmem_sm = inmem_RemoveGlobalSession"
  "sm_AddBranchSession inmem_sm = inmem_AddBranchSession"
  "sm_FindBranchSessions inmem_sm = inmem_FindBranchSessions"
  "sm_FindBatchBranchSessions inmem_sm = inmem_FindBatchBranchSessions"
  "sm_UpdateBranchSessionStatus inmem_sm = inmem_UpdateBranchSessionStatus"
  "sm_RemoveBranchSession inmem_sm = inmem_RemoveBranchSession"
  by (simp_all add: inmem_sm_def)

lemma inmem_contain_iff [simp]: "inmem_contain ss x \<longleftrightarrow> x \<in> set ss"
  by (induction ss) auto

lemma put_session_simps [simp]:
  "gobj (put_session x gt w) = gobj w" "bobj (put_session x gt w) = bobj w"
  "gtop (put_session x gt w) = gtop w" "btop (put_session x gt w) = btop w"
  "SessionMap (drv (put_session x gt w)) = AList.update x gt (SessionMap (drv w))"
  "LockMap (drv (put_session x gt w)) = LockMap (drv w)"
  by (simp_all add: put_session_def)

subsection \<open>The lock loops on the lock map\<close>

text \<open>Releasing for one transaction drops exactly the requested rows it holds.\<close>

lemma releaseLoop_map_of:
  assumes "one_owner rl_TransactionID t ls"
  shows "map_of (releaseLoop ls m) k =
    (if k \<in> row_keys ls \<and> map_of m k = Some t then None else map_of m k)"
  using assms
  by (induction ls arbitrary: m) (auto split: option.splits)

lemma acquireLoop_True:
  assumes "one_owner rl_TransactionID t ls" and "acquireLoop all ls m = (True, m')"
  shows "map_of m' k = (if k \<in> row_keys ls then Some t else map_of m k)"
  using assms
proof (induction ls arbitrary: m)
  case (Cons l ls)
  then show ?case by (auto split: option.splits if_splits)
qed simp

lemma acquireLoop_True_free:
  assumes "one_owner rl_TransactionID t ls" and "acquireLoop all ls m = (True, m')"
    and "k \<in> row_keys ls"
  shows "map_of m k \<in> {None, Some t}"
  using assms
proof (induction ls arbitrary: m)
  case (Cons l ls)
  show ?case
  proof (cases "k = rl_RowKey l")
    case True
    with Cons.prems show ?thesis by (auto split: option.splits if_splits)
  next
    case False
    with Cons.prems(3) have k: "k \<in> row_keys ls" by simp
    show ?thesis
    proof (cases "map_of m (rl_RowKey l)")
      case None
      with Cons.IH [of "AList.update (rl_RowKey l) t m"] Cons.prems k False show ?thesis by simp
    next
      case (Some u)
      with Cons.IH [of m] Cons.prems k show ?thesis by (simp split: if_splits)
    qed
  qed
qed simp

lemma acquireLoop_False:
  assumes "one_owner rl_TransactionID t (pre @ ls)" and "all = pre @ ls"
    and "acquireLoop all ls m = (False, m')"
    and "\<forall>k. map_of m k = (if k \<in> row_keys pre then Some t else map_of m0 k)"
    and "\<forall>k \<in> row_keys pre. map_of m0 k \<in> {None, Some t}"
  shows "map_of m' k = (if k \<in> row_keys all \<and> map_of m0 k = Some t then None else map_of m0 k)"
  using assms
proof (induction ls arbitrary: pre m)
  case (Cons l ls)
  have owner: "one_owner rl_TransactionID t all" and sub: "row_keys pre \<subseteq> row_keys all"
    using Cons.prems(1,2) by auto
  show ?case
  proof (cases "map_of m (rl_RowKey l)")
    case None
    with Cons.prems(3) have r: "acquireLoop all ls (AList.update (rl_RowKey l) t m) = (False, m')"
      using Cons.prems(1) by simp
    have n0: "rl_RowKey l \<notin> row_keys pre" "map_of m0 (rl_RowKey l) = None"
      using None Cons.prems(4) by (metis option.distinct(1))+
    show ?thesis
      by (rule Cons.IH [of "pre @ [l]" "AList.update (rl_RowKey l) t m"])
        (use Cons.prems r n0 in auto)
  next
    case (Some u)
    show ?thesis
    proof (cases "u = t")
      case True
      have "map_of m0 (rl_RowKey l) \<in> {None, Some t}"
        using Some True Cons.prems(4,5) by (metis insertCI)
      then show ?thesis
        by (intro Cons.IH [of "pre @ [l]" m]) (use Cons.prems Some True in auto)
    next
      case False
      then have "m' = releaseLoop all m" using Cons.prems(1,3) Some by simp
      then show ?thesis
        using sub Cons.prems(4,5) by (auto simp: releaseLoop_map_of [OF owner])
    qed
  qed
qed simp

lemma acquireLoop_all:
  assumes "one_owner rl_TransactionID t ls" and "acquireLoop ls ls m = (r, m')"
  shows "map_of m' k =
    (if k \<notin> row_keys ls then map_of m k
     else if r then Some t else if map_of m k = Some t then None else map_of m k)"
proof (cases r)
  case True
  with assms acquireLoop_True [of t ls ls m m' k] show ?thesis by simp
next
  case False
  with assms acquireLoop_False [of t "[]" ls ls m m' m k] show ?thesis by simp
qed

lemma releaseLoop_frame: "k \<notin> row_keys ls \<Longrightarrow> map_of (releaseLoop ls m) k = map_of m k"
  by (induction ls arbitrary: m) (auto split: option.splits)

lemma acquireLoop_frame:
  "acquireLoop all ls m = (r, m') \<Longrightarrow> k \<notin> row_keys all \<Longrightarrow> k \<notin> row_keys ls \<Longrightarrow>
   map_of m' k = map_of m k"
  by (induction ls arbitrary: m) (auto simp: releaseLoop_frame split: option.splits if_splits)

lemma lockableLoop_iff:
  "lockableLoop ls m \<longleftrightarrow> (\<forall>l \<in> set ls. map_of m (rl_RowKey l) \<in> {None, Some (rl_TransactionID l)})"
  by (induction ls) (auto split: option.splits)

definition inmem_held :: "inmem world \<Rightarrow> string \<Rightarrow> int64 option" where
  "inmem_held w k = map_of (LockMap (drv w)) k"

interpretation inmem_locks: row_lock_store inmem_lm inmem_held rl_TransactionID "\<lambda>w. True"
proof unfold_locales
  fix w :: "inmem world" and ls r w' skip x x' k
  assume o: "one_owner rl_TransactionID x ls"
    and a: "lm_AcquireLock inmem_lm (Some ls) skip w = Some (r, w')" and ne: "x' \<noteq> x"
  from a obtain m where m: "acquireLoop ls ls (LockMap (drv w)) = (r, m)"
    and w': "w' = w\<lparr>drv := (drv w)\<lparr>LockMap := m\<rparr>\<rparr>"
    by (auto simp: inmem_AcquireLock_def split: prod.splits)
  show "inmem_held w' k = Some x' \<longleftrightarrow> inmem_held w k = Some x'"
    using ne acquireLoop_all [OF o m, of k] acquireLoop_True_free [OF o, of ls "LockMap (drv w)" m k] m
    by (cases r) (auto simp: inmem_held_def w' split: if_splits)
next
  fix w :: "inmem world" and ls w' skip x k
  assume o: "one_owner rl_TransactionID x ls" and k: "k \<in> row_keys ls"
    and a: "lm_AcquireLock inmem_lm (Some ls) skip w = Some (True, w')"
  from a k acquireLoop_all [OF o, of "LockMap (drv w)"] show "inmem_held w' k = Some x"
    by (auto simp: inmem_AcquireLock_def inmem_held_def split: prod.splits)
next
  fix w :: "inmem world" and ls r w' skip k
  assume "lm_AcquireLock inmem_lm (Some ls) skip w = Some (r, w')" and "k \<notin> row_keys ls"
  then show "inmem_held w' k = inmem_held w k"
    by (auto simp: inmem_AcquireLock_def inmem_held_def acquireLoop_frame split: prod.splits)
next
  fix w :: "inmem world" and ls r w' x k
  assume o: "one_owner rl_TransactionID x ls"
    and "lm_ReleaseLock inmem_lm (Some ls) w = Some (r, w')"
  then show "inmem_held w' k = inmem_held w k \<or>
      k \<in> row_keys ls \<and> inmem_held w k = Some x \<and> inmem_held w' k = None"
    by (auto simp: inmem_ReleaseLock_def inmem_held_def releaseLoop_map_of [OF o] split: if_splits)
next
  fix w :: "inmem world" and ls w' x k
  assume o: "one_owner rl_TransactionID x ls"
    and "lm_ReleaseLock inmem_lm (Some ls) w = Some (True, w')" and "k \<in> row_keys ls"
  then show "inmem_held w' k \<noteq> Some x"
    by (auto simp: inmem_ReleaseLock_def inmem_held_def releaseLoop_map_of [OF o] split: if_splits)
qed (auto simp: inmem_AcquireLock_def inmem_ReleaseLock_def split: prod.splits)

end
