(* ===== verification/Lock_Manager.thy ===== *)
theory Lock_Manager
  imports Inmemory
begin

text \<open>
  \<open>pkg/tc/lock/lock_manager.go\<close>: the lock manager the coordinator talks to. It derives the row
  locks from a branch session and hands them to the driver; \<open>decode\<close> stands for
  \<open>encoding/json\<close> reading the application data into a map from names to booleans (\<open>None\<close> is a
  decoding error, an absent key reads as false). \<open>None\<close> as a branch is the nil pointer.
\<close>

definition lm_branch :: "'d world \<Rightarrow> bref option \<Rightarrow> BranchSession option" where
  "lm_branch w b = map_option (bobj w) b"

definition AcquireLock ::
    "(string \<Rightarrow> (string \<rightharpoonup> bool) option) \<Rightarrow> 'd StorageLockManager \<Rightarrow> bref option \<Rightarrow> 'd world \<Rightarrow>
     (bool \<times> 'd world) option" where
  "AcquireLock decode manager branchSession w =
     (case lm_branch w branchSession of
        None \<Rightarrow> Some (True, w)
      | Some bs \<Rightarrow>
          (if bs_LockKey bs = [] then Some (True, w)
           else
             (let locks = CollectBranchSessionRowLocks (Some bs)
              in if length (elems locks) = 0 then Some (True, w)
                 else
                   (case bs_ApplicationData bs of
                      Some applicationData \<Rightarrow>
                        (if bs_Type bs = AT then
                           (case decode applicationData of
                              None \<Rightarrow> lm_AcquireLock manager locks False w
                            | Some m \<Rightarrow> lm_AcquireLock manager locks (m ''skipCheckLock'' = Some True) w)
                         else lm_AcquireLock manager locks False w)
                    | None \<Rightarrow> lm_AcquireLock manager locks False w))))"

definition ReleaseLock ::
    "'d StorageLockManager \<Rightarrow> bref option \<Rightarrow> 'd world \<Rightarrow> (bool \<times> 'd world) option" where
  "ReleaseLock manager branchSession w =
     (case lm_branch w branchSession of
        None \<Rightarrow> Some (True, w)
      | Some bs \<Rightarrow>
          (if bs_LockKey bs = [] then Some (True, w)
           else
             (let locks = CollectBranchSessionRowLocks (Some bs)
              in if length (elems locks) = 0 then Some (True, w)
                 else lm_ReleaseLock manager locks w)))"

fun global_row_locks :: "'d world \<Rightarrow> bref list \<Rightarrow> RowLock list" where
  "global_row_locks w [] = []"
| "global_row_locks w (b # bs) =
     elems (CollectBranchSessionRowLocks (Some (bobj w b))) @ global_row_locks w bs"

definition ReleaseGlobalSessionLock ::
    "'d StorageLockManager \<Rightarrow> GlobalTransaction \<Rightarrow> 'd world \<Rightarrow> (bool \<times> 'd world) option" where
  "ReleaseGlobalSessionLock manager gt w =
     lm_ReleaseLock manager (Some (global_row_locks w (gt_BranchSessions gt))) w"

definition IsLockable ::
    "'d StorageLockManager \<Rightarrow> string \<Rightarrow> string \<Rightarrow> string \<Rightarrow> 'd world \<Rightarrow> (bool \<times> 'd world) option" where
  "IsLockable manager xid resourceID lockKey w = lm_IsLockable manager xid resourceID lockKey w"

subsection \<open>Rows of a branch\<close>

text \<open>The row locks a branch session asks for, and those of all branches of a transaction.\<close>

definition branch_locks :: "BranchSession \<Rightarrow> RowLock list" where
  "branch_locks s = elems (CollectBranchSessionRowLocks (Some s))"

definition branch_rows :: "BranchSession \<Rightarrow> string set" where
  "branch_rows s = row_keys (branch_locks s)"

lemma branch_locks_no_key: "bs_LockKey s = [] \<Longrightarrow> branch_locks s = []"
  by (simp add: branch_locks_def CollectBranchSessionRowLocks_def)

lemma branch_locks_one_owner:
  "one_owner rl_TransactionID (bs_TransactionID s) (branch_locks s)"
  "one_owner rl_XID (bs_XID s) (branch_locks s)"
  by (auto simp: one_owner_def branch_locks_def lock_of_def dest!: CollectBranchSessionRowLocks_sound)

lemma global_row_locks_eq: "global_row_locks w bs = concat (map (\<lambda>b. branch_locks (bobj w b)) bs)"
  by (induction bs) (simp_all add: branch_locks_def)

lemma row_keys_global: "row_keys (global_row_locks w bs) = (\<Union>b \<in> set bs. branch_rows (bobj w b))"
  by (auto simp: global_row_locks_eq row_keys_def branch_rows_def)

lemma one_owner_global:
  assumes "\<forall>b \<in> set bs. one_owner f x (branch_locks (bobj w b))"
  shows "one_owner f x (global_row_locks w bs)"
  using assms by (auto simp: one_owner_def global_row_locks_eq)

lemma collected_locks:
  assumes "elems (CollectBranchSessionRowLocks (Some s)) \<noteq> []"
  shows "CollectBranchSessionRowLocks (Some s) = Some (branch_locks s)"
  using assms by (cases "CollectBranchSessionRowLocks (Some s)") (auto simp: branch_locks_def)

text \<open>The \<open>skipCheckLock\<close> flag the lock manager reads out of the application data.\<close>

definition skip_flag :: "(string \<Rightarrow> (string \<rightharpoonup> bool) option) \<Rightarrow> BranchSession \<Rightarrow> bool" where
  "skip_flag decode s \<longleftrightarrow> bs_Type s = AT \<and>
     (\<exists>d m. bs_ApplicationData s = Some d \<and> decode d = Some m \<and> m ''skipCheckLock'' = Some True)"

lemma AcquireLock_eq:
  "AcquireLock decode manager (Some b) w =
     (if branch_locks (bobj w b) = [] then Some (True, w)
      else lm_AcquireLock manager (Some (branch_locks (bobj w b))) (skip_flag decode (bobj w b)) w)"
  using branch_locks_no_key [of "bobj w b"] collected_locks [of "bobj w b"]
  by (auto simp: AcquireLock_def lm_branch_def branch_locks_def skip_flag_def Let_def split: option.splits)

lemma AcquireLock_cases:
  obtains (no_rows) "branch_locks (bobj w b) = []" "AcquireLock decode manager (Some b) w = Some (True, w)"
  | (rows) skip where "branch_locks (bobj w b) \<noteq> []"
      "AcquireLock decode manager (Some b) w =
         lm_AcquireLock manager (Some (branch_locks (bobj w b))) skip w"
  using AcquireLock_eq [of decode manager b w] by (metis (full_types))

lemma ReleaseLock_eq:
  "ReleaseLock manager (Some b) w =
     (if branch_locks (bobj w b) = [] then Some (True, w)
      else lm_ReleaseLock manager (Some (branch_locks (bobj w b))) w)"
  using branch_locks_no_key [of "bobj w b"] collected_locks [of "bobj w b"]
  by (auto simp: ReleaseLock_def lm_branch_def branch_locks_def)

subsection \<open>What the lock manager promises, for every driver that keeps the contract\<close>

text \<open>\<open>bowner\<close> is the owner under which a branch session's rows are recorded.\<close>

locale lock_manager = row_lock_store lm held owner lok
  for lm :: "'d StorageLockManager" and held :: "'d world \<Rightarrow> string \<Rightarrow> 'o option"
    and owner :: "RowLock \<Rightarrow> 'o" and lok :: "'d world \<Rightarrow> bool" +
  fixes bowner :: "BranchSession \<Rightarrow> 'o"
  assumes branch_owner: "one_owner owner (bowner s) (branch_locks s)"
begin

lemma AcquireLock_total: "lok w \<Longrightarrow> \<exists>r w'. AcquireLock decode lm (Some b) w = Some (r, w')"
  by (cases rule: AcquireLock_cases [of w b decode lm]) (auto intro: acquire_total)

lemma AcquireLock_spec:
  assumes "lok w" and a: "AcquireLock decode lm (Some b) w = Some (r, w')"
  shows "lok w'"
    and "r \<Longrightarrow> k \<in> branch_rows (bobj w b) \<Longrightarrow> held w' k = Some (bowner (bobj w b))"
    and "k \<notin> branch_rows (bobj w b) \<Longrightarrow> held w' k = held w k"
    and "x \<noteq> bowner (bobj w b) \<Longrightarrow> held w' k = Some x \<longleftrightarrow> held w k = Some x"
proof -
  note o = branch_owner [of "bobj w b"]
  have "lok w' \<and> (r \<longrightarrow> k \<in> branch_rows (bobj w b) \<longrightarrow> held w' k = Some (bowner (bobj w b))) \<and>
    (k \<notin> branch_rows (bobj w b) \<longrightarrow> held w' k = held w k) \<and>
    (x \<noteq> bowner (bobj w b) \<longrightarrow> held w' k = Some x \<longleftrightarrow> held w k = Some x)"
  proof (cases rule: AcquireLock_cases [of w b decode lm])
    case no_rows
    with assms show ?thesis by (simp add: branch_rows_def)
  next
    case (rows skip)
    with a have c: "lm_AcquireLock lm (Some (branch_locks (bobj w b))) skip w = Some (r, w')" by simp
    show ?thesis
      using acquire_lok [OF assms(1) c] acquire_others [OF assms(1) o c, of x]
        acquire_success [OF assms(1) o] acquire_frame [OF assms(1) c] c
      by (auto simp: branch_rows_def)
  qed
  then show "lok w'" and "r \<Longrightarrow> k \<in> branch_rows (bobj w b) \<Longrightarrow> held w' k = Some (bowner (bobj w b))"
    and "k \<notin> branch_rows (bobj w b) \<Longrightarrow> held w' k = held w k"
    and "x \<noteq> bowner (bobj w b) \<Longrightarrow> held w' k = Some x \<longleftrightarrow> held w k = Some x"
    by blast+
qed

lemma AcquireLock_conflict:
  assumes "lok w" and a: "AcquireLock decode lm (Some b) w = Some (r, w')"
    and "k \<in> branch_rows (bobj w b)" and "held w k = Some x" and "x \<noteq> bowner (bobj w b)"
  shows "\<not> r"
proof
  assume r
  then have "held w' k = Some (bowner (bobj w b))" using AcquireLock_spec(2) [OF assms(1,2)] assms(3) by blast
  moreover have "held w' k = Some x" using AcquireLock_spec(4) [OF assms(1,2), of x k] assms(4,5) by blast
  ultimately show False using assms(5) by simp
qed

lemma ReleaseLock_total: "lok w \<Longrightarrow> \<exists>r w'. ReleaseLock lm (Some b) w = Some (r, w')"
  by (auto simp: ReleaseLock_eq release_total)

lemma ReleaseLock_spec:
  assumes "lok w" and "ReleaseLock lm (Some b) w = Some (r, w')"
  shows "lok w'"
    and "held w' k = held w k \<or>
         k \<in> branch_rows (bobj w b) \<and> held w k = Some (bowner (bobj w b)) \<and> held w' k = None"
    and "r \<Longrightarrow> k \<in> branch_rows (bobj w b) \<Longrightarrow> held w' k \<noteq> Some (bowner (bobj w b))"
  using assms release_lok [OF assms(1)] release_held [OF assms(1) branch_owner]
    release_frees [OF assms(1) branch_owner]
  by (auto simp: ReleaseLock_eq branch_rows_def split: if_splits)

lemma ReleaseGlobalSessionLock_total:
  "lok w \<Longrightarrow> \<exists>r w'. ReleaseGlobalSessionLock lm gt w = Some (r, w')"
  by (simp add: ReleaseGlobalSessionLock_def release_total)

lemma ReleaseGlobalSessionLock_spec:
  assumes "lok w" and "ReleaseGlobalSessionLock lm gt w = Some (r, w')"
    and "\<forall>b \<in> set (gt_BranchSessions gt). bowner (bobj w b) = x"
  shows "lok w'"
    and "held w' k = held w k \<or> (\<exists>b \<in> set (gt_BranchSessions gt). k \<in> branch_rows (bobj w b)) \<and>
         held w k = Some x \<and> held w' k = None"
    and "r \<Longrightarrow> b \<in> set (gt_BranchSessions gt) \<Longrightarrow> k \<in> branch_rows (bobj w b) \<Longrightarrow> held w' k \<noteq> Some x"
proof -
  have o: "one_owner owner x (global_row_locks w (gt_BranchSessions gt))"
    using assms(3) branch_owner by (intro one_owner_global) metis
  have c: "lm_ReleaseLock lm (Some (global_row_locks w (gt_BranchSessions gt))) w = Some (r, w')"
    using assms(2) by (simp add: ReleaseGlobalSessionLock_def)
  show "lok w'" using assms(1) c by (rule release_lok)
  show "held w' k = held w k \<or> (\<exists>b \<in> set (gt_BranchSessions gt). k \<in> branch_rows (bobj w b)) \<and>
         held w k = Some x \<and> held w' k = None"
    using release_held [OF assms(1) o c, of k] by (simp add: row_keys_global)
  show "r \<Longrightarrow> b \<in> set (gt_BranchSessions gt) \<Longrightarrow> k \<in> branch_rows (bobj w b) \<Longrightarrow> held w' k \<noteq> Some x"
    using release_frees [OF assms(1) o] c by (auto simp: row_keys_global)
qed

end

interpretation inmem_lm: lock_manager inmem_lm inmem_held rl_TransactionID "\<lambda>w. True" bs_TransactionID
  by unfold_locales (rule branch_locks_one_owner(1))

end
