(* ===== verification/Session_Holder.thy ===== *)
theory Session_Holder
  imports Lock_Manager
begin

text \<open>
  \<open>pkg/tc/holder/session_holder.go\<close>: the session holder, a layer over the driver's session
  manager that assembles global transactions out of sessions and branches and keeps the
  caller's session object in step with the store.
\<close>

text \<open>Inserting references as keys of a Go map, one by one; a key that is present stays.\<close>

fun put_keys :: "'a list \<Rightarrow> 'a list \<Rightarrow> 'a list" where
  "put_keys ks [] = ks"
| "put_keys ks (x # xs) = put_keys (if x \<in> set ks then ks else ks @ [x]) xs"

lemma set_put_keys [simp]: "set (put_keys ks xs) = set ks \<union> set xs"
  by (induction ks xs rule: put_keys.induct) auto

lemma distinct_put_keys [simp]: "distinct ks \<Longrightarrow> distinct (put_keys ks xs)"
  by (induction ks xs rule: put_keys.induct) auto

lemma put_keys_distinct: "distinct (ks @ xs) \<Longrightarrow> put_keys ks xs = ks @ xs"
  by (induction ks xs rule: put_keys.induct) auto

lemma put_keys_Nil_iff [simp]: "put_keys [] xs = [] \<longleftrightarrow> xs = []"
  using set_put_keys [of "[]" xs] by (metis set_empty sup_bot_left)

definition AddGlobalSession :: "'d SessionManager \<Rightarrow> gref \<Rightarrow> 'd world \<Rightarrow> goerror option \<times> 'd world" where
  "AddGlobalSession manager session w = sm_AddGlobalSession manager session w"

definition FindGlobalSession :: "'d SessionManager \<Rightarrow> string \<Rightarrow> 'd world \<Rightarrow> gref option \<times> 'd world" where
  "FindGlobalSession manager xid w = sm_FindGlobalSession manager xid w"

definition FindGlobalTransaction ::
    "'d SessionManager \<Rightarrow> string \<Rightarrow> 'd world \<Rightarrow> GlobalTransaction option \<times> 'd world" where
  "FindGlobalTransaction manager xid w =
     (case sm_FindGlobalSession manager xid w of
        (Some globalSession, w1) \<Rightarrow>
          (let (branchSessions, w2) = sm_FindBranchSessions manager xid w1
           in (Some \<lparr>gt_GlobalSession = globalSession,
                     gt_BranchSessions =
                       (if length branchSessions \<noteq> 0 then put_keys [] branchSessions else [])\<rparr>, w2))
      | (None, w1) \<Rightarrow> (None, w1))"

text \<open>\<open>branchSessionMap\<close>: the branches in order, keyed by their XID.\<close>

fun group_branches ::
    "'d world \<Rightarrow> bref list \<Rightarrow> (string \<times> bref list) list \<Rightarrow> (string \<times> bref list) list" where
  "group_branches w [] m = m"
| "group_branches w (b # bs) m =
     (let x = bs_XID (bobj w b)
      in case map_of m x of
           Some branchSessionSlice \<Rightarrow> group_branches w bs (AList.update x (branchSessionSlice @ [b]) m)
         | None \<Rightarrow> group_branches w bs (AList.update x [b] m))"

definition findGlobalTransactionsByGlobalSessions ::
    "'d SessionManager \<Rightarrow> gref list \<Rightarrow> 'd world \<Rightarrow> GlobalTransaction list \<times> 'd world" where
  "findGlobalTransactionsByGlobalSessions manager sessions w =
     (if length sessions = 0 then ([], w)
      else
        (let (branchSessions, w1) =
               sm_FindBatchBranchSessions manager (map (\<lambda>g. gs_XID (gobj w g)) sessions) w;
             branchSessionMap = group_branches w1 branchSessions []
         in (map (\<lambda>g. \<lparr>gt_GlobalSession = g,
                       gt_BranchSessions =
                         put_keys [] (case map_of branchSessionMap (gs_XID (gobj w1 g)) of
                                        Some bs \<Rightarrow> bs | None \<Rightarrow> [])\<rparr>) sessions, w1)))"

definition findGlobalTransactions ::
    "'d SessionManager \<Rightarrow> GlobalStatus list \<Rightarrow> 'd world \<Rightarrow> GlobalTransaction list \<times> 'd world" where
  "findGlobalTransactions manager statuses w =
     (let (gts, w1) = sm_FindGlobalSessions manager statuses w
      in findGlobalTransactionsByGlobalSessions manager gts w1)"

definition findGlobalTransactionsWithAddressingIdentities ::
    "'d SessionManager \<Rightarrow> GlobalStatus list \<Rightarrow> string list \<Rightarrow> 'd world \<Rightarrow>
     GlobalTransaction list \<times> 'd world" where
  "findGlobalTransactionsWithAddressingIdentities manager statuses addressingIdentities w =
     (let (gts, w1) = sm_FindGlobalSessionsWithAddressingIdentities manager statuses addressingIdentities w
      in findGlobalTransactionsByGlobalSessions manager gts w1)"

definition FindAsyncCommittingGlobalTransactions ::
    "'d SessionManager \<Rightarrow> string list \<Rightarrow> 'd world \<Rightarrow> GlobalTransaction list \<times> 'd world" where
  "FindAsyncCommittingGlobalTransactions manager addressingIdentities w =
     findGlobalTransactionsWithAddressingIdentities manager [AsyncCommitting] addressingIdentities w"

definition FindRetryCommittingGlobalTransactions ::
    "'d SessionManager \<Rightarrow> string list \<Rightarrow> 'd world \<Rightarrow> GlobalTransaction list \<times> 'd world" where
  "FindRetryCommittingGlobalTransactions manager addressingIdentities w =
     findGlobalTransactionsWithAddressingIdentities manager [CommitRetrying] addressingIdentities w"

definition retry_rollback_statuses :: "GlobalStatus list" where
  "retry_rollback_statuses = [RollingBack, RollbackRetrying, TimeoutRollingBack, TimeoutRollbackRetrying]"

definition FindRetryRollbackGlobalTransactions ::
    "'d SessionManager \<Rightarrow> string list \<Rightarrow> 'd world \<Rightarrow> GlobalTransaction list \<times> 'd world" where
  "FindRetryRollbackGlobalTransactions manager addressingIdentities w =
     findGlobalTransactionsWithAddressingIdentities manager retry_rollback_statuses addressingIdentities w"

definition FindGlobalSessions ::
    "'d SessionManager \<Rightarrow> GlobalStatus list \<Rightarrow> 'd world \<Rightarrow> gref list \<times> 'd world" where
  "FindGlobalSessions manager statuses w = sm_FindGlobalSessions manager statuses w"

definition AllSessions :: "'d SessionManager \<Rightarrow> 'd world \<Rightarrow> gref list \<times> 'd world" where
  "AllSessions manager w = sm_AllSessions manager w"

definition UpdateGlobalSessionStatus ::
    "'d SessionManager \<Rightarrow> gref \<Rightarrow> GlobalStatus \<Rightarrow> 'd world \<Rightarrow> goerror option \<times> 'd world" where
  "UpdateGlobalSessionStatus manager session status w =
     sm_UpdateGlobalSessionStatus manager session status
       (set_gs session (\<lambda>s. s\<lparr>gs_Status := status\<rparr>) w)"

definition InactiveGlobalSession ::
    "'d SessionManager \<Rightarrow> gref \<Rightarrow> 'd world \<Rightarrow> goerror option \<times> 'd world" where
  "InactiveGlobalSession manager session w =
     sm_InactiveGlobalSession manager session (set_gs session (\<lambda>s. s\<lparr>gs_Active := False\<rparr>) w)"

definition RemoveGlobalSession ::
    "'d SessionManager \<Rightarrow> gref \<Rightarrow> 'd world \<Rightarrow> goerror option \<times> 'd world" where
  "RemoveGlobalSession manager session w = sm_RemoveGlobalSession manager session w"

text \<open>The loop of \<open>RemoveGlobalTransaction\<close>: the first error ends it.\<close>

fun removeBranches ::
    "'d SessionManager \<Rightarrow> gref \<Rightarrow> bref list \<Rightarrow> 'd world \<Rightarrow> goerror option \<times> 'd world" where
  "removeBranches manager g [] w = (None, w)"
| "removeBranches manager g (b # bs) w =
     (case sm_RemoveBranchSession manager g b w of
        (Some err, w1) \<Rightarrow> (Some err, w1)
      | (None, w1) \<Rightarrow> removeBranches manager g bs w1)"

definition RemoveGlobalTransaction ::
    "'d SessionManager \<Rightarrow> GlobalTransaction \<Rightarrow> 'd world \<Rightarrow> goerror option \<times> 'd world" where
  "RemoveGlobalTransaction manager gt w =
     (case sm_RemoveGlobalSession manager (gt_GlobalSession gt) w of
        (Some err, w1) \<Rightarrow> (Some err, w1)
      | (None, w1) \<Rightarrow> removeBranches manager (gt_GlobalSession gt) (gt_BranchSessions gt) w1)"

definition AddBranchSession ::
    "'d SessionManager \<Rightarrow> gref \<Rightarrow> bref \<Rightarrow> 'd world \<Rightarrow> goerror option \<times> 'd world" where
  "AddBranchSession manager globalSession session w = sm_AddBranchSession manager globalSession session w"

definition FindBranchSession :: "'d SessionManager \<Rightarrow> string \<Rightarrow> 'd world \<Rightarrow> bref list \<times> 'd world" where
  "FindBranchSession manager xid w = sm_FindBranchSessions manager xid w"

definition UpdateBranchSessionStatus ::
    "'d SessionManager \<Rightarrow> bref \<Rightarrow> BranchStatus \<Rightarrow> 'd world \<Rightarrow> goerror option \<times> 'd world" where
  "UpdateBranchSessionStatus manager session status w = sm_UpdateBranchSessionStatus manager session status w"

definition RemoveBranchSession ::
    "'d SessionManager \<Rightarrow> gref \<Rightarrow> bref \<Rightarrow> 'd world \<Rightarrow> goerror option \<times> 'd world" where
  "RemoveBranchSession manager globalSession session w = sm_RemoveBranchSession manager globalSession session w"

subsection \<open>Grouping the branches\<close>

lemma map_of_group_branches:
  "(case map_of (group_branches w bs m) x of Some l \<Rightarrow> l | None \<Rightarrow> []) =
   (case map_of m x of Some l \<Rightarrow> l | None \<Rightarrow> []) @ filter (\<lambda>b. bs_XID (bobj w b) = x) bs"
proof (induction bs arbitrary: m)
  case (Cons b bs)
  show ?case
    by (cases "map_of m (bs_XID (bobj w b))")
      (use Cons in \<open>auto simp: Let_def split: option.splits\<close>)
qed (simp split: option.split)

lemma findGlobalTransactionsByGlobalSessions_eq:
  assumes "sm_FindBatchBranchSessions sm (map (\<lambda>g. gs_XID (gobj w g)) gs) w = (bs, w1)" and "gs \<noteq> []"
  shows "findGlobalTransactionsByGlobalSessions sm gs w =
    (map (\<lambda>g. \<lparr>gt_GlobalSession = g,
        gt_BranchSessions = put_keys [] (filter (\<lambda>b. bs_XID (bobj w1 b) = gs_XID (gobj w1 g)) bs)\<rparr>) gs, w1)"
  using assms map_of_group_branches [of w1 bs "[]"]
  by (simp add: findGlobalTransactionsByGlobalSessions_def)

end
