(* ===== verification/Session_Store.thy ===== *)
theory Session_Store
  imports Session_Holder
begin

text \<open>
  The contract of the session interface, as the coordinator relies on it. \<open>gv w\<close> reads the
  stored session of an XID, \<open>ok\<close> is the driver's invariant. A handle, the reference a query
  returned, is \<open>synced\<close> while the object agrees with what is stored. The contract says nothing
  about a query that finds nothing, and lets a failed update be applied or not, so that a store
  whose database fails can satisfy it. The status graph and the order on sessions which the
  coordinator's steps respect are defined here as well.
\<close>

subsection \<open>The status graph\<close>

fun status_step :: "GlobalStatus \<Rightarrow> GlobalStatus \<Rightarrow> bool" where
  "status_step Begin st \<longleftrightarrow> st = Committing \<or> st = RollingBack \<or> st = TimeoutRollingBack"
| "status_step Committing st \<longleftrightarrow>
     st = AsyncCommitting \<or> st = CommitRetrying \<or> st = CommitFailed \<or> st = Committed"
| "status_step AsyncCommitting st \<longleftrightarrow> st = CommitFailed \<or> st = Committed"
| "status_step CommitRetrying st \<longleftrightarrow> st = CommitFailed \<or> st = Committed"
| "status_step RollingBack st \<longleftrightarrow> st = RollbackRetrying \<or> st = RollbackFailed \<or> st = RolledBack"
| "status_step RollbackRetrying st \<longleftrightarrow> st = RollbackFailed \<or> st = RolledBack"
| "status_step TimeoutRollingBack st \<longleftrightarrow> st = TimeoutRollbackFailed \<or> st = TimeoutRolledBack"
| "status_step TimeoutRollbackRetrying st \<longleftrightarrow> st = TimeoutRollbackFailed \<or> st = TimeoutRolledBack"
| "status_step _ st \<longleftrightarrow> False"

definition session_le :: "GlobalSession \<Rightarrow> GlobalSession \<Rightarrow> bool" where
  "session_le s s' \<longleftrightarrow>
     s' = s\<lparr>gs_Status := gs_Status s', gs_Active := gs_Active s'\<rparr> \<and>
     status_step\<^sup>*\<^sup>* (gs_Status s) (gs_Status s') \<and>
     (gs_Active s' \<longrightarrow> gs_Active s \<and> gs_Status s' = gs_Status s)"

text \<open>A session that left \<open>Begin\<close> is closed, and its status lies on a path of the graph.\<close>

definition closed_session :: "GlobalSession \<Rightarrow> bool" where
  "closed_session s \<longleftrightarrow>
     (gs_Status s \<noteq> Begin \<longrightarrow> \<not> gs_Active s) \<and> status_step\<^sup>*\<^sup>* Begin (gs_Status s)"

text \<open>The two decisions. A path of the graph never leads from one to the other.\<close>

definition commit_side :: "GlobalStatus set" where
  "commit_side = {Committing, CommitRetrying, AsyncCommitting, Committed, CommitFailed}"

definition rollback_side :: "GlobalStatus set" where
  "rollback_side = {RollingBack, RollbackRetrying, RollbackFailed, RolledBack, TimeoutRollingBack,
     TimeoutRollbackRetrying, TimeoutRollbackFailed, TimeoutRolledBack}"

lemma status_step_sides:
  "status_step\<^sup>*\<^sup>* st st' \<Longrightarrow> (st \<in> commit_side \<longrightarrow> st' \<in> commit_side) \<and> (st \<in> rollback_side \<longrightarrow> st' \<in> rollback_side)"
proof (induction rule: rtranclp_induct)
  case (step a b)
  then show ?case by (cases a) (auto simp: commit_side_def rollback_side_def)
qed simp

lemma status_from_Begin:
  "status_step\<^sup>*\<^sup>* Begin st \<Longrightarrow> st = Begin \<or> st \<in> commit_side \<or> st \<in> rollback_side - {TimeoutRollbackRetrying}"
proof (induction rule: rtranclp_induct)
  case (step a b)
  then show ?case by (cases a) (auto simp: commit_side_def rollback_side_def)
qed simp

fun stored_le :: "GlobalSession option \<Rightarrow> GlobalSession option \<Rightarrow> bool" where
  "stored_le None t \<longleftrightarrow> t = None"
| "stored_le (Some s) None \<longleftrightarrow> True"
| "stored_le (Some s) (Some s') \<longleftrightarrow> session_le s s'"

lemma session_le_refl [simp]: "session_le s s"
  by (simp add: session_le_def)

lemma session_le_trans:
  assumes "session_le a b" and "session_le b c" shows "session_le a c"
proof -
  from assms have "c = b\<lparr>gs_Status := gs_Status c, gs_Active := gs_Active c\<rparr>"
    and "b = a\<lparr>gs_Status := gs_Status b, gs_Active := gs_Active b\<rparr>"
    by (simp_all add: session_le_def)
  then have "c = a\<lparr>gs_Status := gs_Status c, gs_Active := gs_Active c\<rparr>"
    by (metis (no_types, lifting) GlobalSession.surjective GlobalSession.update_convs(7,8))
  with assms show ?thesis by (auto simp: session_le_def intro: rtranclp_trans)
qed

lemma session_le_status:
  assumes "status_step (gs_Status s) st" and "\<not> gs_Active s"
  shows "session_le s (s\<lparr>gs_Status := st\<rparr>)"
  using assms by (simp add: session_le_def r_into_rtranclp)

lemma session_le_inactive [simp]: "session_le s (s\<lparr>gs_Active := False\<rparr>)"
  by (simp add: session_le_def)

lemma session_le_closed: "session_le s s' \<Longrightarrow> closed_session s \<Longrightarrow> closed_session s'"
  by (auto simp: session_le_def closed_session_def intro: rtranclp_trans)

lemma stored_le_refl [simp]: "stored_le s s"
  by (cases s) simp_all

lemma stored_le_trans: "stored_le a b \<Longrightarrow> stored_le b c \<Longrightarrow> stored_le a c"
  by (cases a; cases b; cases c) (auto intro: session_le_trans)

lemma stored_le_SomeD: "stored_le a (Some s') \<Longrightarrow> \<exists>s. a = Some s \<and> session_le s s'"
  by (cases a) auto

subsection \<open>Relations between the worlds before and after an operation\<close>

definition synced :: "('d world \<Rightarrow> string \<Rightarrow> GlobalSession option) \<Rightarrow> 'd world \<Rightarrow> gref \<Rightarrow> bool" where
  "synced gv w g \<longleftrightarrow> g < gtop w \<and> gv w (gs_XID (gobj w g)) = Some (gobj w g)"

text \<open>Nothing about sessions changed.\<close>

definition quiet ::
    "('d world \<Rightarrow> string \<Rightarrow> GlobalSession option) \<Rightarrow> ('d world \<Rightarrow> bool) \<Rightarrow> 'd world \<Rightarrow> 'd world \<Rightarrow> bool" where
  "quiet gv ok w w' \<longleftrightarrow>
     ok w' \<and> gv w' = gv w \<and> gtop w \<le> gtop w' \<and> (\<forall>h < gtop w. gobj w' h = gobj w h)"

text \<open>Only the session \<open>x\<close> and the objects with that XID may have changed.\<close>

definition near ::
    "('d world \<Rightarrow> string \<Rightarrow> GlobalSession option) \<Rightarrow> ('d world \<Rightarrow> bool) \<Rightarrow> string \<Rightarrow>
     'd world \<Rightarrow> 'd world \<Rightarrow> bool" where
  "near gv ok x w w' \<longleftrightarrow>
     ok w' \<and> gtop w \<le> gtop w' \<and> (\<forall>y. y \<noteq> x \<longrightarrow> gv w' y = gv w y) \<and>
     (\<forall>h < gtop w. gs_XID (gobj w h) \<noteq> x \<longrightarrow> gobj w' h = gobj w h)"

text \<open>The object of \<open>g\<close> became \<open>f\<close> of itself, and the store follows, for certain without an error.\<close>

definition modifies ::
    "('d world \<Rightarrow> string \<Rightarrow> GlobalSession option) \<Rightarrow> ('d world \<Rightarrow> bool) \<Rightarrow> gref \<Rightarrow>
     (GlobalSession \<Rightarrow> GlobalSession) \<Rightarrow> 'd world \<Rightarrow> goerror option \<Rightarrow> 'd world \<Rightarrow> bool" where
  "modifies gv ok g f w e w' \<longleftrightarrow>
     near gv ok (gs_XID (gobj w g)) w w' \<and> gobj w' g = f (gobj w g) \<and>
     (gv w' (gs_XID (gobj w g)) = Some (f (gobj w g)) \<or>
      e \<noteq> None \<and> gv w' (gs_XID (gobj w g)) = gv w (gs_XID (gobj w g)))"

lemma quiet_refl: "ok w \<Longrightarrow> quiet gv ok w w" by (simp add: quiet_def)
lemma near_refl: "ok w \<Longrightarrow> near gv ok x w w" by (simp add: near_def)

lemma quiet_trans: "quiet gv ok w w1 \<Longrightarrow> quiet gv ok w1 w2 \<Longrightarrow> quiet gv ok w w2"
  by (auto simp: quiet_def)

lemma near_trans: "near gv ok x w w1 \<Longrightarrow> near gv ok x w1 w2 \<Longrightarrow> near gv ok x w w2"
  by (auto simp: near_def)

lemma quiet_near: "quiet gv ok w w' \<Longrightarrow> near gv ok x w w'"
  by (auto simp: quiet_def near_def)

lemma quiet_ok: "quiet gv ok w w' \<Longrightarrow> ok w'" by (simp add: quiet_def)
lemma near_ok: "near gv ok x w w' \<Longrightarrow> ok w'" by (simp add: near_def)

lemma quiet_obj: "quiet gv ok w w' \<Longrightarrow> g < gtop w \<Longrightarrow> gobj w' g = gobj w g"
  by (simp add: quiet_def)

lemma quiet_synced: "quiet gv ok w w' \<Longrightarrow> synced gv w g \<Longrightarrow> synced gv w' g"
  by (simp add: quiet_def synced_def)

lemma synced_obj: "quiet gv ok w w' \<Longrightarrow> synced gv w g \<Longrightarrow> gobj w' g = gobj w g"
  by (simp add: quiet_def synced_def)

lemma near_synced:
  "near gv ok x w w' \<Longrightarrow> synced gv w h \<Longrightarrow> gs_XID (gobj w h) \<noteq> x \<Longrightarrow>
   synced gv w' h \<and> gobj w' h = gobj w h"
  by (simp add: near_def synced_def)

lemma modifies_synced:
  "modifies gv ok g f w None w' \<Longrightarrow> synced gv w g \<Longrightarrow> (\<And>s. gs_XID (f s) = gs_XID s) \<Longrightarrow>
   synced gv w' g"
  by (simp add: modifies_def synced_def near_def)

text \<open>What a whole pass over one session may have done: removed it, or left it in one of the
  given statuses, with nothing else of it changed.\<close>

definition moves ::
    "('d world \<Rightarrow> string \<Rightarrow> GlobalSession option) \<Rightarrow> ('d world \<Rightarrow> bool) \<Rightarrow> GlobalStatus set \<Rightarrow> gref \<Rightarrow>
     'd world \<Rightarrow> 'd world \<Rightarrow> bool" where
  "moves gv ok T g w w' \<longleftrightarrow>
     near gv ok (gs_XID (gobj w g)) w w' \<and>
     (gv w' (gs_XID (gobj w g)) = None \<or>
      (\<exists>st \<in> T. gv w' (gs_XID (gobj w g)) = Some ((gobj w g)\<lparr>gs_Status := st\<rparr>)))"

lemma quiet_moves:
  "quiet gv ok w w1 \<Longrightarrow> synced gv w g \<Longrightarrow> moves gv ok T g w1 w' \<Longrightarrow> moves gv ok T g w w'"
  using near_trans [OF quiet_near] by (auto simp: moves_def synced_obj)

lemma moves_quiet:
  "moves gv ok T g w w1 \<Longrightarrow> quiet gv ok w1 w' \<Longrightarrow> moves gv ok T g w w'"
  by (auto simp: moves_def quiet_def near_def)

lemma moves_mono: "moves gv ok T g w w' \<Longrightarrow> T \<subseteq> U \<Longrightarrow> moves gv ok U g w w'"
  by (auto simp: moves_def)

lemma quiet_moves_self:
  "quiet gv ok w w' \<Longrightarrow> synced gv w g \<Longrightarrow> gs_Status (gobj w g) \<in> T \<Longrightarrow> moves gv ok T g w w'"
  by (auto simp: moves_def quiet_near synced_def quiet_def intro!: bexI [of _ "gs_Status (gobj w g)"])

lemma modifies_status_moves:
  assumes "modifies gv ok g (\<lambda>s. s\<lparr>gs_Status := st\<rparr>) w e w'" and "synced gv w g"
  shows "moves gv ok {st, gs_Status (gobj w g)} g w w'"
  using assms by (auto simp: modifies_def moves_def synced_def)

lemma moves_near: "moves gv ok T g w w' \<Longrightarrow> near gv ok (gs_XID (gobj w g)) w w'"
  by (simp add: moves_def)

text \<open>Along the status graph, from a closed session, this respects the order.\<close>

lemma moves_stored_le:
  assumes m: "moves gv ok T g w w'" and g: "synced gv w g"
    and T: "\<forall>st \<in> T. st \<noteq> gs_Status (gobj w g) \<longrightarrow> status_step (gs_Status (gobj w g)) st"
    and "\<not> gs_Active (gobj w g)"
  shows "stored_le (gv w x) (gv w' x)"
proof (cases "x = gs_XID (gobj w g)")
  case True
  have "session_le (gobj w g) ((gobj w g)\<lparr>gs_Status := st\<rparr>)" if "st \<in> T" for st
    using session_le_status [of "gobj w g" st] T assms(4) that
    by (cases "st = gs_Status (gobj w g)") auto
  with m g True show ?thesis by (auto simp: moves_def synced_def)
next
  case False
  with m show ?thesis by (simp add: moves_def near_def)
qed

subsection \<open>Lists of handles\<close>

definition handles :: "('d world \<Rightarrow> string \<Rightarrow> GlobalSession option) \<Rightarrow> 'd world \<Rightarrow> gref list \<Rightarrow> bool" where
  "handles gv w gs \<longleftrightarrow> distinct (map (\<lambda>g. gs_XID (gobj w g)) gs) \<and> (\<forall>g \<in> set gs. synced gv w g)"

lemma handles_simps [simp]:
  "handles gv w []"
  "handles gv w (g # gs) \<longleftrightarrow>
     synced gv w g \<and> handles gv w gs \<and> (\<forall>h \<in> set gs. gs_XID (gobj w h) \<noteq> gs_XID (gobj w g))"
  by (auto simp: handles_def image_iff)

lemma handles_quiet: "quiet gv ok w w' \<Longrightarrow> handles gv w gs \<Longrightarrow> handles gv w' gs"
proof (induction gs)
  case (Cons g gs)
  then show ?case using quiet_synced [of gv ok w w'] synced_obj [of gv ok w w']
    by (auto simp: handles_def)
qed simp

lemma handles_near:
  assumes "near gv ok x w w'" and "handles gv w gs" and "\<forall>h \<in> set gs. gs_XID (gobj w h) \<noteq> x"
  shows "handles gv w' gs" and "\<forall>h \<in> set gs. gobj w' h = gobj w h"
proof -
  have *: "synced gv w' h \<and> gobj w' h = gobj w h" if "h \<in> set gs" for h
    using near_synced [OF assms(1)] assms(2,3) that by (auto simp: handles_def)
  then show "\<forall>h \<in> set gs. gobj w' h = gobj w h" by blast
  then have m: "map (\<lambda>g. gs_XID (gobj w' g)) gs = map (\<lambda>g. gs_XID (gobj w g)) gs" by simp
  show "handles gv w' gs" unfolding handles_def m using * assms(2) by (simp add: handles_def)
qed

subsection \<open>The contract\<close>

locale session_store =
  fixes sm :: "'d SessionManager"
    and gv :: "'d world \<Rightarrow> string \<Rightarrow> GlobalSession option"
    and ok :: "'d world \<Rightarrow> bool"
  assumes new_session: "ok w \<Longrightarrow> quiet gv ok w (snd (new_gs s w))"
    and new_branch: "ok w \<Longrightarrow> quiet gv ok w (snd (new_bs c w))"
    and find_session: "ok w \<Longrightarrow> sm_FindGlobalSession sm x w = (r, w') \<Longrightarrow>
      quiet gv ok w w' \<and> (\<forall>g. r = Some g \<longrightarrow> synced gv w' g \<and> gs_XID (gobj w' g) = x)"
    and find_sessions: "ok w \<Longrightarrow> sm_FindGlobalSessions sm sts w = (gs, w') \<Longrightarrow>
      quiet gv ok w w' \<and> handles gv w' gs \<and> (\<forall>g \<in> set gs. gs_Status (gobj w' g) \<in> set sts)"
    and find_addressed: "ok w \<Longrightarrow>
      sm_FindGlobalSessionsWithAddressingIdentities sm sts ads w = (gs, w') \<Longrightarrow>
      quiet gv ok w w' \<and> handles gv w' gs \<and>
      (\<forall>g \<in> set gs. gs_Status (gobj w' g) \<in> set sts \<and> gs_Addressing (gobj w' g) \<in> set ads)"
    and find_branches: "ok w \<Longrightarrow> sm_FindBranchSessions sm x w = (bs, w') \<Longrightarrow> quiet gv ok w w'"
    and find_batch: "ok w \<Longrightarrow> sm_FindBatchBranchSessions sm xs w = (bs, w') \<Longrightarrow> quiet gv ok w w'"
    and add_session: "ok w \<Longrightarrow> g < gtop w \<Longrightarrow> sm_AddGlobalSession sm g w = (e, w') \<Longrightarrow>
      modifies gv ok g (\<lambda>s. s) w e w'"
    and update_status: "ok w \<Longrightarrow> synced gv w g \<Longrightarrow> UpdateGlobalSessionStatus sm g st w = (e, w') \<Longrightarrow>
      modifies gv ok g (\<lambda>s. s\<lparr>gs_Status := st\<rparr>) w e w'"
    and inactive: "ok w \<Longrightarrow> synced gv w g \<Longrightarrow> InactiveGlobalSession sm g w = (e, w') \<Longrightarrow>
      modifies gv ok g (\<lambda>s. s\<lparr>gs_Active := False\<rparr>) w e w'"
    and remove_session: "ok w \<Longrightarrow> g < gtop w \<Longrightarrow> sm_RemoveGlobalSession sm g w = (e, w') \<Longrightarrow>
      near gv ok (gs_XID (gobj w g)) w w' \<and> gobj w' g = gobj w g \<and>
      (gv w' (gs_XID (gobj w g)) = None \<or>
       e \<noteq> None \<and> gv w' (gs_XID (gobj w g)) = gv w (gs_XID (gobj w g)))"
    and add_branch: "ok w \<Longrightarrow> sm_AddBranchSession sm g b w = (e, w') \<Longrightarrow> quiet gv ok w w'"
    and update_branch: "ok w \<Longrightarrow> sm_UpdateBranchSessionStatus sm b bst w = (e, w') \<Longrightarrow> quiet gv ok w w'"
    and remove_branch: "ok w \<Longrightarrow> sm_RemoveBranchSession sm g b w = (e, w') \<Longrightarrow> quiet gv ok w w'"
begin

lemma remove_branches: "ok w \<Longrightarrow> removeBranches sm g bs w = (e, w') \<Longrightarrow> quiet gv ok w w'"
proof (induction bs arbitrary: w)
  case Nil
  then show ?case by (simp add: quiet_refl)
next
  case (Cons b bs)
  obtain e1 w1 where r: "sm_RemoveBranchSession sm g b w = (e1, w1)" by fastforce
  with Cons.prems(1) have q: "quiet gv ok w w1" by (rule remove_branch)
  with Cons r show ?case by (auto split: option.splits dest: quiet_ok intro: quiet_trans)
qed

lemma remove_transaction:
  assumes "ok w" and "synced gv w g" and "gt_GlobalSession gt = g"
    and "RemoveGlobalTransaction sm gt w = (e, w')"
  shows "near gv ok (gs_XID (gobj w g)) w w'"
    and "gv w' (gs_XID (gobj w g)) = None \<or>
         e \<noteq> None \<and> gv w' (gs_XID (gobj w g)) = gv w (gs_XID (gobj w g))"
proof -
  obtain e1 w1 where r: "sm_RemoveGlobalSession sm g w = (e1, w1)" by fastforce
  note s = remove_session [OF assms(1) _ r]
  have *: "quiet gv ok w1 w' \<or> (w' = w1 \<and> e = e1 \<and> e1 \<noteq> None)"
    using assms r s
    by (auto simp: RemoveGlobalTransaction_def synced_def split: option.splits
        dest: near_ok intro: remove_branches)
  with s assms(2) show "near gv ok (gs_XID (gobj w g)) w w'"
    by (auto simp: synced_def intro: near_trans quiet_near)
  from * s assms show "gv w' (gs_XID (gobj w g)) = None \<or>
         e \<noteq> None \<and> gv w' (gs_XID (gobj w g)) = gv w (gs_XID (gobj w g))"
    using r by (auto simp: synced_def quiet_def RemoveGlobalTransaction_def split: option.splits)
qed

lemma find_transaction:
  assumes "ok w" and "FindGlobalTransaction sm x w = (r, w')"
  shows "quiet gv ok w w'"
    and "r = Some gt \<Longrightarrow> synced gv w' (gt_GlobalSession gt) \<and> gs_XID (gt_session w' gt) = x"
proof -
  obtain r1 w1 where f: "sm_FindGlobalSession sm x w = (r1, w1)" by fastforce
  obtain bs w2 where b: "sm_FindBranchSessions sm x w1 = (bs, w2)" by fastforce
  note q1 = find_session [OF assms(1) f]
  have q2: "quiet gv ok w1 w2" using q1 b by (auto intro: find_branches dest: quiet_ok)
  have *: "quiet gv ok w w' \<and> (\<forall>gt. r = Some gt \<longrightarrow>
      synced gv w' (gt_GlobalSession gt) \<and> gs_XID (gt_session w' gt) = x)"
    using assms(2) f b q1 q2 quiet_synced [OF q2] synced_obj [OF q2]
    by (auto simp: FindGlobalTransaction_def gt_session_def split: option.splits intro: quiet_trans)
  then show "quiet gv ok w w'" by blast
  show "synced gv w' (gt_GlobalSession gt) \<and> gs_XID (gt_session w' gt) = x" if "r = Some gt"
    using * that by blast
qed

lemma transactions_of_sessions:
  assumes "ok w" and "handles gv w gs"
    and "findGlobalTransactionsByGlobalSessions sm gs w = (ts, w')"
  shows "quiet gv ok w w'" and "map gt_GlobalSession ts = gs"
proof -
  obtain bs w1 where b: "sm_FindBatchBranchSessions sm (map (\<lambda>g. gs_XID (gobj w g)) gs) w = (bs, w1)"
    by fastforce
  with assms(3) show "map gt_GlobalSession ts = gs"
    by (auto simp: findGlobalTransactionsByGlobalSessions_def Let_def comp_def split: if_splits)
  from b assms show "quiet gv ok w w'"
    by (auto simp: findGlobalTransactionsByGlobalSessions_def Let_def quiet_refl split: if_splits
        intro: find_batch)
qed

lemma find_transactions:
  assumes "ok w"
    and "findGlobalTransactionsWithAddressingIdentities sm sts ads w = (ts, w')"
  shows "quiet gv ok w w'" and "handles gv w' (map gt_GlobalSession ts)"
    and "\<forall>t \<in> set ts. gs_Status (gt_session w' t) \<in> set sts \<and> gs_Addressing (gt_session w' t) \<in> set ads"
proof -
  obtain gs w1 where f: "sm_FindGlobalSessionsWithAddressingIdentities sm sts ads w = (gs, w1)" by fastforce
  note q1 = find_addressed [OF assms(1) f]
  with assms(2) f have t: "findGlobalTransactionsByGlobalSessions sm gs w1 = (ts, w')"
    by (simp add: findGlobalTransactionsWithAddressingIdentities_def)
  have ok1: "ok w1" and h1: "handles gv w1 gs" using q1 by (auto dest: quiet_ok)
  note q2 = transactions_of_sessions [OF ok1 h1 t]
  show "quiet gv ok w w'" using q1 q2(1) by (blast intro: quiet_trans)
  show h: "handles gv w' (map gt_GlobalSession ts)" using handles_quiet [OF q2(1) h1] q2(2) by simp
  have "gobj w' g = gobj w1 g" if "g \<in> set gs" for g
    using synced_obj [OF q2(1)] h1 that by (auto simp: handles_def)
  then show "\<forall>t \<in> set ts. gs_Status (gt_session w' t) \<in> set sts \<and> gs_Addressing (gt_session w' t) \<in> set ads"
    using q1 q2(2) by (auto simp: gt_session_def)
qed

end

text \<open>With the lock operations of the same driver, which leave the sessions alone.\<close>

locale tx_store = session_store sm gv ok
  for sm :: "'d SessionManager" and gv :: "'d world \<Rightarrow> string \<Rightarrow> GlobalSession option"
    and ok :: "'d world \<Rightarrow> bool" +
  fixes lm :: "'d StorageLockManager"
  assumes acquire_quiet: "ok w \<Longrightarrow> lm_AcquireLock lm ls skip w = Some (r, w') \<Longrightarrow> quiet gv ok w w'"
    and release_quiet: "ok w \<Longrightarrow> lm_ReleaseLock lm ls w = Some (r, w') \<Longrightarrow> quiet gv ok w w'"
    and lockable_quiet: "ok w \<Longrightarrow> lm_IsLockable lm x res key w = Some (r, w') \<Longrightarrow> quiet gv ok w w'"
begin

lemma AcquireLock_quiet: "ok w \<Longrightarrow> AcquireLock decode lm (Some b) w = Some (r, w') \<Longrightarrow> quiet gv ok w w'"
  by (auto simp: AcquireLock_eq quiet_refl split: if_splits intro: acquire_quiet)

lemma ReleaseLock_quiet: "ok w \<Longrightarrow> ReleaseLock lm (Some b) w = Some (r, w') \<Longrightarrow> quiet gv ok w w'"
  by (auto simp: ReleaseLock_eq quiet_refl split: if_splits intro: release_quiet)

lemma ReleaseGlobalSessionLock_quiet:
  "ok w \<Longrightarrow> ReleaseGlobalSessionLock lm gt w = Some (r, w') \<Longrightarrow> quiet gv ok w w'"
  by (auto simp: ReleaseGlobalSessionLock_def intro: release_quiet)

lemma IsLockable_quiet: "ok w \<Longrightarrow> IsLockable lm x res key w = Some (r, w') \<Longrightarrow> quiet gv ok w w'"
  by (auto simp: IsLockable_def intro: lockable_quiet)

end

end
