(* ===== verification/Uuid.thy ===== *)
theory Uuid
  imports Prelude
begin

unbundle bit_operations_syntax

text \<open>
  \<open>pkg/util/uuid/id_worker.go\<close>: the snowflake-style generator of transaction and branch IDs, on
  64-bit words. The package variables are the record \<open>uuid_state\<close>; the clock and the network
  interfaces are arguments. An index out of range is a panic, the value \<open>None\<close>.
\<close>

definition epoch :: uint64 where "epoch = 1588435200000"
definition workerIDBits :: nat where "workerIDBits = 10"
definition timestampBits :: nat where "timestampBits = 41"
definition sequenceBits :: nat where "sequenceBits = 12"
definition maxWorkerID :: int where "maxWorkerID = (-1) XOR push_bit workerIDBits (-1)"
definition timestampAndSequenceMask :: uint64 where
  "timestampAndSequenceMask = (-1) XOR push_bit (timestampBits + sequenceBits) (-1)"

record uuid_state =
  timestampAndSequence :: uint64
  workerID :: int64

record iface =
  if_up :: bool
  if_loopback :: bool
  if_HardwareAddr :: "byte list"

definition getNewestTimestamp :: "uint64 \<Rightarrow> uint64" where
  "getNewestTimestamp now = now - epoch"

text \<open>The first interface that is up and no loopback decides, whatever address it has.\<close>

fun generateWorkerIDBaseOnMac :: "iface list \<Rightarrow> (goerror + int64) option" where
  "generateWorkerIDBaseOnMac [] = Some (Inl (Errorf ''no available mac found''))"
| "generateWorkerIDBaseOnMac (i # ifaces) =
     (if \<not> if_up i then generateWorkerIDBaseOnMac ifaces
      else if if_loopback i then generateWorkerIDBaseOnMac ifaces
      else
        (let mac = if_HardwareAddr i
         in if length mac < 6 then None
            else Some (Inr (push_bit 8 (ucast (mac ! 4 AND 3)) OR ucast (mac ! 5 AND 255)))))"

text \<open>\<open>random\<close> is the result of \<open>rand.Int63n(maxWorkerID + 1)\<close>.\<close>

definition generateWorkerID :: "int64 \<Rightarrow> iface list \<Rightarrow> int64 option" where
  "generateWorkerID random ifaces =
     (case generateWorkerIDBaseOnMac ifaces of
        None \<Rightarrow> None
      | Some (Inl err) \<Rightarrow> Some random
      | Some (Inr i) \<Rightarrow> Some i)"

text \<open>The package's variable initialisation and \<open>init()\<close>.\<close>

definition uuid_start :: "uint64 \<Rightarrow> int64 \<Rightarrow> iface list \<Rightarrow> uuid_state option" where
  "uuid_start now random ifaces =
     (case generateWorkerID random ifaces of
        None \<Rightarrow> None
      | Some i \<Rightarrow>
          Some \<lparr>timestampAndSequence = push_bit sequenceBits (getNewestTimestamp now),
                workerID = push_bit (timestampBits + sequenceBits) i\<rparr>)"

definition Init :: "int64 \<Rightarrow> uuid_state \<Rightarrow> goerror option \<times> uuid_state" where
  "Init serverNode st =
     (if sint serverNode > maxWorkerID \<or> sint serverNode < 0
      then (Some (Errorf ''worker id can't be greater than 1023 or less than 0''), st)
      else (None, st\<lparr>workerID := push_bit (timestampBits + sequenceBits) serverNode\<rparr>))"

definition NextID :: "uuid_state \<Rightarrow> int64 \<times> uuid_state" where
  "NextID st =
     (let nxt = timestampAndSequence st + 1;
          timestampWithSequence = nxt AND timestampAndSequenceMask
      in (workerID st OR timestampWithSequence, st\<lparr>timestampAndSequence := nxt\<rparr>))"

subsection \<open>The constants\<close>

lemma maxWorkerID_eq [simp]: "maxWorkerID = 1023"
  by (simp add: maxWorkerID_def workerIDBits_def mask_eq_exp_minus_1)

lemma shift_eq [simp]: "timestampBits + sequenceBits = 53"
  by (simp add: timestampBits_def sequenceBits_def)

lemma timestampAndSequenceMask_eq: "timestampAndSequenceMask = mask 53"
  by (simp add: timestampAndSequenceMask_def mask_eq_exp_minus_1)

lemma NextID_eq:
  "NextID st = (workerID st OR take_bit 53 (timestampAndSequence st + 1),
                st\<lparr>timestampAndSequence := timestampAndSequence st + 1\<rparr>)"
  by (simp add: NextID_def Let_def timestampAndSequenceMask_eq take_bit_eq_mask)

subsection \<open>Well-formed generators\<close>

text \<open>The worker number occupies bits 53 to 62 only; \<open>Init\<close> and the start-up establish it.\<close>

definition wf_uuid :: "uuid_state \<Rightarrow> bool" where
  "wf_uuid st \<longleftrightarrow> take_bit 53 (workerID st) = 0 \<and> \<not> bit (workerID st) 63"

lemma wf_uuid_NextID: "wf_uuid st \<Longrightarrow> wf_uuid (snd (NextID st))"
  by (simp add: NextID_eq wf_uuid_def)

lemma take_bit_push_bit_64: "take_bit 53 (push_bit 53 (w :: int64)) = 0"
  by (simp add: take_bit_push_bit)

lemma small_bits:
  assumes "0 \<le> sint (n :: int64)" and "sint n \<le> 1023" and "bit n k"
  shows "k < 10"
proof (rule ccontr)
  assume "\<not> k < 10"
  then have "(2 :: int) ^ 10 \<le> 2 ^ k" by (intro power_increasing) auto
  with assms(1,2) have "sint n div 2 ^ k = 0" by (simp add: div_pos_pos_trivial)
  then have "\<not> bit (sint n) k" by (simp add: bit_iff_odd)
  moreover have "k < 64" using assms(3) bit_imp_le_length [of n k] by simp
  ultimately show False using assms(3) by (simp add: bit_sint_iff not_le min_def split: if_splits)
qed

lemma worker_of_shift:
  assumes "0 \<le> sint (n :: int64)" and "sint n \<le> 1023"
  shows "drop_bit 53 (push_bit 53 n) = n"
proof (rule bit_word_eqI)
  fix k assume "k < LENGTH(64)"
  show "bit (drop_bit 53 (push_bit 53 n)) k = bit n k"
    using small_bits [OF assms, of k] by (auto simp: bit_drop_bit_eq bit_push_bit_iff)
qed

lemma wf_uuid_Init:
  assumes "Init n st = (None, st')"
  shows "wf_uuid st' \<and> workerID st' = push_bit 53 n \<and> drop_bit 53 (workerID st') = n"
proof -
  from assms have b: "0 \<le> sint n" "sint n \<le> 1023" and w: "workerID st' = push_bit 53 n"
    by (auto simp: Init_def split: if_splits)
  have "\<not> bit n 10" using small_bits [OF b, of 10] by blast
  then have "\<not> bit (push_bit 53 n) 63" by (simp add: bit_push_bit_iff)
  with w show ?thesis by (simp add: wf_uuid_def take_bit_push_bit_64 worker_of_shift b)
qed

subsection \<open>Runs of the generator\<close>

fun NextIDs :: "nat \<Rightarrow> uuid_state \<Rightarrow> int64 list \<times> uuid_state" where
  "NextIDs 0 st = ([], st)"
| "NextIDs (Suc n) st =
     (let (i, st1) = NextID st; (rest, st2) = NextIDs n st1 in (i # rest, st2))"

lemma NextIDs_eq:
  "fst (NextIDs n st) =
     map (\<lambda>k. workerID st OR take_bit 53 (timestampAndSequence st + of_nat (Suc k))) [0..<n]"
proof (induction n arbitrary: st)
  case (Suc n)
  let ?id = "\<lambda>k. workerID st OR take_bit 53 (timestampAndSequence st + of_nat (Suc k))"
  let ?st = "st\<lparr>timestampAndSequence := timestampAndSequence st + 1\<rparr>"
  have "fst (NextIDs (Suc n) st) = fst (NextID st) # fst (NextIDs n ?st)"
    by (simp add: NextID_eq split: prod.split)
  also have "... = map ?id (0 # map Suc [0..<n])"
    by (simp add: Suc NextID_eq o_def algebra_simps)
  also have "0 # map Suc [0..<n] = [0..<Suc n]" by (simp add: map_Suc_upt upt_conv_Cons)
  finally show ?case .
qed simp

lemma sequence_of_id:
  assumes "take_bit 53 w = 0"
  shows "unat (take_bit 53 (w OR take_bit 53 (t :: int64))) = unat t mod 2 ^ 53"
proof -
  have "take_bit 53 (w OR take_bit 53 t) = take_bit 53 t" using assms by (simp add: take_bit_or)
  then show ?thesis by (simp only: unsigned_take_bit_eq take_bit_eq_mod [where 'a = nat])
qed

lemma mod_window_le:
  assumes "(a + k) mod m = (a + j) mod m" and "j \<le> k" and "k < (m :: nat)"
  shows "k = j"
proof -
  from assms(1,2) have "m dvd (a + k) - (a + j)" by (subst mod_eq_dvd_iff_nat [symmetric]) simp_all
  with assms(2,3) show ?thesis by (auto dest: dvd_imp_le)
qed

lemma mod_window:
  assumes "(a + j) mod m = (a + k) mod m" and "j < m" and "k < (m :: nat)"
  shows "j = k"
  using assms mod_window_le [of a j m k] mod_window_le [of a k m j] by (cases "j \<le> k") auto

lemma NextIDs_distinct:
  assumes "wf_uuid st" and "n \<le> 2 ^ 53"
  shows "distinct (fst (NextIDs n st))"
proof -
  let ?t = "timestampAndSequence st" and ?w = "workerID st"
  have w: "take_bit 53 ?w = 0" using assms(1) by (simp add: wf_uuid_def)
  have u: "unat (?t + of_nat (Suc k)) mod 2 ^ 53 = (unat ?t + Suc k) mod 2 ^ 53" for k
  proof -
    have "unat (?t + of_nat (Suc k)) = (unat ?t + Suc k) mod 2 ^ 64"
      by (simp add: unat_word_ariths(1) unat_of_nat mod_add_right_eq del: of_nat_Suc)
    then show ?thesis by (simp add: mod_mod_cancel)
  qed
  have "inj_on (\<lambda>k. ?w OR take_bit 53 (?t + of_nat (Suc k))) {0..<n}"
  proof (rule inj_onI)
    fix j k
    assume jk: "j \<in> {0..<n}" "k \<in> {0..<n}"
      and eq: "?w OR take_bit 53 (?t + of_nat (Suc j)) = ?w OR take_bit 53 (?t + of_nat (Suc k))"
    from eq have "(Suc (unat ?t) + j) mod 2 ^ 53 = (Suc (unat ?t) + k) mod 2 ^ 53"
      using sequence_of_id [OF w, of "?t + of_nat (Suc j)"]
        sequence_of_id [OF w, of "?t + of_nat (Suc k)"] u [of j] u [of k] by simp
    then show "j = k" using jk assms(2) by (intro mod_window [of "Suc (unat ?t)" j "2 ^ 53" k]) auto
  qed
  then show ?thesis by (simp add: NextIDs_eq distinct_map)
qed

lemma NextIDs_nonneg:
  assumes "wf_uuid st" and "i \<in> set (fst (NextIDs n st))"
  shows "0 \<le> sint i"
proof -
  from assms(2) obtain t where i: "i = workerID st OR take_bit 53 t"
    by (auto simp: NextIDs_eq)
  then have "\<not> bit i 63" using assms(1) by (simp add: wf_uuid_def bit_or_iff bit_take_bit_iff)
  then show ?thesis using bit_last_iff [of i] by simp
qed

lemma NextIDs_worker:
  assumes "wf_uuid st" and "i \<in> set (fst (NextIDs n st))"
  shows "drop_bit 53 i = drop_bit 53 (workerID st)"
proof -
  from assms(2) obtain t where i: "i = workerID st OR take_bit 53 t"
    by (auto simp: NextIDs_eq)
  have "drop_bit 53 (take_bit 53 t) = 0" by (simp add: drop_bit_take_bit)
  then show ?thesis by (simp add: i drop_bit_or)
qed

text \<open>C13: after a successful \<open>Init\<close>, any run of up to \<open>2^53\<close> calls of \<open>NextID\<close> yields
  pairwise distinct IDs, none negative as an \<open>int64\<close>, all carrying the worker number that
  \<open>Init\<close> was given in their bits 53 and up.\<close>

theorem next_ids_unique:
  assumes "Init node st = (None, st')" and "n \<le> 2 ^ 53"
  shows "distinct (fst (NextIDs n st')) \<and>
    (\<forall>i \<in> set (fst (NextIDs n st')). 0 \<le> sint i \<and> drop_bit 53 i = node)"
proof -
  have wf: "wf_uuid st'" and w: "drop_bit 53 (workerID st') = node"
    using wf_uuid_Init [OF assms(1)] by blast+
  with NextIDs_distinct [OF wf assms(2)] NextIDs_nonneg [OF wf] NextIDs_worker [OF wf]
  show ?thesis by auto
qed

theorem next_ids_unique_witness:
  "distinct (fst (NextIDs 3 (snd (Init 5 \<lparr>timestampAndSequence = 7, workerID = 0\<rparr>)))) \<and>
   fst (NextIDs 1 (snd (Init 5 \<lparr>timestampAndSequence = 7, workerID = 0\<rparr>))) = [5 * 2 ^ 53 + 8]"
proof -
  let ?st = "\<lparr>timestampAndSequence = 7, workerID = 0\<rparr>"
  have i: "Init 5 ?st = (None, ?st\<lparr>workerID := 5 * 2 ^ 53\<rparr>)"
    by (simp add: Init_def push_bit_eq_mult)
  have "fst (NextIDs 1 (snd (Init 5 ?st))) = [5 * 2 ^ 53 + 8]"
    by (simp add: i NextID_def timestampAndSequenceMask_def push_bit_eq_mult)
  then show ?thesis using next_ids_unique [OF i, of 3] i by simp
qed

subsection \<open>Start-up\<close>

lemma generateWorkerIDBaseOnMac_range:
  assumes "generateWorkerIDBaseOnMac ifaces = Some (Inr i)"
  shows "0 \<le> sint i \<and> sint i \<le> 1023"
  using assms
proof (induction ifaces)
  case (Cons f fs)
  show ?case
  proof (cases "if_up f \<and> \<not> if_loopback f")
    case True
    define m where "m = if_HardwareAddr f"
    from True Cons.prems have i: "i = push_bit 8 (ucast (m ! 4 AND 3)) OR ucast (m ! 5 AND 255)"
      by (simp add: m_def Let_def split: if_splits)
    then have "i = push_bit 8 (ucast (take_bit 2 (m ! 4))) OR ucast (take_bit 8 (m ! 5))"
      by (simp add: take_bit_eq_mask mask_eq_exp_minus_1)
    then have "i = take_bit 10 i" by (intro bit_word_eqI) (auto simp: bit_simps)
    then have "uint i = uint i mod 2 ^ 10"
      by (metis unsigned_take_bit_eq take_bit_eq_mod)
    then have u: "uint i < 2 ^ 10" by (metis pos_mod_bound zero_less_numeral zero_less_power)
    have "sint i = signed_take_bit 63 (uint i)" by (simp add: sint_uint)
    also have "... = uint i"
    proof (rule signed_take_bit_int_eq_self)
      show "- (2 ^ 63) \<le> uint i" by (rule order_trans [of _ 0]) simp_all
      show "uint i < 2 ^ 63" using u by simp
    qed
    finally have "sint i = uint i" .
    with u show ?thesis by simp
  qed (use Cons in \<open>auto split: if_splits\<close>)
qed simp

lemma worker_range_wf:
  assumes "0 \<le> sint (i :: int64)" and "sint i \<le> 1023"
  shows "take_bit 53 (push_bit 53 i) = 0 \<and> \<not> bit (push_bit 53 i) 63"
proof -
  have "\<not> bit i 10" using small_bits [OF assms, of 10] by blast
  then show ?thesis by (simp add: take_bit_push_bit_64 bit_push_bit_iff)
qed

text \<open>At start-up the worker number comes out of the first usable interface's MAC address or
  of the random source, always within 0..1023, so a generator that starts is well formed; but
  it starts only if the first interface that is up and no loopback has a MAC address of six bytes or
  more. With a shorter one (none, for a tunnel device) package initialisation panics.\<close>

theorem uuid_start_cases:
  assumes "0 \<le> sint random" and "sint random \<le> 1023"
  shows "(case uuid_start now random ifaces of
            None \<Rightarrow> \<exists>i \<in> set ifaces. if_up i \<and> \<not> if_loopback i \<and> length (if_HardwareAddr i) < 6
          | Some st \<Rightarrow> wf_uuid st)"
proof (cases "generateWorkerIDBaseOnMac ifaces")
  case None
  then have "\<exists>i \<in> set ifaces. if_up i \<and> \<not> if_loopback i \<and> length (if_HardwareAddr i) < 6"
    by (induction ifaces) (auto simp: Let_def split: if_splits)
  with None show ?thesis by (simp add: uuid_start_def generateWorkerID_def)
next
  case (Some r)
  then show ?thesis
    using worker_range_wf [OF assms] generateWorkerIDBaseOnMac_range [of ifaces] worker_range_wf
    by (cases r) (auto simp: uuid_start_def generateWorkerID_def wf_uuid_def)
qed

theorem uuid_start_cases_witness:
  "wf_uuid (the (uuid_start 1588435200001 77 [])) \<and>
   uuid_start 1588435200001 77 [\<lparr>if_up = True, if_loopback = False, if_HardwareAddr = []\<rparr>] = None"
  using uuid_start_cases [of 77 "[]" 1588435200001]
  by (simp add: uuid_start_def generateWorkerID_def)

end
