(* ===== verification/Event.thy ===== *)
theory Event
  imports Transaction_Model
begin

text \<open>
  \<open>pkg/tc/event\<close>: the events the coordinator publishes. A handler mostly does not build the
  event itself: it starts a goroutine whose closure builds it from the session when it runs.
  Such a goroutine is an \<open>event_thunk\<close>, the session reference and the end time it captured;
  \<open>run_thunk\<close> is what it sends, given the session objects at the moment it runs.
\<close>

definition RoleTC :: string where "RoleTC = ''tc''"
definition RoleTM :: string where "RoleTM = ''client''"
definition RoleRM :: string where "RoleRM = ''rm''"

record GlobalTransactionEvent =
  ev_id :: int64
  ev_role :: string
  ev_name :: string
  ev_beginTime :: int64
  ev_endTime :: int64
  ev_status :: GlobalStatus

definition NewGlobalTransactionEvent ::
    "int64 \<Rightarrow> string \<Rightarrow> string \<Rightarrow> int64 \<Rightarrow> int64 \<Rightarrow> GlobalStatus \<Rightarrow> GlobalTransactionEvent" where
  "NewGlobalTransactionEvent i role name beginTime endTime status =
     \<lparr>ev_id = i, ev_role = role, ev_name = name, ev_beginTime = beginTime,
      ev_endTime = endTime, ev_status = status\<rparr>"

definition session_event :: "GlobalSession \<Rightarrow> int64 \<Rightarrow> GlobalTransactionEvent" where
  "session_event s endTime =
     NewGlobalTransactionEvent (gs_TransactionID s) RoleTC (gs_TransactionName s) (gs_BeginTime s)
       endTime (gs_Status s)"

type_synonym event_thunk = "gref \<times> int64"

definition run_thunk :: "'d world \<Rightarrow> event_thunk \<Rightarrow> GlobalTransactionEvent" where
  "run_thunk w t = session_event (gobj w (fst t)) (snd t)"

end
