(* ===== verification/Coordinator.thy ===== *)
theory Coordinator
  imports Session_Holder Uuid Event
begin

text \<open>
  \<open>pkg/tc/server/transaction_coordinator.go\<close>: the handlers of the transaction coordinator.
  \<open>tc_conf\<close> holds the fields of \<open>TransactionCoordinator\<close> that never change together with what is
  outside the program: \<open>reply\<close> is what comes back for a branch message, \<open>MarshalAny\<close> the
  protobuf library's possible failure, \<open>decode\<close> the JSON library, \<open>errText\<close> the text of an error.
  \<open>tc\<close> is the state a handler reads and writes. A handler yields \<open>None\<close> for a run-time panic,
  which ends the server process; otherwise its result and the new state. A gRPC result is
  \<open>Inl\<close> of the error or \<open>Inr\<close> of the response. The clock is an argument, \<open>now\<close>.
\<close>

text \<open>The answer to a branch message: nobody reads the address's queue, the timer fires first, or
  a response arrives, of the commit or of the rollback kind.\<close>

datatype rm_reply = CommitReply BranchResponse | RollbackReply BranchResponse

datatype rm_outcome = NotReady | NoReply | Replied rm_reply

record 'd tc_conf =
  maxCommitRetryTimeout :: int64
  maxRollbackRetryTimeout :: int64
  rollbackDeadSeconds :: int64
  rollbackRetryTimeoutUnlockEnable :: bool
  holder :: "'d SessionManager"
  resourceDataLocker :: "'d StorageLockManager"
  locker :: "'d GlobalSessionLocker"
  reply :: "BranchMessage \<Rightarrow> rm_outcome"
  MarshalAny :: "BranchMessageType \<Rightarrow> BranchRequest \<Rightarrow> goerror option"
  decode :: "string \<Rightarrow> (string \<rightharpoonup> bool) option"
  errText :: "goerror \<Rightarrow> string"

record 'd tc =
  wld :: "'d world"
  uuid :: uuid_state
  idGenerator :: uint64
  activeApplications :: "(string \<times> int) list"
  callBackMessages :: "string list"
  spawned :: "event_thunk list"
  published :: "GlobalTransactionEvent list"

text \<open>Lifting the operations on the world.\<close>

definition on_wld :: "('d world \<Rightarrow> 'a \<times> 'd world) \<Rightarrow> 'd tc \<Rightarrow> 'a \<times> 'd tc" where
  "on_wld f s = (let (r, w) = f (wld s) in (r, s\<lparr>wld := w\<rparr>))"

definition on_wld_opt :: "('d world \<Rightarrow> ('a \<times> 'd world) option) \<Rightarrow> 'd tc \<Rightarrow> ('a \<times> 'd tc) option" where
  "on_wld_opt f s = (case f (wld s) of None \<Rightarrow> None | Some (r, w) \<Rightarrow> Some (r, s\<lparr>wld := w\<rparr>))"

definition spawn_event :: "gref \<Rightarrow> int64 \<Rightarrow> 'd tc \<Rightarrow> 'd tc" where
  "spawn_event g endTime s = s\<lparr>spawned := spawned s @ [(g, endTime)]\<rparr>"

definition next_id :: "'d tc \<Rightarrow> int64 \<times> 'd tc" where
  "next_id s = (let (i, u) = NextID (uuid s) in (i, s\<lparr>uuid := u\<rparr>))"

definition AlwaysRetryBoundary :: int64 where "AlwaysRetryBoundary = 0"

definition zero_code :: ExceptionCode where "zero_code = UnknownErr"

subsection \<open>Begin, GetStatus, GlobalReport\<close>

definition tc_Begin ::
    "'d tc_conf \<Rightarrow> uint64 \<Rightarrow> GlobalBeginRequest \<Rightarrow> 'd tc \<Rightarrow> (goerror + GlobalBeginResponse) \<times> 'd tc" where
  "tc_Begin conf now request s =
     (let (transactionID, s1) = next_id s;
          xid = GenerateXID (gbq_Addressing request) transactionID;
          (g, s2) = on_wld (new_gs
             \<lparr>gs_Addressing = gbq_Addressing request, gs_XID = xid, gs_TransactionID = transactionID,
              gs_TransactionName = gbq_TransactionName request, gs_Timeout = gbq_Timeout request,
              gs_BeginTime = 0, gs_Status = UnknownGlobalStatus, gs_Active = False\<rparr>) s1;
          gt = \<lparr>gt_GlobalSession = g, gt_BranchSessions = []\<rparr>;
          s3 = s2\<lparr>wld := gt_Begin now gt (wld s2)\<rparr>
      in case on_wld (AddGlobalSession (holder conf) g) s3 of
           (Some err, s4) \<Rightarrow>
             (Inr \<lparr>gbp_ResultCode = ResultCodeFailed, gbp_ExceptionCode = BeginFailed,
                   gbp_Message = errText conf err, gbp_XID = []\<rparr>, s4)
         | (None, s4) \<Rightarrow>
             (Inr \<lparr>gbp_ResultCode = ResultCodeSuccess, gbp_ExceptionCode = zero_code,
                   gbp_Message = [], gbp_XID = xid\<rparr>, spawn_event g 0 s4))"

definition success :: "GlobalStatus \<Rightarrow> GlobalResponse" where
  "success status =
     \<lparr>gr_ResultCode = ResultCodeSuccess, gr_ExceptionCode = zero_code, gr_Message = [],
      gr_GlobalStatus = status\<rparr>"

definition failed :: "ExceptionCode \<Rightarrow> string \<Rightarrow> GlobalStatus \<Rightarrow> GlobalResponse" where
  "failed code msg status =
     \<lparr>gr_ResultCode = ResultCodeFailed, gr_ExceptionCode = code, gr_Message = msg,
      gr_GlobalStatus = status\<rparr>"

definition tc_GetStatus :: "'d tc_conf \<Rightarrow> string \<Rightarrow> 'd tc \<Rightarrow> (goerror + GlobalResponse) \<times> 'd tc" where
  "tc_GetStatus conf xid s =
     (case on_wld (FindGlobalSession (holder conf) xid) s of
        (Some g, s1) \<Rightarrow> (Inr (success (gs_Status (gobj (wld s1) g))), s1)
      | (None, s1) \<Rightarrow> (Inr (success Finished), s1))"

definition tc_GlobalReport :: "string \<Rightarrow> GlobalStatus \<Rightarrow> goerror + GlobalResponse" where
  "tc_GlobalReport xid status = Inl (StatusErrorf ''method GlobalReport not implemented'')"

subsection \<open>Sending a branch message and waiting for its answer\<close>

definition branch_request :: "BranchSession \<Rightarrow> BranchRequest" where
  "branch_request bs =
     \<lparr>bq_XID = bs_XID bs, bq_BranchID = bs_BranchID bs, bq_ResourceID = bs_ResourceID bs,
      bq_LockKey = bs_LockKey bs, bq_BranchType = bs_Type bs,
      bq_ApplicationData = bs_ApplicationData bs\<rparr>"

text \<open>The message takes a fresh number, and the address gets a queue if it has none.\<close>

definition send_message ::
    "BranchMessageType \<Rightarrow> BranchSession \<Rightarrow> 'd tc \<Rightarrow> BranchMessage \<times> 'd tc" where
  "send_message t bs s =
     (let n = idGenerator s + 1
      in (\<lparr>bm_ID = n, bm_BranchMessageType = t, bm_Message = branch_request bs\<rparr>,
          s\<lparr>idGenerator := n,
            callBackMessages := List.insert (bs_Addressing bs) (callBackMessages s)\<rparr>))"

definition branchCommit ::
    "'d tc_conf \<Rightarrow> bref \<Rightarrow> 'd tc \<Rightarrow> (BranchStatus \<times> goerror option) \<times> 'd tc" where
  "branchCommit conf b s =
     (let bs = bobj (wld s) b
      in case MarshalAny conf TypeBranchCommit (branch_request bs) of
           Some err \<Rightarrow> ((bs_Status bs, Some err), s)
         | None \<Rightarrow>
             (let (message, s1) = send_message TypeBranchCommit bs s
              in case reply conf message of
                   NotReady \<Rightarrow> ((bs_Status bs, None), s1)
                 | NoReply \<Rightarrow> ((bs_Status bs, Some (Errorf ''wait branch commit response timeout'')), s1)
                 | Replied (RollbackReply response) \<Rightarrow>
                     ((bs_Status bs, Some (Errorf ''response type not right'')), s1)
                 | Replied (CommitReply response) \<Rightarrow>
                     (if bp_ResultCode response = ResultCodeSuccess
                      then ((bp_BranchStatus response, None), s1)
                      else ((bs_Status bs, Some (Errorf (bp_Message response))), s1))))"

text \<open>Here the type assertion on the response has no second result: a commit response panics.\<close>

definition branchRollback ::
    "'d tc_conf \<Rightarrow> bref \<Rightarrow> 'd tc \<Rightarrow> ((BranchStatus \<times> goerror option) \<times> 'd tc) option" where
  "branchRollback conf b s =
     (let bs = bobj (wld s) b
      in case MarshalAny conf TypeBranchRollback (branch_request bs) of
           Some err \<Rightarrow> Some ((bs_Status bs, Some err), s)
         | None \<Rightarrow>
             (let (message, s1) = send_message TypeBranchRollback bs s
              in case reply conf message of
                   NotReady \<Rightarrow> Some ((bs_Status bs, None), s1)
                 | NoReply \<Rightarrow>
                     Some ((bs_Status bs, Some (Errorf ''wait branch rollback response timeout'')), s1)
                 | Replied (CommitReply response) \<Rightarrow> None
                 | Replied (RollbackReply response) \<Rightarrow>
                     (if bp_ResultCode response = ResultCodeSuccess
                      then Some ((bp_BranchStatus response, None), s1)
                      else Some ((bs_Status bs, Some (Errorf (bp_Message response))), s1))))"

subsection \<open>Steps shared by the commit and the rollback drivers\<close>

text \<open>Change the status; an error of the store replaces the result.\<close>

definition update_then ::
    "'d tc_conf \<Rightarrow> GlobalTransaction \<Rightarrow> GlobalStatus \<Rightarrow> bool \<times> goerror option \<Rightarrow> 'd tc \<Rightarrow>
     (bool \<times> goerror option) \<times> 'd tc" where
  "update_then conf gt status r s =
     (case on_wld (UpdateGlobalSessionStatus (holder conf) (gt_GlobalSession gt) status) s of
        (Some err, s1) \<Rightarrow> ((False, Some err), s1)
      | (None, s1) \<Rightarrow> (r, s1))"

text \<open>Change the status, release the row locks of the remaining branches, remove the session.\<close>

definition finish_global ::
    "'d tc_conf \<Rightarrow> GlobalTransaction \<Rightarrow> GlobalStatus \<Rightarrow> bool \<times> goerror option \<Rightarrow> 'd tc \<Rightarrow>
     ((bool \<times> goerror option) \<times> 'd tc) option" where
  "finish_global conf gt status r s =
     (case on_wld (UpdateGlobalSessionStatus (holder conf) (gt_GlobalSession gt) status) s of
        (Some err, s1) \<Rightarrow> Some ((False, Some err), s1)
      | (None, s1) \<Rightarrow>
          do {
            (_, s2) \<leftarrow> on_wld_opt (ReleaseGlobalSessionLock (resourceDataLocker conf) gt) s1;
            (case on_wld (RemoveGlobalTransaction (holder conf) gt) s2 of
               (Some err, s3) \<Rightarrow> Some ((False, Some err), s3)
             | (None, s3) \<Rightarrow> Some (r, s3))
          })"

text \<open>Release a branch's row locks and drop it from the transaction and the store.\<close>

definition drop_branch ::
    "'d tc_conf \<Rightarrow> GlobalTransaction \<Rightarrow> bref \<Rightarrow> 'd tc \<Rightarrow> (goerror option \<times> 'd tc) option" where
  "drop_branch conf gt b s =
     do {
       (_, s1) \<leftarrow> on_wld_opt (ReleaseLock (resourceDataLocker conf) (Some b)) s;
       Some (on_wld (RemoveBranchSession (holder conf) (gt_GlobalSession gt) b) s1)
     }"

subsection \<open>Committing\<close>

text \<open>
  The loop over the branches. The first result is what the loop returns from the function, or
  \<open>None\<close> when it runs to its end; the second is the transaction with the branches deleted so
  far. Every branch of the map is visited once, in the order of the list.
\<close>

fun commit_branches ::
    "'d tc_conf \<Rightarrow> bool \<Rightarrow> bref list \<Rightarrow> GlobalTransaction \<Rightarrow> 'd tc \<Rightarrow>
     ((bool \<times> goerror option) option \<times> GlobalTransaction \<times> 'd tc) option" where
  "commit_branches conf retrying [] gt s = Some (None, gt, s)"
| "commit_branches conf retrying (b # bs) gt s =
     (case branchCommit conf b s of
        ((branchStatus, Some err1), s1) \<Rightarrow>
          (if \<not> retrying then
             (let (r, s2) = update_then conf gt CommitRetrying (False, Some err1) s1
              in Some (Some r, gt, s2))
           else Some (Some (False, Some err1), gt, s1))
      | ((branchStatus, None), s1) \<Rightarrow>
          (if branchStatus = PhaseTwoCommitted then
             (case drop_branch conf gt b s1 of
                None \<Rightarrow> None
              | Some (Some err, s2) \<Rightarrow> Some (Some (False, Some err), gt_Remove gt b, s2)
              | Some (None, s2) \<Rightarrow> commit_branches conf retrying bs (gt_Remove gt b) s2)
           else if branchStatus = PhaseTwoCommitFailedCanNotRetry then
             (if CanBeCommittedAsync (wld s1) gt then commit_branches conf retrying bs gt s1
              else map_option (\<lambda>(r, s2). (Some r, gt, s2))
                     (finish_global conf gt CommitFailed (False, None) s1))
           else
             (if \<not> retrying then
                (let (r, s2) = update_then conf gt CommitRetrying (False, None) s1
                 in Some (Some r, gt, s2))
              else if CanBeCommittedAsync (wld s1) gt then commit_branches conf retrying bs gt s1
              else Some (Some (False, None), gt, s1))))"

definition unimplemented_saga :: goerror where
  "unimplemented_saga = StatusErrorf ''method Commit not supported saga mode''"

definition doGlobalCommit ::
    "'d tc_conf \<Rightarrow> uint64 \<Rightarrow> GlobalTransaction \<Rightarrow> bool \<Rightarrow> 'd tc \<Rightarrow>
     ((bool \<times> goerror option) \<times> 'd tc) option" where
  "doGlobalCommit conf now gt retrying s =
     (let s0 = spawn_event (gt_GlobalSession gt) 0 s
      in if IsSaga (wld s0) gt then Some ((False, Some unimplemented_saga), s0)
         else
           (case commit_branches conf retrying (gt_BranchSessions gt) gt s0 of
              None \<Rightarrow> None
            | Some (Some r, gt1, s1) \<Rightarrow> Some (r, s1)
            | Some (None, gt1, s1) \<Rightarrow>
                (case on_wld (FindGlobalTransaction (holder conf)
                               (gs_XID (gt_session (wld s1) gt1))) s1 of
                   (gs, s2) \<Rightarrow>
                     (if (case gs of Some g \<Rightarrow> HasBranch g | None \<Rightarrow> False) then Some ((False, None), s2)
                      else
                        (case finish_global conf gt1 Committed (True, None) s2 of
                           None \<Rightarrow> None
                         | Some ((True, None), s3) \<Rightarrow>
                             Some ((True, None), spawn_event (gt_GlobalSession gt1) now s3)
                         | Some (r, s3) \<Rightarrow> Some (r, s3))))))"

text \<open>\<open>time.Duration(gt.Timeout)*time.Millisecond\<close>.\<close>

definition lock_timeout :: "GlobalSession \<Rightarrow> int64" where
  "lock_timeout s = scast (gs_Timeout s) * 1000000"

definition failed_to_lock :: "string \<Rightarrow> goerror" where
  "failed_to_lock xid = Errorf (''failed to lock global transaction xid = '' @ xid)"

text \<open>The closure in \<open>Commit\<close> that closes the session and decides whether to drive the commit.\<close>

definition commit_decision ::
    "'d tc_conf \<Rightarrow> string \<Rightarrow> GlobalTransaction \<Rightarrow> 'd tc \<Rightarrow> ((bool \<times> goerror option) \<times> 'd tc) option" where
  "commit_decision conf xid gt s =
     (let g = gt_GlobalSession gt;
          unlock = (\<lambda>(r, s'). (r, s'\<lparr>wld := gl_Unlock (locker conf) g (wld s')\<rparr>))
      in case on_wld (gl_TryLock (locker conf) g (lock_timeout (gt_session (wld s) gt))) s of
           ((result, Some err), s1) \<Rightarrow> Some ((False, Some err), s1)
         | ((result, None), s1) \<Rightarrow>
             (if result then
                map_option unlock
                  (case (if gs_Active (gt_session (wld s1) gt)
                         then on_wld (InactiveGlobalSession (holder conf) g) s1 else (None, s1)) of
                     (Some err, s2) \<Rightarrow> Some ((False, Some err), s2)
                   | (None, s2) \<Rightarrow>
                       do {
                         (_, s3) \<leftarrow> on_wld_opt (ReleaseGlobalSessionLock (resourceDataLocker conf) gt) s2;
                         Some (if gs_Status (gt_session (wld s3) gt) = Begin
                               then update_then conf gt Committing (True, None) s3
                               else ((False, None), s3))
                       })
              else Some ((False, Some (failed_to_lock xid)), s1)))"

definition tc_Commit ::
    "'d tc_conf \<Rightarrow> uint64 \<Rightarrow> string \<Rightarrow> 'd tc \<Rightarrow> ((goerror + GlobalResponse) \<times> 'd tc) option" where
  "tc_Commit conf now xid s =
     (case on_wld (FindGlobalTransaction (holder conf) xid) s of
        (None, s1) \<Rightarrow> Some (Inr (success Finished), s1)
      | (Some gt, s1) \<Rightarrow>
          (case commit_decision conf xid gt s1 of
             None \<Rightarrow> None
           | Some ((shouldCommit, Some err), s2) \<Rightarrow>
               Some (Inr (failed FailedLockGlobalTransaction (errText conf err)
                            (gs_Status (gt_session (wld s2) gt))), s2)
           | Some ((shouldCommit, None), s2) \<Rightarrow>
               (if \<not> shouldCommit then
                  (if gs_Status (gt_session (wld s2) gt) = AsyncCommitting
                   then Some (Inr (success Committed), s2)
                   else Some (Inr (success (gs_Status (gt_session (wld s2) gt))), s2))
                else if CanBeCommittedAsync (wld s2) gt then
                  (case on_wld (UpdateGlobalSessionStatus (holder conf) (gt_GlobalSession gt) AsyncCommitting) s2 of
                     (Some err, s3) \<Rightarrow> Some (Inl err, s3)
                   | (None, s3) \<Rightarrow> Some (Inr (success Committed), s3))
                else
                  (case doGlobalCommit conf now gt False s2 of
                     None \<Rightarrow> None
                   | Some ((done, Some err), s3) \<Rightarrow>
                       Some (Inr (failed UnknownErr (errText conf err)
                                    (gs_Status (gt_session (wld s3) gt))), s3)
                   | Some ((done, None), s3) \<Rightarrow> Some (Inr (success Committed), s3)))))"

subsection \<open>Case analysis of the loop and of the driver\<close>

text \<open>Where a round of the loop can lead.\<close>

lemma commit_branches_ConsE:
  assumes c: "commit_branches conf retrying (b # bs) gt s = Some (r, gt', s')"
    and b: "branchCommit conf b s = ((bst, e1), s1)"
  obtains (dropped) e s2 where "e1 = None" "bst = PhaseTwoCommitted"
      "drop_branch conf gt b s1 = Some (e, s2)"
      "if e = None then commit_branches conf retrying bs (gt_Remove gt b) s2 = Some (r, gt', s')
       else r = Some (False, e) \<and> gt' = gt_Remove gt b \<and> s' = s2"
  | (skipped) "e1 = None" "CanBeCommittedAsync (wld s1) gt" "bst \<noteq> PhaseTwoCommitted" 
      "commit_branches conf retrying bs gt s1 = Some (r, gt', s')"
  | (kept) e where "retrying" "r = Some (False, e)" "gt' = gt" "s' = s1"
  | (retry) e r2 where "\<not> retrying" "r = Some r2" "gt' = gt"
      "update_then conf gt CommitRetrying (False, e) s1 = (r2, s')"
  | (finished) r2 where "r = Some r2" "gt' = gt"
      "finish_global conf gt CommitFailed (False, None) s1 = Some (r2, s')"
proof (cases e1)
  case (Some err)
  with c b show thesis
    by (cases retrying) (auto intro: kept retry simp: Let_def split: prod.splits)
next
  case None
  consider "bst = PhaseTwoCommitted" | "bst = PhaseTwoCommitFailedCanNotRetry"
    | "bst \<noteq> PhaseTwoCommitted" "bst \<noteq> PhaseTwoCommitFailedCanNotRetry" by blast
  then show thesis
  proof cases
    case 1
    with c b None obtain e s2 where "drop_branch conf gt b s1 = Some (e, s2)" by (auto split: option.splits)
    with 1 c b None show thesis by (intro dropped [of e s2]) (auto split: option.splits)
  next
    case 2
    with c b None show thesis
      by (cases "CanBeCommittedAsync (wld s1) gt") (auto intro: skipped finished)
  next
    case 3
    with c b None show thesis
      by (cases retrying; cases "CanBeCommittedAsync (wld s1) gt")
        (auto intro: skipped kept retry simp: Let_def split: prod.splits)
  qed
qed

text \<open>Once the loop is through, one more look at the store decides whether to finish.\<close>

lemma doGlobalCommitE:
  assumes "doGlobalCommit conf now gt retrying s = Some (r, s')"
  obtains (saga) "IsSaga (wld s) gt" "r = (False, Some unimplemented_saga)" "wld s' = wld s" "uuid s' = uuid s"
  | (stopped) gt1 where "\<not> IsSaga (wld s) gt"
      "commit_branches conf retrying (gt_BranchSessions gt) gt (spawn_event (gt_GlobalSession gt) 0 s) = Some (Some r, gt1, s')"
  | (left) gt1 s1 g where "\<not> IsSaga (wld s) gt" 
      "commit_branches conf retrying (gt_BranchSessions gt) gt (spawn_event (gt_GlobalSession gt) 0 s) = Some (None, gt1, s1)"
      "on_wld (FindGlobalTransaction (holder conf) (gs_XID (gt_session (wld s1) gt1))) s1 = (Some g, s')"
      "HasBranch g" "r = (False, None)"
  | (finished) gt1 s1 gs s2 s3 where "\<not> IsSaga (wld s) gt"
      "commit_branches conf retrying (gt_BranchSessions gt) gt (spawn_event (gt_GlobalSession gt) 0 s) = Some (None, gt1, s1)"
      "on_wld (FindGlobalTransaction (holder conf) (gs_XID (gt_session (wld s1) gt1))) s1 = (gs, s2)"
      "\<not> (case gs of Some g \<Rightarrow> HasBranch g | None \<Rightarrow> False)"
      "finish_global conf gt1 Committed (True, None) s2 = Some (r, s3)" "wld s' = wld s3" "uuid s' = uuid s3"
proof (cases "IsSaga (wld s) gt")
  case True
  with assms show thesis by (intro saga) (auto simp: doGlobalCommit_def Let_def spawn_event_def)
next
  case False
  let ?s0 = "spawn_event (gt_GlobalSession gt) 0 s"
  have w: "wld ?s0 = wld s" by (simp add: spawn_event_def)
  with False assms obtain q gt1 s1
    where c: "commit_branches conf retrying (gt_BranchSessions gt) gt ?s0 = Some (q, gt1, s1)"
    by (auto simp: doGlobalCommit_def Let_def split: option.splits)
  show thesis
  proof (cases q)
    case (Some r1)
    with False w c assms stopped [OF False] show thesis by (simp add: doGlobalCommit_def Let_def)
  next
    case None
    obtain gs s2 where f: "on_wld (FindGlobalTransaction (holder conf) (gs_XID (gt_session (wld s1) gt1))) s1 = (gs, s2)"
      by fastforce
    show thesis
    proof (cases "case gs of Some g \<Rightarrow> HasBranch g | None \<Rightarrow> False")
      case True
      then obtain g where "gs = Some g" "HasBranch g" by (auto split: option.splits)
      with False w c None f assms left [OF False, of gt1 s1 g] show thesis
        by (simp add: doGlobalCommit_def Let_def)
    next
      case nobranch: False
      with False w c None f assms have "(case finish_global conf gt1 Committed (True, None) s2 of
            None \<Rightarrow> None
          | Some ((True, None), s3) \<Rightarrow> Some ((True, None), spawn_event (gt_GlobalSession gt1) now s3)
          | Some (r, s3) \<Rightarrow> Some (r, s3)) = Some (r, s')"
        by (simp add: doGlobalCommit_def Let_def)
      then obtain s3 where "finish_global conf gt1 Committed (True, None) s2 = Some (r, s3)" "wld s' = wld s3" "uuid s' = uuid s3"
        by (auto simp: spawn_event_def split: option.splits prod.splits bool.splits)
      with finished [OF False] c f nobranch None show thesis by blast
    qed
  qed
qed
end
