(* ===== verification/Coordinator_Rollback.thy ===== *)
theory Coordinator_Rollback
  imports Coordinator
begin

text \<open>
  The rollback half of \<open>pkg/tc/server/transaction_coordinator.go\<close>: \<open>Rollback\<close> and
  \<open>doGlobalRollback\<close>. They mirror the commit half, with two final statuses, one for a
  transaction rolled back on request and one for a transaction that timed out.
\<close>

definition timeout_or :: "GlobalTransaction \<Rightarrow> GlobalStatus \<Rightarrow> GlobalStatus \<Rightarrow> 'd tc \<Rightarrow> GlobalStatus" where
  "timeout_or gt timedOut plain s = (if IsTimeoutGlobalStatus (wld s) gt then timedOut else plain)"

text \<open>The loop over the branches, with the results of \<open>commit_branches\<close>.\<close>

fun rollback_branches ::
    "'d tc_conf \<Rightarrow> bool \<Rightarrow> bref list \<Rightarrow> GlobalTransaction \<Rightarrow> 'd tc \<Rightarrow>
     ((bool \<times> goerror option) option \<times> GlobalTransaction \<times> 'd tc) option" where
  "rollback_branches conf retrying [] gt s = Some (None, gt, s)"
| "rollback_branches conf retrying (b # bs) gt s =
     (if bs_Status (bobj (wld s) b) = PhaseOneFailed then
        (case drop_branch conf gt b s of
           None \<Rightarrow> None
         | Some (Some err, s1) \<Rightarrow> Some (Some (False, Some err), gt_Remove gt b, s1)
         | Some (None, s1) \<Rightarrow> rollback_branches conf retrying bs (gt_Remove gt b) s1)
      else
        (case branchRollback conf b s of
           None \<Rightarrow> None
         | Some ((branchStatus, Some err1), s1) \<Rightarrow>
             (if \<not> retrying then
                (let (r, s2) = update_then conf gt
                       (timeout_or gt TimeoutRollbackRetrying RollbackRetrying s1) (False, Some err1) s1
                 in Some (Some r, gt, s2))
              else Some (Some (False, Some err1), gt, s1))
         | Some ((branchStatus, None), s1) \<Rightarrow>
             (if branchStatus = PhaseTwoRolledBack then
                (case drop_branch conf gt b s1 of
                   None \<Rightarrow> None
                 | Some (Some err, s2) \<Rightarrow> Some (Some (False, Some err), gt_Remove gt b, s2)
                 | Some (None, s2) \<Rightarrow> rollback_branches conf retrying bs (gt_Remove gt b) s2)
              else if branchStatus = PhaseTwoRollbackFailedCanNotRetry then
                map_option (\<lambda>(r, s2). (Some r, gt, s2))
                  (finish_global conf gt (timeout_or gt TimeoutRollbackFailed RollbackFailed s1)
                     (False, None) s1)
              else if \<not> retrying then
                (let (r, s2) = update_then conf gt
                       (timeout_or gt TimeoutRollbackRetrying RollbackRetrying s1) (False, None) s1
                 in Some (Some r, gt, s2))
              else Some (Some (False, None), gt, s1))))"

definition doGlobalRollback ::
    "'d tc_conf \<Rightarrow> uint64 \<Rightarrow> GlobalTransaction \<Rightarrow> bool \<Rightarrow> 'd tc \<Rightarrow>
     ((bool \<times> goerror option) \<times> 'd tc) option" where
  "doGlobalRollback conf now gt retrying s =
     (let s0 = spawn_event (gt_GlobalSession gt) 0 s
      in if IsSaga (wld s0) gt then Some ((False, Some unimplemented_saga), s0)
         else
           (case rollback_branches conf retrying (gt_BranchSessions gt) gt s0 of
              None \<Rightarrow> None
            | Some (Some r, gt1, s1) \<Rightarrow> Some (r, s1)
            | Some (None, gt1, s1) \<Rightarrow>
                (case on_wld (FindGlobalTransaction (holder conf)
                               (gs_XID (gt_session (wld s1) gt1))) s1 of
                   (gs, s2) \<Rightarrow>
                     (if (case gs of Some g \<Rightarrow> HasBranch g | None \<Rightarrow> False) then Some ((False, None), s2)
                      else
                        (case finish_global conf gt1 (timeout_or gt1 TimeoutRolledBack RolledBack s2)
                                (True, None) s2 of
                           None \<Rightarrow> None
                         | Some ((True, None), s3) \<Rightarrow>
                             Some ((True, None), spawn_event (gt_GlobalSession gt1) now s3)
                         | Some (r, s3) \<Rightarrow> Some (r, s3))))))"

text \<open>The closure in \<open>Rollback\<close>; unlike that in \<open>Commit\<close> it leaves the row locks alone.\<close>

definition rollback_decision ::
    "'d tc_conf \<Rightarrow> string \<Rightarrow> GlobalTransaction \<Rightarrow> 'd tc \<Rightarrow> (bool \<times> goerror option) \<times> 'd tc" where
  "rollback_decision conf xid gt s =
     (let g = gt_GlobalSession gt;
          unlock = (\<lambda>(r, s'). (r, s'\<lparr>wld := gl_Unlock (locker conf) g (wld s')\<rparr>))
      in case on_wld (gl_TryLock (locker conf) g (lock_timeout (gt_session (wld s) gt))) s of
           ((result, Some err), s1) \<Rightarrow> ((False, Some err), s1)
         | ((result, None), s1) \<Rightarrow>
             (if result then
                unlock
                  (case (if gs_Active (gt_session (wld s1) gt)
                         then on_wld (InactiveGlobalSession (holder conf) g) s1 else (None, s1)) of
                     (Some err, s2) \<Rightarrow> ((False, Some err), s2)
                   | (None, s2) \<Rightarrow>
                       (if gs_Status (gt_session (wld s2) gt) = Begin
                        then update_then conf gt RollingBack (True, None) s2
                        else ((False, None), s2)))
              else ((False, Some (failed_to_lock xid)), s1)))"

definition tc_Rollback ::
    "'d tc_conf \<Rightarrow> uint64 \<Rightarrow> string \<Rightarrow> 'd tc \<Rightarrow> ((goerror + GlobalResponse) \<times> 'd tc) option" where
  "tc_Rollback conf now xid s =
     (case on_wld (FindGlobalTransaction (holder conf) xid) s of
        (None, s1) \<Rightarrow> Some (Inr (success Finished), s1)
      | (Some gt, s1) \<Rightarrow>
          (case rollback_decision conf xid gt s1 of
             ((shouldRollBack, Some err), s2) \<Rightarrow>
               Some (Inr (failed FailedLockGlobalTransaction (errText conf err)
                            (gs_Status (gt_session (wld s2) gt))), s2)
           | ((shouldRollBack, None), s2) \<Rightarrow>
               (if \<not> shouldRollBack then Some (Inr (success (gs_Status (gt_session (wld s2) gt))), s2)
                else
                  (case doGlobalRollback conf now gt False s2 of
                     None \<Rightarrow> None
                   | Some ((done, Some err), s3) \<Rightarrow> Some (Inl err, s3)
                   | Some ((done, None), s3) \<Rightarrow>
                       Some (Inr (success (gs_Status (gt_session (wld s3) gt))), s3)))))"

subsection \<open>Case analysis of the loop and of the driver\<close>

text \<open>Where a round of the loop can lead.\<close>

lemma rollback_branches_ConsE:
  assumes c: "rollback_branches conf retrying (b # bs) gt s = Some (r, gt', s')"
  obtains (failed_phase_one) e s2 where "bs_Status (bobj (wld s) b) = PhaseOneFailed"
      "drop_branch conf gt b s = Some (e, s2)"
      "if e = None then rollback_branches conf retrying bs (gt_Remove gt b) s2 = Some (r, gt', s')
       else r = Some (False, e) \<and> gt' = gt_Remove gt b \<and> s' = s2"
  | (dropped) s1 e s2 where "bs_Status (bobj (wld s) b) \<noteq> PhaseOneFailed"
      "branchRollback conf b s = Some ((PhaseTwoRolledBack, None), s1)"
      "drop_branch conf gt b s1 = Some (e, s2)"
      "if e = None then rollback_branches conf retrying bs (gt_Remove gt b) s2 = Some (r, gt', s')
       else r = Some (False, e) \<and> gt' = gt_Remove gt b \<and> s' = s2"
  | (kept) e o1 s1 where "branchRollback conf b s = Some (o1, s1)" "retrying" "r = Some (False, e)" "gt' = gt" "s' = s1"
  | (retry) e o1 s1 r2 where "branchRollback conf b s = Some (o1, s1)" "\<not> retrying" "r = Some r2" "gt' = gt"
      "update_then conf gt (timeout_or gt TimeoutRollbackRetrying RollbackRetrying s1) (False, e) s1 = (r2, s')"
  | (finished) o1 s1 r2 where "branchRollback conf b s = Some (o1, s1)" "r = Some r2" "gt' = gt"
      "finish_global conf gt (timeout_or gt TimeoutRollbackFailed RollbackFailed s1) (False, None) s1 = Some (r2, s')"
proof (cases "bs_Status (bobj (wld s) b) = PhaseOneFailed")
  case True
  with c obtain e s2 where "drop_branch conf gt b s = Some (e, s2)" by (auto split: option.splits)
  with True c show thesis by (intro failed_phase_one [of e s2]) (auto split: option.splits)
next
  case False
  with c obtain bst e1 s1 where b: "branchRollback conf b s = Some ((bst, e1), s1)"
    by (auto split: option.splits)
  show thesis
  proof (cases e1)
    case (Some err)
    with False c b show thesis
      by (cases retrying) (auto intro: kept retry simp: Let_def split: prod.splits)
  next
    case None
    consider "bst = PhaseTwoRolledBack" | "bst = PhaseTwoRollbackFailedCanNotRetry"
      | "bst \<noteq> PhaseTwoRolledBack" "bst \<noteq> PhaseTwoRollbackFailedCanNotRetry" by blast
    then show thesis
    proof cases
      case 1
      with False c b None obtain e s2 where "drop_branch conf gt b s1 = Some (e, s2)"
        by (auto split: option.splits)
      with 1 False c b None show thesis by (intro dropped [of s1 e s2]) (auto split: option.splits)
    next
      case 2
      with False c b None show thesis by (auto intro: finished)
    next
      case 3
      with False c b None show thesis
        by (cases retrying) (auto intro: kept retry simp: Let_def split: prod.splits)
    qed
  qed
qed

lemma doGlobalRollbackE:
  assumes "doGlobalRollback conf now gt retrying s = Some (r, s')"
  obtains (saga) "IsSaga (wld s) gt" "r = (False, Some unimplemented_saga)" "wld s' = wld s" "uuid s' = uuid s"
  | (stopped) gt1 where "\<not> IsSaga (wld s) gt"
      "rollback_branches conf retrying (gt_BranchSessions gt) gt (spawn_event (gt_GlobalSession gt) 0 s) = Some (Some r, gt1, s')"
  | (left) gt1 s1 g where "\<not> IsSaga (wld s) gt" 
      "rollback_branches conf retrying (gt_BranchSessions gt) gt (spawn_event (gt_GlobalSession gt) 0 s) = Some (None, gt1, s1)"
      "on_wld (FindGlobalTransaction (holder conf) (gs_XID (gt_session (wld s1) gt1))) s1 = (Some g, s')"
      "HasBranch g" "r = (False, None)"
  | (finished) gt1 s1 gs s2 s3 where "\<not> IsSaga (wld s) gt"
      "rollback_branches conf retrying (gt_BranchSessions gt) gt (spawn_event (gt_GlobalSession gt) 0 s) = Some (None, gt1, s1)"
      "on_wld (FindGlobalTransaction (holder conf) (gs_XID (gt_session (wld s1) gt1))) s1 = (gs, s2)"
      "\<not> (case gs of Some g \<Rightarrow> HasBranch g | None \<Rightarrow> False)"
      "finish_global conf gt1 (timeout_or gt1 TimeoutRolledBack RolledBack s2) (True, None) s2 = Some (r, s3)" "wld s' = wld s3" "uuid s' = uuid s3"
proof (cases "IsSaga (wld s) gt")
  case True
  with assms show thesis by (intro saga) (auto simp: doGlobalRollback_def Let_def spawn_event_def)
next
  case False
  let ?s0 = "spawn_event (gt_GlobalSession gt) 0 s"
  have w: "wld ?s0 = wld s" by (simp add: spawn_event_def)
  with False assms obtain q gt1 s1
    where c: "rollback_branches conf retrying (gt_BranchSessions gt) gt ?s0 = Some (q, gt1, s1)"
    by (auto simp: doGlobalRollback_def Let_def split: option.splits)
  show thesis
  proof (cases q)
    case (Some r1)
    with False w c assms stopped [OF False] show thesis by (simp add: doGlobalRollback_def Let_def)
  next
    case None
    obtain gs s2 where f: "on_wld (FindGlobalTransaction (holder conf) (gs_XID (gt_session (wld s1) gt1))) s1 = (gs, s2)"
      by fastforce
    show thesis
    proof (cases "case gs of Some g \<Rightarrow> HasBranch g | None \<Rightarrow> False")
      case True
      then obtain g where "gs = Some g" "HasBranch g" by (auto split: option.splits)
      with False w c None f assms left [OF False, of gt1 s1 g] show thesis
        by (simp add: doGlobalRollback_def Let_def)
    next
      case nobranch: False
      with False w c None f assms have "(case finish_global conf gt1 (timeout_or gt1 TimeoutRolledBack RolledBack s2) (True, None) s2 of
            None \<Rightarrow> None
          | Some ((True, None), s3) \<Rightarrow> Some ((True, None), spawn_event (gt_GlobalSession gt1) now s3)
          | Some (r, s3) \<Rightarrow> Some (r, s3)) = Some (r, s')"
        by (simp add: doGlobalRollback_def Let_def)
      then obtain s3 where "finish_global conf gt1 (timeout_or gt1 TimeoutRolledBack RolledBack s2) (True, None) s2 = Some (r, s3)" "wld s' = wld s3" "uuid s' = uuid s3"
        by (auto simp: spawn_event_def split: option.splits prod.splits bool.splits)
      with finished [OF False] c f nobranch None show thesis by blast
    qed
  qed
qed
end
