(* ===== verification/Coordinator_Branch.thy ===== *)
theory Coordinator_Branch
  imports Coordinator_Rollback
begin

text \<open>
  The resource manager's side of \<open>pkg/tc/server/transaction_coordinator.go\<close>: branch registration
  and reports, the lock query, and the life of a \<open>BranchCommunicate\<close> stream as far as the
  coordinator's own maps are concerned.
\<close>

definition register_failed :: "ExceptionCode \<Rightarrow> string \<Rightarrow> BranchRegisterResponse" where
  "register_failed code msg =
     \<lparr>brp_ResultCode = ResultCodeFailed, brp_ExceptionCode = code, brp_Message = msg, brp_BranchID = 0\<rparr>"

definition register_ok :: "int64 \<Rightarrow> BranchRegisterResponse" where
  "register_ok i =
     \<lparr>brp_ResultCode = ResultCodeSuccess, brp_ExceptionCode = zero_code, brp_Message = [], brp_BranchID = i\<rparr>"

definition show_status :: "GlobalStatus \<Rightarrow> string" where
  "show_status st = show_nat (GlobalStatus_num st)"

text \<open>The session a registration creates.\<close>

definition branch_of_request :: "BranchRegisterRequest \<Rightarrow> int64 \<Rightarrow> int64 \<Rightarrow> BranchSession" where
  "branch_of_request request transactionID branchID =
     \<lparr>bs_Addressing = brq_Addressing request, bs_XID = brq_XID request, bs_BranchID = branchID,
      bs_TransactionID = transactionID, bs_ResourceID = brq_ResourceID request,
      bs_LockKey = brq_LockKey request, bs_Type = brq_BranchType request, bs_Status = Registered,
      bs_ApplicationData = brq_ApplicationData request,
      bs_AsyncCommit = (if brq_BranchType request = AT then True else brq_AsyncCommit request)\<rparr>"

text \<open>What follows the guards: build the branch, take its row locks, store it.\<close>

definition register_branch ::
    "'d tc_conf \<Rightarrow> BranchRegisterRequest \<Rightarrow> GlobalTransaction \<Rightarrow> 'd tc \<Rightarrow>
     (BranchRegisterResponse \<times> 'd tc) option" where
  "register_branch conf request gt s =
     (let (branchID, s1) = next_id s;
          (b, s2) = on_wld (new_bs (branch_of_request request
                       (gs_TransactionID (gt_session (wld s1) gt)) branchID)) s1
      in do {
           (result, s3) \<leftarrow> (if bs_Type (bobj (wld s2) b) = AT
                            then on_wld_opt (AcquireLock (decode conf) (resourceDataLocker conf) (Some b)) s2
                            else Some (True, s2));
           Some
             (if \<not> result then
                (register_failed LockKeyConflict
                   (''branch lock acquire failed xid = '' @ brq_XID request @ '' resourceId = '' @
                    brq_ResourceID request @ '', lockKey = '' @ brq_LockKey request), s3)
              else
                (case on_wld (AddBranchSession (holder conf) (gt_GlobalSession gt) b) s3 of
                   (Some err, s4) \<Rightarrow>
                     (register_failed BranchRegisterFailed
                        (''branch register failed, xid = '' @ gs_XID (gt_session (wld s4) gt) @
                         '', branchID = '' @ show_int64 branchID @ '', err: '' @ errText conf err), s4)
                 | (None, s4) \<Rightarrow> (register_ok branchID, s4)))
         })"

definition tc_BranchRegister ::
    "'d tc_conf \<Rightarrow> BranchRegisterRequest \<Rightarrow> 'd tc \<Rightarrow> (BranchRegisterResponse \<times> 'd tc) option" where
  "tc_BranchRegister conf request s =
     (case on_wld (FindGlobalTransaction (holder conf) (brq_XID request)) s of
        (None, s1) \<Rightarrow>
          Some (register_failed GlobalTransactionNotExist
                  (''could not find global transaction xid = '' @ brq_XID request), s1)
      | (Some gt, s1) \<Rightarrow>
          (let g = gt_GlobalSession gt;
               unlock = (\<lambda>(r, s'). (r, s'\<lparr>wld := gl_Unlock (locker conf) g (wld s')\<rparr>))
           in case on_wld (gl_TryLock (locker conf) g (lock_timeout (gt_session (wld s1) gt))) s1 of
                ((result, Some err), s2) \<Rightarrow>
                  Some (register_failed FailedLockGlobalTransaction
                          (''could not lock global transaction xid = '' @ brq_XID request), s2)
              | ((result, None), s2) \<Rightarrow>
                  (if result then
                     map_option unlock
                       (let session = gt_session (wld s2) gt
                        in if \<not> gs_Active session then
                             Some (register_failed GlobalTransactionNotActive
                               (''could not register branch into global session xid = '' @ gs_XID session @
                                '' status = '' @ show_status (gs_Status session)), s2)
                           else if gs_Status session \<noteq> Begin then
                             Some (register_failed GlobalTransactionStatusInvalid
                               (''could not register branch into global session xid = '' @ gs_XID session @
                                '' status = '' @ show_status (gs_Status session) @
                                '' while expecting '' @ show_status Begin), s2)
                           else register_branch conf request gt s2)
                   else
                     Some (register_failed FailedLockGlobalTransaction
                             (''failed to lock global transaction xid = '' @ brq_XID request), s2))))"

definition report_response :: "ExceptionCode \<Rightarrow> string \<Rightarrow> BranchReportResponse" where
  "report_response code msg =
     \<lparr>btp_ResultCode = ResultCodeFailed, btp_ExceptionCode = code, btp_Message = msg\<rparr>"

definition report_ok :: BranchReportResponse where
  "report_ok = \<lparr>btp_ResultCode = ResultCodeSuccess, btp_ExceptionCode = zero_code, btp_Message = []\<rparr>"

definition tc_BranchReport ::
    "'d tc_conf \<Rightarrow> BranchReportRequest \<Rightarrow> 'd tc \<Rightarrow> BranchReportResponse \<times> 'd tc" where
  "tc_BranchReport conf request s =
     (case on_wld (FindGlobalTransaction (holder conf) (btq_XID request)) s of
        (None, s1) \<Rightarrow>
          (report_response GlobalTransactionNotExist
             (''could not find global transaction xid = '' @ btq_XID request), s1)
      | (Some gt, s1) \<Rightarrow>
          (case GetBranch (wld s1) gt (btq_BranchID request) of
             None \<Rightarrow>
               (report_response BranchTransactionNotExist
                  (''could not find branch session xid = '' @ gs_XID (gt_session (wld s1) gt) @
                   '' branchID = '' @ show_int64 (btq_BranchID request)), s1)
           | Some b \<Rightarrow>
               (case on_wld (UpdateBranchSessionStatus (holder conf) b (btq_BranchStatus request)) s1 of
                  (Some err, s2) \<Rightarrow>
                    (report_response BranchReportFailed
                       (''branch report failed, xid = '' @ gs_XID (gt_session (wld s2) gt) @
                        '', branchID = '' @ show_int64 (bs_BranchID (bobj (wld s2) b)) @
                        '', err: '' @ errText conf err), s2)
                | (None, s2) \<Rightarrow> (report_ok, s2))))"

definition tc_LockQuery ::
    "'d tc_conf \<Rightarrow> GlobalLockQueryRequest \<Rightarrow> 'd tc \<Rightarrow> (GlobalLockQueryResponse \<times> 'd tc) option" where
  "tc_LockQuery conf request s =
     do {
       (result, s1) \<leftarrow> on_wld_opt (IsLockable (resourceDataLocker conf) (glq_XID request)
                          (glq_ResourceID request) (glq_LockKey request)) s;
       Some (\<lparr>glp_ResultCode = ResultCodeSuccess, glp_ExceptionCode = zero_code, glp_Message = [],
              glp_Lockable = result\<rparr>, s1)
     }"

subsection \<open>Streams and connected applications\<close>

text \<open>
  The opening of a \<open>BranchCommunicate\<close> stream. \<open>md\<close> is the value list of the metadata key
  \<open>addressing\<close>, \<open>None\<close> when the call carries no metadata at all; \<open>md.Get("addressing")[0]\<close> on an
  absent key is an index out of range. The result is the address the stream serves and whether
  it was counted, which the deferred function undoes when the stream ends.
\<close>

definition open_stream :: "string list option \<Rightarrow> 'd tc \<Rightarrow> ((string \<times> bool) \<times> 'd tc) option" where
  "open_stream md s =
     (case md of
        None \<Rightarrow> Some (([], False), s\<lparr>callBackMessages := List.insert [] (callBackMessages s)\<rparr>)
      | Some [] \<Rightarrow> None
      | Some (addressing # rest) \<Rightarrow>
          (let s1 = s\<lparr>activeApplications := AList.update addressing
                        (case map_of (activeApplications s) addressing of Some n \<Rightarrow> n + 1 | None \<Rightarrow> 1)
                        (activeApplications s)\<rparr>
           in Some ((addressing, True),
                 s1\<lparr>callBackMessages := List.insert addressing (callBackMessages s1)\<rparr>)))"

text \<open>The type assertion on an absent count would panic; an open stream's count is present.\<close>

definition close_stream :: "string \<times> bool \<Rightarrow> 'd tc \<Rightarrow> 'd tc option" where
  "close_stream st s =
     (if snd st then
        (case map_of (activeApplications s) (fst st) of
           None \<Rightarrow> None
         | Some n \<Rightarrow>
             Some (s\<lparr>activeApplications := AList.update (fst st) (n - 1) (activeApplications s)\<rparr>))
      else Some s)"

definition getAddressingIdentities :: "'d tc \<Rightarrow> string list" where
  "getAddressingIdentities s = map fst (filter (\<lambda>(key, n). n > 0) (activeApplications s))"

end
