(* ===== verification/Coordinator_Retry.thy ===== *)
theory Coordinator_Retry
  imports Coordinator_Branch
begin

text \<open>
  The bodies of the four background loops of \<open>pkg/tc/server/transaction_coordinator.go\<close>
  (\<open>processTimeoutCheck\<close> and its siblings run them for ever, one timer period apart). All clock
  reads of one run return \<open>now\<close>. Errors are logged and the loop goes on, so a run has no result.
\<close>

definition isRetryTimeout :: "int64 \<Rightarrow> int64 \<Rightarrow> int64 \<Rightarrow> bool" where
  "isRetryTimeout now timeout beginTime =
     (if sint AlwaysRetryBoundary \<le> sint timeout \<and> sint timeout < sint (now - beginTime) then True else False)"

text \<open>The comparison is unsigned, and between milliseconds and a configured number of seconds.\<close>

definition IsRollingBackDead :: "'d tc_conf \<Rightarrow> uint64 \<Rightarrow> 'd world \<Rightarrow> GlobalTransaction \<Rightarrow> bool" where
  "IsRollingBackDead conf now w gt \<longleftrightarrow> now - gs_BeginTime (gt_session w gt) > rollbackDeadSeconds conf"

definition isGlobalSessionTimeout :: "uint64 \<Rightarrow> GlobalSession \<Rightarrow> bool" where
  "isGlobalSessionTimeout now gt \<longleftrightarrow> now - gs_BeginTime gt > scast (gs_Timeout gt)"

definition publish_event :: "gref \<Rightarrow> int64 \<Rightarrow> 'd tc \<Rightarrow> 'd tc" where
  "publish_event g endTime s = s\<lparr>published := published s @ [run_thunk (wld s) (g, endTime)]\<rparr>"

text \<open>An error of the store ends the whole run, without unlocking the session.\<close>

fun timeout_sessions :: "'d tc_conf \<Rightarrow> uint64 \<Rightarrow> gref list \<Rightarrow> 'd tc \<Rightarrow> 'd tc" where
  "timeout_sessions conf now [] s = s"
| "timeout_sessions conf now (g # gs) s =
     (if isGlobalSessionTimeout now (gobj (wld s) g) then
        (case on_wld (gl_TryLock (locker conf) g (lock_timeout (gobj (wld s) g))) s of
           ((True, None), s1) \<Rightarrow>
             (case (if gs_Active (gobj (wld s1) g)
                    then on_wld (InactiveGlobalSession (holder conf) g) s1 else (None, s1)) of
                (Some err, s2) \<Rightarrow> s2
              | (None, s2) \<Rightarrow>
                  (case on_wld (UpdateGlobalSessionStatus (holder conf) g TimeoutRollingBack) s2 of
                     (Some err, s3) \<Rightarrow> s3
                   | (None, s3) \<Rightarrow>
                       timeout_sessions conf now gs
                         (publish_event g 0 (s3\<lparr>wld := gl_Unlock (locker conf) g (wld s3)\<rparr>))))
         | ((_, _), s1) \<Rightarrow> timeout_sessions conf now gs s1)
      else timeout_sessions conf now gs s)"

definition timeoutCheck :: "'d tc_conf \<Rightarrow> uint64 \<Rightarrow> 'd tc \<Rightarrow> 'd tc" where
  "timeoutCheck conf now s =
     (let (sessions, s1) = on_wld (FindGlobalSessions (holder conf) [Begin]) s
      in if length sessions = 0 then s1 else timeout_sessions conf now sessions s1)"

fun retry_rollbacks :: "'d tc_conf \<Rightarrow> uint64 \<Rightarrow> GlobalTransaction list \<Rightarrow> 'd tc \<Rightarrow> 'd tc option" where
  "retry_rollbacks conf now [] s = Some s"
| "retry_rollbacks conf now (t # ts) s =
     (if gs_Status (gt_session (wld s) t) = RollingBack \<and> \<not> IsRollingBackDead conf now (wld s) t
      then retry_rollbacks conf now ts s
      else if isRetryTimeout now (maxRollbackRetryTimeout conf) (gs_BeginTime (gt_session (wld s) t)) then
        do {
          (_, s1) \<leftarrow> (if rollbackRetryTimeoutUnlockEnable conf
                      then on_wld_opt (ReleaseGlobalSessionLock (resourceDataLocker conf) t) s
                      else Some (True, s));
          retry_rollbacks conf now ts (snd (on_wld (RemoveGlobalTransaction (holder conf) t) s1))
        }
      else
        do {
          (_, s1) \<leftarrow> doGlobalRollback conf now t True s;
          retry_rollbacks conf now ts s1
        })"

definition handleRetryRollingBack :: "'d tc_conf \<Rightarrow> uint64 \<Rightarrow> 'd tc \<Rightarrow> 'd tc option" where
  "handleRetryRollingBack conf now s =
     (let addressingIdentities = getAddressingIdentities s
      in if length addressingIdentities = 0 then Some s
         else
           (let (rollbackTransactions, s1) =
                  on_wld (FindRetryRollbackGlobalTransactions (holder conf) addressingIdentities) s
            in if length rollbackTransactions = 0 then Some s1
               else retry_rollbacks conf now rollbackTransactions s1))"

fun retry_commits :: "'d tc_conf \<Rightarrow> uint64 \<Rightarrow> GlobalTransaction list \<Rightarrow> 'd tc \<Rightarrow> 'd tc option" where
  "retry_commits conf now [] s = Some s"
| "retry_commits conf now (t # ts) s =
     (if isRetryTimeout now (maxCommitRetryTimeout conf) (gs_BeginTime (gt_session (wld s) t))
      then retry_commits conf now ts (snd (on_wld (RemoveGlobalTransaction (holder conf) t) s))
      else
        do {
          (_, s1) \<leftarrow> doGlobalCommit conf now t True s;
          retry_commits conf now ts s1
        })"

definition handleRetryCommitting :: "'d tc_conf \<Rightarrow> uint64 \<Rightarrow> 'd tc \<Rightarrow> 'd tc option" where
  "handleRetryCommitting conf now s =
     (let addressingIdentities = getAddressingIdentities s
      in if length addressingIdentities = 0 then Some s
         else
           (let (committingTransactions, s1) =
                  on_wld (FindRetryCommittingGlobalTransactions (holder conf) addressingIdentities) s
            in if length committingTransactions = 0 then Some s1
               else retry_commits conf now committingTransactions s1))"

fun async_commits :: "'d tc_conf \<Rightarrow> uint64 \<Rightarrow> GlobalTransaction list \<Rightarrow> 'd tc \<Rightarrow> 'd tc option" where
  "async_commits conf now [] s = Some s"
| "async_commits conf now (t # ts) s =
     (if gs_Status (gt_session (wld s) t) \<noteq> AsyncCommitting then async_commits conf now ts s
      else
        do {
          (_, s1) \<leftarrow> doGlobalCommit conf now t True s;
          async_commits conf now ts s1
        })"

definition handleAsyncCommitting :: "'d tc_conf \<Rightarrow> uint64 \<Rightarrow> 'd tc \<Rightarrow> 'd tc option" where
  "handleAsyncCommitting conf now s =
     (let addressingIdentities = getAddressingIdentities s
      in if length addressingIdentities = 0 then Some s
         else
           (let (asyncCommittingTransactions, s1) =
                  on_wld (FindAsyncCommittingGlobalTransactions (holder conf) addressingIdentities) s
            in if length asyncCommittingTransactions = 0 then Some s1
               else async_commits conf now asyncCommittingTransactions s1))"

subsection \<open>Case analysis of the passes\<close>

text \<open>What a pass does with the next transaction.\<close>

lemma retry_rollbacks_ConsE:
  assumes "retry_rollbacks conf now (t # ts) s = Some s'"
  obtains (skip) "gs_Status (gt_session (wld s) t) = RollingBack" "retry_rollbacks conf now ts s = Some s'"
  | (gone) r s1 where
      "isRetryTimeout now (maxRollbackRetryTimeout conf) (gs_BeginTime (gt_session (wld s) t))"
      "(if rollbackRetryTimeoutUnlockEnable conf
        then on_wld_opt (ReleaseGlobalSessionLock (resourceDataLocker conf) t) s else Some (True, s)) = Some (r, s1)"
      "retry_rollbacks conf now ts (snd (on_wld (RemoveGlobalTransaction (holder conf) t) s1)) = Some s'"
  | (redo) r s1 where "doGlobalRollback conf now t True s = Some (r, s1)" "retry_rollbacks conf now ts s1 = Some s'"
proof (cases "gs_Status (gt_session (wld s) t) = RollingBack \<and> \<not> IsRollingBackDead conf now (wld s) t")
  case True
  with assms show thesis by (intro skip) simp_all
next
  case F: False
  show thesis
  proof (cases "isRetryTimeout now (maxRollbackRetryTimeout conf) (gs_BeginTime (gt_session (wld s) t))")
    case True
    with F assms show thesis
      by (simp only: retry_rollbacks.simps if_True if_False bind_eq_Some_conv) (auto intro: gone)
  next
    case False
    with F assms show thesis
      by (simp only: retry_rollbacks.simps if_False bind_eq_Some_conv) (auto intro: redo)
  qed
qed

lemma retry_commits_ConsE:
  assumes "retry_commits conf now (t # ts) s = Some s'"
  obtains (gone) "isRetryTimeout now (maxCommitRetryTimeout conf) (gs_BeginTime (gt_session (wld s) t))"
      "retry_commits conf now ts (snd (on_wld (RemoveGlobalTransaction (holder conf) t) s)) = Some s'"
  | (redo) r s1 where "doGlobalCommit conf now t True s = Some (r, s1)" "retry_commits conf now ts s1 = Some s'"
proof (cases "isRetryTimeout now (maxCommitRetryTimeout conf) (gs_BeginTime (gt_session (wld s) t))")
  case True
  with assms show thesis by (intro gone) simp_all
next
  case False
  with assms show thesis
    by (simp only: retry_commits.simps if_False bind_eq_Some_conv) (auto intro: redo)
qed

lemma async_commits_ConsE:
  assumes "async_commits conf now (t # ts) s = Some s'"
  obtains (skip) "gs_Status (gt_session (wld s) t) \<noteq> AsyncCommitting" "async_commits conf now ts s = Some s'"
  | (redo) r s1 where "gs_Status (gt_session (wld s) t) = AsyncCommitting"
      "doGlobalCommit conf now t True s = Some (r, s1)" "async_commits conf now ts s1 = Some s'"
proof (cases "gs_Status (gt_session (wld s) t) = AsyncCommitting")
  case True
  with assms show thesis
    by (simp only: async_commits.simps if_False bind_eq_Some_conv simp_thms) (auto intro: redo)
next
  case False
  with assms show thesis by (intro skip) simp_all
qed

end
