(* ===== verification/Coordinator_Sessions.thy ===== *)
theory Coordinator_Sessions
  imports Session_Store Coordinator_Retry
begin

text \<open>
  What the coordinator does to the stored sessions, for every driver that keeps the contracts
  \<open>session_store\<close> and \<open>tx_store\<close>. The lemmas follow the call structure: the branch calls do not
  touch a session, the commit and rollback drivers move it along the status graph, and each
  handler respects the order \<open>stored_le\<close> on what is stored under every XID.
\<close>

lemma on_wldD: "on_wld f s = (r, s') \<Longrightarrow> f (wld s) = (r, wld s')"
  by (auto simp: on_wld_def split: prod.splits)

lemma on_wld_optD: "on_wld_opt f s = Some (r, s') \<Longrightarrow> f (wld s) = Some (r, wld s')"
  by (auto simp: on_wld_opt_def split: option.splits prod.splits)

lemma spawn_event_wld [simp]: "wld (spawn_event g e s) = wld s"
  by (simp add: spawn_event_def)

lemma next_id_wld: "next_id s = (i, s') \<Longrightarrow> wld s' = wld s"
  by (auto simp: next_id_def split: prod.splits)

lemma branchCommit_wld: "branchCommit conf b s = (r, s') \<Longrightarrow> wld s' = wld s"
  by (auto simp: branchCommit_def send_message_def Let_def
      split: option.splits rm_outcome.splits rm_reply.splits if_splits)

lemma branchRollback_wld: "branchRollback conf b s = Some (r, s') \<Longrightarrow> wld s' = wld s"
  by (auto simp: branchRollback_def send_message_def Let_def
      split: option.splits rm_outcome.splits rm_reply.splits if_splits)

text \<open>The statuses a pass over the branches may leave behind.\<close>

definition commit_targets :: "bool \<Rightarrow> GlobalStatus \<Rightarrow> GlobalStatus set" where
  "commit_targets retrying st =
     {st, CommitFailed, Committed} \<union> (if retrying then {} else {CommitRetrying})"

definition rollback_targets :: "bool \<Rightarrow> GlobalStatus \<Rightarrow> GlobalStatus set" where
  "rollback_targets retrying st =
     insert st
       (if timeout_status st
        then {TimeoutRollbackFailed, TimeoutRolledBack} \<union> (if retrying then {} else {TimeoutRollbackRetrying})
        else {RollbackFailed, RolledBack} \<union> (if retrying then {} else {RollbackRetrying}))"

lemma update_then_fst: "update_then conf gt st (False, e) s = (r, s') \<Longrightarrow> \<not> fst r"
  by (auto simp: update_then_def split: prod.splits option.splits)

lemma finish_global_fst: "finish_global conf gt st (False, e) s = Some (r, s') \<Longrightarrow> \<not> fst r"
  by (auto simp: finish_global_def elim!: bind_eq_Some_pairE split: prod.splits option.splits)

text \<open>With the locker the coordinator is built with, the two decisions are straight-line code.\<close>

lemma commit_decision_eq:
  assumes "locker conf = UnimplementedGlobalSessionLocker"
    and "(if gs_Active (gobj (wld s) (gt_GlobalSession gt))
          then on_wld (InactiveGlobalSession (holder conf) (gt_GlobalSession gt)) s else (None, s)) = (e1, s1)"
  shows "commit_decision conf xid gt s =
    (case e1 of
       Some err \<Rightarrow> Some ((False, Some err), s1)
     | None \<Rightarrow>
         do {
           (_, s2) \<leftarrow> on_wld_opt (ReleaseGlobalSessionLock (resourceDataLocker conf) gt) s1;
           Some (if gs_Status (gt_session (wld s2) gt) = Begin
                 then update_then conf gt Committing (True, None) s2 else ((False, None), s2))
         })"
  using assms
  by (simp add: commit_decision_def on_wld_def [of "gl_TryLock _ _ _"] gt_session_def Let_def)
    (auto simp: option.map_id0 split_beta split: option.splits)

lemma rollback_decision_eq:
  assumes "locker conf = UnimplementedGlobalSessionLocker"
    and "(if gs_Active (gobj (wld s) (gt_GlobalSession gt))
          then on_wld (InactiveGlobalSession (holder conf) (gt_GlobalSession gt)) s else (None, s)) = (e1, s1)"
  shows "rollback_decision conf xid gt s =
    (case e1 of
       Some err \<Rightarrow> ((False, Some err), s1)
     | None \<Rightarrow> (if gs_Status (gobj (wld s1) (gt_GlobalSession gt)) = Begin
                then update_then conf gt RollingBack (True, None) s1 else ((False, None), s1)))"
  using assms
  by (simp add: rollback_decision_def on_wld_def [of "gl_TryLock _ _ _"] gt_session_def Let_def
      split: option.split)

lemma timeout_sessions_eq:
  assumes "locker conf = UnimplementedGlobalSessionLocker" and "isGlobalSessionTimeout now (gobj (wld s) g)"
    and "(if gs_Active (gobj (wld s) g) then on_wld (InactiveGlobalSession (holder conf) g) s else (None, s)) = (e1, s1)"
  shows "timeout_sessions conf now (g # gs) s =
    (case e1 of
       Some err \<Rightarrow> s1
     | None \<Rightarrow>
         (case on_wld (UpdateGlobalSessionStatus (holder conf) g TimeoutRollingBack) s1 of
            (Some err, s3) \<Rightarrow> s3
          | (None, s3) \<Rightarrow> timeout_sessions conf now gs (publish_event g 0 s3)))"
  using assms by (simp add: on_wld_def [of "gl_TryLock _ _ _"] split: option.split prod.split)

text \<open>Every stored session moved along the order, or was removed; none appeared.\<close>

definition evolves ::
    "('d world \<Rightarrow> string \<Rightarrow> GlobalSession option) \<Rightarrow> ('d world \<Rightarrow> bool) \<Rightarrow> 'd world \<Rightarrow> 'd world \<Rightarrow> bool" where
  "evolves gv ok w w' \<longleftrightarrow> ok w' \<and> (\<forall>x. stored_le (gv w x) (gv w' x))"

definition closed_store :: "('d world \<Rightarrow> string \<Rightarrow> GlobalSession option) \<Rightarrow> 'd world \<Rightarrow> bool" where
  "closed_store gv w \<longleftrightarrow> (\<forall>x s. gv w x = Some s \<longrightarrow> closed_session s)"

lemma evolves_refl: "ok w \<Longrightarrow> evolves gv ok w w" by (simp add: evolves_def)

lemma evolves_ok: "evolves gv ok w w' \<Longrightarrow> ok w'" by (simp add: evolves_def)

lemma evolves_trans: "evolves gv ok w w1 \<Longrightarrow> evolves gv ok w1 w2 \<Longrightarrow> evolves gv ok w w2"
  by (auto simp: evolves_def intro: stored_le_trans)

lemma quiet_evolves: "quiet gv ok w w' \<Longrightarrow> evolves gv ok w w'"
  by (simp add: evolves_def quiet_def)

lemma evolves_closed: "evolves gv ok w w' \<Longrightarrow> closed_store gv w \<Longrightarrow> closed_store gv w'"
  by (auto simp: evolves_def closed_store_def dest!: stored_le_SomeD intro: session_le_closed)
    (metis session_le_closed stored_le_SomeD)

lemma closed_synced: "closed_store gv w \<Longrightarrow> synced gv w g \<Longrightarrow> gs_Status (gobj w g) \<noteq> Begin \<Longrightarrow> \<not> gs_Active (gobj w g)"
  by (auto simp: closed_store_def synced_def closed_session_def)

lemma modifies_evolves:
  assumes m: "modifies gv ok g f w e w'" and g: "synced gv w g" and le: "session_le (gobj w g) (f (gobj w g))"
  shows "evolves gv ok w w'"
proof -
  have "stored_le (gv w x) (gv w' x)" for x
    using m g le by (cases "x = gs_XID (gobj w g)") (auto simp: modifies_def synced_def near_def)
  with m show ?thesis by (simp add: evolves_def modifies_def near_def)
qed

lemma moves_evolves:
  assumes "moves gv ok T g w w'" and "synced gv w g"
    and "\<forall>st \<in> T. st \<noteq> gs_Status (gobj w g) \<longrightarrow> status_step (gs_Status (gobj w g)) st"
    and "\<not> gs_Active (gobj w g)"
  shows "evolves gv ok w w'"
  using moves_stored_le [OF assms] assms(1) by (simp add: evolves_def moves_def near_def)

locale coordinator = tx_store sm gv ok lm
  for sm :: "'d SessionManager" and gv :: "'d world \<Rightarrow> string \<Rightarrow> GlobalSession option"
    and ok :: "'d world \<Rightarrow> bool" and lm :: "'d StorageLockManager" +
  fixes conf :: "'d tc_conf"
  assumes conf_holder [simp]: "holder conf = sm"
    and conf_locks [simp]: "resourceDataLocker conf = lm"
    and conf_locker [simp]: "locker conf = UnimplementedGlobalSessionLocker"
begin

lemma drop_branch_quiet:
  assumes "ok (wld s)" and "drop_branch conf gt b s = Some (e, s')"
  shows "quiet gv ok (wld s) (wld s')"
proof -
  from assms(2) obtain r s1 where 1: "on_wld_opt (ReleaseLock lm (Some b)) s = Some (r, s1)"
    and 2: "on_wld (RemoveBranchSession sm (gt_GlobalSession gt) b) s1 = (e, s')"
    by (auto simp: drop_branch_def elim!: bind_eq_Some_pairE split: prod.splits)
  have q: "quiet gv ok (wld s) (wld s1)" using assms(1) on_wld_optD [OF 1] by (rule ReleaseLock_quiet)
  have "quiet gv ok (wld s1) (wld s')"
    using on_wldD [OF 2] quiet_ok [OF q] by (auto simp: RemoveBranchSession_def intro: remove_branch)
  with q show ?thesis by (rule quiet_trans)
qed

lemma update_then_cases:
  assumes "ok (wld s)" and "synced gv (wld s) (gt_GlobalSession gt)"
    and "update_then conf gt st r s = (r', s')"
  obtains e where "modifies gv ok (gt_GlobalSession gt) (\<lambda>x. x\<lparr>gs_Status := st\<rparr>) (wld s) e (wld s')"
    and "r' = (case e of None \<Rightarrow> r | Some err \<Rightarrow> (False, Some err))"
proof -
  obtain e s1 where u: "on_wld (UpdateGlobalSessionStatus sm (gt_GlobalSession gt) st) s = (e, s1)"
    by fastforce
  show thesis
    by (rule that [of e]) (use assms(3) u update_status [OF assms(1,2) on_wldD [OF u]] in
      \<open>auto simp: update_then_def split: option.splits\<close>)
qed

lemma update_then_moves:
  assumes "ok (wld s)" and "synced gv (wld s) (gt_GlobalSession gt)"
    and "update_then conf gt st r s = (r', s')"
  shows "moves gv ok {st, gs_Status (gt_session (wld s) gt)} (gt_GlobalSession gt) (wld s) (wld s')"
  using update_then_cases [OF assms] modifies_status_moves [OF _ assms(2)]
  by (metis gt_session_def)

lemma finish_global_moves:
  assumes "ok (wld s)" and g: "synced gv (wld s) (gt_GlobalSession gt)"
    and f: "finish_global conf gt st r s = Some (r', s')"
  shows "moves gv ok {st, gs_Status (gt_session (wld s) gt)} (gt_GlobalSession gt) (wld s) (wld s')"
    and "fst r' \<Longrightarrow> gv (wld s') (gs_XID (gt_session (wld s) gt)) = None"
proof -
  let ?g = "gt_GlobalSession gt" and ?x = "gs_XID (gt_session (wld s) gt)"
  obtain e1 s1 where u: "on_wld (UpdateGlobalSessionStatus sm ?g st) s = (e1, s1)" by fastforce
  note m = update_status [OF assms(1) g on_wldD [OF u]]
  note m' = modifies_status_moves [OF m g]
  have "moves gv ok {st, gs_Status (gt_session (wld s) gt)} ?g (wld s) (wld s') \<and>
        (fst r' \<longrightarrow> gv (wld s') ?x = None)"
  proof (cases e1)
    case (Some err)
    with f u m' show ?thesis by (auto simp: finish_global_def gt_session_def)
  next
    case None
    with f u obtain r2 s2 e3 s3 where 2: "on_wld_opt (ReleaseGlobalSessionLock lm gt) s1 = Some (r2, s2)"
      and 3: "on_wld (RemoveGlobalTransaction sm gt) s2 = (e3, s3)" and s': "s' = s3"
      and r': "e3 \<noteq> None \<Longrightarrow> \<not> fst r'"
      by (auto simp: finish_global_def elim!: bind_eq_Some_pairE split: prod.splits option.splits)
    have ok1: "ok (wld s1)" using m by (auto simp: modifies_def dest: near_ok)
    have g1: "synced gv (wld s1) ?g" using m None g modifies_synced by fastforce
    have q: "quiet gv ok (wld s1) (wld s2)"
      using ReleaseGlobalSessionLock_quiet [OF ok1 on_wld_optD [OF 2]] .
    note r = remove_transaction [OF quiet_ok [OF q] quiet_synced [OF q g1] refl on_wldD [OF 3]]
    have x: "gs_XID (gobj (wld s2) ?g) = ?x" and o: "gobj (wld s2) ?g = (gobj (wld s) ?g)\<lparr>gs_Status := st\<rparr>"
      using synced_obj [OF q g1] m by (auto simp: modifies_def gt_session_def)
    have gv2: "gv (wld s2) ?x = Some ((gobj (wld s) ?g)\<lparr>gs_Status := st\<rparr>)"
      using quiet_synced [OF q g1] x o by (simp add: synced_def)
    have n: "near gv ok ?x (wld s) (wld s')"
      using near_trans [OF moves_near [OF m'] near_trans [OF quiet_near [OF q]]] r(1) x s'
      by (simp add: gt_session_def)
    show ?thesis using n r(2) x gv2 s' r' by (auto simp: moves_def gt_session_def)
  qed
  then show "moves gv ok {st, gs_Status (gt_session (wld s) gt)} ?g (wld s) (wld s')"
    and "fst r' \<Longrightarrow> gv (wld s') ?x = None" by blast+
qed

subsection \<open>The commit driver\<close>

lemma commit_branches_moves:
  assumes "commit_branches conf retrying bs gt s = Some (r, gt', s')"
    and "ok (wld s)" and "synced gv (wld s) (gt_GlobalSession gt)"
  shows "gt_GlobalSession gt' = gt_GlobalSession gt \<and>
    (case r of None \<Rightarrow> quiet gv ok (wld s) (wld s')
     | Some q \<Rightarrow> \<not> fst q \<and>
         moves gv ok (commit_targets retrying (gs_Status (gt_session (wld s) gt)))
           (gt_GlobalSession gt) (wld s) (wld s'))"
  using assms
proof (induction bs arbitrary: gt s)
  case Nil
  then show ?case by (simp add: quiet_refl)
next
  case (Cons b bs)
  note ok = Cons.prems(2) and g = Cons.prems(3)
  obtain bst e1 s1 where b: "branchCommit conf b s = ((bst, e1), s1)" by (metis prod.exhaust)
  then have w1: "wld s1 = wld s" by (rule branchCommit_wld)
  let ?T = "commit_targets retrying (gs_Status (gt_session (wld s) gt))"
  have self: "moves gv ok ?T (gt_GlobalSession gt) (wld s) w" if "quiet gv ok (wld s) w" for w
    using that g by (auto intro!: quiet_moves_self simp: commit_targets_def gt_session_def)
  from Cons.prems(1) b show ?case
  proof (cases rule: commit_branches_ConsE)
    case (dropped e s2)
    have q: "quiet gv ok (wld s) (wld s2)" using drop_branch_quiet [OF _ dropped(3)] ok w1 by simp
    show ?thesis
    proof (cases e)
      case None
      with dropped(4) have "commit_branches conf retrying bs (gt_Remove gt b) s2 = Some (r, gt', s')" by simp
      from Cons.IH [OF this quiet_ok [OF q]] quiet_synced [OF q g] q g show ?thesis
        by (auto simp: synced_obj gt_session_def split: option.splits intro: quiet_trans quiet_moves)
    qed (use dropped(4) self [OF q] in simp)
  next
    case skipped
    show ?thesis using Cons.IH [OF skipped(4), unfolded w1, OF ok g] .
  next
    case (kept e)
    then show ?thesis using self [OF quiet_refl] w1 ok by simp
  next
    case (retry e r2)
    with update_then_moves [of s1 gt, OF _ _ retry(4)] w1 ok g show ?thesis
      by (auto intro: moves_mono simp: commit_targets_def dest: update_then_fst)
  next
    case (finished r2)
    with finish_global_moves(1) [of s1 gt, OF _ _ finished(3)] w1 ok g show ?thesis
      by (auto intro: moves_mono simp: commit_targets_def dest: finish_global_fst)
  qed
qed

lemma doGlobalCommit_moves:
  assumes "doGlobalCommit conf now gt retrying s = Some (r, s')"
    and ok: "ok (wld s)" and g: "synced gv (wld s) (gt_GlobalSession gt)"
  shows "moves gv ok (commit_targets retrying (gs_Status (gt_session (wld s) gt)))
           (gt_GlobalSession gt) (wld s) (wld s') \<and>
         (fst r \<longrightarrow> gv (wld s') (gs_XID (gt_session (wld s) gt)) = None)"
proof -
  let ?g = "gt_GlobalSession gt" and ?T = "commit_targets retrying (gs_Status (gt_session (wld s) gt))"
  have self: "moves gv ok ?T ?g (wld s) w" if "quiet gv ok (wld s) w" for w
    using that g by (auto intro!: quiet_moves_self simp: commit_targets_def gt_session_def)
  note loop = commit_branches_moves [of retrying _ gt "spawn_event ?g 0 s", simplified, OF _ ok g]
  from assms(1) show ?thesis
  proof (cases rule: doGlobalCommitE)
    case saga
    then show ?thesis using self [OF quiet_refl] ok by simp
  next
    case (stopped gt1)
    then show ?thesis using loop by fastforce
  next
    case (left gt1 s1 gx)
    from loop [OF left(2)] have q1: "quiet gv ok (wld s) (wld s1)" by simp
    from find_transaction(1) [OF quiet_ok [OF q1]] on_wldD [OF left(3)]
    have "quiet gv ok (wld s) (wld s')" using q1 by (auto intro: quiet_trans)
    then show ?thesis using self left(5) by simp
  next
    case (finished gt1 s1 gs s2 s3)
    from loop [OF finished(2)] have q1: "quiet gv ok (wld s) (wld s1)" and g1: "gt_GlobalSession gt1 = ?g"
      by simp_all
    from find_transaction(1) [OF quiet_ok [OF q1]] on_wldD [OF finished(3)]
    have q2: "quiet gv ok (wld s) (wld s2)" using q1 by (auto intro: quiet_trans)
    note fm = finish_global_moves [OF quiet_ok [OF q2] _ finished(5), unfolded g1 gt_session_def,
        OF quiet_synced [OF q2 g]]
    show ?thesis
      using quiet_moves [OF q2 g fm(1)] fm(2) finished(6) synced_obj [OF q2 g]
      by (auto simp: gt_session_def commit_targets_def intro: moves_mono)
  qed
qed

subsection \<open>The rollback driver\<close>

lemma rollback_branches_moves:
  assumes "rollback_branches conf retrying bs gt s = Some (r, gt', s')"
    and "ok (wld s)" and "synced gv (wld s) (gt_GlobalSession gt)"
  shows "gt_GlobalSession gt' = gt_GlobalSession gt \<and>
    (case r of None \<Rightarrow> quiet gv ok (wld s) (wld s')
     | Some q \<Rightarrow> \<not> fst q \<and>
         moves gv ok (rollback_targets retrying (gs_Status (gt_session (wld s) gt)))
           (gt_GlobalSession gt) (wld s) (wld s'))"
  using assms
proof (induction bs arbitrary: gt s)
  case Nil
  then show ?case by (simp add: quiet_refl)
next
  case (Cons b bs)
  note ok = Cons.prems(2) and g = Cons.prems(3)
  let ?T = "rollback_targets retrying (gs_Status (gt_session (wld s) gt))"
  have self: "moves gv ok ?T (gt_GlobalSession gt) (wld s) w" if "quiet gv ok (wld s) w" for w
    using that g by (auto intro!: quiet_moves_self simp: rollback_targets_def gt_session_def)
  have drop: ?case if w1: "wld s1 = wld s" and d: "drop_branch conf gt b s1 = Some (e, s2)"
    and e: "if e = None then rollback_branches conf retrying bs (gt_Remove gt b) s2 = Some (r, gt', s')
            else r = Some (False, e) \<and> gt' = gt_Remove gt b \<and> s' = s2" for s1 e s2
  proof -
    have q: "quiet gv ok (wld s) (wld s2)" using drop_branch_quiet [OF _ d] ok w1 by simp
    show ?thesis
    proof (cases e)
      case None
      with e have "rollback_branches conf retrying bs (gt_Remove gt b) s2 = Some (r, gt', s')" by simp
      from Cons.IH [OF this quiet_ok [OF q]] quiet_synced [OF q g] q g show ?thesis
        by (auto simp: synced_obj gt_session_def split: option.splits intro: quiet_trans quiet_moves)
    qed (use e self [OF q] in simp)
  qed
  from Cons.prems(1) show ?case
  proof (cases rule: rollback_branches_ConsE)
    case (failed_phase_one e s2)
    then show ?thesis using drop [of s] by blast
  next
    case (dropped s1 e s2)
    then show ?thesis using drop [of s1] branchRollback_wld [OF dropped(2)] by blast
  next
    case (kept e o1 s1)
    then show ?thesis using self [OF quiet_refl] branchRollback_wld [OF kept(1)] ok by simp
  next
    case (retry e o1 s1 r2)
    note w1 = branchRollback_wld [OF retry(1)]
    from retry w1 update_then_moves [of s1 gt, OF _ _ retry(5)] ok g show ?thesis
      by (auto intro: moves_mono simp: rollback_targets_def timeout_or_def IsTimeoutGlobalStatus_def
          dest: update_then_fst)
  next
    case (finished o1 s1 r2)
    note w1 = branchRollback_wld [OF finished(1)]
    from finished w1 finish_global_moves(1) [of s1 gt, OF _ _ finished(4)] ok g show ?thesis
      by (auto intro: moves_mono simp: rollback_targets_def timeout_or_def IsTimeoutGlobalStatus_def
          dest: finish_global_fst)
  qed
qed

lemma doGlobalRollback_moves:
  assumes "doGlobalRollback conf now gt retrying s = Some (r, s')"
    and ok: "ok (wld s)" and g: "synced gv (wld s) (gt_GlobalSession gt)"
  shows "moves gv ok (rollback_targets retrying (gs_Status (gt_session (wld s) gt)))
           (gt_GlobalSession gt) (wld s) (wld s') \<and>
         (fst r \<longrightarrow> gv (wld s') (gs_XID (gt_session (wld s) gt)) = None)"
proof -
  let ?g = "gt_GlobalSession gt" and ?T = "rollback_targets retrying (gs_Status (gt_session (wld s) gt))"
  have self: "moves gv ok ?T ?g (wld s) w" if "quiet gv ok (wld s) w" for w
    using that g by (auto intro!: quiet_moves_self simp: rollback_targets_def gt_session_def)
  note loop = rollback_branches_moves [of retrying _ gt "spawn_event ?g 0 s", simplified, OF _ ok g]
  from assms(1) show ?thesis
  proof (cases rule: doGlobalRollbackE)
    case saga
    then show ?thesis using self [OF quiet_refl] ok by simp
  next
    case (stopped gt1)
    then show ?thesis using loop by fastforce
  next
    case (left gt1 s1 gx)
    from loop [OF left(2)] have q1: "quiet gv ok (wld s) (wld s1)" by simp
    from find_transaction(1) [OF quiet_ok [OF q1]] on_wldD [OF left(3)]
    have "quiet gv ok (wld s) (wld s')" using q1 by (auto intro: quiet_trans)
    then show ?thesis using self left(5) by simp
  next
    case (finished gt1 s1 gs s2 s3)
    from loop [OF finished(2)] have q1: "quiet gv ok (wld s) (wld s1)" and g1: "gt_GlobalSession gt1 = ?g"
      by simp_all
    from find_transaction(1) [OF quiet_ok [OF q1]] on_wldD [OF finished(3)]
    have q2: "quiet gv ok (wld s) (wld s2)" using q1 by (auto intro: quiet_trans)
    note fm = finish_global_moves [OF quiet_ok [OF q2] _ finished(5), unfolded g1 gt_session_def,
        OF quiet_synced [OF q2 g]]
    show ?thesis
      using quiet_moves [OF q2 g fm(1)] fm(2) finished(6) synced_obj [OF q2 g]
      by (auto simp: gt_session_def rollback_targets_def timeout_or_def IsTimeoutGlobalStatus_def g1
          intro: moves_mono)
  qed
qed

subsection \<open>Closing a session and deciding\<close>

lemma close_session:
  assumes ok: "ok (wld s)" and g: "synced gv (wld s) g"
    and c: "(if gs_Active (gobj (wld s) g) then on_wld (InactiveGlobalSession sm g) s else (None, s)) = (e, s1)"
  shows "evolves gv ok (wld s) (wld s1)" and "near gv ok (gs_XID (gobj (wld s) g)) (wld s) (wld s1)"
    and "e = None \<Longrightarrow> synced gv (wld s1) g \<and> gobj (wld s1) g = (gobj (wld s) g)\<lparr>gs_Active := False\<rparr>"
proof -
  have "evolves gv ok (wld s) (wld s1) \<and> near gv ok (gs_XID (gobj (wld s) g)) (wld s) (wld s1) \<and>
    (e = None \<longrightarrow> synced gv (wld s1) g \<and> gobj (wld s1) g = (gobj (wld s) g)\<lparr>gs_Active := False\<rparr>)"
  proof (cases "gs_Active (gobj (wld s) g)")
    case True
    with c have "InactiveGlobalSession sm g (wld s) = (e, wld s1)" by (auto dest: on_wldD)
    note m = inactive [OF ok g this]
    show ?thesis using m modifies_synced [of gv ok g _ "wld s" "wld s1"] g modifies_evolves [OF m g]
      by (auto simp: modifies_def)
  next
    case False
    with c ok g show ?thesis by (auto simp: near_refl evolves_refl)
  qed
  then show "evolves gv ok (wld s) (wld s1)" and "near gv ok (gs_XID (gobj (wld s) g)) (wld s) (wld s1)"
    and "e = None \<Longrightarrow> synced gv (wld s1) g \<and> gobj (wld s1) g = (gobj (wld s) g)\<lparr>gs_Active := False\<rparr>"
    by blast+
qed

text \<open>A status change along the graph, of a closed session.\<close>

lemma change_status:
  assumes ok: "ok (wld s)" and g: "synced gv (wld s) g"
    and u: "on_wld (UpdateGlobalSessionStatus sm g st) s = (e, s1)"
    and "status_step (gs_Status (gobj (wld s) g)) st" and "\<not> gs_Active (gobj (wld s) g)"
  shows "evolves gv ok (wld s) (wld s1)" and "near gv ok (gs_XID (gobj (wld s) g)) (wld s) (wld s1)"
    and "e = None \<Longrightarrow> synced gv (wld s1) g \<and> gobj (wld s1) g = (gobj (wld s) g)\<lparr>gs_Status := st\<rparr>"
proof -
  note m = update_status [OF ok g on_wldD [OF u]]
  show "evolves gv ok (wld s) (wld s1)"
    using modifies_evolves [OF m g] session_le_status [of "gobj (wld s) g" st] assms(4,5) by simp
  show "near gv ok (gs_XID (gobj (wld s) g)) (wld s) (wld s1)" using m by (simp add: modifies_def)
  show "synced gv (wld s1) g \<and> gobj (wld s1) g = (gobj (wld s) g)\<lparr>gs_Status := st\<rparr>" if "e = None"
    using m that modifies_synced [of gv ok g _ "wld s" "wld s1"] g by (auto simp: modifies_def)
qed

lemma commit_decision_evolves:
  assumes ok: "ok (wld s)" and g: "synced gv (wld s) (gt_GlobalSession gt)"
    and d: "commit_decision conf xid gt s = Some ((r, e), s')"
  shows "evolves gv ok (wld s) (wld s')"
    and "r \<Longrightarrow> e = None \<Longrightarrow> synced gv (wld s') (gt_GlobalSession gt) \<and>
      gs_Status (gt_session (wld s) gt) = Begin \<and>
      gt_session (wld s') gt = (gt_session (wld s) gt)\<lparr>gs_Status := Committing, gs_Active := False\<rparr>"
proof -
  let ?g = "gt_GlobalSession gt"
  obtain e1 s1 where 1: "(if gs_Active (gobj (wld s) ?g) then on_wld (InactiveGlobalSession sm ?g) s else (None, s)) = (e1, s1)"
    by fastforce
  note c = close_session [OF ok g 1]
  have "evolves gv ok (wld s) (wld s') \<and> (r \<longrightarrow> e = None \<longrightarrow> synced gv (wld s') ?g \<and>
      gs_Status (gt_session (wld s) gt) = Begin \<and>
      gt_session (wld s') gt = (gt_session (wld s) gt)\<lparr>gs_Status := Committing, gs_Active := False\<rparr>)"
  proof (cases e1)
    case (Some err)
    with d 1 c(1) show ?thesis
      by (simp add: commit_decision_eq [of conf, unfolded conf_holder conf_locks, OF conf_locker 1])
  next
    case None
    note g1 = c(3) [OF None]
    from d 1 None obtain r2 s2 where 2: "on_wld_opt (ReleaseGlobalSessionLock lm gt) s1 = Some (r2, s2)"
      and r: "(if gs_Status (gt_session (wld s2) gt) = Begin then update_then conf gt Committing (True, None) s2
               else ((False, None), s2)) = ((r, e), s')"
      by (auto simp: commit_decision_eq [of conf, unfolded conf_holder conf_locks, OF conf_locker 1] gt_session_def
          elim!: bind_eq_Some_pairE split: prod.splits)
    have ok1: "ok (wld s1)" using c(2) by (rule near_ok)
    note q = ReleaseGlobalSessionLock_quiet [OF ok1 on_wld_optD [OF 2]]
    have g2: "synced gv (wld s2) ?g" "gobj (wld s2) ?g = (gobj (wld s) ?g)\<lparr>gs_Active := False\<rparr>"
      using quiet_synced [OF q] synced_obj [OF q] g1 by auto
    have ev: "evolves gv ok (wld s) (wld s2)" using c(1) quiet_evolves [OF q] by (rule evolves_trans)
    show ?thesis
    proof (cases "gs_Status (gobj (wld s2) ?g) = Begin")
      case True
      obtain e3 s3 where 3: "on_wld (UpdateGlobalSessionStatus sm ?g Committing) s2 = (e3, s3)" by fastforce
      note u = change_status [OF quiet_ok [OF q] g2(1) 3]
      from r True 3 have "s' = s3" and "r \<and> e = None \<longrightarrow> e3 = None"
        by (auto simp: update_then_def gt_session_def split: option.splits)
      with True u g2 evolves_trans [OF ev] show ?thesis by (auto simp: gt_session_def)
    next
      case False
      with r ev show ?thesis by (simp add: gt_session_def)
    qed
  qed
  then show "evolves gv ok (wld s) (wld s')"
    and "r \<Longrightarrow> e = None \<Longrightarrow> synced gv (wld s') ?g \<and> gs_Status (gt_session (wld s) gt) = Begin \<and>
      gt_session (wld s') gt = (gt_session (wld s) gt)\<lparr>gs_Status := Committing, gs_Active := False\<rparr>"
    by blast+
qed

lemma rollback_decision_evolves:
  assumes ok: "ok (wld s)" and g: "synced gv (wld s) (gt_GlobalSession gt)"
    and d: "rollback_decision conf xid gt s = ((r, e), s')"
  shows "evolves gv ok (wld s) (wld s')"
    and "r \<Longrightarrow> e = None \<Longrightarrow> synced gv (wld s') (gt_GlobalSession gt) \<and>
      gs_Status (gt_session (wld s) gt) = Begin \<and>
      gt_session (wld s') gt = (gt_session (wld s) gt)\<lparr>gs_Status := RollingBack, gs_Active := False\<rparr>"
proof -
  let ?g = "gt_GlobalSession gt"
  obtain e1 s1 where 1: "(if gs_Active (gobj (wld s) ?g) then on_wld (InactiveGlobalSession sm ?g) s else (None, s)) = (e1, s1)"
    by fastforce
  note c = close_session [OF ok g 1]
  note d' = d [unfolded rollback_decision_eq [of conf, unfolded conf_holder conf_locks, OF conf_locker 1]]
  have "evolves gv ok (wld s) (wld s') \<and> (r \<longrightarrow> e = None \<longrightarrow> synced gv (wld s') ?g \<and>
      gs_Status (gt_session (wld s) gt) = Begin \<and>
      gt_session (wld s') gt = (gt_session (wld s) gt)\<lparr>gs_Status := RollingBack, gs_Active := False\<rparr>)"
  proof (cases "e1 = None \<and> gs_Status (gobj (wld s1) ?g) = Begin")
    case True
    obtain e3 s3 where 3: "on_wld (UpdateGlobalSessionStatus sm ?g RollingBack) s1 = (e3, s3)" by fastforce
    have g1: "synced gv (wld s1) ?g" "gobj (wld s1) ?g = (gobj (wld s) ?g)\<lparr>gs_Active := False\<rparr>"
      using c(3) True by auto
    note u = change_status [OF near_ok [OF c(2)] g1(1) 3]
    from d' True 3 have "s' = s3" and "r \<and> e = None \<longrightarrow> e3 = None"
      by (auto simp: update_then_def split: option.splits)
    with True u g1 evolves_trans [OF c(1)] show ?thesis by (auto simp: gt_session_def)
  next
    case False
    with d' c(1) show ?thesis by (auto split: option.splits)
  qed
  then show "evolves gv ok (wld s) (wld s')"
    and "r \<Longrightarrow> e = None \<Longrightarrow> synced gv (wld s') ?g \<and> gs_Status (gt_session (wld s) gt) = Begin \<and>
      gt_session (wld s') gt = (gt_session (wld s) gt)\<lparr>gs_Status := RollingBack, gs_Active := False\<rparr>"
    by blast+
qed

subsection \<open>The handlers\<close>

lemma GetStatus_spec:
  assumes "ok (wld s)" and "tc_GetStatus conf x s = (r, s')"
  shows "quiet gv ok (wld s) (wld s')"
    and "r = Inr (success Finished) \<or> (\<exists>a. gv (wld s) x = Some a \<and> r = Inr (success (gs_Status a)))"
proof -
  obtain g s1 where f: "on_wld (FindGlobalSession sm x) s = (g, s1)" by fastforce
  note q = find_session [OF assms(1) on_wldD [OF f, unfolded FindGlobalSession_def]]
  from assms(2) f q show "quiet gv ok (wld s) (wld s')"
    by (auto simp: tc_GetStatus_def split: option.splits)
  from assms(2) f q show "r = Inr (success Finished) \<or> (\<exists>a. gv (wld s) x = Some a \<and> r = Inr (success (gs_Status a)))"
    by (auto simp: tc_GetStatus_def synced_def quiet_def split: option.splits)
qed

lemma Commit_evolves:
  assumes ok: "ok (wld s)" and c: "tc_Commit conf now x s = Some (r, s')"
  shows "evolves gv ok (wld s) (wld s')"
proof -
  obtain t s1 where f: "on_wld (FindGlobalTransaction sm x) s = (t, s1)" by fastforce
  have q: "quiet gv ok (wld s) (wld s1)" by (rule find_transaction(1) [OF ok on_wldD [OF f]])
  show ?thesis
  proof (cases t)
    case None
    with c f q show ?thesis by (simp add: tc_Commit_def quiet_evolves)
  next
    case (Some gt)
    let ?g = "gt_GlobalSession gt"
    have g: "synced gv (wld s1) ?g" using find_transaction(2) [OF ok on_wldD [OF f] Some] by simp
    from c f Some obtain b e s2 where d: "commit_decision conf x gt s1 = Some ((b, e), s2)"
      by (auto simp: tc_Commit_def split: option.splits prod.splits)
    note cd = commit_decision_evolves [OF quiet_ok [OF q] g d]
    have ev: "evolves gv ok (wld s) (wld s2)" using quiet_evolves [OF q] cd(1) by (rule evolves_trans)
    show ?thesis
    proof (cases "b \<and> e = None")
      case True
      have g2: "synced gv (wld s2) ?g" and st: "gs_Status (gobj (wld s2) ?g) = Committing"
        and ac: "\<not> gs_Active (gobj (wld s2) ?g)"
        using cd(2) True by (auto simp: gt_session_def)
      obtain e3 s3 where 3: "on_wld (UpdateGlobalSessionStatus sm ?g AsyncCommitting) s2 = (e3, s3)" by fastforce
      have ev3: "evolves gv ok (wld s2) (wld s3)" using change_status(1) [OF evolves_ok [OF ev] g2 3] st ac by simp
      have ev4: "evolves gv ok (wld s2) (wld s4)" if "doGlobalCommit conf now gt False s2 = Some (r4, s4)" for r4 s4
        using moves_evolves [OF _ g2 _ ac] doGlobalCommit_moves [OF that evolves_ok [OF ev] g2] st
        by (auto simp: commit_targets_def gt_session_def)
      from c f Some d True 3 consider "s' = s3" | r4 where "doGlobalCommit conf now gt False s2 = Some (r4, s')"
        by (auto simp: tc_Commit_def split: if_splits option.splits)
      then show ?thesis using ev3 ev4 evolves_trans [OF ev] by cases auto
    next
      case False
      with c f Some d have "s' = s2" by (auto simp: tc_Commit_def split: if_splits option.splits)
      with ev show ?thesis by simp
    qed
  qed
qed

lemma Rollback_evolves:
  assumes ok: "ok (wld s)" and c: "tc_Rollback conf now x s = Some (r, s')"
  shows "evolves gv ok (wld s) (wld s')"
proof -
  obtain t s1 where f: "on_wld (FindGlobalTransaction sm x) s = (t, s1)" by fastforce
  have q: "quiet gv ok (wld s) (wld s1)" by (rule find_transaction(1) [OF ok on_wldD [OF f]])
  show ?thesis
  proof (cases t)
    case None
    with c f q show ?thesis by (simp add: tc_Rollback_def quiet_evolves)
  next
    case (Some gt)
    let ?g = "gt_GlobalSession gt"
    have g: "synced gv (wld s1) ?g" using find_transaction(2) [OF ok on_wldD [OF f] Some] by simp
    obtain b e s2 where d: "rollback_decision conf x gt s1 = ((b, e), s2)" by (metis prod.exhaust)
    note cd = rollback_decision_evolves [OF quiet_ok [OF q] g d]
    have ev: "evolves gv ok (wld s) (wld s2)" using quiet_evolves [OF q] cd(1) by (rule evolves_trans)
    show ?thesis
    proof (cases "b \<and> e = None")
      case True
      have g2: "synced gv (wld s2) ?g" and st: "gs_Status (gobj (wld s2) ?g) = RollingBack"
        and ac: "\<not> gs_Active (gobj (wld s2) ?g)"
        using cd(2) True by (auto simp: gt_session_def)
      from c f Some d True obtain r4 where "doGlobalRollback conf now gt False s2 = Some (r4, s')"
        by (auto simp: tc_Rollback_def split: option.splits)
      from moves_evolves [OF _ g2 _ ac] doGlobalRollback_moves [OF this evolves_ok [OF ev] g2] st
      have "evolves gv ok (wld s2) (wld s')"
        by (auto simp: rollback_targets_def timeout_status_def gt_session_def)
      with ev show ?thesis by (rule evolves_trans)
    next
      case False
      with c f Some d have "s' = s2" by (auto simp: tc_Rollback_def split: option.splits)
      with ev show ?thesis by simp
    qed
  qed
qed

lemma register_branch_quiet:
  assumes ok: "ok (wld s)" and r: "register_branch conf rq gt s = Some (r, s')"
  shows "quiet gv ok (wld s) (wld s')"
proof -
  obtain i s1 where 1: "next_id s = (i, s1)" by fastforce
  obtain b s2 where 2: "on_wld (new_bs (branch_of_request rq (gs_TransactionID (gt_session (wld s1) gt)) i)) s1 = (b, s2)"
    by fastforce
  have q2: "quiet gv ok (wld s) (wld s2)"
    using new_branch [OF ok] on_wldD [OF 2] next_id_wld [OF 1] by (metis snd_conv)
  from r 1 2 obtain res s3 where 3: "(if bs_Type (bobj (wld s2) b) = AT
        then on_wld_opt (AcquireLock (decode conf) lm (Some b)) s2 else Some (True, s2)) = Some (res, s3)"
    and 4: "s' = s3 \<or> (\<exists>e. on_wld (AddBranchSession sm (gt_GlobalSession gt) b) s3 = (e, s'))"
    by (auto simp: register_branch_def Let_def elim!: bind_eq_Some_pairE
        split: prod.splits if_splits option.splits)
  have q3: "quiet gv ok (wld s2) (wld s3)"
    using 3 q2 by (auto simp: quiet_refl quiet_ok split: if_splits dest!: on_wld_optD intro: AcquireLock_quiet)
  have "quiet gv ok (wld s3) (wld s')"
    using 4 q3 by (auto simp: AddBranchSession_def quiet_refl quiet_ok dest!: on_wldD intro: add_branch)
  with q2 q3 show ?thesis by (blast intro: quiet_trans)
qed

lemma BranchRegister_spec:
  assumes ok: "ok (wld s)" and c: "tc_BranchRegister conf rq s = Some (r, s')"
  shows "quiet gv ok (wld s) (wld s')"
    and "brp_ResultCode r = ResultCodeSuccess \<Longrightarrow>
      \<exists>a. gv (wld s) (brq_XID rq) = Some a \<and> gs_Active a \<and> gs_Status a = Begin"
proof -
  obtain t s1 where f: "on_wld (FindGlobalTransaction sm (brq_XID rq)) s = (t, s1)" by fastforce
  have q: "quiet gv ok (wld s) (wld s1)" by (rule find_transaction(1) [OF ok on_wldD [OF f]])
  have "quiet gv ok (wld s) (wld s') \<and> (brp_ResultCode r = ResultCodeSuccess \<longrightarrow>
      (\<exists>a. gv (wld s) (brq_XID rq) = Some a \<and> gs_Active a \<and> gs_Status a = Begin))"
  proof (cases t)
    case None
    with c f q show ?thesis by (auto simp: tc_BranchRegister_def register_failed_def)
  next
    case (Some gt)
    let ?a = "gobj (wld s1) (gt_GlobalSession gt)"
    have a: "gv (wld s) (brq_XID rq) = Some ?a"
      using find_transaction(2) [OF ok on_wldD [OF f] Some] q by (auto simp: synced_def gt_session_def quiet_def)
    show ?thesis
    proof (cases "gs_Active ?a \<and> gs_Status ?a = Begin")
      case True
      with c f Some obtain r1 where "register_branch conf rq gt s1 = Some (r1, s')"
        by (auto simp: tc_BranchRegister_def on_wld_def [of "gl_TryLock _ _ _"] Let_def gt_session_def)
      from register_branch_quiet [OF quiet_ok [OF q] this] q a True show ?thesis by (blast intro: quiet_trans)
    next
      case False
      with c f Some q show ?thesis
        by (auto simp: tc_BranchRegister_def on_wld_def [of "gl_TryLock _ _ _"] Let_def gt_session_def
            register_failed_def split: if_splits)
    qed
  qed
  then show "quiet gv ok (wld s) (wld s')" and "brp_ResultCode r = ResultCodeSuccess \<Longrightarrow>
      \<exists>a. gv (wld s) (brq_XID rq) = Some a \<and> gs_Active a \<and> gs_Status a = Begin" by blast+
qed

lemma BranchReport_quiet:
  assumes ok: "ok (wld s)" and c: "tc_BranchReport conf rq s = (r, s')"
  shows "quiet gv ok (wld s) (wld s')"
proof -
  obtain t s1 where f: "on_wld (FindGlobalTransaction sm (btq_XID rq)) s = (t, s1)" by fastforce
  have q: "quiet gv ok (wld s) (wld s1)" by (rule find_transaction(1) [OF ok on_wldD [OF f]])
  from c f consider "s' = s1" | b st e where "on_wld (UpdateBranchSessionStatus sm b st) s1 = (e, s')"
    by (auto simp: tc_BranchReport_def split: option.splits prod.splits)
  then show ?thesis
  proof cases
    case 2
    have "quiet gv ok (wld s1) (wld s')"
      using on_wldD [OF 2] quiet_ok [OF q] by (auto simp: UpdateBranchSessionStatus_def intro: update_branch)
    with q show ?thesis by (rule quiet_trans)
  qed (use q in simp)
qed

lemma LockQuery_quiet:
  assumes "ok (wld s)" and "tc_LockQuery conf rq s = Some (r, s')"
  shows "quiet gv ok (wld s) (wld s')"
  using assms by (auto simp: tc_LockQuery_def elim!: bind_eq_Some_pairE dest!: on_wld_optD intro: IsLockable_quiet)

lemma Begin_spec:
  assumes ok: "ok (wld s)" and c: "tc_Begin conf now rq s = (r, s')"
    and x: "x = GenerateXID (gbq_Addressing rq) (fst (NextID (uuid s)))"
    and a: "a = \<lparr>gs_Addressing = gbq_Addressing rq, gs_XID = x, gs_TransactionID = fst (NextID (uuid s)),
              gs_TransactionName = gbq_TransactionName rq, gs_Timeout = gbq_Timeout rq,
              gs_BeginTime = now, gs_Status = Begin, gs_Active = True\<rparr>"
  shows "near gv ok x (wld s) (wld s')"
    and "gv (wld s') x = Some a \<or> gv (wld s') x = gv (wld s) x \<and> (\<exists>p. r = Inr p \<and> gbp_ResultCode p = ResultCodeFailed)"
    and "r = Inr p \<Longrightarrow> gbp_ResultCode p = ResultCodeSuccess \<Longrightarrow> gbp_XID p = x"
proof -
  obtain g s2 where 2: "on_wld (new_gs (a\<lparr>gs_BeginTime := 0, gs_Status := UnknownGlobalStatus, gs_Active := False\<rparr>))
      (snd (next_id s)) = (g, s2)" by fastforce
  define w3 where "w3 = gt_Begin now \<lparr>gt_GlobalSession = g, gt_BranchSessions = []\<rparr> (wld s2)"
  obtain e s4 where 4: "on_wld (AddGlobalSession sm g) (s2\<lparr>wld := w3\<rparr>) = (e, s4)" by fastforce
  have s': "wld s' = wld s4" and r: "r = (case e of
      Some err \<Rightarrow> Inr \<lparr>gbp_ResultCode = ResultCodeFailed, gbp_ExceptionCode = BeginFailed,
                   gbp_Message = errText conf err, gbp_XID = []\<rparr>
    | None \<Rightarrow> Inr \<lparr>gbp_ResultCode = ResultCodeSuccess, gbp_ExceptionCode = zero_code, gbp_Message = [], gbp_XID = x\<rparr>)"
    using c 2 4 by (auto simp: tc_Begin_def Let_def x a w3_def next_id_def split: prod.splits option.splits)
  have w2: "new_gs (a\<lparr>gs_BeginTime := 0, gs_Status := UnknownGlobalStatus, gs_Active := False\<rparr>) (wld s) = (g, wld s2)"
    using on_wldD [OF 2] by (simp add: next_id_def split: prod.splits)
  then have e: "g = gtop (wld s)" and "wld s2 = snd (new_gs
      (a\<lparr>gs_BeginTime := 0, gs_Status := UnknownGlobalStatus, gs_Active := False\<rparr>) (wld s))"
    by (auto simp: new_gs_def)
  then have g: "g = gtop (wld s)" "w3 = snd (new_gs a (wld s))"
    by (simp_all add: new_gs_def w3_def gt_Begin_def set_gs_def a)
  have q: "quiet gv ok (wld s) w3" using new_session [OF ok] g(2) by simp
  have m: "modifies gv ok g (\<lambda>s. s) w3 e (wld s4)" and go: "gobj w3 g = a" "gs_XID a = x"
    using add_session [OF quiet_ok [OF q]] on_wldD [OF 4] g by (auto simp: AddGlobalSession_def new_gs_def a)
  show "near gv ok x (wld s) (wld s')" using near_trans [OF quiet_near [OF q]] m s' go by (simp add: modifies_def)
  show "gv (wld s') x = Some a \<or> gv (wld s') x = gv (wld s) x \<and> (\<exists>p. r = Inr p \<and> gbp_ResultCode p = ResultCodeFailed)"
    using m s' go r q by (cases e) (auto simp: modifies_def quiet_def)
  show "gbp_XID p = x" if "r = Inr p" "gbp_ResultCode p = ResultCodeSuccess"
    using r that by (cases e) auto
qed

subsection \<open>The background passes\<close>

lemma timeout_sessions_evolves:
  assumes "ok (wld s)" and "handles gv (wld s) gs" and "\<forall>g \<in> set gs. gs_Status (gobj (wld s) g) = Begin"
  shows "evolves gv ok (wld s) (wld (timeout_sessions conf now gs s))"
  using assms
proof (induction gs arbitrary: s)
  case Nil
  then show ?case by (simp add: evolves_refl)
next
  case (Cons g gs)
  have g: "synced gv (wld s) g" and hs: "handles gv (wld s) gs"
    and ne: "\<forall>h \<in> set gs. gs_XID (gobj (wld s) h) \<noteq> gs_XID (gobj (wld s) g)" using Cons.prems(2) by auto
  show ?case
  proof (cases "isGlobalSessionTimeout now (gobj (wld s) g)")
    case False
    with Cons show ?thesis by simp
  next
    case True
    obtain e1 s1 where 1: "(if gs_Active (gobj (wld s) g) then on_wld (InactiveGlobalSession sm g) s else (None, s)) = (e1, s1)"
      by fastforce
    note c = close_session [OF Cons.prems(1) g 1]
    note eq = timeout_sessions_eq [of conf, unfolded conf_holder, OF conf_locker True 1, of gs]
    show ?thesis
    proof (cases e1)
      case (Some err)
      with eq c(1) show ?thesis by simp
    next
      case None
      note e1 = this
      obtain e2 s2 where 2: "on_wld (UpdateGlobalSessionStatus sm g TimeoutRollingBack) s1 = (e2, s2)" by fastforce
      note g1 = c(3) [OF e1]
      note u = change_status [OF near_ok [OF c(2)] conjunct1 [OF g1] 2]
      have ev: "evolves gv ok (wld s) (wld s2)"
        using evolves_trans [OF c(1) u(1)] g1 Cons.prems(3) by simp
      have n: "near gv ok (gs_XID (gobj (wld s) g)) (wld s) (wld s2)"
        using near_trans [OF c(2)] u(2) g1 Cons.prems(3) by simp
      note h = handles_near [OF n hs ne]
      have w3: "wld (publish_event g 0 s2) = wld s2" by (simp add: publish_event_def)
      have "evolves gv ok (wld (publish_event g 0 s2)) (wld (timeout_sessions conf now gs (publish_event g 0 s2)))"
        by (rule Cons.IH) (use w3 h Cons.prems(3) evolves_ok [OF ev] in auto)
      with w3 have "evolves gv ok (wld s) (wld (timeout_sessions conf now gs (publish_event g 0 s2)))"
        using evolves_trans [OF ev] by simp
      with eq e1 2 ev show ?thesis by (auto split: option.split)
    qed
  qed
qed

lemma timeoutCheck_evolves:
  assumes ok: "ok (wld s)"
  shows "evolves gv ok (wld s) (wld (timeoutCheck conf now s))"
proof -
  obtain gs s1 where f: "on_wld (FindGlobalSessions sm [Begin]) s = (gs, s1)" by fastforce
  note q = find_sessions [OF ok on_wldD [OF f, unfolded FindGlobalSessions_def]]
  then have "evolves gv ok (wld s1) (wld (timeout_sessions conf now gs s1))"
    by (intro timeout_sessions_evolves) (auto dest: quiet_ok)
  with q f show ?thesis by (auto simp: timeoutCheck_def intro: evolves_trans quiet_evolves)
qed

lemma retry_rollback_evolves:
  assumes "doGlobalRollback conf now gt True s = Some (r, s')" and "ok (wld s)"
    and g: "synced gv (wld s) (gt_GlobalSession gt)"
    and st: "gs_Status (gt_session (wld s) gt) \<in> set retry_rollback_statuses"
    and "closed_store gv (wld s)"
  shows "evolves gv ok (wld s) (wld s')"
proof (rule moves_evolves [OF conjunct1 [OF doGlobalRollback_moves [OF assms(1-3)]] g])
  show "\<not> gs_Active (gobj (wld s) (gt_GlobalSession gt))"
    by (rule closed_synced [OF assms(5) g]) (use st in \<open>auto simp: retry_rollback_statuses_def gt_session_def\<close>)
qed (use st in \<open>auto simp: retry_rollback_statuses_def rollback_targets_def timeout_status_def gt_session_def\<close>)

lemma retry_commit_evolves:
  assumes "doGlobalCommit conf now gt True s = Some (r, s')" and "ok (wld s)"
    and g: "synced gv (wld s) (gt_GlobalSession gt)"
    and st: "gs_Status (gt_session (wld s) gt) \<in> {CommitRetrying, AsyncCommitting}"
    and "closed_store gv (wld s)"
  shows "evolves gv ok (wld s) (wld s')"
proof (rule moves_evolves [OF conjunct1 [OF doGlobalCommit_moves [OF assms(1-3)]] g])
  show "\<not> gs_Active (gobj (wld s) (gt_GlobalSession gt))"
    by (rule closed_synced [OF assms(5) g]) (use st in \<open>auto simp: gt_session_def\<close>)
qed (use st in \<open>auto simp: commit_targets_def gt_session_def\<close>)

lemma rest_near:
  assumes "near gv ok (gs_XID (gobj w (gt_GlobalSession t))) w w'"
    and "handles gv w (map gt_GlobalSession (t # ts))"
    and "\<forall>u \<in> set ts. P (gs_Status (gt_session w u))"
  shows "handles gv w' (map gt_GlobalSession ts)" and "\<forall>u \<in> set ts. P (gs_Status (gt_session w' u))"
proof -
  have h: "handles gv w (map gt_GlobalSession ts)"
    and ne: "\<forall>h \<in> set (map gt_GlobalSession ts). gs_XID (gobj w h) \<noteq> gs_XID (gobj w (gt_GlobalSession t))"
    using assms(2) by auto
  note n = handles_near [OF assms(1) h ne]
  show "handles gv w' (map gt_GlobalSession ts)" by (rule n(1))
  show "\<forall>u \<in> set ts. P (gs_Status (gt_session w' u))" using n(2) assms(3) by (simp add: gt_session_def)
qed

lemma give_up:
  assumes ok: "ok (wld s)" and g: "synced gv (wld s) (gt_GlobalSession t)"
  shows "evolves gv ok (wld s) (wld (snd (on_wld (RemoveGlobalTransaction sm t) s)))"
    and "near gv ok (gs_XID (gobj (wld s) (gt_GlobalSession t))) (wld s)
           (wld (snd (on_wld (RemoveGlobalTransaction sm t) s)))"
proof -
  obtain e s1 where r: "on_wld (RemoveGlobalTransaction sm t) s = (e, s1)" by fastforce
  note m = remove_transaction [OF ok g refl on_wldD [OF r]]
  show "near gv ok (gs_XID (gobj (wld s) (gt_GlobalSession t))) (wld s)
           (wld (snd (on_wld (RemoveGlobalTransaction sm t) s)))" using m(1) r by simp
  have "stored_le (gv (wld s) x) (gv (wld s1) x)" for x
    using m g by (cases "x = gs_XID (gobj (wld s) (gt_GlobalSession t))") (auto simp: near_def synced_def)
  then show "evolves gv ok (wld s) (wld (snd (on_wld (RemoveGlobalTransaction sm t) s)))"
    using near_ok [OF m(1)] r by (simp add: evolves_def)
qed

lemma retry_rollbacks_evolves:
  assumes "retry_rollbacks conf now ts s = Some s'" and "ok (wld s)" and "closed_store gv (wld s)"
    and "handles gv (wld s) (map gt_GlobalSession ts)"
    and "\<forall>t \<in> set ts. gs_Status (gt_session (wld s) t) \<in> set retry_rollback_statuses"
  shows "evolves gv ok (wld s) (wld s')"
  using assms
proof (induction ts arbitrary: s)
  case Nil
  then show ?case by (simp add: evolves_refl)
next
  case (Cons t ts)
  let ?w = "wld s"
  have g: "synced gv ?w (gt_GlobalSession t)" using Cons.prems(4) by simp
  have rec: ?case if "retry_rollbacks conf now ts s1 = Some s'" "evolves gv ok ?w (wld s1)"
    "near gv ok (gs_XID (gobj ?w (gt_GlobalSession t))) ?w (wld s1)" for s1
  proof -
    have "\<forall>u \<in> set ts. (\<lambda>st. st \<in> set retry_rollback_statuses) (gs_Status (gt_session ?w u))" using Cons.prems(5) by simp
    note r = rest_near [OF that(3) Cons.prems(4) this]
    show ?thesis
      by (rule evolves_trans [OF that(2) Cons.IH [OF that(1) evolves_ok [OF that(2)]
            evolves_closed [OF that(2) Cons.prems(3)] r]])
  qed
  from Cons.prems(1) show ?case
  proof (cases rule: retry_rollbacks_ConsE)
    case skip
    then show ?thesis using rec [of s] Cons.prems(2) by (simp add: evolves_refl near_refl)
  next
    case (gone r s1)
    have q: "quiet gv ok ?w (wld s1)"
      using gone(2) Cons.prems(2) by (auto simp: quiet_refl split: if_splits
          dest!: on_wld_optD intro: ReleaseGlobalSessionLock_quiet)
    note u = give_up [OF quiet_ok [OF q] quiet_synced [OF q g]]
    show ?thesis
      using rec [OF gone(3) [simplified] evolves_trans [OF quiet_evolves [OF q] u(1)]
          near_trans [OF quiet_near [OF q]]] u(2) synced_obj [OF q g] by simp
  next
    case (redo r s1)
    show ?thesis
      using rec [OF redo(2)] retry_rollback_evolves [OF redo(1) Cons.prems(2) g _ Cons.prems(3)]
        moves_near [OF conjunct1 [OF doGlobalRollback_moves [OF redo(1) Cons.prems(2) g]]] Cons.prems(5)
      by simp
  qed
qed

lemma retry_commits_evolves:
  assumes "retry_commits conf now ts s = Some s'" and "ok (wld s)" and "closed_store gv (wld s)"
    and "handles gv (wld s) (map gt_GlobalSession ts)"
    and "\<forall>t \<in> set ts. gs_Status (gt_session (wld s) t) = CommitRetrying"
  shows "evolves gv ok (wld s) (wld s')"
  using assms
proof (induction ts arbitrary: s)
  case Nil
  then show ?case by (simp add: evolves_refl)
next
  case (Cons t ts)
  let ?w = "wld s"
  have g: "synced gv ?w (gt_GlobalSession t)" using Cons.prems(4) by simp
  have rec: ?case if "retry_commits conf now ts s1 = Some s'" "evolves gv ok ?w (wld s1)"
    "near gv ok (gs_XID (gobj ?w (gt_GlobalSession t))) ?w (wld s1)" for s1
  proof -
    have "\<forall>u \<in> set ts. (\<lambda>st. st = CommitRetrying) (gs_Status (gt_session ?w u))" using Cons.prems(5) by simp
    note r = rest_near [OF that(3) Cons.prems(4) this]
    show ?thesis
      by (rule evolves_trans [OF that(2) Cons.IH [OF that(1) evolves_ok [OF that(2)]
            evolves_closed [OF that(2) Cons.prems(3)] r]])
  qed
  from Cons.prems(1) show ?case
  proof (cases rule: retry_commits_ConsE)
    case gone
    show ?thesis by (rule rec [OF gone(2) [simplified] give_up [OF Cons.prems(2) g]])
  next
    case (redo r s1)
    show ?thesis
      using rec [OF redo(2)] retry_commit_evolves [OF redo(1) Cons.prems(2) g _ Cons.prems(3)]
        moves_near [OF conjunct1 [OF doGlobalCommit_moves [OF redo(1) Cons.prems(2) g]]] Cons.prems(5)
      by simp
  qed
qed

lemma async_commits_evolves:
  assumes "async_commits conf now ts s = Some s'" and "ok (wld s)" and "closed_store gv (wld s)"
    and "handles gv (wld s) (map gt_GlobalSession ts)"
  shows "evolves gv ok (wld s) (wld s')"
  using assms
proof (induction ts arbitrary: s)
  case Nil
  then show ?case by (simp add: evolves_refl)
next
  case (Cons t ts)
  let ?w = "wld s"
  have g: "synced gv ?w (gt_GlobalSession t)" using Cons.prems(4) by simp
  have rec: ?case if "async_commits conf now ts s1 = Some s'" "evolves gv ok ?w (wld s1)"
    "near gv ok (gs_XID (gobj ?w (gt_GlobalSession t))) ?w (wld s1)" for s1
    by (rule evolves_trans [OF that(2) Cons.IH [OF that(1) evolves_ok [OF that(2)]
          evolves_closed [OF that(2) Cons.prems(3)] rest_near(1) [OF that(3) Cons.prems(4), of "\<lambda>_. True"]]]) simp
  from Cons.prems(1) show ?case
  proof (cases rule: async_commits_ConsE)
    case skip
    then show ?thesis using rec [of s] Cons.prems(2) by (simp add: evolves_refl near_refl)
  next
    case (redo r s1)
    show ?thesis
      using rec [OF redo(3)] retry_commit_evolves [OF redo(2) Cons.prems(2) g _ Cons.prems(3)]
        moves_near [OF conjunct1 [OF doGlobalCommit_moves [OF redo(2) Cons.prems(2) g]]] redo(1)
      by simp
  qed
qed

text \<open>The three passes that query by status and address.\<close>

lemma retry_passes_evolve:
  assumes ok: "ok (wld s)" and cl: "closed_store gv (wld s)"
  shows "handleRetryRollingBack conf now s = Some s' \<Longrightarrow> evolves gv ok (wld s) (wld s')"
    and "handleRetryCommitting conf now s = Some s' \<Longrightarrow> evolves gv ok (wld s) (wld s')"
    and "handleAsyncCommitting conf now s = Some s' \<Longrightarrow> evolves gv ok (wld s) (wld s')"
proof -
  let ?ads = "getAddressingIdentities s"
  have found: "quiet gv ok (wld s) (wld s1) \<and> handles gv (wld s1) (map gt_GlobalSession ts) \<and>
      (\<forall>t \<in> set ts. gs_Status (gt_session (wld s1) t) \<in> set sts) \<and> ok (wld s1) \<and> closed_store gv (wld s1)"
    if "on_wld (findGlobalTransactionsWithAddressingIdentities sm sts ?ads) s = (ts, s1)" for sts ts s1
    using find_transactions [OF ok on_wldD [OF that]] evolves_closed [OF quiet_evolves cl] by (auto dest: quiet_ok)
  note go = evolves_trans [OF quiet_evolves]
  show "evolves gv ok (wld s) (wld s')" if h: "handleRetryRollingBack conf now s = Some s'"
  proof -
    obtain ts s1 where f: "on_wld (FindRetryRollbackGlobalTransactions sm ?ads) s = (ts, s1)" by fastforce
    with found [of retry_rollback_statuses ts s1] have *: "quiet gv ok (wld s) (wld s1)"
      "handles gv (wld s1) (map gt_GlobalSession ts)" "ok (wld s1)" "closed_store gv (wld s1)"
      "\<forall>t \<in> set ts. gs_Status (gt_session (wld s1) t) \<in> set retry_rollback_statuses"
      by (simp_all add: FindRetryRollbackGlobalTransactions_def [abs_def])
    from h f show ?thesis
      using go [OF *(1)] retry_rollbacks_evolves [OF _ *(3,4,2,5)] *(1) ok
      by (auto simp: handleRetryRollingBack_def Let_def evolves_refl quiet_evolves split: if_splits)
  qed
  show "evolves gv ok (wld s) (wld s')" if h: "handleRetryCommitting conf now s = Some s'"
  proof -
    obtain ts s1 where f: "on_wld (FindRetryCommittingGlobalTransactions sm ?ads) s = (ts, s1)" by fastforce
    with found [of "[CommitRetrying]" ts s1] have *: "quiet gv ok (wld s) (wld s1)"
      "handles gv (wld s1) (map gt_GlobalSession ts)" "ok (wld s1)" "closed_store gv (wld s1)"
      "\<forall>t \<in> set ts. gs_Status (gt_session (wld s1) t) = CommitRetrying"
      by (simp_all add: FindRetryCommittingGlobalTransactions_def [abs_def])
    from h f show ?thesis
      using go [OF *(1)] retry_commits_evolves [OF _ *(3,4,2,5)] *(1) ok
      by (auto simp: handleRetryCommitting_def Let_def evolves_refl quiet_evolves split: if_splits)
  qed
  show "evolves gv ok (wld s) (wld s')" if h: "handleAsyncCommitting conf now s = Some s'"
  proof -
    obtain ts s1 where f: "on_wld (FindAsyncCommittingGlobalTransactions sm ?ads) s = (ts, s1)" by fastforce
    with found [of "[AsyncCommitting]" ts s1] have *: "quiet gv ok (wld s) (wld s1)"
      "handles gv (wld s1) (map gt_GlobalSession ts)" "ok (wld s1)" "closed_store gv (wld s1)"
      by (simp_all add: FindAsyncCommittingGlobalTransactions_def [abs_def])
    from h f show ?thesis
      using go [OF *(1)] async_commits_evolves [OF _ *(3,4,2)] *(1) ok
      by (auto simp: handleAsyncCommitting_def Let_def evolves_refl quiet_evolves split: if_splits)
  qed
qed

end

end
