(* ===== verification/Inmemory_Store.thy ===== *)
theory Inmemory_Store
  imports Session_Store
begin

text \<open>
  The in-memory driver keeps the contracts \<open>session_store\<close> and \<open>tx_store\<close>: every entry of the
  session map sits under the XID of the object it points to, and a stored session is that object.
\<close>

definition inmem_gv :: "inmem world \<Rightarrow> string \<Rightarrow> GlobalSession option" where
  "inmem_gv w x = map_option (\<lambda>gt. gt_session w gt) (map_of (SessionMap (drv w)) x)"

definition inmem_ok :: "inmem world \<Rightarrow> bool" where
  "inmem_ok w \<longleftrightarrow> distinct (map fst (SessionMap (drv w))) \<and>
     (\<forall>(x, gt) \<in> set (SessionMap (drv w)). gt_GlobalSession gt < gtop w \<and> gs_XID (gt_session w gt) = x)"

lemma inmem_okD:
  "inmem_ok w \<Longrightarrow> map_of (SessionMap (drv w)) x = Some gt \<Longrightarrow>
   gt_GlobalSession gt < gtop w \<and> gs_XID (gobj w (gt_GlobalSession gt)) = x"
  by (auto simp: inmem_ok_def gt_session_def dest!: map_of_SomeD)

lemma inmem_ok_iff:
  "inmem_ok w \<longleftrightarrow> distinct (map fst (SessionMap (drv w))) \<and>
     (\<forall>x gt. map_of (SessionMap (drv w)) x = Some gt \<longrightarrow>
        gt_GlobalSession gt < gtop w \<and> gs_XID (gobj w (gt_GlobalSession gt)) = x)"
proof (cases "distinct (map fst (SessionMap (drv w)))")
  case True
  then have "(x, gt) \<in> set (SessionMap (drv w)) \<longleftrightarrow> map_of (SessionMap (drv w)) x = Some gt" for x gt
    by (rule in_alist_iff_map_of)
  then show ?thesis unfolding inmem_ok_def gt_session_def by auto
qed (simp add: inmem_ok_def)

lemma inmem_quietI:
  assumes "inmem_ok w" and "\<forall>h < gtop w. gobj w' h = gobj w h" and "gtop w \<le> gtop w'"
    and "distinct (map fst (SessionMap (drv w')))"
    and "\<forall>x. map_option gt_GlobalSession (map_of (SessionMap (drv w')) x) =
             map_option gt_GlobalSession (map_of (SessionMap (drv w)) x)"
  shows "quiet inmem_gv inmem_ok w w'"
proof -
  have m: "\<exists>gt'. map_of (SessionMap (drv w)) x = Some gt' \<and> gt_GlobalSession gt' = gt_GlobalSession gt"
    if "map_of (SessionMap (drv w')) x = Some gt" for x gt
  proof -
    from assms(5) have "map_option gt_GlobalSession (map_of (SessionMap (drv w)) x) = Some (gt_GlobalSession gt)"
      using that by (metis option.simps(9))
    then show ?thesis by auto
  qed
  have "gt_GlobalSession gt < gtop w' \<and> gs_XID (gobj w' (gt_GlobalSession gt)) = x"
    if "map_of (SessionMap (drv w')) x = Some gt" for x gt
  proof -
    from m [OF that] obtain gt' where "map_of (SessionMap (drv w)) x = Some gt'"
      and "gt_GlobalSession gt' = gt_GlobalSession gt" by blast
    with inmem_okD [OF assms(1)] assms(2,3) show ?thesis by fastforce
  qed
  with assms(4) have "inmem_ok w'" by (simp add: inmem_ok_iff)
  moreover have "inmem_gv w' x = inmem_gv w x" for x
  proof (cases "map_of (SessionMap (drv w')) x")
    case None
    with assms(5) have "map_option gt_GlobalSession (map_of (SessionMap (drv w)) x) = None"
      by (metis option.simps(8))
    then have "map_of (SessionMap (drv w)) x = None" by simp
    with None show ?thesis by (simp add: inmem_gv_def)
  next
    case (Some gt)
    with m obtain gt' where gt': "map_of (SessionMap (drv w)) x = Some gt'"
      "gt_GlobalSession gt' = gt_GlobalSession gt" by blast
    with Some assms(2) inmem_okD [OF assms(1) gt'(1)] show ?thesis by (simp add: inmem_gv_def gt_session_def)
  qed
  ultimately show ?thesis using assms(2,3) by (auto simp: quiet_def)
qed

lemma inmem_same_driver:
  assumes "inmem_ok w" and "drv w' = drv w" and "\<forall>h < gtop w. gobj w' h = gobj w h" and "gtop w \<le> gtop w'"
  shows "quiet inmem_gv inmem_ok w w'"
  using assms by (intro inmem_quietI) (auto simp: inmem_ok_def)

text \<open>Writing one field of the object a handle points to, and of the stored object of its XID.\<close>

lemma inmem_write:
  assumes ok: "inmem_ok w" and g: "synced inmem_gv w g"
    and f: "\<And>s. gs_XID (f s) = gs_XID s" "\<And>s. f (f s) = f s"
    and gt: "map_of (SessionMap (drv w)) (gs_XID (gobj w g)) = Some gt"
    and w': "w' = set_gs (gt_GlobalSession gt) f (set_gs g f w)"
  shows "modifies inmem_gv inmem_ok g f w e w'"
proof -
  let ?x = "gs_XID (gobj w g)" and ?h = "gt_GlobalSession gt"
  note h = inmem_okD [OF ok gt]
  have c: "gobj w ?h = gobj w g" using g gt by (simp add: synced_def inmem_gv_def gt_session_def)
  have o: "gobj w' k = (if k = g \<or> k = ?h then f (gobj w g) else gobj w k)" for k
  proof (cases "?h = g")
    case True
    then show ?thesis by (simp add: w' f(2))
  next
    case False
    then show ?thesis by (simp add: w' c)
  qed
  have xid: "gs_XID (gobj w' k) = gs_XID (gobj w k)" for k using c by (auto simp: o f(1))
  have ok': "inmem_ok w'" using ok by (simp add: inmem_ok_iff xid) (simp add: w')
  have other: "inmem_gv w' y = inmem_gv w y" if "y \<noteq> ?x" for y
  proof (cases "map_of (SessionMap (drv w)) y")
    case None then show ?thesis by (simp add: inmem_gv_def w')
  next
    case (Some u)
    note u = inmem_okD [OF ok Some]
    have "gt_GlobalSession u \<noteq> g \<and> gt_GlobalSession u \<noteq> ?h" using u c that by auto
    with Some o show ?thesis by (simp add: inmem_gv_def gt_session_def w')
  qed
  have "near inmem_gv inmem_ok ?x w w'"
    unfolding near_def using ok' other c by (auto simp: o) (simp_all add: w')
  moreover have "inmem_gv w' ?x = Some (f (gobj w g))"
    using gt o by (simp add: inmem_gv_def gt_session_def w')
  ultimately show ?thesis using o by (simp add: modifies_def)
qed

lemma inmem_synced_entry:
  assumes "synced inmem_gv w g"
  obtains gt where "map_of (SessionMap (drv w)) (gs_XID (gobj w g)) = Some gt"
  using assms by (auto simp: synced_def inmem_gv_def)

lemma inmem_handles:
  assumes ok: "inmem_ok w" and d: "distinct xs" and s: "set xs \<subseteq> set (SessionMap (drv w))"
  shows "handles inmem_gv w (map (\<lambda>(x, gt). gt_GlobalSession gt) xs)"
proof -
  have *: "gs_XID (gobj w (gt_GlobalSession gt)) = x \<and> synced inmem_gv w (gt_GlobalSession gt)"
    if "(x, gt) \<in> set xs" for x gt
  proof -
    have m: "map_of (SessionMap (drv w)) x = Some gt"
      using that s ok in_alist_iff_map_of [of "SessionMap (drv w)" x gt] by (auto simp: inmem_ok_def)
    with inmem_okD [OF ok m] show ?thesis by (simp add: synced_def inmem_gv_def gt_session_def)
  qed
  have k: "map (\<lambda>g. gs_XID (gobj w g)) (map (\<lambda>(x, gt). gt_GlobalSession gt) xs) = map fst xs"
    using * by auto
  have "inj_on fst (set xs)"
    using ok s by (auto simp: inmem_ok_def distinct_map intro: inj_on_subset)
  with d have "distinct (map fst xs)" by (simp add: distinct_map)
  with * show ?thesis unfolding handles_def k by auto
qed

lemma inmem_distinct: "inmem_ok w \<Longrightarrow> distinct (SessionMap (drv w))"
  by (auto simp: inmem_ok_def distinct_map)

interpretation inmem_store: session_store inmem_sm inmem_gv inmem_ok
proof unfold_locales
  fix w :: "inmem world" and s
  assume "inmem_ok w" then show "quiet inmem_gv inmem_ok w (snd (new_gs s w))"
    by (rule inmem_same_driver) (simp_all add: new_gs_def)
next
  fix w :: "inmem world" and c
  assume "inmem_ok w" then show "quiet inmem_gv inmem_ok w (snd (new_bs c w))"
    by (rule inmem_same_driver) (simp_all add: new_bs_def)
next
  fix w :: "inmem world" and x r w'
  assume ok: "inmem_ok w" and f: "sm_FindGlobalSession inmem_sm x w = (r, w')"
  then show "quiet inmem_gv inmem_ok w w' \<and> (\<forall>g. r = Some g \<longrightarrow> synced inmem_gv w' g \<and> gs_XID (gobj w' g) = x)"
    by (auto simp: inmem_FindGlobalSession_def quiet_refl synced_def inmem_gv_def gt_session_def
        split: option.splits dest: inmem_okD)
next
  fix w :: "inmem world" and sts gs w'
  assume ok: "inmem_ok w" and f: "sm_FindGlobalSessions inmem_sm sts w = (gs, w')"
  then show "quiet inmem_gv inmem_ok w w' \<and> handles inmem_gv w' gs \<and> (\<forall>g\<in>set gs. gs_Status (gobj w' g) \<in> set sts)"
    using inmem_distinct [OF ok]
    by (auto simp: inmem_FindGlobalSessions_def quiet_refl gt_session_def intro!: inmem_handles)
next
  fix w :: "inmem world" and sts ads gs w'
  assume ok: "inmem_ok w" and f: "sm_FindGlobalSessionsWithAddressingIdentities inmem_sm sts ads w = (gs, w')"
  then show "quiet inmem_gv inmem_ok w w' \<and> handles inmem_gv w' gs \<and>
      (\<forall>g\<in>set gs. gs_Status (gobj w' g) \<in> set sts \<and> gs_Addressing (gobj w' g) \<in> set ads)"
    using inmem_distinct [OF ok]
    by (auto simp: inmem_FindGlobalSessionsWithAddressingIdentities_def quiet_refl gt_session_def
        intro!: inmem_handles)
next
  fix w :: "inmem world" and g e w'
  assume ok: "inmem_ok w" and g: "g < gtop w" and a: "sm_AddGlobalSession inmem_sm g w = (e, w')"
  let ?x = "gs_XID (gobj w g)"
  have w': "w' = put_session ?x \<lparr>gt_GlobalSession = g, gt_BranchSessions = []\<rparr> w"
    using a by (simp add: inmem_AddGlobalSession_def)
  have "inmem_ok w'" using ok g by (auto simp: w' inmem_ok_iff)
  then show "modifies inmem_gv inmem_ok g (\<lambda>s. s) w e w'"
    by (auto simp: modifies_def near_def w' inmem_gv_def gt_session_def)
next
  fix w :: "inmem world" and g st e w'
  assume ok: "inmem_ok w" and g: "synced inmem_gv w g" and u: "UpdateGlobalSessionStatus inmem_sm g st w = (e, w')"
  obtain gt where gt: "map_of (SessionMap (drv w)) (gs_XID (gobj w g)) = Some gt"
    using g by (rule inmem_synced_entry)
  show "modifies inmem_gv inmem_ok g (\<lambda>s. s\<lparr>gs_Status := st\<rparr>) w e w'"
    by (rule inmem_write [OF ok g _ _ gt])
      (use u gt in \<open>auto simp: UpdateGlobalSessionStatus_def inmem_UpdateGlobalSessionStatus_def\<close>)
next
  fix w :: "inmem world" and g e w'
  assume ok: "inmem_ok w" and g: "synced inmem_gv w g" and u: "InactiveGlobalSession inmem_sm g w = (e, w')"
  obtain gt where gt: "map_of (SessionMap (drv w)) (gs_XID (gobj w g)) = Some gt"
    using g by (rule inmem_synced_entry)
  show "modifies inmem_gv inmem_ok g (\<lambda>s. s\<lparr>gs_Active := False\<rparr>) w e w'"
    by (rule inmem_write [OF ok g _ _ gt])
      (use u gt in \<open>auto simp: InactiveGlobalSession_def inmem_InactiveGlobalSession_def\<close>)
next
  fix w :: "inmem world" and g e w'
  assume ok: "inmem_ok w" and "sm_RemoveGlobalSession inmem_sm g w = (e, w')"
  then have w': "w' = w\<lparr>drv := (drv w)\<lparr>SessionMap := AList.delete (gs_XID (gobj w g)) (SessionMap (drv w))\<rparr>\<rparr>"
    by (simp add: inmem_RemoveGlobalSession_def)
  have "inmem_ok w'" using ok by (auto simp: w' inmem_ok_iff)
  then show "near inmem_gv inmem_ok (gs_XID (gobj w g)) w w' \<and> gobj w' g = gobj w g \<and>
      (inmem_gv w' (gs_XID (gobj w g)) = None \<or>
       e \<noteq> None \<and> inmem_gv w' (gs_XID (gobj w g)) = inmem_gv w (gs_XID (gobj w g)))"
    by (auto simp: near_def w' inmem_gv_def gt_session_def)
next
  fix w :: "inmem world" and g b e w'
  assume ok: "inmem_ok w" and "sm_AddBranchSession inmem_sm g b w = (e, w')"
  then show "quiet inmem_gv inmem_ok w w'"
    by (intro inmem_quietI) (auto simp: inmem_AddBranchSession_def Let_def inmem_ok_def split: option.splits if_splits)
next
  fix w :: "inmem world" and b bst e w'
  assume ok: "inmem_ok w" and "sm_UpdateBranchSessionStatus inmem_sm b bst w = (e, w')"
  then show "quiet inmem_gv inmem_ok w w'"
    by (intro inmem_same_driver) (auto simp: inmem_UpdateBranchSessionStatus_def)
next
  fix w :: "inmem world" and g b e w'
  assume ok: "inmem_ok w" and "sm_RemoveBranchSession inmem_sm g b w = (e, w')"
  then show "quiet inmem_gv inmem_ok w w'"
    by (intro inmem_quietI) (auto simp: inmem_RemoveBranchSession_def Let_def inmem_ok_def split: option.splits)
qed (auto simp: inmem_FindBranchSessions_def inmem_FindBatchBranchSessions_def quiet_refl split: option.splits)

interpretation inmem_tx: tx_store inmem_sm inmem_gv inmem_ok inmem_lm
proof unfold_locales
  fix w :: "inmem world" and ls skip r w'
  assume ok: "inmem_ok w" and "lm_AcquireLock inmem_lm ls skip w = Some (r, w')"
  then show "quiet inmem_gv inmem_ok w w'"
    by (intro inmem_quietI) (auto simp: inmem_AcquireLock_def inmem_ok_def split: option.splits prod.splits)
next
  fix w :: "inmem world" and ls r w'
  assume ok: "inmem_ok w" and "lm_ReleaseLock inmem_lm ls w = Some (r, w')"
  then show "quiet inmem_gv inmem_ok w w'"
    by (intro inmem_quietI) (auto simp: inmem_ReleaseLock_def inmem_ok_def split: option.splits)
qed (auto simp: inmem_IsLockable_def quiet_refl)

end
