(* ===== verification/Coordinator_System.thy ===== *)
theory Coordinator_System
  imports Coordinator_Sessions Inmemory_Store
begin

text \<open>
  The coordinator as a system: how \<open>NewTransactionCoordinator\<close> wires it, and the step relation
  whose steps are the handlers, the background passes, the opening and closing of streams, the
  event goroutines, and a change of the orders in which Go's maps are visited. Handlers are
  atomic steps here. The theorems about runs rest on the locale \<open>coordinator_system\<close>.
\<close>

definition NewTransactionCoordinator :: "'d Driver \<Rightarrow> 'd tc_conf \<Rightarrow> 'd tc_conf" where
  "NewTransactionCoordinator driver conf = conf
     \<lparr>holder := dr_SessionManager driver, resourceDataLocker := dr_LockManager driver,
      locker := UnimplementedGlobalSessionLocker\<rparr>"

definition zero_gs :: GlobalSession where
  "zero_gs = \<lparr>gs_Addressing = [], gs_XID = [], gs_TransactionID = 0, gs_TransactionName = [], gs_Timeout = 0,
     gs_BeginTime = 0, gs_Status = UnknownGlobalStatus, gs_Active = False\<rparr>"

definition zero_bs :: BranchSession where
  "zero_bs = \<lparr>bs_Addressing = [], bs_XID = [], bs_BranchID = 0, bs_TransactionID = 0, bs_ResourceID = [],
     bs_LockKey = [], bs_Type = AT, bs_Status = UnknownBranchStatus, bs_ApplicationData = None,
     bs_AsyncCommit = False\<rparr>"

text \<open>The coordinator before its first request.\<close>

definition tc_start :: "'d \<Rightarrow> uuid_state \<Rightarrow> 'd tc" where
  "tc_start d u =
     \<lparr>wld = \<lparr>gobj = \<lambda>_. zero_gs, bobj = \<lambda>_. zero_bs, gtop = 0, btop = 0, drv = d\<rparr>, uuid = u,
      idGenerator = 0, activeApplications = [], callBackMessages = [], spawned = [], published = []\<rparr>"

text \<open>\<open>reorder d d'\<close> tells that the driver's maps are visited in another order in \<open>d'\<close>.\<close>

inductive tc_step :: "('d \<Rightarrow> 'd \<Rightarrow> bool) \<Rightarrow> 'd tc_conf \<Rightarrow> 'd tc \<Rightarrow> 'd tc \<Rightarrow> bool"
  for reorder conf where
  begin_step: "tc_Begin conf now brq s = (r, s') \<Longrightarrow> tc_step reorder conf s s'"
| get_status: "tc_GetStatus conf xid s = (r, s') \<Longrightarrow> tc_step reorder conf s s'"
| commit: "tc_Commit conf now xid s = Some (r, s') \<Longrightarrow> tc_step reorder conf s s'"
| rollback: "tc_Rollback conf now xid s = Some (r, s') \<Longrightarrow> tc_step reorder conf s s'"
| branch_register: "tc_BranchRegister conf rrq s = Some (p, s') \<Longrightarrow> tc_step reorder conf s s'"
| branch_report: "tc_BranchReport conf trq s = (q, s') \<Longrightarrow> tc_step reorder conf s s'"
| lock_query: "tc_LockQuery conf lrq s = Some (l, s') \<Longrightarrow> tc_step reorder conf s s'"
| timeout_check: "tc_step reorder conf s (timeoutCheck conf now s)"
| retry_rolling_back: "handleRetryRollingBack conf now s = Some s' \<Longrightarrow> tc_step reorder conf s s'"
| retry_committing: "handleRetryCommitting conf now s = Some s' \<Longrightarrow> tc_step reorder conf s s'"
| async_committing: "handleAsyncCommitting conf now s = Some s' \<Longrightarrow> tc_step reorder conf s s'"
| connect: "open_stream md s = Some (st, s') \<Longrightarrow> tc_step reorder conf s s'"
| disconnect: "close_stream st s = Some s' \<Longrightarrow> tc_step reorder conf s s'"
| event_goroutine: "spawned s = ts @ t # us \<Longrightarrow>
    tc_step reorder conf s (s\<lparr>spawned := ts @ us, published := published s @ [run_thunk (wld s) t]\<rparr>)"
| driver_order: "reorder (drv (wld s)) d \<Longrightarrow> tc_step reorder conf s (s\<lparr>wld := (wld s)\<lparr>drv := d\<rparr>\<rparr>)"
| application_order: "mset apps = mset (activeApplications s) \<Longrightarrow>
    tc_step reorder conf s (s\<lparr>activeApplications := apps\<rparr>)"

text \<open>Runs, with the number of steps, which bounds the number of IDs drawn.\<close>

inductive tc_run :: "('d \<Rightarrow> 'd \<Rightarrow> bool) \<Rightarrow> 'd tc_conf \<Rightarrow> 'd tc \<Rightarrow> nat \<Rightarrow> 'd tc \<Rightarrow> bool"
  for reorder conf s0 where
  run_0: "tc_run reorder conf s0 0 s0"
| run_Suc: "tc_run reorder conf s0 n s \<Longrightarrow> tc_step reorder conf s s' \<Longrightarrow>
    tc_run reorder conf s0 (Suc n) s'"

inductive_simps tc_run_0 [simp]: "tc_run reorder conf s0 0 s"
inductive_cases tc_stepE: "tc_step reorder conf s s'"

lemma tc_run_trans:
  assumes "tc_run reorder conf s0 n s1" and "tc_run reorder conf s1 m s2"
  shows "tc_run reorder conf s0 (n + m) s2"
  using assms(2,1) by (induction rule: tc_run.induct) (auto intro: tc_run.intros)

subsection \<open>Which handlers draw an ID\<close>

lemma on_wld_uuid: "on_wld f s = (r, s') \<Longrightarrow> uuid s' = uuid s"
  by (auto simp: on_wld_def split: prod.splits)

lemma on_wld_opt_uuid: "on_wld_opt f s = Some (r, s') \<Longrightarrow> uuid s' = uuid s"
  by (auto simp: on_wld_opt_def split: prod.splits option.splits)

lemma snd_on_wld_uuid [simp]: "uuid (snd (on_wld f s)) = uuid s"
  by (simp add: on_wld_def split: prod.splits)

lemma spawn_event_uuid [simp]: "uuid (spawn_event g e s) = uuid s"
  by (simp add: spawn_event_def)

lemma branchCommit_uuid: "branchCommit conf b s = (r, s') \<Longrightarrow> uuid s' = uuid s"
  by (auto simp: branchCommit_def send_message_def Let_def
      split: option.splits rm_outcome.splits rm_reply.splits if_splits)

lemma branchRollback_uuid: "branchRollback conf b s = Some (r, s') \<Longrightarrow> uuid s' = uuid s"
  by (auto simp: branchRollback_def send_message_def Let_def
      split: option.splits rm_outcome.splits rm_reply.splits if_splits)

lemma update_then_uuid: "update_then conf gt st r s = (r', s') \<Longrightarrow> uuid s' = uuid s"
  by (auto simp: update_then_def split: prod.splits option.splits dest: on_wld_uuid)

lemma drop_branch_uuid: "drop_branch conf gt b s = Some (e, s') \<Longrightarrow> uuid s' = uuid s"
  by (auto simp: drop_branch_def elim!: bind_eq_Some_pairE split: prod.splits
      dest!: on_wld_uuid on_wld_opt_uuid)

lemma finish_global_uuid: "finish_global conf gt st r s = Some (r', s') \<Longrightarrow> uuid s' = uuid s"
  by (auto simp: finish_global_def elim!: bind_eq_Some_pairE split: prod.splits option.splits
      dest!: on_wld_uuid on_wld_opt_uuid)

lemmas step_uuid = branchCommit_uuid branchRollback_uuid update_then_uuid drop_branch_uuid
  finish_global_uuid on_wld_uuid on_wld_opt_uuid

lemma commit_branches_uuid: "commit_branches conf retrying bs gt s = Some (r, gt', s') \<Longrightarrow> uuid s' = uuid s"
proof (induction bs arbitrary: gt s)
  case (Cons b bs)
  obtain bst e1 s1 where b: "branchCommit conf b s = ((bst, e1), s1)" by (metis prod.exhaust)
  from Cons.prems b show ?case
    by (cases rule: commit_branches_ConsE)
      (auto dest!: step_uuid Cons.IH split: if_splits simp: branchCommit_uuid [OF b])
qed simp

lemma rollback_branches_uuid: "rollback_branches conf retrying bs gt s = Some (r, gt', s') \<Longrightarrow> uuid s' = uuid s"
proof (induction bs arbitrary: gt s)
  case (Cons b bs)
  from Cons.prems show ?case
    by (cases rule: rollback_branches_ConsE) (auto dest!: step_uuid Cons.IH split: if_splits)
qed simp

lemma doGlobalCommit_uuid: "doGlobalCommit conf now gt retrying s = Some (r, s') \<Longrightarrow> uuid s' = uuid s"
  by (erule doGlobalCommitE) (auto dest!: step_uuid commit_branches_uuid)

lemma doGlobalRollback_uuid: "doGlobalRollback conf now gt retrying s = Some (r, s') \<Longrightarrow> uuid s' = uuid s"
  by (erule doGlobalRollbackE) (auto dest!: step_uuid rollback_branches_uuid)

lemma GetStatus_uuid: "tc_GetStatus conf x s = (r, s') \<Longrightarrow> uuid s' = uuid s"
  by (auto simp: tc_GetStatus_def split: prod.splits option.splits dest: on_wld_uuid)

lemma commit_decision_uuid: "commit_decision conf x gt s = Some (r, s') \<Longrightarrow> uuid s' = uuid s"
  by (auto simp: commit_decision_def Let_def elim!: bind_eq_Some_pairE
      split: prod.splits option.splits if_splits dest!: step_uuid)

lemma rollback_decision_uuid: "rollback_decision conf x gt s = (r, s') \<Longrightarrow> uuid s' = uuid s"
  by (auto simp: rollback_decision_def Let_def split: prod.splits option.splits if_splits dest!: step_uuid)

lemma Commit_uuid: "tc_Commit conf now x s = Some (r, s') \<Longrightarrow> uuid s' = uuid s"
  by (auto simp: tc_Commit_def split: prod.splits option.splits if_splits
      dest!: commit_decision_uuid doGlobalCommit_uuid step_uuid)

lemma Rollback_uuid: "tc_Rollback conf now x s = Some (r, s') \<Longrightarrow> uuid s' = uuid s"
  by (auto simp: tc_Rollback_def split: prod.splits option.splits if_splits
      dest!: rollback_decision_uuid doGlobalRollback_uuid step_uuid)

lemma register_branch_uuid: "register_branch conf rq gt s = Some (r, s') \<Longrightarrow> uuid s' = snd (NextID (uuid s))"
  by (auto simp: register_branch_def next_id_def Let_def elim!: bind_eq_Some_pairE
      split: prod.splits option.splits if_splits dest!: step_uuid)

lemma BranchRegister_uuid:
  "tc_BranchRegister conf rq s = Some (r, s') \<Longrightarrow> uuid s' \<in> {uuid s, snd (NextID (uuid s))}"
  by (auto simp: tc_BranchRegister_def Let_def split: prod.splits option.splits if_splits
      dest!: step_uuid register_branch_uuid)

lemma BranchReport_uuid: "tc_BranchReport conf rq s = (r, s') \<Longrightarrow> uuid s' = uuid s"
  by (auto simp: tc_BranchReport_def split: prod.splits option.splits dest!: step_uuid)

lemma LockQuery_uuid: "tc_LockQuery conf rq s = Some (r, s') \<Longrightarrow> uuid s' = uuid s"
  by (auto simp: tc_LockQuery_def elim!: bind_eq_Some_pairE dest!: step_uuid)

lemma Begin_uuid: "tc_Begin conf now rq s = (r, s') \<Longrightarrow> uuid s' = snd (NextID (uuid s))"
  by (auto simp: tc_Begin_def next_id_def Let_def split: prod.splits option.splits dest!: step_uuid)

lemma timeout_sessions_uuid: "uuid (timeout_sessions conf now gs s) = uuid s"
proof (induction gs arbitrary: s)
  case (Cons g gs)
  then show ?case by (auto simp: publish_event_def split: prod.splits option.splits bool.splits dest!: step_uuid)
qed simp

lemma timeoutCheck_uuid: "uuid (timeoutCheck conf now s) = uuid s"
  by (auto simp: timeoutCheck_def timeout_sessions_uuid split: prod.splits dest: step_uuid)

lemma retry_rollbacks_uuid: "retry_rollbacks conf now ts s = Some s' \<Longrightarrow> uuid s' = uuid s"
proof (induction ts arbitrary: s)
  case (Cons t ts)
  from Cons.prems show ?case
    by (cases rule: retry_rollbacks_ConsE)
      (auto dest!: Cons.IH doGlobalRollback_uuid step_uuid split: if_splits)
qed simp

lemma retry_commits_uuid: "retry_commits conf now ts s = Some s' \<Longrightarrow> uuid s' = uuid s"
proof (induction ts arbitrary: s)
  case (Cons t ts)
  from Cons.prems show ?case
    by (cases rule: retry_commits_ConsE) (auto dest!: Cons.IH doGlobalCommit_uuid)
qed simp

lemma async_commits_uuid: "async_commits conf now ts s = Some s' \<Longrightarrow> uuid s' = uuid s"
proof (induction ts arbitrary: s)
  case (Cons t ts)
  from Cons.prems show ?case
    by (cases rule: async_commits_ConsE) (auto dest!: Cons.IH doGlobalCommit_uuid)
qed simp

lemma passes_uuid:
  "handleRetryRollingBack conf now s = Some s' \<Longrightarrow> uuid s' = uuid s"
  "handleRetryCommitting conf now s = Some s' \<Longrightarrow> uuid s' = uuid s"
  "handleAsyncCommitting conf now s = Some s' \<Longrightarrow> uuid s' = uuid s"
  by (auto simp: handleRetryRollingBack_def handleRetryCommitting_def handleAsyncCommitting_def Let_def
      split: if_splits prod.splits
      dest!: step_uuid retry_rollbacks_uuid retry_commits_uuid async_commits_uuid)

lemma stream_uuid:
  "open_stream md s = Some (st, s') \<Longrightarrow> uuid s' = uuid s \<and> wld s' = wld s"
  "close_stream st s = Some s' \<Longrightarrow> uuid s' = uuid s \<and> wld s' = wld s"
  by (auto simp: open_stream_def close_stream_def Let_def split: option.splits list.splits if_splits)

text \<open>Every step but a begin or a registration leaves the generator alone; each of those draws once.\<close>

lemma NextIDs_Suc:
  "NextIDs (Suc n) st =
     (fst (NextIDs n st) @ [fst (NextID (snd (NextIDs n st)))], snd (NextID (snd (NextIDs n st))))"
proof (induction n arbitrary: st)
  case (Suc n)
  have step: "NextIDs (Suc m) t =
      (fst (NextID t) # fst (NextIDs m (snd (NextID t))), snd (NextIDs m (snd (NextID t))))" for m t
    by (simp add: split_beta)
  show ?case
    by (subst step, simp only: Suc [of "snd (NextID st)"]) (simp only: step [of n st] append_Cons fst_conv snd_conv)
qed (simp add: split_beta)

subsection \<open>The whole system over a store that keeps the contract\<close>

text \<open>\<open>drawn\<close> are the IDs drawn so far; every XID in the store was made from one of them.\<close>

definition known_xids :: "int64 set \<Rightarrow> string set" where
  "known_xids ids = {GenerateXID ad i | ad i. i \<in> ids}"

definition drawn :: "uuid_state \<Rightarrow> nat \<Rightarrow> int64 set" where
  "drawn u n = set (fst (NextIDs n u))"

lemma known_xids_mono: "ids \<subseteq> ids' \<Longrightarrow> known_xids ids \<subseteq> known_xids ids'"
  by (auto simp: known_xids_def)

lemma drawn_mono: "drawn u n \<subseteq> drawn u (Suc n)"
  by (simp only: drawn_def NextIDs_Suc) auto

lemma fresh_xid:
  assumes "wf_uuid u" and "Suc n \<le> 2 ^ 53"
  shows "GenerateXID ad (fst (NextID (snd (NextIDs n u)))) \<notin> known_xids (drawn u n)"
  using NextIDs_distinct [OF assms] by (auto simp: NextIDs_Suc known_xids_def drawn_def simp del: NextIDs.simps)

locale coordinator_system = coordinator sm gv ok lm conf
  for sm :: "'d SessionManager" and gv :: "'d world \<Rightarrow> string \<Rightarrow> GlobalSession option"
    and ok :: "'d world \<Rightarrow> bool" and lm :: "'d StorageLockManager" and conf :: "'d tc_conf" +
  fixes reorder :: "'d \<Rightarrow> 'd \<Rightarrow> bool"
  assumes reorder_quiet: "ok w \<Longrightarrow> reorder (drv w) d \<Longrightarrow> quiet gv ok w (w\<lparr>drv := d\<rparr>)"
begin

definition inv :: "uuid_state \<Rightarrow> nat \<Rightarrow> 'd tc \<Rightarrow> bool" where
  "inv u k s \<longleftrightarrow> ok (wld s) \<and> closed_store gv (wld s) \<and> uuid s = snd (NextIDs k u) \<and>
     (\<forall>x. gv (wld s) x \<noteq> None \<longrightarrow> x \<in> known_xids (drawn u k))"

lemma inv_evolves:
  assumes "inv u k s" and "evolves gv ok (wld s) (wld s')" and "uuid s' = uuid s"
  shows "inv u k s'"
proof -
  have "gv (wld s) x \<noteq> None" if "gv (wld s') x \<noteq> None" for x
    using assms(2) that by (metis evolves_def stored_le.simps(1))
  with assms evolves_closed [OF assms(2)] evolves_ok [OF assms(2)] show ?thesis by (simp add: inv_def)
qed

lemma inv_draw:
  assumes "inv u k s" and "quiet gv ok (wld s) (wld s')" and "uuid s' = snd (NextID (uuid s))"
  shows "inv u (Suc k) s'"
proof -
  have "known_xids (drawn u k) \<subseteq> known_xids (drawn u (Suc k))" by (rule known_xids_mono [OF drawn_mono])
  moreover have "uuid s' = snd (NextIDs (Suc k) u)" using assms(1,3) by (simp only: inv_def NextIDs_Suc snd_conv)
  moreover have "closed_store gv (wld s')"
    using assms(1) evolves_closed [OF quiet_evolves [OF assms(2)]] by (simp add: inv_def)
  ultimately show ?thesis using assms(1,2) by (auto simp only: inv_def quiet_def)
qed

text \<open>A step keeps the invariant, and moves what is stored under the XIDs known before.\<close>

lemma step_inv:
  assumes st: "tc_step reorder conf s s'" and i: "inv u k s" and u: "wf_uuid u" "Suc k \<le> 2 ^ 53"
  shows "\<exists>k' \<in> {k, Suc k}. inv u k' s' \<and>
    (\<forall>x \<in> known_xids (drawn u k). stored_le (gv (wld s) x) (gv (wld s') x))"
proof -
  have ok: "ok (wld s)" and cl: "closed_store gv (wld s)" using i by (auto simp: inv_def)
  have ev: ?thesis if "evolves gv ok (wld s) (wld s')" "uuid s' = uuid s"
    using inv_evolves [OF i that] that by (auto simp: evolves_def)
  have qu: ?thesis if "quiet gv ok (wld s) (wld s')" "uuid s' = uuid s"
    using ev [OF quiet_evolves] that by blast
  from st show ?thesis
  proof cases
    case (begin_step now brq r)
    let ?x = "GenerateXID (gbq_Addressing brq) (fst (NextID (uuid s)))"
    note b = Begin_spec [OF ok begin_step refl refl]
    have us: "uuid s = snd (NextIDs k u)" using i by (simp add: inv_def)
    then have u': "uuid s' = snd (NextIDs (Suc k) u)"
      using Begin_uuid [OF begin_step] by (simp only: NextIDs_Suc snd_conv)
    have new: "?x \<in> known_xids (drawn u (Suc k))" "?x \<notin> known_xids (drawn u k)"
      using fresh_xid [OF u] us by (auto simp only: known_xids_def drawn_def NextIDs_Suc set_append fst_conv) simp
    have sub: "known_xids (drawn u k) \<subseteq> known_xids (drawn u (Suc k))" by (rule known_xids_mono [OF drawn_mono])
    have other: "gv (wld s') y = gv (wld s) y" if "y \<noteq> ?x" for y using b(1) that by (simp add: near_def)
    have "closed_session c \<and> y \<in> known_xids (drawn u (Suc k))" if "gv (wld s') y = Some c" for y c
    proof (cases "y = ?x")
      case True
      with b(2) that i new(1) show ?thesis by (auto simp: inv_def closed_store_def closed_session_def)
    next
      case False
      with that i sub show ?thesis unfolding other [OF False] by (auto simp: inv_def closed_store_def)
    qed
    with u' near_ok [OF b(1)] have "inv u (Suc k) s'" by (auto simp: inv_def closed_store_def)
    moreover have "\<forall>x \<in> known_xids (drawn u k). stored_le (gv (wld s) x) (gv (wld s') x)"
      using other new(2) by (metis stored_le_refl)
    ultimately show ?thesis by blast
  next
    case (branch_register rrq p)
    note q = BranchRegister_spec(1) [OF ok branch_register]
    show ?thesis
    proof (cases "uuid s' = uuid s")
      case True
      with q show ?thesis by (rule qu)
    next
      case False
      with BranchRegister_uuid [OF branch_register] have "uuid s' = snd (NextID (uuid s))" by simp
      with inv_draw [OF i q] q show ?thesis by (auto simp: quiet_def)
    qed
  next
    case (get_status x r)
    show ?thesis by (rule qu [OF GetStatus_spec(1) [OF ok get_status] GetStatus_uuid [OF get_status]])
  next
    case (commit now x r)
    show ?thesis by (rule ev [OF Commit_evolves [OF ok commit] Commit_uuid [OF commit]])
  next
    case (rollback now x r)
    show ?thesis by (rule ev [OF Rollback_evolves [OF ok rollback] Rollback_uuid [OF rollback]])
  next
    case (branch_report trq q)
    show ?thesis by (rule qu [OF BranchReport_quiet [OF ok branch_report] BranchReport_uuid [OF branch_report]])
  next
    case (lock_query lrq l)
    show ?thesis by (rule qu [OF LockQuery_quiet [OF ok lock_query] LockQuery_uuid [OF lock_query]])
  next
    case (timeout_check now)
    then show ?thesis by (intro ev) (simp_all add: timeoutCheck_evolves [OF ok] timeoutCheck_uuid)
  next
    case (retry_rolling_back now)
    show ?thesis by (rule ev [OF retry_passes_evolve(1) [OF ok cl retry_rolling_back] passes_uuid(1) [OF retry_rolling_back]])
  next
    case (retry_committing now)
    show ?thesis by (rule ev [OF retry_passes_evolve(2) [OF ok cl retry_committing] passes_uuid(2) [OF retry_committing]])
  next
    case (async_committing now)
    show ?thesis by (rule ev [OF retry_passes_evolve(3) [OF ok cl async_committing] passes_uuid(3) [OF async_committing]])
  next
    case (connect md st)
    from stream_uuid(1) [OF this] show ?thesis by (intro qu) (simp_all add: quiet_refl ok)
  next
    case (disconnect st)
    from stream_uuid(2) [OF this] show ?thesis by (intro qu) (simp_all add: quiet_refl ok)
  next
    case (event_goroutine ts t us)
    then show ?thesis by (intro qu) (simp_all add: quiet_refl ok)
  next
    case (driver_order d)
    then show ?thesis by (intro qu) (simp_all add: reorder_quiet [OF ok])
  next
    case (application_order apps)
    then show ?thesis by (intro qu) (simp_all add: quiet_refl ok)
  qed
qed

text \<open>Whole runs.\<close>

lemma run_inv:
  assumes "tc_run reorder conf s n s'" and "inv u k s" and "wf_uuid u" and "k + n \<le> 2 ^ 53"
  shows "\<exists>k' \<ge> k. k' \<le> k + n \<and> inv u k' s' \<and>
    (\<forall>x \<in> known_xids (drawn u k). stored_le (gv (wld s) x) (gv (wld s') x))"
  using assms
proof (induction rule: tc_run.induct)
  case run_0
  then show ?case by auto
next
  case (run_Suc n s1 s2)
  then obtain k1 where k1: "k \<le> k1" "k1 \<le> k + n" "inv u k1 s1"
    and le: "\<forall>x \<in> known_xids (drawn u k). stored_le (gv (wld s) x) (gv (wld s1) x)" by auto
  from k1 run_Suc.prems have "Suc k1 \<le> 2 ^ 53" by simp
  from step_inv [OF run_Suc.hyps(2) k1(3) run_Suc.prems(2) this] obtain k2 where
    k2: "k2 \<in> {k1, Suc k1}" "inv u k2 s2"
    and le2: "\<forall>x \<in> known_xids (drawn u k1). stored_le (gv (wld s1) x) (gv (wld s2) x)" by auto
  have "drawn u k \<subseteq> drawn u k1" using lift_Suc_mono_le [of "drawn u"] drawn_mono k1(1) by blast
  then have "known_xids (drawn u k) \<subseteq> known_xids (drawn u k1)" by (rule known_xids_mono)
  with le le2 have "\<forall>x \<in> known_xids (drawn u k). stored_le (gv (wld s) x) (gv (wld s2) x)"
    by (auto intro: stored_le_trans)
  with k1 k2 show ?case by (intro exI [of _ k2]) auto
qed

lemma start_inv:
  assumes "ok (wld s)" and "\<forall>x. gv (wld s) x = None"
  shows "inv (uuid s) 0 s"
  using assms by (simp add: inv_def closed_store_def)

lemma run_history:
  assumes "ok (wld s0)" and "\<forall>x. gv (wld s0) x = None" and "wf_uuid (uuid s0)"
    and "tc_run reorder conf s0 n s" and "tc_run reorder conf s m s'" and "n + m \<le> 2 ^ 53"
    and "gv (wld s) x = Some a"
  shows "stored_le (Some a) (gv (wld s') x)" and "closed_session a"
proof -
  obtain k where k: "k \<le> n" "inv (uuid s0) k s"
    using run_inv [OF assms(4) start_inv [OF assms(1,2)] assms(3)] assms(6) by auto
  then have x: "x \<in> known_xids (drawn (uuid s0) k)" and "closed_session a"
    using assms(7) by (auto simp: inv_def closed_store_def)
  then show "closed_session a" by simp
  have "stored_le (gv (wld s) x) (gv (wld s') x)"
    using run_inv [OF assms(5) k(2) assms(3)] k(1) assms(6) x by auto
  with assms(7) show "stored_le (Some a) (gv (wld s') x)" by simp
qed

text \<open>A registration succeeds only on a session that is stored, active and in status \<open>Begin\<close>.\<close>

lemma run_ok:
  assumes "ok (wld s0)" and "\<forall>x. gv (wld s0) x = None" and "wf_uuid (uuid s0)"
    and "tc_run reorder conf s0 n s" and "n \<le> 2 ^ 53"
  shows "ok (wld s)"
  using run_inv [OF assms(4) start_inv [OF assms(1,2)] assms(3)] assms(5) by (auto simp: inv_def)

lemma no_branch_after_close:
  assumes s0: "ok (wld s0)" "\<forall>x. gv (wld s0) x = None" "wf_uuid (uuid s0)"
    and r: "tc_run reorder conf s0 n s" "tc_run reorder conf s m s'" "n + m \<le> 2 ^ 53"
    and a: "gv (wld s) (brq_XID rq) = Some a" "\<not> gs_Active a"
    and b: "tc_BranchRegister conf rq s' = Some (p, s'')"
  shows "brp_ResultCode p = ResultCodeFailed"
proof (rule ccontr)
  assume "brp_ResultCode p \<noteq> ResultCodeFailed"
  then have "brp_ResultCode p = ResultCodeSuccess" by (cases "brp_ResultCode p") auto
  with BranchRegister_spec(2) [OF run_ok [OF s0 tc_run_trans [OF r(1,2)] r(3)] b]
  obtain c where c: "gv (wld s') (brq_XID rq) = Some c" "gs_Active c" by blast
  with run_history(1) [OF s0 r a(1)] a(2) show False by (simp add: session_le_def)
qed

end

end
