(* ===== verification/Inmemory_System.thy ===== *)
theory Inmemory_System
  imports Coordinator_System
begin

text \<open>
  The coordinator over the in-memory driver: the contracts are discharged for the model of the
  driver, and the properties of runs follow. A small scenario, one transaction with one branch,
  serves as the concrete input of the witnesses.
\<close>

text \<open>Another visiting order of the two \<open>sync.Map\<close>s and of the branch maps.\<close>

definition inmem_reorder :: "inmem \<Rightarrow> inmem \<Rightarrow> bool" where
  "inmem_reorder d d' \<longleftrightarrow> mset (LockMap d') = mset (LockMap d) \<and>
     mset (map (\<lambda>(x, gt). (x, gt_GlobalSession gt, mset (gt_BranchSessions gt))) (SessionMap d')) =
     mset (map (\<lambda>(x, gt). (x, gt_GlobalSession gt, mset (gt_BranchSessions gt))) (SessionMap d))"

lemma inmem_reorder_quiet:
  assumes ok: "inmem_ok w" and r: "inmem_reorder (drv w) d"
  shows "quiet inmem_gv inmem_ok w (w\<lparr>drv := d\<rparr>)"
proof (rule inmem_quietI [OF ok])
  let ?f = "\<lambda>(x :: string, gt). (x, gt_GlobalSession gt, mset (gt_BranchSessions gt))"
  have eq: "mset (map ?f (SessionMap d)) = mset (map ?f (SessionMap (drv w)))"
    using r by (simp add: inmem_reorder_def)
  from arg_cong [OF this, of "image_mset fst"]
  have keys: "mset (map fst (SessionMap d)) = mset (map fst (SessionMap (drv w)))"
    by (simp add: image_mset.compositionality comp_def split_beta)
  have dw: "distinct (map fst (SessionMap (drv w)))" using ok by (simp add: inmem_ok_def)
  then show "distinct (map fst (SessionMap (drv (w\<lparr>drv := d\<rparr>))))"
    using mset_eq_imp_distinct_iff [OF keys] by simp
  then have dd: "distinct (map fst (SessionMap d))" by simp
  have sets: "?f ` set (SessionMap d) = ?f ` set (SessionMap (drv w))"
    using arg_cong [OF eq, of set_mset] by simp
  have "map_option gt_GlobalSession (map_of (SessionMap d) x) =
        map_option gt_GlobalSession (map_of (SessionMap (drv w)) x)" for x
  proof (cases "map_of (SessionMap d) x")
    case None
    have "x \<notin> set (map fst (SessionMap (drv w)))"
      using None mset_eq_setD [OF keys] by (simp add: map_of_eq_None_iff)
    then have "map_of (SessionMap (drv w)) x = None" by (simp add: map_of_eq_None_iff)
    with None show ?thesis by simp
  next
    case (Some gt)
    then have "?f (x, gt) \<in> ?f ` set (SessionMap (drv w))"
      unfolding sets [symmetric] by (intro imageI) (rule map_of_SomeD)
    then obtain gt' where "(x, gt') \<in> set (SessionMap (drv w))" "gt_GlobalSession gt' = gt_GlobalSession gt"
      by auto
    with dw Some show ?thesis by simp
  qed
  then show "\<forall>x. map_option gt_GlobalSession (map_of (SessionMap (drv (w\<lparr>drv := d\<rparr>))) x) =
      map_option gt_GlobalSession (map_of (SessionMap (drv w)) x)" by simp
qed simp_all

definition inmem_tc :: "inmem tc_conf \<Rightarrow> inmem tc_conf" where
  "inmem_tc conf = NewTransactionCoordinator inmem_driver conf"

lemma inmem_tc_simps [simp]:
  "holder (inmem_tc conf) = inmem_sm" "resourceDataLocker (inmem_tc conf) = inmem_lm"
  "locker (inmem_tc conf) = UnimplementedGlobalSessionLocker"
  by (simp_all add: inmem_tc_def NewTransactionCoordinator_def inmem_driver_def)

interpretation inmem_sys: coordinator_system inmem_sm inmem_gv inmem_ok inmem_lm "inmem_tc conf" inmem_reorder
  for conf
  by unfold_locales (simp_all add: inmem_reorder_quiet)

text \<open>Runs from an empty store.\<close>

definition inmem_run :: "inmem tc_conf \<Rightarrow> inmem tc \<Rightarrow> nat \<Rightarrow> inmem tc \<Rightarrow> bool" where
  "inmem_run conf s n s' \<longleftrightarrow> tc_run inmem_reorder (inmem_tc conf) s n s'"

definition inmem_start :: "uuid_state \<Rightarrow> inmem tc" where
  "inmem_start u = tc_start inmem_Create u"

lemma inmem_start_facts [simp]:
  "inmem_ok (wld (inmem_start u))" "inmem_gv (wld (inmem_start u)) x = None" "uuid (inmem_start u) = u"
  by (simp_all add: inmem_start_def tc_start_def inmem_Create_def inmem_ok_def inmem_gv_def)

lemma inmem_history:
  assumes "wf_uuid u" and "inmem_run conf (inmem_start u) n s" and "inmem_run conf s m s'"
    and "n + m \<le> 2 ^ 53" and "inmem_gv (wld s) x = Some a"
  shows "stored_le (Some a) (inmem_gv (wld s') x)" and "closed_session a"
  using inmem_sys.run_history [of "inmem_start u" conf n s m s' x a] assms by (simp_all add: inmem_run_def)

subsection \<open>A scenario\<close>

lemma tc_run_2: "tc_step r c s s1 \<Longrightarrow> tc_step r c s1 s2 \<Longrightarrow> tc_run r c s 2 s2"
  by (metis numeral_2_eq_2 tc_run.run_0 tc_run.run_Suc)

definition demo_response :: "BranchStatus \<Rightarrow> BranchResponse" where
  "demo_response st = \<lparr>bp_ResultCode = ResultCodeSuccess, bp_ExceptionCode = zero_code, bp_Message = [],
     bp_XID = ''tm:1'', bp_BranchID = 2, bp_BranchStatus = st\<rparr>"

definition demo_conf :: "inmem tc_conf" where
  "demo_conf = \<lparr>maxCommitRetryTimeout = -1, maxRollbackRetryTimeout = -1, rollbackDeadSeconds = 130,
     rollbackRetryTimeoutUnlockEnable = False, holder = inmem_sm, resourceDataLocker = inmem_lm,
     locker = UnimplementedGlobalSessionLocker,
     reply = (\<lambda>m. Replied (if bm_BranchMessageType m = TypeBranchCommit
                         then CommitReply (demo_response PhaseTwoCommitted)
                         else RollbackReply (demo_response PhaseTwoRolledBack))),
     MarshalAny = (\<lambda>t r. None), decode = (\<lambda>d. None), errText = (\<lambda>e. ''error'')\<rparr>"

definition demo_uuid :: uuid_state where
  "demo_uuid = \<lparr>timestampAndSequence = 0, workerID = 0\<rparr>"

definition demo_begin :: GlobalBeginRequest where
  "demo_begin = \<lparr>gbq_Addressing = ''tm'', gbq_Timeout = 60000, gbq_TransactionName = ''t''\<rparr>"

definition demo_register :: "BranchType \<Rightarrow> BranchRegisterRequest" where
  "demo_register t = \<lparr>brq_Addressing = ''rm'', brq_XID = ''tm:1'', brq_ResourceID = ''db'', brq_LockKey = ''a:1,2'',
     brq_BranchType = t, brq_ApplicationData = None, brq_AsyncCommit = False\<rparr>"

definition demo_begun :: "inmem tc" where
  "demo_begun = snd (tc_Begin (inmem_tc demo_conf) 1000 demo_begin (inmem_start demo_uuid))"

definition demo_registered :: "BranchType \<Rightarrow> inmem tc" where
  "demo_registered t = snd (the (tc_BranchRegister (inmem_tc demo_conf) (demo_register t) demo_begun))"

definition demo_committed :: "BranchType \<Rightarrow> inmem tc" where
  "demo_committed t = snd (the (tc_Commit (inmem_tc demo_conf) 2000 ''tm:1'' (demo_registered t)))"

definition demo_history :: "inmem tc \<Rightarrow> string \<Rightarrow> GlobalStatus option" where
  "demo_history s x = map_option gs_Status (inmem_gv (wld s) x)"

lemma demo_begun_step: "inmem_run demo_conf (inmem_start demo_uuid) 1 demo_begun"
proof -
  obtain r s where "tc_Begin (inmem_tc demo_conf) 1000 demo_begin (inmem_start demo_uuid) = (r, s)" by fastforce
  then show ?thesis
    unfolding inmem_run_def demo_begun_def One_nat_def
    by (intro tc_run.run_Suc [OF tc_run.run_0]) (auto intro: tc_step.begin_step)
qed

lemma demo_wf: "wf_uuid demo_uuid" by (simp add: wf_uuid_def demo_uuid_def)

definition demo_done :: "inmem tc" where
  "demo_done = the (handleAsyncCommitting (inmem_tc demo_conf) 3000
     (snd (the (open_stream (Some [''tm'']) (demo_committed AT)))))"

lemma demo_some:
  "\<not> Option.is_none (tc_BranchRegister (inmem_tc demo_conf) (demo_register AT) demo_begun)"
  "\<not> Option.is_none (tc_BranchRegister (inmem_tc demo_conf) (demo_register TCC) demo_begun)"
  "\<not> Option.is_none (tc_Commit (inmem_tc demo_conf) 2000 ''tm:1'' (demo_registered AT))"
  "\<not> Option.is_none (tc_Commit (inmem_tc demo_conf) 2000 ''tm:1'' (demo_registered TCC))"
  "\<not> Option.is_none (open_stream (Some [''tm'']) (demo_committed AT))"
  "\<not> Option.is_none (handleAsyncCommitting (inmem_tc demo_conf) 3000
     (snd (the (open_stream (Some [''tm'']) (demo_committed AT)))))"
  by code_simp+

lemma demo_committed_step:
  assumes "t \<in> {AT, TCC}"
  shows "inmem_run demo_conf demo_begun 2 (demo_committed t)"
proof -
  have r: "tc_BranchRegister (inmem_tc demo_conf) (demo_register t) demo_begun \<noteq> None"
    and c: "tc_Commit (inmem_tc demo_conf) 2000 ''tm:1'' (demo_registered t) \<noteq> None"
    using assms demo_some(1-4) by (auto simp: Option.is_none_def)
  obtain p1 s1 where 1: "tc_BranchRegister (inmem_tc demo_conf) (demo_register t) demo_begun = Some (p1, s1)"
    using r by auto
  then have s1: "demo_registered t = s1" by (simp add: demo_registered_def)
  obtain p2 s2 where 2: "tc_Commit (inmem_tc demo_conf) 2000 ''tm:1'' s1 = Some (p2, s2)" using c s1 by auto
  show ?thesis
    using tc_run_2 [OF tc_step.branch_register [OF 1] tc_step.commit [OF 2]] 2 s1
    by (simp add: inmem_run_def demo_committed_def)
qed

lemma session_closed_demo: "map_option gs_Active (inmem_gv (wld (demo_committed AT)) ''tm:1'') = Some False"
  by code_simp

lemma demo_register_again:
  "\<not> Option.is_none (tc_BranchRegister (inmem_tc demo_conf) (demo_register AT) (demo_committed AT))"
  by code_simp

lemma demo_done_step: "inmem_run demo_conf (demo_committed AT) 2 demo_done"
proof -
  obtain p1 s1 where 1: "open_stream (Some [''tm'']) (demo_committed AT) = Some (p1, s1)"
    using demo_some(5) by (auto simp: Option.is_none_def)
  obtain s2 where 2: "handleAsyncCommitting (inmem_tc demo_conf) 3000 s1 = Some s2"
    using demo_some(6) 1 by (auto simp: Option.is_none_def)
  show ?thesis
    using tc_run_2 [OF tc_step.connect [OF 1] tc_step.async_committing [OF 2]] 1 2
    by (simp add: inmem_run_def demo_done_def)
qed

lemma inmem_run_trans: "inmem_run conf s n s1 \<Longrightarrow> inmem_run conf s1 m s2 \<Longrightarrow> inmem_run conf s (n + m) s2"
  unfolding inmem_run_def by (rule tc_run_trans)

lemma demo_run: "inmem_run demo_conf (inmem_start demo_uuid) 3 (demo_committed AT)"
  using inmem_run_trans [OF demo_begun_step demo_committed_step [of AT]] by (simp add: numeral_3_eq_3)

text \<open>The same session once its transaction manager has opened a message stream.\<close>

definition demo_connected :: "inmem tc" where
  "demo_connected = snd (the (open_stream (Some [''tm'']) (demo_committed AT)))"

lemma demo_connected_run: "inmem_run demo_conf (inmem_start demo_uuid) 4 demo_connected"
proof -
  obtain p s1 where 1: "open_stream (Some [''tm'']) (demo_committed AT) = Some (p, s1)"
    using demo_some(5) by (auto simp: Option.is_none_def)
  then have "inmem_run demo_conf (demo_committed AT) 1 demo_connected"
    using tc_run.run_Suc [OF tc_run.run_0 tc_step.connect [OF 1]]
    by (simp add: inmem_run_def demo_connected_def)
  from inmem_run_trans [OF demo_run this] show ?thesis by simp
qed

subsection \<open>Properties of runs\<close>

text \<open>C1: along any run from an empty store, as long as the generator has not wrapped round, the
  session stored under an XID never changes its identity, its timeout or its begin time; its
  status only follows the status graph; it is never reactivated, and leaves a status for
  another only once closed.\<close>

theorem session_history:
  assumes "wf_uuid u" and "inmem_run conf (inmem_start u) n s" and "inmem_run conf s m s'"
    and "n + m \<le> 2 ^ 53" and "inmem_gv (wld s) x = Some a" and "inmem_gv (wld s') x = Some b"
  shows "session_le a b"
  using inmem_history(1) [OF assms(1-5)] assms(6) by simp

theorem session_history_witness:
  "session_le (the (inmem_gv (wld demo_begun) ''tm:1'')) (the (inmem_gv (wld (demo_committed AT)) ''tm:1'')) \<and>
   demo_history demo_begun ''tm:1'' = Some Begin \<and> demo_history (demo_committed AT) ''tm:1'' = Some AsyncCommitting"
proof -
  have a: "demo_history demo_begun ''tm:1'' = Some Begin" by code_simp
  have b: "demo_history (demo_committed AT) ''tm:1'' = Some AsyncCommitting" by code_simp
  have "session_le (the (inmem_gv (wld demo_begun) ''tm:1'')) (the (inmem_gv (wld (demo_committed AT)) ''tm:1''))"
    by (rule session_history [OF demo_wf demo_begun_step demo_committed_step])
      (use a b in \<open>auto simp: demo_history_def\<close>)
  with a b show ?thesis by blast
qed







end
