(* ===== verification/Inmemory_Phase_Two.thy ===== *)
theory Inmemory_Phase_Two
  imports Inmemory_System
begin

text \<open>
  The second phase over the in-memory driver when the resource managers answer: a commit or a
  rollback then runs to its end, removes the session and frees its row locks.
\<close>

definition commits_all :: "'d tc_conf \<Rightarrow> bool" where
  "commits_all conf \<longleftrightarrow> (\<forall>t r. MarshalAny conf t r = None) \<and>
     (\<forall>m. bm_BranchMessageType m = TypeBranchCommit \<longrightarrow>
        (\<exists>p. reply conf m = Replied (CommitReply p) \<and> bp_ResultCode p = ResultCodeSuccess \<and>
             bp_BranchStatus p = PhaseTwoCommitted))"

definition rolls_back_all :: "'d tc_conf \<Rightarrow> bool" where
  "rolls_back_all conf \<longleftrightarrow> (\<forall>t r. MarshalAny conf t r = None) \<and>
     (\<forall>m. bm_BranchMessageType m = TypeBranchRollback \<longrightarrow>
        (\<exists>p. reply conf m = Replied (RollbackReply p) \<and> bp_ResultCode p = ResultCodeSuccess \<and>
             bp_BranchStatus p = PhaseTwoRolledBack))"

lemma branchCommit_commits:
  assumes "commits_all conf"
  obtains s1 where "branchCommit conf b s = ((PhaseTwoCommitted, None), s1)" "wld s1 = wld s"
proof -
  let ?m = "\<lparr>bm_ID = idGenerator s + 1, bm_BranchMessageType = TypeBranchCommit,
              bm_Message = branch_request (bobj (wld s) b)\<rparr>"
  have "bm_BranchMessageType ?m = TypeBranchCommit" by simp
  with assms obtain p where "reply conf ?m = Replied (CommitReply p)" "bp_ResultCode p = ResultCodeSuccess"
    "bp_BranchStatus p = PhaseTwoCommitted"
    unfolding commits_all_def by blast
  with assms show thesis
    by (intro that [of "snd (branchCommit conf b s)"])
      (simp_all add: branchCommit_def commits_all_def send_message_def Let_def)
qed

lemma branchRollback_rolls_back:
  assumes "rolls_back_all conf"
  obtains s1 where "branchRollback conf b s = Some ((PhaseTwoRolledBack, None), s1)" "wld s1 = wld s"
proof -
  let ?m = "\<lparr>bm_ID = idGenerator s + 1, bm_BranchMessageType = TypeBranchRollback,
              bm_Message = branch_request (bobj (wld s) b)\<rparr>"
  have "bm_BranchMessageType ?m = TypeBranchRollback" by simp
  with assms obtain p where "reply conf ?m = Replied (RollbackReply p)" "bp_ResultCode p = ResultCodeSuccess"
    "bp_BranchStatus p = PhaseTwoRolledBack"
    unfolding rolls_back_all_def by blast
  with assms show thesis
    by (intro that [of "snd (the (branchRollback conf b s))"])
      (simp_all add: branchRollback_def rolls_back_all_def send_message_def Let_def)
qed

text \<open>\<open>trimmed x rm w w'\<close>: the entry of \<open>x\<close> lost the branches \<open>rm\<close>, their row locks were released,
  nothing else changed.\<close>

definition trimmed :: "string \<Rightarrow> bref set \<Rightarrow> inmem world \<Rightarrow> inmem world \<Rightarrow> bool" where
  "trimmed x rm w w' \<longleftrightarrow>
     gobj w' = gobj w \<and> bobj w' = bobj w \<and> gtop w' = gtop w \<and> btop w' = btop w \<and>
     map_of (SessionMap (drv w')) = (map_of (SessionMap (drv w)))
       (x := map_option (\<lambda>e. e\<lparr>gt_BranchSessions := filter (\<lambda>b. b \<notin> rm) (gt_BranchSessions e)\<rparr>)
               (map_of (SessionMap (drv w)) x)) \<and>
     (\<forall>k. inmem_held w' k =
        (if \<exists>b \<in> rm. k \<in> branch_rows (bobj w b) \<and> inmem_held w k = Some (bs_TransactionID (bobj w b))
         then None else inmem_held w k))"

lemma trimmed_refl [simp]: "trimmed x {} w w"
  by (auto simp: trimmed_def fun_eq_iff option.map_ident)

lemma trimmed_trans: "trimmed x A w w1 \<Longrightarrow> trimmed x B w1 w2 \<Longrightarrow> trimmed x (A \<union> B) w w2"
  by (auto simp: trimmed_def fun_eq_iff option.map_comp comp_def intro!: arg_cong2 [where f = map_option])

lemma drop_branch_inmem:
  assumes "map_of (SessionMap (drv (wld s))) x = Some e"
    and "gs_XID (gobj (wld s) (gt_GlobalSession gt)) = x"
  obtains s' where "drop_branch (inmem_tc conf) gt b s = Some (None, s')" "trimmed x {b} (wld s) (wld s')"
proof -
  let ?w = "wld s"
  let ?w1 = "?w\<lparr>drv := (drv ?w)\<lparr>LockMap := releaseLoop (branch_locks (bobj ?w b)) (LockMap (drv ?w))\<rparr>\<rparr>"
  let ?w2 = "put_session x (gt_Remove e b) ?w1"
  have r: "ReleaseLock inmem_lm (Some b) ?w = Some (True, ?w1)"
    by (simp add: ReleaseLock_eq inmem_ReleaseLock_def)
  have "drop_branch (inmem_tc conf) gt b s = Some (None, s\<lparr>wld := ?w2\<rparr>)"
    using assms r by (simp add: drop_branch_def on_wld_opt_def on_wld_def RemoveBranchSession_def
        inmem_RemoveBranchSession_def)
  moreover have "trimmed x {b} ?w ?w2"
    using assms releaseLoop_map_of [OF branch_locks_one_owner(1)]
    by (auto simp: trimmed_def inmem_held_def branch_rows_def gt_Remove_def removeAll_filter_not_eq
        intro!: arg_cong [where f = "\<lambda>l. _\<lparr>gt_BranchSessions := l\<rparr>"] filter_cong)
  ultimately show thesis by (intro that [of "s\<lparr>wld := ?w2\<rparr>"]) simp_all
qed

lemma trimmed_obj:
  assumes "trimmed x rm w w'"
  shows "gobj w' = gobj w" "bobj w' = bobj w"
  using assms by (simp_all add: trimmed_def)

lemma trimmed_entry:
  assumes "trimmed x rm w w'" and "map_of (SessionMap (drv w)) x = Some e"
  shows "map_of (SessionMap (drv w')) x =
    Some (e\<lparr>gt_BranchSessions := filter (\<lambda>b. b \<notin> rm) (gt_BranchSessions e)\<rparr>)"
  using assms by (simp add: trimmed_def)

lemma commit_loop:
  assumes "commits_all conf" and "map_of (SessionMap (drv (wld s))) x = Some e"
    and "gs_XID (gobj (wld s) (gt_GlobalSession gt)) = x"
  shows "\<exists>s'. commit_branches (inmem_tc conf) retrying bs gt s =
      Some (None, gt\<lparr>gt_BranchSessions := filter (\<lambda>b. b \<notin> set bs) (gt_BranchSessions gt)\<rparr>, s') \<and>
    trimmed x (set bs) (wld s) (wld s')"
  using assms(2,3)
proof (induction bs arbitrary: gt s e)
  case Nil
  then show ?case by simp
next
  case (Cons b bs)
  have c: "commits_all (inmem_tc conf)" using assms(1)
    by (simp add: commits_all_def inmem_tc_def NewTransactionCoordinator_def)
  obtain s1 where 1: "branchCommit (inmem_tc conf) b s = ((PhaseTwoCommitted, None), s1)" "wld s1 = wld s"
    by (rule branchCommit_commits [OF c])
  obtain s2 where 2: "drop_branch (inmem_tc conf) gt b s1 = Some (None, s2)" "trimmed x {b} (wld s) (wld s2)"
    using drop_branch_inmem [of s1 x e gt conf b] Cons.prems 1(2) by metis
  obtain s' where 3: "commit_branches (inmem_tc conf) retrying bs (gt_Remove gt b) s2 =
      Some (None, (gt_Remove gt b)\<lparr>gt_BranchSessions := filter (\<lambda>b. b \<notin> set bs) (gt_BranchSessions (gt_Remove gt b))\<rparr>, s')"
    "trimmed x (set bs) (wld s2) (wld s')"
    using Cons.IH [OF trimmed_entry [OF 2(2) Cons.prems(1)], of "gt_Remove gt b"] trimmed_obj [OF 2(2)]
      Cons.prems(2) by auto
  have "trimmed x (set (b # bs)) (wld s) (wld s')" using trimmed_trans [OF 2(2) 3(2)] by simp
  moreover have "(gt_Remove gt b)\<lparr>gt_BranchSessions := filter (\<lambda>b. b \<notin> set bs) (gt_BranchSessions (gt_Remove gt b))\<rparr> =
      gt\<lparr>gt_BranchSessions := filter (\<lambda>c. c \<notin> set (b # bs)) (gt_BranchSessions gt)\<rparr>"
    by (auto simp: gt_Remove_def removeAll_filter_not_eq
        intro!: arg_cong [where f = "\<lambda>l. _\<lparr>gt_BranchSessions := l\<rparr>"] filter_cong)
  ultimately show ?case using 1 2(1) 3(1) by auto
qed

lemma rollback_loop:
  assumes "rolls_back_all conf" and "map_of (SessionMap (drv (wld s))) x = Some e"
    and "gs_XID (gobj (wld s) (gt_GlobalSession gt)) = x"
  shows "\<exists>s'. rollback_branches (inmem_tc conf) retrying bs gt s =
      Some (None, gt\<lparr>gt_BranchSessions := filter (\<lambda>b. b \<notin> set bs) (gt_BranchSessions gt)\<rparr>, s') \<and>
    trimmed x (set bs) (wld s) (wld s')"
  using assms(2,3)
proof (induction bs arbitrary: gt s e)
  case Nil
  then show ?case by simp
next
  case (Cons b bs)
  have c: "rolls_back_all (inmem_tc conf)" using assms(1)
    by (simp add: rolls_back_all_def inmem_tc_def NewTransactionCoordinator_def)
  obtain s1 where 1: "branchRollback (inmem_tc conf) b s = Some ((PhaseTwoRolledBack, None), s1)" "wld s1 = wld s"
    by (rule branchRollback_rolls_back [OF c])
  define t where "t = (if bs_Status (bobj (wld s) b) = PhaseOneFailed then s else s1)"
  have t: "wld t = wld s" using 1 by (simp add: t_def)
  obtain s2 where 2: "drop_branch (inmem_tc conf) gt b t = Some (None, s2)" "trimmed x {b} (wld s) (wld s2)"
    using drop_branch_inmem [of t x e gt conf b] Cons.prems t by metis
  obtain s' where 3: "rollback_branches (inmem_tc conf) retrying bs (gt_Remove gt b) s2 =
      Some (None, (gt_Remove gt b)\<lparr>gt_BranchSessions := filter (\<lambda>b. b \<notin> set bs) (gt_BranchSessions (gt_Remove gt b))\<rparr>, s')"
    "trimmed x (set bs) (wld s2) (wld s')"
    using Cons.IH [OF trimmed_entry [OF 2(2) Cons.prems(1)], of "gt_Remove gt b"] trimmed_obj [OF 2(2)]
      Cons.prems(2) by auto
  have "trimmed x (set (b # bs)) (wld s) (wld s')" using trimmed_trans [OF 2(2) 3(2)] by simp
  moreover have "(gt_Remove gt b)\<lparr>gt_BranchSessions := filter (\<lambda>b. b \<notin> set bs) (gt_BranchSessions (gt_Remove gt b))\<rparr> =
      gt\<lparr>gt_BranchSessions := filter (\<lambda>c. c \<notin> set (b # bs)) (gt_BranchSessions gt)\<rparr>"
    by (auto simp: gt_Remove_def removeAll_filter_not_eq
        intro!: arg_cong [where f = "\<lambda>l. _\<lparr>gt_BranchSessions := l\<rparr>"] filter_cong)
  ultimately show ?case using 1 2(1) 3(1) by (auto simp: t_def split: if_splits)
qed

text \<open>\<open>finished_world x g rm w w'\<close>: the session of \<open>x\<close>, the object \<open>g\<close>, is gone from the store, and the
  row locks of the branches \<open>rm\<close> with it.\<close>

definition finished_world :: "string \<Rightarrow> gref \<Rightarrow> bref set \<Rightarrow> inmem world \<Rightarrow> inmem world \<Rightarrow> bool" where
  "finished_world x g rm w w' \<longleftrightarrow>
     map_of (SessionMap (drv w')) = (map_of (SessionMap (drv w)))(x := None) \<and>
     (\<forall>h. h \<noteq> g \<longrightarrow> gobj w' h = gobj w h) \<and> gs_XID (gobj w' g) = gs_XID (gobj w g) \<and> bobj w' = bobj w \<and>
     (\<forall>k. inmem_held w' k =
        (if \<exists>b \<in> rm. k \<in> branch_rows (bobj w b) \<and> inmem_held w k = Some (bs_TransactionID (bobj w b))
         then None else inmem_held w k))"

lemma finish_inmem:
  assumes "map_of (SessionMap (drv (wld s))) x = Some e" and "gt_GlobalSession e = gt_GlobalSession gt"
    and "gs_XID (gobj (wld s) (gt_GlobalSession gt)) = x" and "gt_BranchSessions gt = []"
  obtains s' where "finish_global (inmem_tc conf) gt st r s = Some (r, s')"
    "finished_world x (gt_GlobalSession gt) {} (wld s) (wld s')"
    "gobj (wld s') (gt_GlobalSession gt) = (gobj (wld s) (gt_GlobalSession gt))\<lparr>gs_Status := st\<rparr>"
proof -
  define w1 where "w1 = set_gs (gt_GlobalSession gt) (\<lambda>s. s\<lparr>gs_Status := st\<rparr>)
    (set_gs (gt_GlobalSession gt) (\<lambda>s. s\<lparr>gs_Status := st\<rparr>) (wld s))"
  define w2 where "w2 = w1\<lparr>drv := (drv w1)\<lparr>LockMap := releaseLoop [] (LockMap (drv w1))\<rparr>\<rparr>"
  define w3 where "w3 = w2\<lparr>drv := (drv w2)\<lparr>SessionMap := AList.delete x (SessionMap (drv w2))\<rparr>\<rparr>"
  have u: "UpdateGlobalSessionStatus inmem_sm (gt_GlobalSession gt) st (wld s) = (None, w1)"
    using assms by (simp add: UpdateGlobalSessionStatus_def inmem_UpdateGlobalSessionStatus_def w1_def)
  have l: "ReleaseGlobalSessionLock inmem_lm gt w1 = Some (True, w2)"
    using assms(4) by (simp add: ReleaseGlobalSessionLock_def inmem_ReleaseLock_def w2_def)
  have m: "RemoveGlobalTransaction inmem_sm gt w2 = (None, w3)"
    using assms(3,4) by (simp add: RemoveGlobalTransaction_def inmem_RemoveGlobalSession_def w3_def w2_def w1_def)
  have "finish_global (inmem_tc conf) gt st r s = Some (r, s\<lparr>wld := w3\<rparr>)"
    by (simp add: finish_global_def on_wld_def on_wld_opt_def u l m)
  moreover have "finished_world x (gt_GlobalSession gt) {} (wld s) w3"
    by (simp add: finished_world_def w3_def w2_def w1_def inmem_held_def)
  moreover have "gobj w3 (gt_GlobalSession gt) = (gobj (wld s) (gt_GlobalSession gt))\<lparr>gs_Status := st\<rparr>"
    by (simp add: w3_def w2_def w1_def)
  ultimately show thesis by (intro that [of "s\<lparr>wld := w3\<rparr>"]) simp_all
qed

lemma trimmed_finished:
  "trimmed x rm w w1 \<Longrightarrow> finished_world x g {} w1 w' \<Longrightarrow> finished_world x g rm w w'"
  by (auto simp: trimmed_def finished_world_def fun_eq_iff)

lemma find_inmem:
  assumes "map_of (SessionMap (drv (wld s))) x = Some e"
  shows "on_wld (FindGlobalTransaction inmem_sm x) s =
    (Some \<lparr>gt_GlobalSession = gt_GlobalSession e, gt_BranchSessions = put_keys [] (gt_BranchSessions e)\<rparr>, s)"
  using assms by (simp add: on_wld_def FindGlobalTransaction_def inmem_FindGlobalSession_def inmem_FindBranchSessions_def)

lemma doGlobalCommit_completes:
  assumes "commits_all conf" and e: "map_of (SessionMap (drv (wld s))) x = Some e"
    and g: "gt_GlobalSession e = gt_GlobalSession gt" "gs_XID (gt_session (wld s) gt) = x"
    and b: "set (gt_BranchSessions gt) = set (gt_BranchSessions e)" and "\<not> IsSaga (wld s) gt"
  obtains s' where "doGlobalCommit (inmem_tc conf) now gt retrying s = Some ((True, None), s')"
    "finished_world x (gt_GlobalSession gt) (set (gt_BranchSessions gt)) (wld s) (wld s')"
proof -
  let ?s0 = "spawn_event (gt_GlobalSession gt) 0 s" and ?bs = "gt_BranchSessions gt"
  let ?gt = "gt\<lparr>gt_BranchSessions := filter (\<lambda>b. b \<notin> set ?bs) ?bs\<rparr>"
  have nil: "gt_BranchSessions ?gt = []" by (simp add: filter_empty_conv)
  obtain s1 where c: "commit_branches (inmem_tc conf) retrying ?bs gt ?s0 = Some (None, ?gt, s1)"
    and t: "trimmed x (set ?bs) (wld s) (wld s1)"
    using commit_loop [OF assms(1), of ?s0 x e gt retrying ?bs] e g by (auto simp: gt_session_def)
  note e1 = trimmed_entry [OF t e] and o1 = trimmed_obj [OF t]
  have x1: "gs_XID (gobj (wld s1) (gt_GlobalSession ?gt)) = x" using o1 g by (simp add: gt_session_def)
  have none: "filter (\<lambda>c. c \<notin> set ?bs) (gt_BranchSessions e) = []" using b by (simp add: filter_empty_conv)
  have f: "on_wld (FindGlobalTransaction inmem_sm (gs_XID (gt_session (wld s1) ?gt))) s1 =
      (Some \<lparr>gt_GlobalSession = gt_GlobalSession e, gt_BranchSessions = []\<rparr>, s1)"
    using find_inmem [OF e1] x1 none by (simp add: gt_session_def)
  obtain s2 where fin: "finish_global (inmem_tc conf) ?gt Committed (True, None) s1 = Some ((True, None), s2)"
    and w2: "finished_world x (gt_GlobalSession gt) {} (wld s1) (wld s2)"
    by (rule finish_inmem [OF e1 _ x1 nil, of conf Committed "(True, None)"]) (use g in simp_all)
  have "doGlobalCommit (inmem_tc conf) now gt retrying s =
      Some ((True, None), spawn_event (gt_GlobalSession gt) now s2)"
    using assms(6) c f fin by (simp add: doGlobalCommit_def Let_def HasBranch_def)
  with trimmed_finished [OF t w2] show thesis
    by (intro that [of "spawn_event (gt_GlobalSession gt) now s2"]) simp_all
qed

lemma doGlobalRollback_completes:
  assumes "rolls_back_all conf" and e: "map_of (SessionMap (drv (wld s))) x = Some e"
    and g: "gt_GlobalSession e = gt_GlobalSession gt" "gs_XID (gt_session (wld s) gt) = x"
    and b: "set (gt_BranchSessions gt) = set (gt_BranchSessions e)" and "\<not> IsSaga (wld s) gt"
  obtains s' where "doGlobalRollback (inmem_tc conf) now gt retrying s = Some ((True, None), s')"
    "finished_world x (gt_GlobalSession gt) (set (gt_BranchSessions gt)) (wld s) (wld s')"
    "gs_Status (gt_session (wld s') gt) =
       (if IsTimeoutGlobalStatus (wld s) gt then TimeoutRolledBack else RolledBack)"
proof -
  let ?s0 = "spawn_event (gt_GlobalSession gt) 0 s" and ?bs = "gt_BranchSessions gt"
  let ?gt = "gt\<lparr>gt_BranchSessions := filter (\<lambda>b. b \<notin> set ?bs) ?bs\<rparr>"
  have nil: "gt_BranchSessions ?gt = []" by (simp add: filter_empty_conv)
  obtain s1 where c: "rollback_branches (inmem_tc conf) retrying ?bs gt ?s0 = Some (None, ?gt, s1)"
    and t: "trimmed x (set ?bs) (wld s) (wld s1)"
    using rollback_loop [OF assms(1), of ?s0 x e gt retrying ?bs] e g by (auto simp: gt_session_def)
  note e1 = trimmed_entry [OF t e] and o1 = trimmed_obj [OF t]
  have x1: "gs_XID (gobj (wld s1) (gt_GlobalSession ?gt)) = x" using o1 g by (simp add: gt_session_def)
  have none: "filter (\<lambda>c. c \<notin> set ?bs) (gt_BranchSessions e) = []" using b by (simp add: filter_empty_conv)
  have f: "on_wld (FindGlobalTransaction inmem_sm (gs_XID (gt_session (wld s1) ?gt))) s1 =
      (Some \<lparr>gt_GlobalSession = gt_GlobalSession e, gt_BranchSessions = []\<rparr>, s1)"
    using find_inmem [OF e1] x1 none by (simp add: gt_session_def)
  let ?st = "if IsTimeoutGlobalStatus (wld s) gt then TimeoutRolledBack else RolledBack"
  have st: "timeout_or ?gt TimeoutRolledBack RolledBack s1 = ?st"
    using o1 by (simp add: timeout_or_def IsTimeoutGlobalStatus_def gt_session_def)
  obtain s2 where fin: "finish_global (inmem_tc conf) ?gt ?st (True, None) s1 = Some ((True, None), s2)"
    and w2: "finished_world x (gt_GlobalSession gt) {} (wld s1) (wld s2)"
    and o2: "gobj (wld s2) (gt_GlobalSession gt) = (gobj (wld s1) (gt_GlobalSession gt))\<lparr>gs_Status := ?st\<rparr>"
    by (rule finish_inmem [OF e1 _ x1 nil, of conf ?st "(True, None)"]) (use g in simp_all)
  have "doGlobalRollback (inmem_tc conf) now gt retrying s =
      Some ((True, None), spawn_event (gt_GlobalSession gt) now s2)"
    using assms(6) c f fin st by (simp add: doGlobalRollback_def Let_def HasBranch_def del: if_split)
  with trimmed_finished [OF t w2] o2 show thesis
    by (intro that [of "spawn_event (gt_GlobalSession gt) now s2"]) (simp_all add: gt_session_def)
qed

subsection \<open>The handlers\<close>

lemma releaseLoop_append: "releaseLoop (ls @ ms) m = releaseLoop ms (releaseLoop ls m)"
  by (induction ls arbitrary: m) (auto split: option.splits)

lemma release_global:
  "map_of (releaseLoop (global_row_locks w bs) m) k =
     (if \<exists>b \<in> set bs. k \<in> branch_rows (bobj w b) \<and> map_of m k = Some (bs_TransactionID (bobj w b))
      then None else map_of m k)"
proof (induction bs arbitrary: m)
  case (Cons b bs)
  then show ?case
    using releaseLoop_map_of [OF branch_locks_one_owner(1), of "bobj w b" m k]
    by (auto simp: releaseLoop_append branch_rows_def branch_locks_def [symmetric])
qed simp

text \<open>The world in which a session was closed and given a new status.\<close>

definition decided_world :: "gref \<Rightarrow> GlobalStatus \<Rightarrow> inmem world \<Rightarrow> inmem world \<Rightarrow> bool" where
  "decided_world g st w w' \<longleftrightarrow>
     gobj w' = (gobj w)(g := (gobj w g)\<lparr>gs_Active := False, gs_Status := st\<rparr>) \<and> bobj w' = bobj w \<and>
     SessionMap (drv w') = SessionMap (drv w)"

definition released :: "bref set \<Rightarrow> inmem world \<Rightarrow> inmem world \<Rightarrow> bool" where
  "released rm w w' \<longleftrightarrow> (\<forall>k. inmem_held w' k =
     (if \<exists>b \<in> rm. k \<in> branch_rows (bobj w b) \<and> inmem_held w k = Some (bs_TransactionID (bobj w b))
      then None else inmem_held w k))"

lemma close_inmem:
  assumes "map_of (SessionMap (drv (wld s))) x = Some e" and "gt_GlobalSession e = g"
    and "gs_XID (gobj (wld s) g) = x"
  obtains s1 where "(if gs_Active (gobj (wld s) g) then on_wld (InactiveGlobalSession inmem_sm g) s else (None, s)) = (None, s1)"
    "decided_world g (gs_Status (gobj (wld s) g)) (wld s) (wld s1)" "LockMap (drv (wld s1)) = LockMap (drv (wld s))"
proof (cases "gs_Active (gobj (wld s) g)")
  case True
  let ?f = "\<lambda>s :: GlobalSession. s\<lparr>gs_Active := False\<rparr>"
  show thesis
    by (rule that [of "s\<lparr>wld := set_gs g ?f (set_gs g ?f (wld s))\<rparr>"])
      (use assms True in \<open>simp_all add: on_wld_def InactiveGlobalSession_def inmem_InactiveGlobalSession_def decided_world_def\<close>)
next
  case False
  show thesis
    by (rule that [of s]) (use False in \<open>simp_all add: decided_world_def fun_eq_iff\<close>)
qed

lemma status_inmem:
  assumes "map_of (SessionMap (drv (wld s))) x = Some e" and "gt_GlobalSession e = g"
    and "gs_XID (gobj (wld s) g) = x"
  obtains s1 where "on_wld (UpdateGlobalSessionStatus inmem_sm g st) s = (None, s1)"
    "gobj (wld s1) = (gobj (wld s))(g := (gobj (wld s) g)\<lparr>gs_Status := st\<rparr>)" "bobj (wld s1) = bobj (wld s)"
    "drv (wld s1) = drv (wld s)"
proof -
  let ?f = "\<lambda>s :: GlobalSession. s\<lparr>gs_Status := st\<rparr>"
  show thesis
    by (rule that [of "s\<lparr>wld := set_gs g ?f (set_gs g ?f (wld s))\<rparr>"])
      (use assms in \<open>simp_all add: on_wld_def UpdateGlobalSessionStatus_def inmem_UpdateGlobalSessionStatus_def\<close>)
qed

lemma commit_decision_inmem:
  assumes e: "map_of (SessionMap (drv (wld s))) x = Some e" "gt_GlobalSession e = gt_GlobalSession gt"
    "gs_XID (gobj (wld s) (gt_GlobalSession gt)) = x" and st: "gs_Status (gobj (wld s) (gt_GlobalSession gt)) = Begin"
  obtains s' where "commit_decision (inmem_tc conf) xid gt s = Some ((True, None), s')"
    "decided_world (gt_GlobalSession gt) Committing (wld s) (wld s')"
    "released (set (gt_BranchSessions gt)) (wld s) (wld s')"
proof -
  let ?g = "gt_GlobalSession gt"
  obtain s1 where 1: "(if gs_Active (gobj (wld s) ?g) then on_wld (InactiveGlobalSession inmem_sm ?g) s else (None, s)) = (None, s1)"
    and d1: "decided_world ?g Begin (wld s) (wld s1)" "LockMap (drv (wld s1)) = LockMap (drv (wld s))"
    by (rule close_inmem [OF e, unfolded st])
  define s2 where "s2 = s1\<lparr>wld := (wld s1)\<lparr>drv := (drv (wld s1))
      \<lparr>LockMap := releaseLoop (global_row_locks (wld s1) (gt_BranchSessions gt)) (LockMap (drv (wld s1)))\<rparr>\<rparr>\<rparr>"
  have 2: "on_wld_opt (ReleaseGlobalSessionLock inmem_lm gt) s1 = Some (True, s2)"
    by (simp add: on_wld_opt_def ReleaseGlobalSessionLock_def inmem_ReleaseLock_def s2_def)
  have d2: "decided_world ?g Begin (wld s) (wld s2)" using d1(1) by (simp add: decided_world_def s2_def)
  have r2: "released (set (gt_BranchSessions gt)) (wld s) (wld s2)"
    using d1 by (auto simp: released_def inmem_held_def s2_def release_global decided_world_def)
  obtain s3 where 3: "on_wld (UpdateGlobalSessionStatus inmem_sm ?g Committing) s2 = (None, s3)"
    and d3: "gobj (wld s3) = (gobj (wld s2))(?g := (gobj (wld s2) ?g)\<lparr>gs_Status := Committing\<rparr>)"
      "bobj (wld s3) = bobj (wld s2)" "drv (wld s3) = drv (wld s2)"
    by (rule status_inmem [of s2 x e ?g Committing]) (use d2 e in \<open>auto simp: decided_world_def\<close>)
  have "commit_decision (inmem_tc conf) xid gt s = Some ((True, None), s3)"
    using commit_decision_eq [of "inmem_tc conf", unfolded inmem_tc_simps, OF refl 1] 2 3 d2
    by (simp add: update_then_def gt_session_def decided_world_def)
  moreover have "decided_world ?g Committing (wld s) (wld s3)" using d2 d3 by (simp add: decided_world_def)
  moreover have "released (set (gt_BranchSessions gt)) (wld s) (wld s3)"
    using r2 d3 by (simp add: released_def inmem_held_def)
  ultimately show thesis by (rule that)
qed

lemma rollback_decision_inmem:
  assumes e: "map_of (SessionMap (drv (wld s))) x = Some e" "gt_GlobalSession e = gt_GlobalSession gt"
    "gs_XID (gobj (wld s) (gt_GlobalSession gt)) = x" and st: "gs_Status (gobj (wld s) (gt_GlobalSession gt)) = Begin"
  obtains s' where "rollback_decision (inmem_tc conf) xid gt s = ((True, None), s')"
    "decided_world (gt_GlobalSession gt) RollingBack (wld s) (wld s')"
    "LockMap (drv (wld s')) = LockMap (drv (wld s))"
proof -
  let ?g = "gt_GlobalSession gt"
  obtain s1 where 1: "(if gs_Active (gobj (wld s) ?g) then on_wld (InactiveGlobalSession inmem_sm ?g) s else (None, s)) = (None, s1)"
    and d1: "decided_world ?g Begin (wld s) (wld s1)" "LockMap (drv (wld s1)) = LockMap (drv (wld s))"
    by (rule close_inmem [OF e, unfolded st])
  obtain s3 where 3: "on_wld (UpdateGlobalSessionStatus inmem_sm ?g RollingBack) s1 = (None, s3)"
    and d3: "gobj (wld s3) = (gobj (wld s1))(?g := (gobj (wld s1) ?g)\<lparr>gs_Status := RollingBack\<rparr>)"
      "bobj (wld s3) = bobj (wld s1)" "drv (wld s3) = drv (wld s1)"
    by (rule status_inmem [of s1 x e ?g RollingBack]) (use d1 e in \<open>auto simp: decided_world_def\<close>)
  have "rollback_decision (inmem_tc conf) xid gt s = ((True, None), s3)"
    using rollback_decision_eq [of "inmem_tc conf", unfolded inmem_tc_simps, OF refl 1] 3 d1
    by (simp add: update_then_def decided_world_def)
  moreover have "decided_world ?g RollingBack (wld s) (wld s3)" using d1 d3 by (simp add: decided_world_def)
  ultimately show thesis using d1(2) d3(3) by (intro that [of s3]) simp_all
qed

lemma decided_queries:
  assumes "decided_world g st w w'"
  shows "IsSaga w' gt = IsSaga w gt" "CanBeCommittedAsync w' gt = CanBeCommittedAsync w gt"
  using assms by (simp_all add: decided_world_def IsSaga_def CanBeCommittedAsync_def)

lemma decided_finished:
  assumes "decided_world g st w w1" and "released rm w w1 \<or> LockMap (drv w1) = LockMap (drv w)"
    and "finished_world x g rm w1 w'"
  shows "finished_world x g rm w w'"
proof -
  have "LockMap (drv w1) = LockMap (drv w) \<Longrightarrow> inmem_held w1 = inmem_held w"
    by (simp add: inmem_held_def fun_eq_iff)
  with assms show ?thesis
    by (auto simp: decided_world_def released_def finished_world_def split: if_splits)
qed

lemma put_keys_entry: "set (put_keys [] (gt_BranchSessions e)) = set (gt_BranchSessions e)" by simp

lemma commit_synchronous:
  assumes c: "commits_all conf" and e: "map_of (SessionMap (drv (wld s))) x = Some e"
    and x: "gs_XID (gt_session (wld s) e) = x" and st: "gs_Status (gt_session (wld s) e) = Begin"
    and "\<not> IsSaga (wld s) e" and "\<not> CanBeCommittedAsync (wld s) e"
  shows "\<exists>s'. tc_Commit (inmem_tc conf) now x s = Some (Inr (success Committed), s') \<and>
    finished_world x (gt_GlobalSession e) (set (gt_BranchSessions e)) (wld s) (wld s')"
proof -
  let ?gt = "\<lparr>gt_GlobalSession = gt_GlobalSession e, gt_BranchSessions = put_keys [] (gt_BranchSessions e)\<rparr>"
  obtain s1 where 1: "commit_decision (inmem_tc conf) x ?gt s = Some ((True, None), s1)"
    and d: "decided_world (gt_GlobalSession e) Committing (wld s) (wld s1)"
    and r: "released (set (gt_BranchSessions e)) (wld s) (wld s1)"
    using commit_decision_inmem [OF e, of ?gt conf x] x st by (auto simp: gt_session_def)
  have q: "\<not> IsSaga (wld s1) ?gt" "\<not> CanBeCommittedAsync (wld s1) ?gt"
    using gt_queries_order [of ?gt e "wld s"] decided_queries [OF d, of ?gt] assms(5,6) by simp_all
  obtain s2 where 2: "doGlobalCommit (inmem_tc conf) now ?gt False s1 = Some ((True, None), s2)"
    and f: "finished_world x (gt_GlobalSession e) (set (gt_BranchSessions e)) (wld s1) (wld s2)"
    using doGlobalCommit_completes [OF c, of s1 x e ?gt now False] d e x q(1)
    by (auto simp: decided_world_def gt_session_def)
  show ?thesis
    using find_inmem [OF e] 1 q 2 decided_finished [OF d _ f] r by (simp add: tc_Commit_def)
qed

lemma commit_asynchronous:
  assumes e: "map_of (SessionMap (drv (wld s))) x = Some e"
    and x: "gs_XID (gt_session (wld s) e) = x" and st: "gs_Status (gt_session (wld s) e) = Begin"
    and "CanBeCommittedAsync (wld s) e"
  shows "\<exists>s'. tc_Commit (inmem_tc conf) now x s = Some (Inr (success Committed), s') \<and>
    decided_world (gt_GlobalSession e) AsyncCommitting (wld s) (wld s') \<and>
    released (set (gt_BranchSessions e)) (wld s) (wld s')"
proof -
  let ?gt = "\<lparr>gt_GlobalSession = gt_GlobalSession e, gt_BranchSessions = put_keys [] (gt_BranchSessions e)\<rparr>"
  obtain s1 where 1: "commit_decision (inmem_tc conf) x ?gt s = Some ((True, None), s1)"
    and d: "decided_world (gt_GlobalSession e) Committing (wld s) (wld s1)"
    and r: "released (set (gt_BranchSessions e)) (wld s) (wld s1)"
    using commit_decision_inmem [OF e, of ?gt conf x] x st by (auto simp: gt_session_def)
  have q: "CanBeCommittedAsync (wld s1) ?gt"
    using gt_queries_order [of ?gt e "wld s"] decided_queries [OF d, of ?gt] assms(4) by simp
  obtain s3 where 3: "on_wld (UpdateGlobalSessionStatus inmem_sm (gt_GlobalSession e) AsyncCommitting) s1 = (None, s3)"
    and d3: "gobj (wld s3) = (gobj (wld s1))(gt_GlobalSession e := (gobj (wld s1) (gt_GlobalSession e))\<lparr>gs_Status := AsyncCommitting\<rparr>)"
      "bobj (wld s3) = bobj (wld s1)" "drv (wld s3) = drv (wld s1)"
    by (rule status_inmem [of s1 x e "gt_GlobalSession e" AsyncCommitting])
      (use d e x in \<open>auto simp: decided_world_def gt_session_def\<close>)
  have "tc_Commit (inmem_tc conf) now x s = Some (Inr (success Committed), s3)"
    using find_inmem [OF e] 1 q 3 by (simp add: tc_Commit_def)
  moreover have "decided_world (gt_GlobalSession e) AsyncCommitting (wld s) (wld s3)"
    using d d3 by (simp add: decided_world_def)
  moreover have "released (set (gt_BranchSessions e)) (wld s) (wld s3)"
    using r d3 by (simp add: released_def inmem_held_def)
  ultimately show ?thesis by blast
qed

lemma rollback_whole:
  assumes c: "rolls_back_all conf" and e: "map_of (SessionMap (drv (wld s))) x = Some e"
    and x: "gs_XID (gt_session (wld s) e) = x" and st: "gs_Status (gt_session (wld s) e) = Begin"
    and "\<not> IsSaga (wld s) e"
  shows "\<exists>s'. tc_Rollback (inmem_tc conf) now x s = Some (Inr (success RolledBack), s') \<and>
    finished_world x (gt_GlobalSession e) (set (gt_BranchSessions e)) (wld s) (wld s')"
proof -
  let ?gt = "\<lparr>gt_GlobalSession = gt_GlobalSession e, gt_BranchSessions = put_keys [] (gt_BranchSessions e)\<rparr>"
  obtain s1 where 1: "rollback_decision (inmem_tc conf) x ?gt s = ((True, None), s1)"
    and d: "decided_world (gt_GlobalSession e) RollingBack (wld s) (wld s1)"
    and l: "LockMap (drv (wld s1)) = LockMap (drv (wld s))"
    using rollback_decision_inmem [OF e, of ?gt conf x] x st by (auto simp: gt_session_def)
  have q: "\<not> IsSaga (wld s1) ?gt"
    using gt_queries_order [of ?gt e "wld s"] decided_queries [OF d, of ?gt] assms(5) by simp
  have t: "\<not> IsTimeoutGlobalStatus (wld s1) ?gt"
    using d by (simp add: IsTimeoutGlobalStatus_def timeout_status_def gt_session_def decided_world_def)
  obtain s2 where 2: "doGlobalRollback (inmem_tc conf) now ?gt False s1 = Some ((True, None), s2)"
    and f: "finished_world x (gt_GlobalSession e) (set (gt_BranchSessions e)) (wld s1) (wld s2)"
    and o: "gs_Status (gt_session (wld s2) ?gt) = RolledBack"
    using doGlobalRollback_completes [OF c, of s1 x e ?gt now False] d e x q t
    by (auto simp: decided_world_def gt_session_def)
  show ?thesis
    using find_inmem [OF e] 1 2 o decided_finished [OF d _ f] l by (simp add: tc_Rollback_def)
qed

subsection \<open>The pass over the asynchronously committing sessions\<close>

text \<open>Every branch of an entry carries the entry's XID, as a registration makes it.\<close>

definition branch_xids :: "inmem world \<Rightarrow> bool" where
  "branch_xids w \<longleftrightarrow>
     list_all (\<lambda>(x, e). list_all (\<lambda>b. bs_XID (bobj w b) = x) (gt_BranchSessions e)) (SessionMap (drv w))"

definition no_saga :: "inmem world \<Rightarrow> bool" where
  "no_saga w \<longleftrightarrow> list_all (\<lambda>(x, e). \<not> IsSaga w e) (SessionMap (drv w))"

lemma branch_xidsD:
  "branch_xids w \<Longrightarrow> map_of (SessionMap (drv w)) x = Some e \<Longrightarrow> b \<in> set (gt_BranchSessions e) \<Longrightarrow> bs_XID (bobj w b) = x"
  by (auto simp: branch_xids_def list_all_iff dest!: map_of_SomeD)

lemma no_sagaD: "no_saga w \<Longrightarrow> map_of (SessionMap (drv w)) x = Some e \<Longrightarrow> \<not> IsSaga w e"
  by (auto simp: no_saga_def list_all_iff dest!: map_of_SomeD)

lemma set_inmem_batch:
  "set (inmem_batch xs w) = (\<Union>x \<in> set xs. case map_of (SessionMap (drv w)) x of
     Some e \<Rightarrow> set (gt_BranchSessions e) | None \<Rightarrow> {})"
  by (induction xs) (auto split: option.splits)

lemma batch_of_entry:
  assumes "branch_xids w" and "map_of (SessionMap (drv w)) x = Some e" and "x \<in> set xs"
  shows "set (filter (\<lambda>b. bs_XID (bobj w b) = x) (inmem_batch xs w)) = set (gt_BranchSessions e)"
  using assms by (auto simp: set_inmem_batch split: option.splits dest: branch_xidsD)

text \<open>A list of transactions that mirror distinct entries of the store.\<close>

definition mirrors :: "inmem world \<Rightarrow> GlobalTransaction \<Rightarrow> bool" where
  "mirrors w t \<longleftrightarrow> (\<exists>e. map_of (SessionMap (drv w)) (gs_XID (gt_session w t)) = Some e \<and>
     gt_GlobalSession e = gt_GlobalSession t \<and> set (gt_BranchSessions t) = set (gt_BranchSessions e))"

lemma finished_mirrors:
  assumes "finished_world x g rm w w'" and "mirrors w t" and "gs_XID (gt_session w t) \<noteq> x" and "gt_GlobalSession t \<noteq> g"
  shows "mirrors w' t" and "gt_session w' t = gt_session w t" and "IsSaga w' t = IsSaga w t"
  using assms by (auto simp: mirrors_def finished_world_def gt_session_def IsSaga_def)

lemma finished_gv:
  assumes "finished_world x g rm w w'" and "inmem_gv w' y = Some a" and "inmem_ok w"
    and "gs_XID (gobj w g) = x"
  shows "y \<noteq> x \<and> inmem_gv w y = Some a"
proof -
  from assms(1,2) obtain e where y: "y \<noteq> x" and e: "map_of (SessionMap (drv w)) y = Some e" and "a = gobj w' (gt_GlobalSession e)"
    by (auto simp: finished_world_def inmem_gv_def gt_session_def split: if_splits)
  moreover have "gt_GlobalSession e \<noteq> g" using inmem_okD [OF assms(3) e] y assms(4) by auto
  ultimately show ?thesis using assms(1) by (simp add: finished_world_def inmem_gv_def gt_session_def)
qed

lemma finished_other:
  assumes f: "finished_world x g rm w w'" and "y \<noteq> x" and ok: "inmem_ok w" and "gs_XID (gobj w g) = x"
  shows "inmem_gv w' y = inmem_gv w y"
proof (cases "map_of (SessionMap (drv w)) y")
  case None
  with f assms(2) show ?thesis by (simp add: finished_world_def inmem_gv_def)
next
  case (Some e)
  then have "gt_GlobalSession e \<noteq> g" using inmem_okD [OF ok Some] assms(2,4) by auto
  with f assms(2) Some show ?thesis by (simp add: finished_world_def inmem_gv_def gt_session_def)
qed

lemma async_commits_complete:
  assumes "commits_all conf"
    and "inmem_ok (wld s)" and "closed_store inmem_gv (wld s)"
    and "handles inmem_gv (wld s) (map gt_GlobalSession ts)" and "\<forall>t \<in> set ts. mirrors (wld s) t"
    and "\<forall>t \<in> set ts. gs_Status (gt_session (wld s) t) = AsyncCommitting \<and> \<not> IsSaga (wld s) t"
  shows "\<exists>s'. async_commits (inmem_tc conf) now ts s = Some s' \<and>
    (\<forall>y a. inmem_gv (wld s') y = Some a \<longrightarrow> inmem_gv (wld s) y = Some a \<and>
       y \<notin> (\<lambda>t. gs_XID (gt_session (wld s) t)) ` set ts)"
  using assms(2-)
proof (induction ts arbitrary: s)
  case Nil
  then show ?case by simp
next
  case (Cons t ts)
  let ?w = "wld s" and ?x = "gs_XID (gt_session (wld s) t)"
  obtain e where e: "map_of (SessionMap (drv ?w)) ?x = Some e" "gt_GlobalSession e = gt_GlobalSession t"
    "set (gt_BranchSessions t) = set (gt_BranchSessions e)"
    using Cons.prems(4) by (auto simp: mirrors_def)
  have g: "synced inmem_gv ?w (gt_GlobalSession t)" using Cons.prems(3) by simp
  obtain s1 where 1: "doGlobalCommit (inmem_tc conf) now t True s = Some ((True, None), s1)"
    and f: "finished_world ?x (gt_GlobalSession t) (set (gt_BranchSessions t)) ?w (wld s1)"
    using doGlobalCommit_completes [OF assms(1) e(1,2) refl e(3)] Cons.prems(5) by auto
  have ev: "evolves inmem_gv inmem_ok ?w (wld s1)"
    using inmem_sys.retry_commit_evolves [OF 1 Cons.prems(1) g _ Cons.prems(2)] Cons.prems(5) by simp
  have n: "near inmem_gv inmem_ok (gs_XID (gobj ?w (gt_GlobalSession t))) ?w (wld s1)"
    by (rule moves_near [OF conjunct1 [OF inmem_sys.doGlobalCommit_moves [OF 1 Cons.prems(1) g]]])
  have ne: "gs_XID (gt_session ?w u) \<noteq> ?x \<and> gt_GlobalSession u \<noteq> gt_GlobalSession t" if "u \<in> set ts" for u
    using Cons.prems(3) that by (auto simp: gt_session_def)
  note fm = finished_mirrors [OF f]
  have h: "handles inmem_gv (wld s1) (map gt_GlobalSession ts)"
    by (rule inmem_sys.rest_near(1) [OF n Cons.prems(3), of "\<lambda>_. True"]) simp
  obtain s' where s': "async_commits (inmem_tc conf) now ts s1 = Some s'"
    and rest: "\<forall>y a. inmem_gv (wld s') y = Some a \<longrightarrow> inmem_gv (wld s1) y = Some a \<and>
       y \<notin> (\<lambda>t. gs_XID (gt_session (wld s1) t)) ` set ts"
    using Cons.IH [OF evolves_ok [OF ev] evolves_closed [OF ev Cons.prems(2)] h] fm Cons.prems(4,5) ne by auto
  have "gs_XID (gt_session (wld s1) u) = gs_XID (gt_session ?w u)" if "u \<in> set ts" for u
    using fm(2) [of u] Cons.prems(4) ne [OF that] that by simp
  then have img: "(\<lambda>t. gs_XID (gt_session (wld s1) t)) ` set ts = (\<lambda>t. gs_XID (gt_session ?w t)) ` set ts"
    by (rule image_cong [OF refl])
  have "async_commits (inmem_tc conf) now (t # ts) s = Some s'" using 1 s' Cons.prems(5) by simp
  moreover have "\<forall>y a. inmem_gv (wld s') y = Some a \<longrightarrow> inmem_gv ?w y = Some a \<and>
       y \<notin> (\<lambda>t. gs_XID (gt_session ?w t)) ` set (t # ts)"
    using rest img finished_gv [OF f _ Cons.prems(1)] by (auto simp: gt_session_def)
  ultimately show ?case by blast
qed

lemma find_addressed_inmem:
  assumes ok: "inmem_ok w" and bx: "branch_xids w"
    and f: "findGlobalTransactionsWithAddressingIdentities inmem_sm sts ads w = (ts, w')"
  shows "w' = w" and "\<forall>t \<in> set ts. mirrors w t"
    and "inmem_gv w y = Some a \<Longrightarrow> gs_Status a \<in> set sts \<Longrightarrow> gs_Addressing a \<in> set ads \<Longrightarrow>
      y \<in> (\<lambda>t. gs_XID (gt_session w t)) ` set ts"
proof -
  obtain gs where f1: "inmem_FindGlobalSessionsWithAddressingIdentities sts ads w = (gs, w)"
    by (simp add: inmem_FindGlobalSessionsWithAddressingIdentities_def)
  have gs: "g \<in> set gs \<longleftrightarrow> (\<exists>x e. map_of (SessionMap (drv w)) x = Some e \<and> gt_GlobalSession e = g \<and>
      gs_Status (gobj w g) \<in> set sts \<and> gs_Addressing (gobj w g) \<in> set ads)" for g
    using f1 ok in_alist_iff_map_of [of "SessionMap (drv w)"]
    by (auto simp: inmem_FindGlobalSessionsWithAddressingIdentities_def gt_session_def inmem_ok_def
        image_iff Bex_def split_paired_Ex) blast+
  let ?xs = "map (\<lambda>g. gs_XID (gobj w g)) gs"
  have ts: "ts = map (\<lambda>g. \<lparr>gt_GlobalSession = g, gt_BranchSessions =
      put_keys [] (filter (\<lambda>b. bs_XID (bobj w b) = gs_XID (gobj w g)) (inmem_batch ?xs w))\<rparr>) gs \<and> w' = w"
  proof (cases gs)
    case Nil
    with f f1 show ?thesis
      by (simp add: findGlobalTransactionsWithAddressingIdentities_def findGlobalTransactionsByGlobalSessions_def)
  next
    case (Cons g0 gs0)
    then have "gs \<noteq> []" by simp
    have "sm_FindBatchBranchSessions inmem_sm ?xs w = (inmem_batch ?xs w, w)"
      by (simp add: inmem_FindBatchBranchSessions_def)
    from findGlobalTransactionsByGlobalSessions_eq [OF this \<open>gs \<noteq> []\<close>] f f1 show ?thesis
      by (auto simp: findGlobalTransactionsWithAddressingIdentities_def)
  qed
  then show "w' = w" by simp
  show "\<forall>t \<in> set ts. mirrors w t"
  proof
    fix t assume "t \<in> set ts"
    with ts obtain g where g: "g \<in> set gs" and t: "gt_GlobalSession t = g"
      "set (gt_BranchSessions t) = set (filter (\<lambda>b. bs_XID (bobj w b) = gs_XID (gobj w g)) (inmem_batch ?xs w))"
      by auto
    from g gs obtain x e where e: "map_of (SessionMap (drv w)) x = Some e" "gt_GlobalSession e = g" by auto
    then have x: "gs_XID (gobj w g) = x" using inmem_okD [OF ok] by auto
    then have "x \<in> set ?xs" using g by auto
    from batch_of_entry [OF bx e(1) this] e t x show "mirrors w t" by (auto simp: mirrors_def gt_session_def)
  qed
  assume "inmem_gv w y = Some a" "gs_Status a \<in> set sts" "gs_Addressing a \<in> set ads"
  then obtain e where e: "map_of (SessionMap (drv w)) y = Some e" "a = gobj w (gt_GlobalSession e)"
    by (auto simp: inmem_gv_def gt_session_def)
  with gs \<open>gs_Status a \<in> set sts\<close> \<open>gs_Addressing a \<in> set ads\<close> have "gt_GlobalSession e \<in> set gs" by auto
  then show "y \<in> (\<lambda>t. gs_XID (gt_session w t)) ` set ts"
    using ts inmem_okD [OF ok e(1)] by (auto simp: image_iff gt_session_def)
qed

lemma async_pass:
  assumes "commits_all conf" and ok: "inmem_ok (wld s)" and cl: "closed_store inmem_gv (wld s)"
    and bx: "branch_xids (wld s)" and "\<forall>x e. map_of (SessionMap (drv (wld s))) x = Some e \<longrightarrow> \<not> IsSaga (wld s) e"
  shows "\<exists>s'. handleAsyncCommitting (inmem_tc conf) now s = Some s' \<and>
    (\<forall>y a. inmem_gv (wld s') y = Some a \<longrightarrow> inmem_gv (wld s) y = Some a \<and>
       \<not> (gs_Status a = AsyncCommitting \<and> gs_Addressing a \<in> set (getAddressingIdentities s)))"
proof -
  let ?ads = "getAddressingIdentities s"
  obtain ts w' where f: "findGlobalTransactionsWithAddressingIdentities inmem_sm [AsyncCommitting] ?ads (wld s) = (ts, w')"
    by fastforce
  note fi = find_addressed_inmem [OF ok bx f]
  note ft = inmem_store.find_transactions [OF ok f]
  have on: "on_wld (FindAsyncCommittingGlobalTransactions inmem_sm ?ads) s = (ts, s)"
    using f fi(1) by (simp add: on_wld_def FindAsyncCommittingGlobalTransactions_def)
  have "\<not> IsSaga (wld s) t" if "t \<in> set ts" for t
  proof -
    from fi(2) that obtain e where "map_of (SessionMap (drv (wld s))) (gs_XID (gt_session (wld s) t)) = Some e"
      "set (gt_BranchSessions t) = set (gt_BranchSessions e)" by (auto simp: mirrors_def)
    with assms(5) gt_queries_order(2) [of t e "wld s"] show ?thesis by blast
  qed
  then obtain s' where s': "async_commits (inmem_tc conf) now ts s = Some s'"
    and r: "\<forall>y a. inmem_gv (wld s') y = Some a \<longrightarrow> inmem_gv (wld s) y = Some a \<and>
       y \<notin> (\<lambda>t. gs_XID (gt_session (wld s) t)) ` set ts"
    using async_commits_complete [OF assms(1) ok cl, of ts now] ft fi by auto
  show ?thesis
  proof (cases "?ads = [] \<or> ts = []")
    case True
    then have "handleAsyncCommitting (inmem_tc conf) now s = Some s" using on
      by (auto simp: handleAsyncCommitting_def Let_def)
    moreover have "\<not> (gs_Status a = AsyncCommitting \<and> gs_Addressing a \<in> set ?ads)"
      if "inmem_gv (wld s) y = Some a" for y a using True fi(3) [OF that] by auto
    ultimately show ?thesis by blast
  next
    case False
    then have "handleAsyncCommitting (inmem_tc conf) now s = Some s'" using on s'
      by (auto simp: handleAsyncCommitting_def Let_def)
    moreover have "\<not> (gs_Status a = AsyncCommitting \<and> gs_Addressing a \<in> set ?ads)"
      if "inmem_gv (wld s') y = Some a" for y a using r fi(3) [of y a] that by auto
    ultimately show ?thesis using r by blast
  qed
qed

subsection \<open>Properties\<close>

text \<open>A stored session that still waits for its decision, and the branches it has.\<close>

definition pending :: "inmem tc \<Rightarrow> string \<Rightarrow> bref list \<Rightarrow> bool" where
  "pending s x bs \<longleftrightarrow>
     (case map_of (SessionMap (drv (wld s))) x of
        None \<Rightarrow> False
      | Some e \<Rightarrow> gt_BranchSessions e = bs \<and> gs_XID (gt_session (wld s) e) = x \<and>
          gs_Status (gt_session (wld s) e) = Begin \<and> \<not> IsSaga (wld s) e)"

lemma pendingE:
  assumes "pending s x bs"
  obtains e where "map_of (SessionMap (drv (wld s))) x = Some e" "gt_BranchSessions e = bs"
    "gs_XID (gt_session (wld s) e) = x" "gs_Status (gt_session (wld s) e) = Begin" "\<not> IsSaga (wld s) e"
  using assms by (auto simp: pending_def split: option.splits)

lemma commits_all_demo: "commits_all demo_conf"
  by (auto simp: commits_all_def demo_conf_def demo_response_def)

lemma rolls_back_all_demo: "rolls_back_all demo_conf"
  by (auto simp: rolls_back_all_def demo_conf_def demo_response_def)

lemma demo_pending:
  "pending (demo_registered TCC) ''tm:1'' [0]" "pending (demo_registered AT) ''tm:1'' [0]"
  by code_simp+

text \<open>C2: a \<open>Commit\<close> on a pending session one of whose branches must be committed synchronously,
  when every resource manager answers its commit message with success, answers \<open>Committed\<close>,
  removes the session, leaves every other session as it was, and frees exactly the rows its
  branches held.\<close>

theorem commit_synchronous_completes:
  assumes "commits_all conf" and "pending s x bs" and "\<exists>b \<in> set bs. \<not> bs_AsyncCommit (bobj (wld s) b)"
  shows "\<exists>s'. tc_Commit (inmem_tc conf) now x s = Some (Inr (success Committed), s') \<and>
    inmem_gv (wld s') x = None \<and>
    (\<forall>y. y \<noteq> x \<longrightarrow> inmem_ok (wld s) \<longrightarrow> inmem_gv (wld s') y = inmem_gv (wld s) y) \<and>
    (\<forall>k. inmem_held (wld s') k =
       (if \<exists>b \<in> set bs. k \<in> branch_rows (bobj (wld s) b) \<and>
             inmem_held (wld s) k = Some (bs_TransactionID (bobj (wld s) b))
        then None else inmem_held (wld s) k))"
proof -
  from assms(2) obtain e where e: "map_of (SessionMap (drv (wld s))) x = Some e" "gt_BranchSessions e = bs"
    "gs_XID (gt_session (wld s) e) = x" "gs_Status (gt_session (wld s) e) = Begin" "\<not> IsSaga (wld s) e"
    by (rule pendingE)
  have "\<not> CanBeCommittedAsync (wld s) e" using assms(3) e(2) by (auto simp: CanBeCommittedAsync_def list_all_iff)
  from commit_synchronous [OF assms(1) e(1,3,4,5) this] obtain s'
    where c: "tc_Commit (inmem_tc conf) now x s = Some (Inr (success Committed), s')"
    and f: "finished_world x (gt_GlobalSession e) (set bs) (wld s) (wld s')" using e(2) by auto
  have "inmem_gv (wld s') y = inmem_gv (wld s) y" if "y \<noteq> x" "inmem_ok (wld s)" for y
    by (rule finished_other [OF f that]) (use e(3) in \<open>simp add: gt_session_def\<close>)
  with c f show ?thesis by (auto simp: finished_world_def inmem_gv_def)
qed

theorem commit_synchronous_completes_witness:
  "\<exists>s'. tc_Commit (inmem_tc demo_conf) 2000 ''tm:1'' (demo_registered TCC) = Some (Inr (success Committed), s') \<and>
    inmem_gv (wld s') ''tm:1'' = None"
proof -
  have "\<exists>b \<in> set [0]. \<not> bs_AsyncCommit (bobj (wld (demo_registered TCC)) b)" by code_simp
  from commit_synchronous_completes [OF commits_all_demo demo_pending(1) this, of 2000] show ?thesis by blast
qed

text \<open>C3: a \<open>Rollback\<close> on a pending session, when every resource manager answers its rollback message
  with success, answers \<open>RolledBack\<close>, removes the session, leaves every other session as it was,
  and frees exactly the rows its branches held. Branches that failed in phase one are dropped
  without a message.\<close>

theorem rollback_completes:
  assumes "rolls_back_all conf" and "pending s x bs"
  shows "\<exists>s'. tc_Rollback (inmem_tc conf) now x s = Some (Inr (success RolledBack), s') \<and>
    inmem_gv (wld s') x = None \<and>
    (\<forall>y. y \<noteq> x \<longrightarrow> inmem_ok (wld s) \<longrightarrow> inmem_gv (wld s') y = inmem_gv (wld s) y) \<and>
    (\<forall>k. inmem_held (wld s') k =
       (if \<exists>b \<in> set bs. k \<in> branch_rows (bobj (wld s) b) \<and>
             inmem_held (wld s) k = Some (bs_TransactionID (bobj (wld s) b))
        then None else inmem_held (wld s) k))"
proof -
  from assms(2) obtain e where e: "map_of (SessionMap (drv (wld s))) x = Some e" "gt_BranchSessions e = bs"
    "gs_XID (gt_session (wld s) e) = x" "gs_Status (gt_session (wld s) e) = Begin" "\<not> IsSaga (wld s) e"
    by (rule pendingE)
  from rollback_whole [OF assms(1) e(1,3,4,5)] obtain s'
    where c: "tc_Rollback (inmem_tc conf) now x s = Some (Inr (success RolledBack), s')"
    and f: "finished_world x (gt_GlobalSession e) (set bs) (wld s) (wld s')" using e(2) by auto
  have "inmem_gv (wld s') y = inmem_gv (wld s) y" if "y \<noteq> x" "inmem_ok (wld s)" for y
    by (rule finished_other [OF f that]) (use e(3) in \<open>simp add: gt_session_def\<close>)
  with c f show ?thesis by (auto simp: finished_world_def inmem_gv_def)
qed

theorem rollback_completes_witness:
  "\<exists>s'. tc_Rollback (inmem_tc demo_conf) 2000 ''tm:1'' (demo_registered AT) = Some (Inr (success RolledBack), s') \<and>
    inmem_held (wld s') ''db^^^a^^^1'' = None"
proof -
  have held: "inmem_held (wld (demo_registered AT)) ''db^^^a^^^1'' = Some 1" by code_simp
  have "bs_TransactionID (bobj (wld (demo_registered AT)) 0) = 1 \<and>
      ''db^^^a^^^1'' \<in> branch_rows (bobj (wld (demo_registered AT)) 0)" by code_simp
  with held rollback_completes [OF rolls_back_all_demo demo_pending(2), of 2000] show ?thesis by fastforce
qed

text \<open>C6: a \<open>Commit\<close> on a pending session all of whose branches may be committed asynchronously
  answers \<open>Committed\<close> at once: the session is kept, closed, in status \<open>AsyncCommitting\<close>, and the
  rows its branches held are free. No message is sent.\<close>

theorem commit_asynchronous_defers:
  assumes "pending s x bs" and "\<forall>b \<in> set bs. bs_AsyncCommit (bobj (wld s) b)"
  shows "\<exists>s'. tc_Commit (inmem_tc conf) now x s = Some (Inr (success Committed), s') \<and>
    inmem_gv (wld s') x =
      map_option (\<lambda>a. a\<lparr>gs_Status := AsyncCommitting, gs_Active := False\<rparr>) (inmem_gv (wld s) x) \<and>
    inmem_gv (wld s') x \<noteq> None \<and> SessionMap (drv (wld s')) = SessionMap (drv (wld s)) \<and>
    (\<forall>k. inmem_held (wld s') k =
       (if \<exists>b \<in> set bs. k \<in> branch_rows (bobj (wld s) b) \<and>
             inmem_held (wld s) k = Some (bs_TransactionID (bobj (wld s) b))
        then None else inmem_held (wld s) k))"
proof -
  from assms(1) obtain e where e: "map_of (SessionMap (drv (wld s))) x = Some e" "gt_BranchSessions e = bs"
    "gs_XID (gt_session (wld s) e) = x" "gs_Status (gt_session (wld s) e) = Begin" "\<not> IsSaga (wld s) e"
    by (rule pendingE)
  have "CanBeCommittedAsync (wld s) e" using assms(2) e(2) by (auto simp: CanBeCommittedAsync_def list_all_iff)
  from commit_asynchronous [OF e(1,3,4) this] e(1,2) show ?thesis
    by (fastforce simp: decided_world_def released_def inmem_gv_def gt_session_def)
qed

theorem commit_asynchronous_defers_witness:
  "inmem_gv (wld (demo_committed AT)) ''tm:1'' \<noteq> None"
proof -
  have "\<forall>b \<in> set [0]. bs_AsyncCommit (bobj (wld (demo_registered AT)) b)" by code_simp
  from commit_asynchronous_defers [OF demo_pending(2) this, of demo_conf 2000] obtain s'
    where "tc_Commit (inmem_tc demo_conf) 2000 ''tm:1'' (demo_registered AT) = Some (Inr (success Committed), s')"
      and "inmem_gv (wld s') ''tm:1'' \<noteq> None" by blast
  then show ?thesis by (simp add: demo_committed_def)
qed



end
