(* ===== verification/Anomalies.thy ===== *)
theory Anomalies
  imports Inmemory_Phase_Two
begin

text \<open>
  Behaviours of the coordinator that its comments, its names or its callers do not lead one to
  expect. Each is stated in general where the code allows it, and shown on a concrete run.
\<close>

subsection \<open>A refused lock request\<close>

text \<open>C15: when the in-memory driver refuses a lock request, the requesting transaction holds none of
  the requested rows afterwards, not even those it held before on behalf of an earlier branch;
  the locks of other transactions are as before.\<close>

theorem refused_request_drops_own_locks:
  assumes "one_owner rl_TransactionID t ls" and "inmem_AcquireLock (Some ls) skip w = Some (False, w')"
  shows "\<forall>k. inmem_held w' k =
    (if k \<in> row_keys ls \<and> inmem_held w k = Some t then None else inmem_held w k)"
proof
  fix k
  from assms(2) obtain m where m: "acquireLoop ls ls (LockMap (drv w)) = (False, m)"
    and w': "w' = w\<lparr>drv := (drv w)\<lparr>LockMap := m\<rparr>\<rparr>"
    by (auto simp: inmem_AcquireLock_def split: prod.splits)
  show "inmem_held w' k =
      (if k \<in> row_keys ls \<and> inmem_held w k = Some t then None else inmem_held w k)"
    using acquireLoop_all [OF assms(1) m, of k] by (simp add: inmem_held_def w')
qed

text \<open>Transaction 1 holds row \<open>1\<close>, transaction 9 holds row \<open>2\<close>; a request of transaction 1 for
  both is refused and frees row \<open>1\<close>.\<close>

definition demo_locks :: "RowLock list" where
  "demo_locks = elems (collectRowLocks ''a:1,2'' ''db'' ''tm:1'' 1 2)"

definition demo_lock_world :: "inmem world" where
  "demo_lock_world = (wld (inmem_start demo_uuid))\<lparr>drv := inmem_Create
     \<lparr>LockMap := [(''db^^^a^^^1'', 1), (''db^^^a^^^2'', 9)]\<rparr>\<rparr>"

theorem refused_request_drops_own_locks_witness:
  "inmem_held demo_lock_world ''db^^^a^^^1'' = Some 1 \<and>
   (case inmem_AcquireLock (Some demo_locks) False demo_lock_world of
      Some (r, w') \<Rightarrow> \<not> r \<and> inmem_held w' ''db^^^a^^^1'' = None
    | None \<Rightarrow> False)"
proof -
  obtain w' where a: "inmem_AcquireLock (Some demo_locks) False demo_lock_world = Some (False, w')"
  proof -
    have "map_option fst (inmem_AcquireLock (Some demo_locks) False demo_lock_world) = Some False" by code_simp
    then obtain z where z: "inmem_AcquireLock (Some demo_locks) False demo_lock_world = Some z" "fst z = False"
      unfolding map_option_eq_Some by blast
    show thesis by (rule that [of "snd z"]) (use z in \<open>metis prod.collapse\<close>)
  qed
  have o: "one_owner rl_TransactionID 1 demo_locks"
    unfolding one_owner_def list_all_iff [symmetric] by code_simp
  have h: "inmem_held demo_lock_world ''db^^^a^^^1'' = Some 1" by code_simp
  have k: "''db^^^a^^^1'' \<in> row_keys demo_locks" by code_simp
  have "inmem_held w' ''db^^^a^^^1'' = None"
    using spec [OF refused_request_drops_own_locks [OF o a], of "''db^^^a^^^1''"] h k by (simp only: simp_thms if_True)
  then show ?thesis using h by (simp only: a option.case prod.case simp_thms not_False_eq_True)
qed

subsection \<open>A lock key that does not parse\<close>

text \<open>An AT registration whose lock key is not empty but has no colon in its first group locks
  nothing: the lock manager answers that the locks are acquired, and the store is unchanged.\<close>

theorem unparsable_lock_key_locks_nothing:
  assumes "bs_LockKey (bobj w b) \<noteq> []" and "CHR '':'' \<notin> set (bs_LockKey (bobj w b))"
    and "CHR '';'' \<notin> set (bs_LockKey (bobj w b))"
  shows "AcquireLock dec lm (Some b) w = Some (True, w)"
proof -
  have "Index (bs_LockKey (bobj w b)) CHR '':'' < 0" using assms(2) by (simp add: Index_absent)
  then have "branch_locks (bobj w b) = []"
    using assms by (simp add: branch_locks_def CollectBranchSessionRowLocks_def collectRowLocks_def
        Split_absent)
  then show ?thesis by (simp add: AcquireLock_eq)
qed

definition demo_bad_key :: "inmem world" where
  "demo_bad_key = snd (new_bs (zero_bs\<lparr>bs_LockKey := ''abc''\<rparr>) (wld (inmem_start demo_uuid)))"

theorem unparsable_lock_key_locks_nothing_witness:
  "AcquireLock (\<lambda>d. None) inmem_lm (Some 0) demo_bad_key = Some (True, demo_bad_key)"
  by (rule unparsable_lock_key_locks_nothing)
    (simp_all add: demo_bad_key_def new_bs_def inmem_start_def tc_start_def)

subsection \<open>Commit on a session that is already being rolled back\<close>


text \<open>A resource manager that is not connected: the rollback is left to the retries.\<close>

definition silent_conf :: "inmem tc_conf" where
  "silent_conf = demo_conf\<lparr>reply := \<lambda>m. NotReady\<rparr>"

definition demo_rolling_back :: "inmem tc" where
  "demo_rolling_back = snd (the (tc_Rollback (inmem_tc silent_conf) 2000 ''tm:1'' (demo_registered AT)))"


subsection \<open>A commit that did not commit is reported as committed\<close>

text \<open>A \<open>Commit\<close> that had to contact a resource manager synchronously and could not reach it
  answers \<open>Committed\<close> with success, although the branch is not committed and the session is in
  status \<open>CommitRetrying\<close>: the result of \<open>doGlobalCommit\<close> is discarded.\<close>

theorem unreached_commit_reported_committed:
  "case tc_Commit (inmem_tc silent_conf) 2000 ''tm:1'' (demo_registered TCC) of
     Some (r, s') \<Rightarrow> r = Inr (success Committed) \<and> demo_history s' ''tm:1'' = Some CommitRetrying
   | None \<Rightarrow> False"
  by code_simp

subsection \<open>A commit that nobody will finish\<close>

text \<open>One branch that must be committed synchronously and succeeds, and one asynchronous branch whose
  commit fails for good.\<close>

definition mixed_conf :: "inmem tc_conf" where
  "mixed_conf = demo_conf\<lparr>reply := \<lambda>m. Replied (CommitReply (demo_response
     (if bq_BranchType (bm_Message m) = AT then PhaseTwoCommitFailedCanNotRetry else PhaseTwoCommitted)))\<rparr>"

definition demo_mixed :: "inmem tc" where
  "demo_mixed = snd (the (tc_BranchRegister (inmem_tc mixed_conf) (demo_register AT) (demo_registered TCC)))"

definition demo_stuck :: "inmem tc" where
  "demo_stuck = snd (the (open_stream (Some [''tm''])
     (snd (the (tc_Commit (inmem_tc mixed_conf) 2000 ''tm:1'' demo_mixed)))))"


subsection \<open>A panic in the rollback\<close>

text \<open>A commit response that arrives for a rollback message panics, whatever the store: the type
  assertion in \<open>branchRollback\<close> is unchecked, while the one in \<open>branchCommit\<close> turns a rollback
  response into an error.\<close>

theorem mismatched_response:
  assumes "\<forall>t r. MarshalAny conf t r = None"
  shows "((\<forall>m. reply conf m = Replied (CommitReply p)) \<longrightarrow> branchRollback conf b s = None) \<and>
    ((\<forall>m. reply conf m = Replied (RollbackReply p)) \<longrightarrow>
      fst (branchCommit conf b s) = (bs_Status (bobj (wld s) b), Some (Errorf ''response type not right'')))"
  using assms by (simp add: branchRollback_def branchCommit_def send_message_def Let_def)

theorem mismatched_response_witness:
  "branchRollback (demo_conf\<lparr>reply := \<lambda>m. Replied (CommitReply (demo_response PhaseTwoCommitted))\<rparr>) 0 demo_begun = None"
  using mismatched_response [of "demo_conf\<lparr>reply := \<lambda>m. Replied (CommitReply (demo_response PhaseTwoCommitted))\<rparr>"
      "demo_response PhaseTwoCommitted" 0 demo_begun]
  by (simp add: demo_conf_def)

end
