(* ===== verification/Channels.thy ===== *)
theory Channels
  imports Prelude
begin

text \<open>
  Goroutines that meet at unbuffered channels, one action at a time. The coordinator and the
  resource manager both start, for every stream, a goroutine that takes messages from a channel and
  sends them; its states are \<open>sender\<close>. \<open>runs\<close> performs a schedule of actions.
\<close>

text \<open>Before its start or after its return, on the way to its \<open>select\<close>, waiting in it, or holding
  a message it has taken.\<close>

datatype 'm sender = Absent | Running | Parked | Sending 'm

text \<open>Closing the channel \<open>done\<close> wakes a goroutine that waits, which then returns.\<close>

definition on_close :: "'m sender \<Rightarrow> 'm sender" where
  "on_close s = (if s = Parked then Absent else s)"

text \<open>The \<open>select\<close> of a goroutine that finds no message offered: it returns if \<open>done\<close> is closed.\<close>

definition park :: "bool \<Rightarrow> 'm sender" where
  "park closed = (if closed then Absent else Parked)"

subsection \<open>Schedules\<close>

text \<open>A state has a list of goroutines of each kind; an action changes one of them.\<close>

lemma nth_update:
  "xs[i := y] ! j = (if i = j \<and> i < length xs then y else xs ! j)"
  by (cases "i < length xs") (simp_all add: list_update_beyond)

primrec runs :: "('a \<Rightarrow> 's \<Rightarrow> 's option) \<Rightarrow> 'a list \<Rightarrow> 's \<Rightarrow> 's option" where
  "runs act [] s = Some s"
| "runs act (a # as) s = (case act a s of None \<Rightarrow> None | Some s' \<Rightarrow> runs act as s')"

lemma runs_append:
  "runs act (as @ bs) s = (case runs act as s of None \<Rightarrow> None | Some s' \<Rightarrow> runs act bs s')"
  by (induction as arbitrary: s) (auto split: option.splits)

lemma runs_invariant:
  assumes "runs act as s = Some s'" and "P s"
    and "\<And>a t t'. a \<in> set as \<Longrightarrow> P t \<Longrightarrow> act a t = Some t' \<Longrightarrow> P t'"
  shows "P s'"
  using assms
proof (induction as arbitrary: s)
  case (Cons a as)
  then obtain s1 where s1: "act a s = Some s1" "runs act as s1 = Some s'" by (auto split: option.splits)
  then have "P s1" using Cons.prems(2,3) by (metis list.set_intros(1))
  with s1(2) show ?case using Cons.prems(3) by (rule Cons.IH) simp_all
qed simp

text \<open>Two properties of states, the second kept while the first holds.\<close>

lemma runs_invariant_under:
  assumes "runs act as s = Some s'" and "I s" and "P s"
    and "\<And>a t t'. I t \<Longrightarrow> act a t = Some t' \<Longrightarrow> I t'"
    and "\<And>a t t'. a \<in> set as \<Longrightarrow> I t \<Longrightarrow> P t \<Longrightarrow> act a t = Some t' \<Longrightarrow> P t'"
  shows "P s'"
proof -
  have "I s' \<and> P s'"
    by (rule runs_invariant [where P = "\<lambda>s. I s \<and> P s", OF assms(1)]) (use assms(2-) in blast)+
  then show ?thesis ..
qed

end
