(* ===== verification/Interleaving.thy ===== *)
theory Interleaving
  imports Channels
begin

text \<open>
  Handlers as threads: a thread is done, with its result, or makes a step on the shared state and
  goes on. A step is \<open>None\<close> when it panics, which ends the process. \<open>run_alone\<close> runs a thread without
  interruption; a schedule, a list of thread numbers, interleaves a list of threads.
\<close>

datatype ('s, 'r) thread = Done 'r | Atom "'s \<Rightarrow> (('s, 'r) thread \<times> 's) option"

primrec run_alone :: "('s, 'r) thread \<Rightarrow> 's \<Rightarrow> ('r \<times> 's) option" where
  "run_alone (Done r) = (\<lambda>s. Some (r, s))"
| "run_alone (Atom f) = (\<lambda>s. case (map_option (map_prod run_alone id) \<circ> f) s of None \<Rightarrow> None | Some (g, s') \<Rightarrow> g s')"

text \<open>A step that calls an operation, one whose operation may panic, and one that reads.\<close>

definition atomic :: "('s \<Rightarrow> 'a \<times> 's) \<Rightarrow> ('a \<Rightarrow> ('s, 'r) thread) \<Rightarrow> ('s, 'r) thread" where
  "atomic f k = Atom (\<lambda>s. case f s of (a, s') \<Rightarrow> Some (k a, s'))"

definition atomic_opt :: "('s \<Rightarrow> ('a \<times> 's) option) \<Rightarrow> ('a \<Rightarrow> ('s, 'r) thread) \<Rightarrow> ('s, 'r) thread" where
  "atomic_opt f k = Atom (\<lambda>s. case f s of None \<Rightarrow> None | Some (a, s') \<Rightarrow> Some (k a, s'))"

definition look :: "('s \<Rightarrow> 'a) \<Rightarrow> ('a \<Rightarrow> ('s, 'r) thread) \<Rightarrow> ('s, 'r) thread" where
  "look f k = Atom (\<lambda>s. Some (k (f s), s))"

lemma run_alone_steps [simp]:
  "run_alone (atomic f k) s = (case f s of (a, s') \<Rightarrow> run_alone (k a) s')"
  "run_alone (atomic_opt g k) s = (case g s of None \<Rightarrow> None | Some (a, s') \<Rightarrow> run_alone (k a) s')"
  "run_alone (look h k') s = run_alone (k' (h s)) s"
  by (simp_all add: atomic_def atomic_opt_def look_def split: prod.splits option.splits)

lemma map_thread_steps [simp]:
  "map_thread m (atomic f k) = atomic f (map_thread m \<circ> k)"
  "map_thread m (atomic_opt g k') = atomic_opt g (map_thread m \<circ> k')"
  "map_thread m (look h k'') = look h (map_thread m \<circ> k'')"
  by (auto simp: atomic_def atomic_opt_def look_def fun_eq_iff split: prod.splits option.splits)

lemma run_alone_map [simp]: "run_alone (map_thread m p) s = map_option (map_prod m id) (run_alone p s)"
proof (induction p arbitrary: s)
  case (Atom f)
  show ?case
  proof (cases "f s")
    case (Some q)
    obtain p' s' where q: "q = (p', s')" by fastforce
    have "Some (p', s') \<in> range f" using Some q by (metis rangeI)
    then have "run_alone (map_thread m p') s' = map_option (map_prod m id) (run_alone p' s')"
      using Atom.IH [of "Some (p', s')"] by (simp add: id_def)
    with Some q show ?thesis by (simp add: id_def)
  qed simp
qed simp

subsection \<open>Schedules\<close>

definition thread_step :: "nat \<Rightarrow> ('s, 'r) thread list \<times> 's \<Rightarrow> (('s, 'r) thread list \<times> 's) option" where
  "thread_step i c =
     (if i < length (fst c)
      then (case fst c ! i of
              Done r \<Rightarrow> None
            | Atom f \<Rightarrow> (case f (snd c) of None \<Rightarrow> None | Some (p, s') \<Rightarrow> Some ((fst c)[i := p], s')))
      else None)"

lemma thread_step_steps [simp]:
  assumes "i < length ps"
  shows "ps ! i = atomic f k \<Longrightarrow> thread_step i (ps, s) = (case f s of (a, s') \<Rightarrow> Some (ps[i := k a], s'))"
    and "ps ! i = atomic_opt g k \<Longrightarrow> thread_step i (ps, s) =
      (case g s of None \<Rightarrow> None | Some (a, s') \<Rightarrow> Some (ps[i := k a], s'))"
    and "ps ! i = look h k' \<Longrightarrow> thread_step i (ps, s) = Some (ps[i := k' (h s)], s)"
  using assms by (simp_all add: thread_step_def atomic_def atomic_opt_def look_def split: prod.splits option.splits)

lemma thread_step_pair [simp]:
  "thread_step 0 ([atomic f k, q], s) = (case f s of (a, s') \<Rightarrow> Some ([k a, q], s'))"
  "thread_step 0 ([atomic_opt g k', q], s) = (case g s of None \<Rightarrow> None | Some (a, s') \<Rightarrow> Some ([k' a, q], s'))"
  "thread_step 0 ([look h k'', q], s) = Some ([k'' (h s), q], s)"
  by (simp_all add: thread_step_steps(1) [where f = f and k = k] thread_step_steps(2) [where g = g and k = k']
      thread_step_steps(3) [where h = h and k' = k''] split: prod.splits option.splits)

text \<open>A thread that runs alone is one that is scheduled until it is done.\<close>

lemma run_alone_schedule:
  assumes "run_alone p s = Some (r, s')" and "i < length ps" and "ps ! i = p"
  shows "\<exists>n. runs thread_step (replicate n i) (ps, s) = Some (ps[i := Done r], s')"
  using assms
proof (induction p arbitrary: s ps)
  case (Done q)
  then show ?case by (intro exI [of _ 0]) (metis list_update_id option.inject prod.inject replicate_0 run_alone.simps(1) runs.simps(1))
next
  case (Atom f)
  from Atom.prems(1) obtain q s1 where f: "f s = Some (q, s1)" and q: "run_alone q s1 = Some (r, s')"
    by (auto split: option.splits)
  have "q \<in> Basic_BNFs.fsts (q, s1)" by simp
  then obtain n where "runs thread_step (replicate n i) (ps[i := q], s1) = Some ((ps[i := q])[i := Done r], s')"
    using Atom.IH [of "Some (q, s1)" "(q, s1)" q s1 "ps[i := q]"] q f Atom.prems(2) by (metis rangeI option.set_intros length_list_update nth_list_update_eq)
  moreover have "thread_step i (ps, s) = Some (ps[i := q], s1)" using f Atom.prems(2,3) by (simp add: thread_step_def)
  ultimately show ?case by (intro exI [of _ "Suc n"]) simp
qed

lemma two_threads:
  assumes "run_alone q s = Some (r, s')"
  shows "\<exists>n. runs thread_step (replicate n 1) ([p, q], s) = Some ([p, Done r], s')"
    and "\<exists>n. runs thread_step (replicate n 0) ([q, p], s) = Some ([Done r, p], s')"
  using run_alone_schedule [OF assms, of 1 "[p, q]"] run_alone_schedule [OF assms, of 0 "[q, p]"] by simp_all

subsection \<open>Threads that own a part of the state\<close>

text \<open>A thread keeps to its part \<open>i\<close> of the state when each of its steps, taken while its part is as it
  left it, leaves every other part alone; \<open>Q\<close> holds of its result and its part at the end.\<close>

inductive keeps_to :: "('i \<Rightarrow> 's \<Rightarrow> 'v) \<Rightarrow> 'i \<Rightarrow> ('r \<Rightarrow> 'v \<Rightarrow> bool) \<Rightarrow> ('s, 'r) thread \<Rightarrow> 'v \<Rightarrow> bool"
  for part i Q where
  keeps_Done: "Q r v \<Longrightarrow> keeps_to part i Q (Done r) v"
| keeps_Atom: "(\<And>s p s'. part i s = v \<Longrightarrow> f s = Some (p, s') \<Longrightarrow>
      (\<forall>j. j \<noteq> i \<longrightarrow> part j s' = part j s) \<and> keeps_to part i Q p (part i s')) \<Longrightarrow> keeps_to part i Q (Atom f) v"

inductive_cases keeps_DoneE: "keeps_to part i Q (Done r) v"
inductive_cases keeps_AtomE: "keeps_to part i Q (Atom f) v"

lemma keeps_atomic:
  assumes "\<And>s a s'. part i s = v \<Longrightarrow> f s = (a, s') \<Longrightarrow>
    (\<forall>j. j \<noteq> i \<longrightarrow> part j s' = part j s) \<and> keeps_to part i Q (k a) (part i s')"
  shows "keeps_to part i Q (atomic f k) v"
  unfolding atomic_def by (rule keeps_Atom) (use assms in \<open>auto split: prod.splits\<close>)

lemma keeps_look:
  assumes "\<And>s. part i s = v \<Longrightarrow> keeps_to part i Q (k (f s)) v"
  shows "keeps_to part i Q (look f k) v"
  unfolding look_def by (rule keeps_Atom) (use assms in auto)

lemma thread_step_keeps:
  assumes "thread_step n (ps, s) = Some (ps', s')" and "length ids = length ps" and "distinct ids"
    and "\<And>i. i < length ps \<Longrightarrow> keeps_to part (ids ! i) (Q i) (ps ! i) (part (ids ! i) s)"
  shows "length ps' = length ps" and "u \<notin> set ids \<Longrightarrow> part u s' = part u s"
    and "i < length ps \<Longrightarrow> keeps_to part (ids ! i) (Q i) (ps' ! i) (part (ids ! i) s')"
proof -
  from assms(1) obtain f p where n: "n < length ps" "ps ! n = Atom f" "f s = Some (p, s')" "ps' = ps[n := p]"
    by (auto simp: thread_step_def split: if_splits thread.splits option.splits)
  have "keeps_to part (ids ! n) (Q n) (Atom f) (part (ids ! n) s)" using assms(4) [OF n(1)] n(2) by simp
  then have k: "\<forall>j. j \<noteq> ids ! n \<longrightarrow> part j s' = part j s" "keeps_to part (ids ! n) (Q n) p (part (ids ! n) s')"
    by (rule keeps_AtomE, use n(3) in blast)+
  show "length ps' = length ps" using n(4) by simp
  show "part u s' = part u s" if "u \<notin> set ids" using k(1) that n(1) assms(2) nth_mem by metis
  show "keeps_to part (ids ! i) (Q i) (ps' ! i) (part (ids ! i) s')" if "i < length ps"
  proof (cases "i = n")
    case False
    then have "part (ids ! i) s' = part (ids ! i) s"
      using k(1) assms(2,3) n(1) that by (simp add: nth_eq_iff_index_eq)
    with assms(4) [OF that] False n(4) show ?thesis by simp
  qed (use k n in simp)
qed

lemma schedule_keeps:
  assumes "runs thread_step schedule (ps, s) = Some (ps', s')" and "length ids = length ps" and "distinct ids"
    and "\<And>i. i < length ps \<Longrightarrow> keeps_to part (ids ! i) (Q i) (ps ! i) (part (ids ! i) s)"
  shows "length ps' = length ps \<and> (\<forall>u. u \<notin> set ids \<longrightarrow> part u s' = part u s) \<and>
    (\<forall>i < length ps. keeps_to part (ids ! i) (Q i) (ps' ! i) (part (ids ! i) s'))"
  using assms
proof (induction schedule arbitrary: ps s)
  case (Cons n schedule)
  from Cons.prems(1) obtain ps1 s1 where 1: "thread_step n (ps, s) = Some (ps1, s1)"
    and r: "runs thread_step schedule (ps1, s1) = Some (ps', s')" by (auto split: option.splits)
  note k = thread_step_keeps [OF 1 Cons.prems(2-4)]
  show ?case using Cons.IH [OF r] Cons.prems(2,3) k by simp
qed simp

end
