(* ===== verification/Handler_Steps.thy ===== *)
theory Handler_Steps
  imports Coordinator_System Interleaving
begin

text \<open>
  The handlers \<open>Commit\<close>, \<open>Rollback\<close>, \<open>BranchRegister\<close> and \<open>BranchReport\<close> of
  \<open>transaction_coordinator.go\<close>, the second phase, and the loops that run \<open>timeoutCheck\<close> and the three
  passes that retry, as threads. A call of the session holder, of the lock manager or of the locker
  is one step, and so is each look at a session, and the numbering and queueing of a message.
\<close>

type_synonym ('d, 'r) handler = "('d tc, 'r) thread"

text \<open>The session is tried to be locked, and \<open>k\<close> gets what \<open>TryLock\<close> returned; \<open>unlocking\<close> puts the
  deferred unlocking in front of what follows.\<close>

definition unlocking :: "'d tc_conf \<Rightarrow> gref \<Rightarrow> ('d, 'r) handler \<Rightarrow> ('d, 'r) handler" where
  "unlocking conf g p = atomic (\<lambda>s. ((), s\<lparr>wld := gl_Unlock (locker conf) g (wld s)\<rparr>)) (\<lambda>u. p)"

definition locking :: "'d tc_conf \<Rightarrow> gref \<Rightarrow> (bool \<times> goerror option \<Rightarrow> ('d, 'r) handler) \<Rightarrow> ('d, 'r) handler" where
  "locking conf g k =
     look (\<lambda>s. lock_timeout (gobj (wld s) g)) (\<lambda>t. atomic (on_wld (gl_TryLock (locker conf) g t)) k)"

text \<open>An active session is closed.\<close>

definition closing ::
    "'d tc_conf \<Rightarrow> gref \<Rightarrow> (goerror option \<Rightarrow> ('d, 'r) handler) \<Rightarrow> ('d, 'r) handler" where
  "closing conf g k =
     look (\<lambda>s. gs_Active (gobj (wld s) g))
       (\<lambda>a. if a then atomic (on_wld (InactiveGlobalSession (holder conf) g)) k else k None)"

text \<open>The status is set to \<open>st\<close> if it is \<open>Begin\<close>.\<close>

definition deciding ::
    "'d tc_conf \<Rightarrow> gref \<Rightarrow> GlobalStatus \<Rightarrow> (bool \<times> goerror option \<Rightarrow> ('d, 'r) handler) \<Rightarrow> ('d, 'r) handler" where
  "deciding conf g status k =
     look (\<lambda>s. gs_Status (gobj (wld s) g))
       (\<lambda>st. if st = Begin
             then atomic (on_wld (UpdateGlobalSessionStatus (holder conf) g status))
               (\<lambda>err. k (err = None, err))
             else k (False, None))"

subsection \<open>The second phase\<close>

text \<open>A message takes its number and its place in the queue in one step; the answer is that of \<open>reply\<close>. The
  status is read when it is returned.\<close>

definition branchCommit_steps ::
    "'d tc_conf \<Rightarrow> bref \<Rightarrow> (BranchStatus \<times> goerror option \<Rightarrow> ('d, 'r) handler) \<Rightarrow> ('d, 'r) handler" where
  "branchCommit_steps conf b k =
     (let status = (\<lambda>err. look (\<lambda>s. bs_Status (bobj (wld s) b)) (\<lambda>st. k (st, err)))
      in look (\<lambda>s. bobj (wld s) b) (\<lambda>bs.
           case MarshalAny conf TypeBranchCommit (branch_request bs) of
             Some err \<Rightarrow> status (Some err)
           | None \<Rightarrow>
               atomic (send_message TypeBranchCommit bs) (\<lambda>message.
                 case reply conf message of
                   NotReady \<Rightarrow> status None
                 | NoReply \<Rightarrow> status (Some (Errorf ''wait branch commit response timeout''))
                 | Replied (RollbackReply response) \<Rightarrow> status (Some (Errorf ''response type not right''))
                 | Replied (CommitReply response) \<Rightarrow>
                     (if bp_ResultCode response = ResultCodeSuccess then k (bp_BranchStatus response, None)
                      else status (Some (Errorf (bp_Message response)))))))"

definition branchRollback_steps ::
    "'d tc_conf \<Rightarrow> bref \<Rightarrow> (BranchStatus \<times> goerror option \<Rightarrow> ('d, 'r) handler) \<Rightarrow> ('d, 'r) handler" where
  "branchRollback_steps conf b k =
     (let status = (\<lambda>err. look (\<lambda>s. bs_Status (bobj (wld s) b)) (\<lambda>st. k (st, err)))
      in look (\<lambda>s. bobj (wld s) b) (\<lambda>bs.
           case MarshalAny conf TypeBranchRollback (branch_request bs) of
             Some err \<Rightarrow> status (Some err)
           | None \<Rightarrow>
               atomic (send_message TypeBranchRollback bs) (\<lambda>message.
                 case reply conf message of
                   NotReady \<Rightarrow> status None
                 | NoReply \<Rightarrow> status (Some (Errorf ''wait branch rollback response timeout''))
                 | Replied (CommitReply response) \<Rightarrow> Atom (\<lambda>s. None)
                 | Replied (RollbackReply response) \<Rightarrow>
                     (if bp_ResultCode response = ResultCodeSuccess then k (bp_BranchStatus response, None)
                      else status (Some (Errorf (bp_Message response)))))))"

text \<open>The status is changed; an error of the store replaces the result.\<close>

definition updating ::
    "'d tc_conf \<Rightarrow> GlobalTransaction \<Rightarrow> GlobalStatus \<Rightarrow> bool \<times> goerror option \<Rightarrow>
     (bool \<times> goerror option \<Rightarrow> ('d, 'r) handler) \<Rightarrow> ('d, 'r) handler" where
  "updating conf gt status r k =
     atomic (on_wld (UpdateGlobalSessionStatus (holder conf) (gt_GlobalSession gt) status)) (\<lambda>err.
       case err of Some e \<Rightarrow> k (False, Some e) | None \<Rightarrow> k r)"

text \<open>The status is changed, the row locks that are left are released, and the session is removed.\<close>

definition finishing ::
    "'d tc_conf \<Rightarrow> GlobalTransaction \<Rightarrow> GlobalStatus \<Rightarrow> bool \<times> goerror option \<Rightarrow>
     (bool \<times> goerror option \<Rightarrow> ('d, 'r) handler) \<Rightarrow> ('d, 'r) handler" where
  "finishing conf gt status r k =
     atomic (on_wld (UpdateGlobalSessionStatus (holder conf) (gt_GlobalSession gt) status)) (\<lambda>err.
       case err of
         Some e \<Rightarrow> k (False, Some e)
       | None \<Rightarrow>
           atomic_opt (on_wld_opt (ReleaseGlobalSessionLock (resourceDataLocker conf) gt)) (\<lambda>released.
             atomic (on_wld (RemoveGlobalTransaction (holder conf) gt)) (\<lambda>err.
               case err of Some e \<Rightarrow> k (False, Some e) | None \<Rightarrow> k r)))"

text \<open>The row locks of a branch are released, and the branch is removed.\<close>

definition dropping ::
    "'d tc_conf \<Rightarrow> GlobalTransaction \<Rightarrow> bref \<Rightarrow> (goerror option \<Rightarrow> ('d, 'r) handler) \<Rightarrow> ('d, 'r) handler" where
  "dropping conf gt b k =
     atomic_opt (on_wld_opt (ReleaseLock (resourceDataLocker conf) (Some b))) (\<lambda>released.
       atomic (on_wld (RemoveBranchSession (holder conf) (gt_GlobalSession gt) b)) k)"

text \<open>The loops over the branches: \<open>k\<close> gets what the loop returns from the function, if it does, and the
  transaction with the branches deleted so far.\<close>

fun commit_branch_steps ::
    "'d tc_conf \<Rightarrow> bool \<Rightarrow> bref list \<Rightarrow> GlobalTransaction \<Rightarrow>
     ((bool \<times> goerror option) option \<Rightarrow> GlobalTransaction \<Rightarrow> ('d, 'r) handler) \<Rightarrow> ('d, 'r) handler" where
  "commit_branch_steps conf retrying [] gt k = k None gt"
| "commit_branch_steps conf retrying (b # bs) gt k =
     branchCommit_steps conf b (\<lambda>(branchStatus, err).
       case err of
         Some err1 \<Rightarrow>
           (if \<not> retrying then updating conf gt CommitRetrying (False, Some err1) (\<lambda>r. k (Some r) gt)
            else k (Some (False, Some err1)) gt)
       | None \<Rightarrow>
           (if branchStatus = PhaseTwoCommitted then
              dropping conf gt b (\<lambda>err.
                case err of
                  Some e \<Rightarrow> k (Some (False, Some e)) (gt_Remove gt b)
                | None \<Rightarrow> commit_branch_steps conf retrying bs (gt_Remove gt b) k)
            else if branchStatus = PhaseTwoCommitFailedCanNotRetry then
              look (\<lambda>s. CanBeCommittedAsync (wld s) gt) (\<lambda>async.
                if async then commit_branch_steps conf retrying bs gt k
                else finishing conf gt CommitFailed (False, None) (\<lambda>r. k (Some r) gt))
            else if \<not> retrying then updating conf gt CommitRetrying (False, None) (\<lambda>r. k (Some r) gt)
            else
              look (\<lambda>s. CanBeCommittedAsync (wld s) gt) (\<lambda>async.
                if async then commit_branch_steps conf retrying bs gt k else k (Some (False, None)) gt)))"

definition doGlobalCommit_steps ::
    "'d tc_conf \<Rightarrow> uint64 \<Rightarrow> GlobalTransaction \<Rightarrow> bool \<Rightarrow>
     (bool \<times> goerror option \<Rightarrow> ('d, 'r) handler) \<Rightarrow> ('d, 'r) handler" where
  "doGlobalCommit_steps conf now gt retrying k =
     atomic (\<lambda>s. ((), spawn_event (gt_GlobalSession gt) 0 s)) (\<lambda>u.
       look (\<lambda>s. IsSaga (wld s) gt) (\<lambda>saga.
         if saga then k (False, Some unimplemented_saga)
         else commit_branch_steps conf retrying (gt_BranchSessions gt) gt (\<lambda>returned gt1.
           case returned of
             Some r \<Rightarrow> k r
           | None \<Rightarrow>
               look (\<lambda>s. gs_XID (gt_session (wld s) gt1)) (\<lambda>xid.
                 atomic (on_wld (FindGlobalTransaction (holder conf) xid)) (\<lambda>gs.
                   if (case gs of Some g \<Rightarrow> HasBranch g | None \<Rightarrow> False) then k (False, None)
                   else finishing conf gt1 Committed (True, None) (\<lambda>r.
                     if r = (True, None)
                     then atomic (\<lambda>s. ((), spawn_event (gt_GlobalSession gt1) now s)) (\<lambda>u. k r)
                     else k r))))))"

definition choosing ::
    "GlobalTransaction \<Rightarrow> GlobalStatus \<Rightarrow> GlobalStatus \<Rightarrow> (GlobalStatus \<Rightarrow> ('d, 'r) handler) \<Rightarrow> ('d, 'r) handler" where
  "choosing gt timedOut plain k =
     look (\<lambda>s. IsTimeoutGlobalStatus (wld s) gt) (\<lambda>t. k (if t then timedOut else plain))"

fun rollback_branch_steps ::
    "'d tc_conf \<Rightarrow> bool \<Rightarrow> bref list \<Rightarrow> GlobalTransaction \<Rightarrow>
     ((bool \<times> goerror option) option \<Rightarrow> GlobalTransaction \<Rightarrow> ('d, 'r) handler) \<Rightarrow> ('d, 'r) handler" where
  "rollback_branch_steps conf retrying [] gt k = k None gt"
| "rollback_branch_steps conf retrying (b # bs) gt k =
     (let drop = dropping conf gt b (\<lambda>err.
            case err of
              Some e \<Rightarrow> k (Some (False, Some e)) (gt_Remove gt b)
            | None \<Rightarrow> rollback_branch_steps conf retrying bs (gt_Remove gt b) k);
          retry = (\<lambda>err.
            if \<not> retrying then
              choosing gt TimeoutRollbackRetrying RollbackRetrying (\<lambda>st.
                updating conf gt st (False, err) (\<lambda>r. k (Some r) gt))
            else k (Some (False, err)) gt)
      in look (\<lambda>s. bs_Status (bobj (wld s) b)) (\<lambda>st.
           if st = PhaseOneFailed then drop
           else branchRollback_steps conf b (\<lambda>(branchStatus, err).
             case err of
               Some err1 \<Rightarrow> retry (Some err1)
             | None \<Rightarrow>
                 (if branchStatus = PhaseTwoRolledBack then drop
                  else if branchStatus = PhaseTwoRollbackFailedCanNotRetry then
                    choosing gt TimeoutRollbackFailed RollbackFailed (\<lambda>st.
                      finishing conf gt st (False, None) (\<lambda>r. k (Some r) gt))
                  else retry None))))"

definition doGlobalRollback_steps ::
    "'d tc_conf \<Rightarrow> uint64 \<Rightarrow> GlobalTransaction \<Rightarrow> bool \<Rightarrow>
     (bool \<times> goerror option \<Rightarrow> ('d, 'r) handler) \<Rightarrow> ('d, 'r) handler" where
  "doGlobalRollback_steps conf now gt retrying k =
     atomic (\<lambda>s. ((), spawn_event (gt_GlobalSession gt) 0 s)) (\<lambda>u.
       look (\<lambda>s. IsSaga (wld s) gt) (\<lambda>saga.
         if saga then k (False, Some unimplemented_saga)
         else rollback_branch_steps conf retrying (gt_BranchSessions gt) gt (\<lambda>returned gt1.
           case returned of
             Some r \<Rightarrow> k r
           | None \<Rightarrow>
               look (\<lambda>s. gs_XID (gt_session (wld s) gt1)) (\<lambda>xid.
                 atomic (on_wld (FindGlobalTransaction (holder conf) xid)) (\<lambda>gs.
                   if (case gs of Some g \<Rightarrow> HasBranch g | None \<Rightarrow> False) then k (False, None)
                   else choosing gt1 TimeoutRolledBack RolledBack (\<lambda>st.
                     finishing conf gt1 st (True, None) (\<lambda>r.
                       if r = (True, None)
                       then atomic (\<lambda>s. ((), spawn_event (gt_GlobalSession gt1) now s)) (\<lambda>u. k r)
                       else k r)))))))"

subsection \<open>Commit\<close>

definition commit_decision_steps ::
    "'d tc_conf \<Rightarrow> string \<Rightarrow> GlobalTransaction \<Rightarrow> (bool \<times> goerror option \<Rightarrow> ('d, 'r) handler) \<Rightarrow> ('d, 'r) handler" where
  "commit_decision_steps conf xid gt k =
     (let g = gt_GlobalSession gt
      in locking conf g (\<lambda>(result, err).
           case err of
             Some e \<Rightarrow> k (False, Some e)
           | None \<Rightarrow>
               (if result then
                  closing conf g (\<lambda>err.
                    case err of
                      Some e \<Rightarrow> unlocking conf g (k (False, Some e))
                    | None \<Rightarrow>
                        atomic_opt (on_wld_opt (ReleaseGlobalSessionLock (resourceDataLocker conf) gt)) (\<lambda>released.
                          deciding conf g Committing (\<lambda>r. unlocking conf g (k r))))
                else k (False, Some (failed_to_lock xid)))))"

text \<open>After a decision to commit.\<close>

definition commit_phase_two ::
    "'d tc_conf \<Rightarrow> uint64 \<Rightarrow> GlobalTransaction \<Rightarrow> ('d, goerror + GlobalResponse) handler" where
  "commit_phase_two conf now gt =
     look (\<lambda>s. CanBeCommittedAsync (wld s) gt) (\<lambda>async.
       if async then
         atomic (on_wld (UpdateGlobalSessionStatus (holder conf) (gt_GlobalSession gt) AsyncCommitting)) (\<lambda>err.
           case err of Some e \<Rightarrow> Done (Inl e) | None \<Rightarrow> Done (Inr (success Committed)))
       else
         doGlobalCommit_steps conf now gt False (\<lambda>(done, err).
           case err of
             Some e \<Rightarrow> look (\<lambda>s. gs_Status (gt_session (wld s) gt))
               (\<lambda>st. Done (Inr (failed UnknownErr (errText conf e) st)))
           | None \<Rightarrow> Done (Inr (success Committed))))"

definition commit_answer ::
    "'d tc_conf \<Rightarrow> uint64 \<Rightarrow> GlobalTransaction \<Rightarrow> bool \<times> goerror option \<Rightarrow> ('d, goerror + GlobalResponse) handler" where
  "commit_answer conf now gt decision =
     (case decision of
        (shouldCommit, Some err) \<Rightarrow>
          look (\<lambda>s. gs_Status (gt_session (wld s) gt))
            (\<lambda>st. Done (Inr (failed FailedLockGlobalTransaction (errText conf err) st)))
      | (shouldCommit, None) \<Rightarrow>
          (if \<not> shouldCommit then
             look (\<lambda>s. gs_Status (gt_session (wld s) gt)) (\<lambda>st.
               if st = AsyncCommitting then Done (Inr (success Committed))
               else look (\<lambda>s. gs_Status (gt_session (wld s) gt)) (\<lambda>st'. Done (Inr (success st'))))
           else commit_phase_two conf now gt))"

definition Commit_steps :: "'d tc_conf \<Rightarrow> uint64 \<Rightarrow> string \<Rightarrow> ('d, goerror + GlobalResponse) handler" where
  "Commit_steps conf now xid =
     atomic (on_wld (FindGlobalTransaction (holder conf) xid)) (\<lambda>found.
       case found of
         None \<Rightarrow> Done (Inr (success Finished))
       | Some gt \<Rightarrow> commit_decision_steps conf xid gt (commit_answer conf now gt))"

subsection \<open>Rollback\<close>

definition rollback_decision_steps ::
    "'d tc_conf \<Rightarrow> string \<Rightarrow> GlobalTransaction \<Rightarrow> (bool \<times> goerror option \<Rightarrow> ('d, 'r) handler) \<Rightarrow> ('d, 'r) handler" where
  "rollback_decision_steps conf xid gt k =
     (let g = gt_GlobalSession gt
      in locking conf g (\<lambda>(result, err).
           case err of
             Some e \<Rightarrow> k (False, Some e)
           | None \<Rightarrow>
               (if result then
                  closing conf g (\<lambda>err.
                    case err of
                      Some e \<Rightarrow> unlocking conf g (k (False, Some e))
                    | None \<Rightarrow> deciding conf g RollingBack (\<lambda>r. unlocking conf g (k r)))
                else k (False, Some (failed_to_lock xid)))))"

definition rollback_answer ::
    "'d tc_conf \<Rightarrow> uint64 \<Rightarrow> GlobalTransaction \<Rightarrow> bool \<times> goerror option \<Rightarrow> ('d, goerror + GlobalResponse) handler" where
  "rollback_answer conf now gt decision =
     (let status = (\<lambda>k. look (\<lambda>s. gs_Status (gt_session (wld s) gt)) (\<lambda>st. Done (k st)))
      in case decision of
           (shouldRollBack, Some err) \<Rightarrow> status (\<lambda>st. Inr (failed FailedLockGlobalTransaction (errText conf err) st))
         | (shouldRollBack, None) \<Rightarrow>
             (if \<not> shouldRollBack then status (\<lambda>st. Inr (success st))
              else doGlobalRollback_steps conf now gt False (\<lambda>(done, err).
                case err of Some e \<Rightarrow> Done (Inl e) | None \<Rightarrow> status (\<lambda>st. Inr (success st)))))"

definition Rollback_steps :: "'d tc_conf \<Rightarrow> uint64 \<Rightarrow> string \<Rightarrow> ('d, goerror + GlobalResponse) handler" where
  "Rollback_steps conf now xid =
     atomic (on_wld (FindGlobalTransaction (holder conf) xid)) (\<lambda>found.
       case found of
         None \<Rightarrow> Done (Inr (success Finished))
       | Some gt \<Rightarrow> rollback_decision_steps conf xid gt (rollback_answer conf now gt))"

subsection \<open>Branch registration\<close>

definition add_branch_steps ::
    "'d tc_conf \<Rightarrow> BranchRegisterRequest \<Rightarrow> GlobalTransaction \<Rightarrow> int64 \<Rightarrow> bref \<Rightarrow>
     (BranchRegisterResponse \<Rightarrow> ('d, 'r) handler) \<Rightarrow> ('d, 'r) handler" where
  "add_branch_steps conf request gt branchID b k =
     atomic (on_wld (AddBranchSession (holder conf) (gt_GlobalSession gt) b)) (\<lambda>err.
       case err of
         Some e \<Rightarrow> look (\<lambda>s. gs_XID (gt_session (wld s) gt)) (\<lambda>x.
           k (register_failed BranchRegisterFailed
                (''branch register failed, xid = '' @ x @ '', branchID = '' @ show_int64 branchID @
                 '', err: '' @ errText conf e)))
       | None \<Rightarrow> k (register_ok branchID))"

definition register_branch_steps ::
    "'d tc_conf \<Rightarrow> BranchRegisterRequest \<Rightarrow> GlobalTransaction \<Rightarrow>
     (BranchRegisterResponse \<Rightarrow> ('d, 'r) handler) \<Rightarrow> ('d, 'r) handler" where
  "register_branch_steps conf request gt k =
     atomic next_id (\<lambda>branchID.
       look (\<lambda>s. gs_TransactionID (gt_session (wld s) gt)) (\<lambda>transactionID.
         atomic (on_wld (new_bs (branch_of_request request transactionID branchID))) (\<lambda>b.
           if brq_BranchType request = AT then
             atomic_opt (on_wld_opt (AcquireLock (decode conf) (resourceDataLocker conf) (Some b))) (\<lambda>result.
               if result then add_branch_steps conf request gt branchID b k
               else k (register_failed LockKeyConflict
                      (''branch lock acquire failed xid = '' @ brq_XID request @ '' resourceId = '' @
                       brq_ResourceID request @ '', lockKey = '' @ brq_LockKey request)))
           else add_branch_steps conf request gt branchID b k)))"

definition BranchRegister_steps :: "'d tc_conf \<Rightarrow> BranchRegisterRequest \<Rightarrow> ('d, BranchRegisterResponse) handler" where
  "BranchRegister_steps conf request =
     atomic (on_wld (FindGlobalTransaction (holder conf) (brq_XID request))) (\<lambda>found.
       case found of
         None \<Rightarrow> Done (register_failed GlobalTransactionNotExist
                   (''could not find global transaction xid = '' @ brq_XID request))
       | Some gt \<Rightarrow>
           (let g = gt_GlobalSession gt; end_with = (\<lambda>r. unlocking conf g (Done r))
            in locking conf g (\<lambda>(result, err).
                 case err of
                   Some e \<Rightarrow> Done (register_failed FailedLockGlobalTransaction
                              (''could not lock global transaction xid = '' @ brq_XID request))
                 | None \<Rightarrow>
                     (if result then
                        look (\<lambda>s. gs_Active (gobj (wld s) g)) (\<lambda>active.
                          if \<not> active then
                            look (\<lambda>s. gobj (wld s) g) (\<lambda>session.
                              end_with (register_failed GlobalTransactionNotActive
                                (''could not register branch into global session xid = '' @ gs_XID session @
                                 '' status = '' @ show_status (gs_Status session))))
                          else look (\<lambda>s. gs_Status (gobj (wld s) g)) (\<lambda>status.
                            if status \<noteq> Begin then
                              look (\<lambda>s. gobj (wld s) g) (\<lambda>session.
                                end_with (register_failed GlobalTransactionStatusInvalid
                                  (''could not register branch into global session xid = '' @ gs_XID session @
                                   '' status = '' @ show_status (gs_Status session) @
                                   '' while expecting '' @ show_status Begin)))
                            else register_branch_steps conf request gt end_with))
                      else Done (register_failed FailedLockGlobalTransaction
                             (''failed to lock global transaction xid = '' @ brq_XID request))))))"

subsection \<open>The report of a branch\<close>

definition BranchReport_steps :: "'d tc_conf \<Rightarrow> BranchReportRequest \<Rightarrow> ('d, BranchReportResponse) handler" where
  "BranchReport_steps conf request =
     atomic (on_wld (FindGlobalTransaction (holder conf) (btq_XID request))) (\<lambda>found.
       case found of
         None \<Rightarrow> Done (report_response GlobalTransactionNotExist
                   (''could not find global transaction xid = '' @ btq_XID request))
       | Some gt \<Rightarrow>
           look (\<lambda>s. GetBranch (wld s) gt (btq_BranchID request)) (\<lambda>bs.
             case bs of
               None \<Rightarrow>
                 look (\<lambda>s. gs_XID (gt_session (wld s) gt)) (\<lambda>x.
                   Done (report_response BranchTransactionNotExist
                     (''could not find branch session xid = '' @ x @
                      '' branchID = '' @ show_int64 (btq_BranchID request))))
             | Some b \<Rightarrow>
                 atomic (on_wld (UpdateBranchSessionStatus (holder conf) b (btq_BranchStatus request))) (\<lambda>err.
                   case err of
                     Some e \<Rightarrow>
                       look (\<lambda>s. gs_XID (gt_session (wld s) gt)) (\<lambda>x.
                         look (\<lambda>s. bs_BranchID (bobj (wld s) b)) (\<lambda>i.
                           Done (report_response BranchReportFailed
                             (''branch report failed, xid = '' @ x @ '', branchID = '' @ show_int64 i @
                              '', err: '' @ errText conf e))))
                   | None \<Rightarrow> Done report_ok)))"

subsection \<open>The check for timeouts\<close>

fun timeout_steps :: "'d tc_conf \<Rightarrow> uint64 \<Rightarrow> gref list \<Rightarrow> ('d, 'r) handler \<Rightarrow> ('d, 'r) handler" where
  "timeout_steps conf now [] k = k"
| "timeout_steps conf now (g # gs) k =
     look (\<lambda>s. isGlobalSessionTimeout now (gobj (wld s) g)) (\<lambda>late.
       if late then
         locking conf g (\<lambda>(result, err).
           if err = None \<and> result then
             closing conf g (\<lambda>err.
               if err \<noteq> None then k
               else atomic (on_wld (UpdateGlobalSessionStatus (holder conf) g TimeoutRollingBack)) (\<lambda>err.
                 if err \<noteq> None then k
                 else unlocking conf g
                   (atomic (\<lambda>s. ((), publish_event g 0 s)) (\<lambda>u. timeout_steps conf now gs k))))
           else timeout_steps conf now gs k)
       else timeout_steps conf now gs k)"

definition timeoutCheck_steps :: "'d tc_conf \<Rightarrow> uint64 \<Rightarrow> ('d, 'r) handler \<Rightarrow> ('d, 'r) handler" where
  "timeoutCheck_steps conf now k =
     atomic (on_wld (FindGlobalSessions (holder conf) [Begin])) (\<lambda>sessions.
       if length sessions = 0 then k else timeout_steps conf now sessions k)"

subsection \<open>The passes that retry\<close>

fun retry_rollback_steps ::
    "'d tc_conf \<Rightarrow> uint64 \<Rightarrow> GlobalTransaction list \<Rightarrow> ('d, 'r) handler \<Rightarrow> ('d, 'r) handler" where
  "retry_rollback_steps conf now [] k = k"
| "retry_rollback_steps conf now (t # ts) k =
     look (\<lambda>s. gs_Status (gt_session (wld s) t) = RollingBack \<and> \<not> IsRollingBackDead conf now (wld s) t) (\<lambda>skip.
       if skip then retry_rollback_steps conf now ts k
       else look (\<lambda>s. gs_BeginTime (gt_session (wld s) t)) (\<lambda>beginTime.
         if isRetryTimeout now (maxRollbackRetryTimeout conf) beginTime then
           (let remove = atomic (on_wld (RemoveGlobalTransaction (holder conf) t))
                  (\<lambda>err. retry_rollback_steps conf now ts k)
            in if rollbackRetryTimeoutUnlockEnable conf
               then atomic_opt (on_wld_opt (ReleaseGlobalSessionLock (resourceDataLocker conf) t)) (\<lambda>released. remove)
               else remove)
         else doGlobalRollback_steps conf now t True (\<lambda>r. retry_rollback_steps conf now ts k)))"

definition handleRetryRollingBack_steps :: "'d tc_conf \<Rightarrow> uint64 \<Rightarrow> ('d, 'r) handler \<Rightarrow> ('d, 'r) handler" where
  "handleRetryRollingBack_steps conf now k =
     look getAddressingIdentities (\<lambda>addressingIdentities.
       if length addressingIdentities = 0 then k
       else atomic (on_wld (FindRetryRollbackGlobalTransactions (holder conf) addressingIdentities)) (\<lambda>ts.
         if length ts = 0 then k else retry_rollback_steps conf now ts k))"

fun retry_commit_steps ::
    "'d tc_conf \<Rightarrow> uint64 \<Rightarrow> GlobalTransaction list \<Rightarrow> ('d, 'r) handler \<Rightarrow> ('d, 'r) handler" where
  "retry_commit_steps conf now [] k = k"
| "retry_commit_steps conf now (t # ts) k =
     look (\<lambda>s. gs_BeginTime (gt_session (wld s) t)) (\<lambda>beginTime.
       if isRetryTimeout now (maxCommitRetryTimeout conf) beginTime then
         atomic (on_wld (RemoveGlobalTransaction (holder conf) t)) (\<lambda>err. retry_commit_steps conf now ts k)
       else doGlobalCommit_steps conf now t True (\<lambda>r. retry_commit_steps conf now ts k))"

definition handleRetryCommitting_steps :: "'d tc_conf \<Rightarrow> uint64 \<Rightarrow> ('d, 'r) handler \<Rightarrow> ('d, 'r) handler" where
  "handleRetryCommitting_steps conf now k =
     look getAddressingIdentities (\<lambda>addressingIdentities.
       if length addressingIdentities = 0 then k
       else atomic (on_wld (FindRetryCommittingGlobalTransactions (holder conf) addressingIdentities)) (\<lambda>ts.
         if length ts = 0 then k else retry_commit_steps conf now ts k))"

fun async_commit_steps ::
    "'d tc_conf \<Rightarrow> uint64 \<Rightarrow> GlobalTransaction list \<Rightarrow> ('d, 'r) handler \<Rightarrow> ('d, 'r) handler" where
  "async_commit_steps conf now [] k = k"
| "async_commit_steps conf now (t # ts) k =
     look (\<lambda>s. gs_Status (gt_session (wld s) t)) (\<lambda>st.
       if st \<noteq> AsyncCommitting then async_commit_steps conf now ts k
       else doGlobalCommit_steps conf now t True (\<lambda>r. async_commit_steps conf now ts k))"

definition handleAsyncCommitting_steps :: "'d tc_conf \<Rightarrow> uint64 \<Rightarrow> ('d, 'r) handler \<Rightarrow> ('d, 'r) handler" where
  "handleAsyncCommitting_steps conf now k =
     look getAddressingIdentities (\<lambda>addressingIdentities.
       if length addressingIdentities = 0 then k
       else atomic (on_wld (FindAsyncCommittingGlobalTransactions (holder conf) addressingIdentities)) (\<lambda>ts.
         if length ts = 0 then k else async_commit_steps conf now ts k))"

text \<open>The endless loops that run the passes, as far as the times in the list: one round after each tick.\<close>

fun processTimeoutCheck :: "'d tc_conf \<Rightarrow> uint64 list \<Rightarrow> ('d, 'r) handler \<Rightarrow> ('d, 'r) handler" where
  "processTimeoutCheck conf [] k = k"
| "processTimeoutCheck conf (now # nows) k = timeoutCheck_steps conf now (processTimeoutCheck conf nows k)"

fun processRetryRollingBack :: "'d tc_conf \<Rightarrow> uint64 list \<Rightarrow> ('d, 'r) handler \<Rightarrow> ('d, 'r) handler" where
  "processRetryRollingBack conf [] k = k"
| "processRetryRollingBack conf (now # nows) k =
     handleRetryRollingBack_steps conf now (processRetryRollingBack conf nows k)"

fun processRetryCommitting :: "'d tc_conf \<Rightarrow> uint64 list \<Rightarrow> ('d, 'r) handler \<Rightarrow> ('d, 'r) handler" where
  "processRetryCommitting conf [] k = k"
| "processRetryCommitting conf (now # nows) k =
     handleRetryCommitting_steps conf now (processRetryCommitting conf nows k)"

fun processAsyncCommitting :: "'d tc_conf \<Rightarrow> uint64 list \<Rightarrow> ('d, 'r) handler \<Rightarrow> ('d, 'r) handler" where
  "processAsyncCommitting conf [] k = k"
| "processAsyncCommitting conf (now # nows) k =
     handleAsyncCommitting_steps conf now (processAsyncCommitting conf nows k)"

subsection \<open>A handler that is not interrupted\<close>

lemmas step_defs = unlocking_def locking_def closing_def deciding_def

lemma run_unlocking [simp]:
  "run_alone (unlocking conf g p) s = run_alone p (s\<lparr>wld := gl_Unlock (locker conf) g (wld s)\<rparr>)"
  by (simp add: unlocking_def)

lemma run_locking [simp]:
  "run_alone (locking conf g k) s =
     (case on_wld (gl_TryLock (locker conf) g (lock_timeout (gobj (wld s) g))) s of (r, s') \<Rightarrow> run_alone (k r) s')"
  by (simp add: locking_def)

lemma run_closing [simp]:
  "run_alone (closing conf g k) s =
     (case (if gs_Active (gobj (wld s) g) then on_wld (InactiveGlobalSession (holder conf) g) s else (None, s)) of
        (err, s') \<Rightarrow> run_alone (k err) s')"
  by (simp add: closing_def)

lemma run_deciding:
  "run_alone (deciding conf (gt_GlobalSession gt) status k) s =
     (case (if gs_Status (gt_session (wld s) gt) = Begin then update_then conf gt status (True, None) s
            else ((False, None), s)) of
        (r, s') \<Rightarrow> run_alone (k r) s')"
  by (auto simp: deciding_def update_then_def gt_session_def split: prod.splits option.splits)

lemma run_branchCommit [simp]:
  "run_alone (branchCommit_steps conf b k) s = (case branchCommit conf b s of (r, s') \<Rightarrow> run_alone (k r) s')"
  by (auto simp: branchCommit_steps_def branchCommit_def Let_def send_message_def
      split: option.splits rm_outcome.splits rm_reply.splits)

lemma run_branchRollback [simp]:
  "run_alone (branchRollback_steps conf b k) s =
     (case branchRollback conf b s of None \<Rightarrow> None | Some (r, s') \<Rightarrow> run_alone (k r) s')"
  by (auto simp: branchRollback_steps_def branchRollback_def Let_def send_message_def
      split: option.splits rm_outcome.splits rm_reply.splits)

lemma run_updating [simp]:
  "run_alone (updating conf gt status r k) s = (case update_then conf gt status r s of (q, s') \<Rightarrow> run_alone (k q) s')"
  by (auto simp: updating_def update_then_def split: prod.splits option.splits)

lemma run_finishing [simp]:
  "run_alone (finishing conf gt status r k) s =
     (case finish_global conf gt status r s of None \<Rightarrow> None | Some (q, s') \<Rightarrow> run_alone (k q) s')"
  by (auto simp: finishing_def finish_global_def split: prod.splits option.splits)

lemma run_dropping [simp]:
  "run_alone (dropping conf gt b k) s =
     (case drop_branch conf gt b s of None \<Rightarrow> None | Some (e, s') \<Rightarrow> run_alone (k e) s')"
  by (auto simp: dropping_def drop_branch_def split: prod.splits option.splits)

lemma run_choosing [simp]:
  "run_alone (choosing gt timedOut plain k) s = run_alone (k (timeout_or gt timedOut plain s)) s"
  by (simp add: choosing_def timeout_or_def)

lemma run_commit_branch_steps:
  "run_alone (commit_branch_steps conf retrying bs gt k) s =
     (case commit_branches conf retrying bs gt s of None \<Rightarrow> None | Some (r, gt', s') \<Rightarrow> run_alone (k r gt') s')"
  by (induction bs arbitrary: gt s) (auto simp: Let_def split: prod.splits option.splits)

lemma run_rollback_branch_steps:
  "run_alone (rollback_branch_steps conf retrying bs gt k) s =
     (case rollback_branches conf retrying bs gt s of None \<Rightarrow> None | Some (r, gt', s') \<Rightarrow> run_alone (k r gt') s')"
  by (induction bs arbitrary: gt s) (auto simp: Let_def split: prod.splits option.splits)

lemma run_doGlobalCommit [simp]:
  "run_alone (doGlobalCommit_steps conf now gt retrying k) s =
     (case doGlobalCommit conf now gt retrying s of None \<Rightarrow> None | Some (r, s') \<Rightarrow> run_alone (k r) s')"
  by (auto simp: doGlobalCommit_steps_def doGlobalCommit_def Let_def run_commit_branch_steps
      split: prod.splits option.splits bool.splits)

lemma run_doGlobalRollback [simp]:
  "run_alone (doGlobalRollback_steps conf now gt retrying k) s =
     (case doGlobalRollback conf now gt retrying s of None \<Rightarrow> None | Some (r, s') \<Rightarrow> run_alone (k r) s')"
  by (auto simp: doGlobalRollback_steps_def doGlobalRollback_def Let_def run_rollback_branch_steps
      split: prod.splits option.splits bool.splits)

lemma run_commit_decision:
  "run_alone (commit_decision_steps conf xid gt k) s =
     (case commit_decision conf xid gt s of None \<Rightarrow> None | Some (r, s') \<Rightarrow> run_alone (k r) s')"
  by (auto simp: commit_decision_steps_def commit_decision_def Let_def run_deciding gt_session_def
      split: prod.splits option.splits)

lemma run_rollback_decision:
  "run_alone (rollback_decision_steps conf xid gt k) s =
     (case rollback_decision conf xid gt s of (r, s') \<Rightarrow> run_alone (k r) s')"
  by (auto simp: rollback_decision_steps_def rollback_decision_def Let_def run_deciding gt_session_def
      split: prod.splits option.splits)

lemma run_Commit: "run_alone (Commit_steps conf now xid) s = tc_Commit conf now xid s"
  by (auto simp: Commit_steps_def tc_Commit_def run_commit_decision commit_answer_def commit_phase_two_def
      split: prod.splits option.splits)

lemma run_Rollback: "run_alone (Rollback_steps conf now xid) s = tc_Rollback conf now xid s"
  by (auto simp: Rollback_steps_def tc_Rollback_def run_rollback_decision rollback_answer_def Let_def
      split: prod.splits option.splits)

lemma run_add_branch:
  "run_alone (add_branch_steps conf request gt branchID b k) s =
     (case on_wld (AddBranchSession (holder conf) (gt_GlobalSession gt) b) s of
        (Some err, s4) \<Rightarrow>
          run_alone (k (register_failed BranchRegisterFailed
            (''branch register failed, xid = '' @ gs_XID (gt_session (wld s4) gt) @
             '', branchID = '' @ show_int64 branchID @ '', err: '' @ errText conf err))) s4
      | (None, s4) \<Rightarrow> run_alone (k (register_ok branchID)) s4)"
  by (auto simp: add_branch_steps_def split: prod.splits option.splits)

lemma new_bs_type: "on_wld (new_bs bs) s = (b, s') \<Longrightarrow> bobj (wld s') b = bs"
  by (auto simp: on_wld_def new_bs_def)

lemma run_register_branch:
  "run_alone (register_branch_steps conf request gt k) s =
     (case register_branch conf request gt s of None \<Rightarrow> None | Some (r, s') \<Rightarrow> run_alone (k r) s')"
proof -
  obtain i s1 where 1: "next_id s = (i, s1)" by fastforce
  obtain b s2 where 2: "on_wld (new_bs (branch_of_request request (gs_TransactionID (gt_session (wld s1) gt)) i)) s1 = (b, s2)"
    by fastforce
  have "bs_Type (bobj (wld s2) b) = brq_BranchType request"
    using new_bs_type [OF 2] by (simp add: branch_of_request_def)
  then show ?thesis
    by (auto simp: register_branch_steps_def register_branch_def 1 2 Let_def run_add_branch
        split: prod.splits option.splits)
qed

lemma run_BranchRegister: "run_alone (BranchRegister_steps conf request) s = tc_BranchRegister conf request s"
proof -
  let ?fin = "\<lambda>g r. unlocking conf g (Done r)"
  have e: "(case x of None \<Rightarrow> None | Some (r, s') \<Rightarrow> run_alone (?fin g r) s') =
      map_option (\<lambda>(r, s'). (r, s'\<lparr>wld := gl_Unlock (locker conf) g (wld s')\<rparr>)) x" for g x
    by (auto split: option.splits prod.splits)
  show ?thesis
    by (auto simp: BranchRegister_steps_def tc_BranchRegister_def Let_def run_register_branch e gt_session_def
        simp del: run_unlocking split: prod.splits option.splits) (simp_all split: option.splits)
qed

lemma run_BranchReport: "run_alone (BranchReport_steps conf rq) s = Some (tc_BranchReport conf rq s)"
  by (auto simp: BranchReport_steps_def tc_BranchReport_def split: prod.splits option.splits)

lemma run_timeout: "run_alone (timeout_steps conf now gs k) s = run_alone k (timeout_sessions conf now gs s)"
  by (induction gs arbitrary: s) (auto split: prod.splits option.splits bool.splits)

lemma run_timeoutCheck [simp]: "run_alone (timeoutCheck_steps conf now k) s = run_alone k (timeoutCheck conf now s)"
  by (auto simp: timeoutCheck_steps_def timeoutCheck_def run_timeout split: prod.splits)

lemma run_retry_rollback:
  "run_alone (retry_rollback_steps conf now ts k) s =
     (case retry_rollbacks conf now ts s of None \<Rightarrow> None | Some s' \<Rightarrow> run_alone k s')"
  by (induction ts arbitrary: s) (auto simp: Let_def split: prod.splits option.splits)

lemma run_retry_commit:
  "run_alone (retry_commit_steps conf now ts k) s =
     (case retry_commits conf now ts s of None \<Rightarrow> None | Some s' \<Rightarrow> run_alone k s')"
  by (induction ts arbitrary: s) (auto split: prod.splits option.splits)

lemma run_async_commit:
  "run_alone (async_commit_steps conf now ts k) s =
     (case async_commits conf now ts s of None \<Rightarrow> None | Some s' \<Rightarrow> run_alone k s')"
  by (induction ts arbitrary: s) (auto split: prod.splits option.splits)

lemma run_passes [simp]:
  "run_alone (handleRetryRollingBack_steps conf now k) s =
     (case handleRetryRollingBack conf now s of None \<Rightarrow> None | Some s' \<Rightarrow> run_alone k s')"
  "run_alone (handleRetryCommitting_steps conf now k) s =
     (case handleRetryCommitting conf now s of None \<Rightarrow> None | Some s' \<Rightarrow> run_alone k s')"
  "run_alone (handleAsyncCommitting_steps conf now k) s =
     (case handleAsyncCommitting conf now s of None \<Rightarrow> None | Some s' \<Rightarrow> run_alone k s')"
  by (auto simp: handleRetryRollingBack_steps_def handleRetryRollingBack_def handleRetryCommitting_steps_def
      handleRetryCommitting_def handleAsyncCommitting_steps_def handleAsyncCommitting_def Let_def
      run_retry_rollback run_retry_commit run_async_commit split: prod.splits)

text \<open>A pass for every time of a list.\<close>

fun rounds :: "(uint64 \<Rightarrow> 's \<Rightarrow> 's option) \<Rightarrow> uint64 list \<Rightarrow> 's \<Rightarrow> 's option" where
  "rounds f [] s = Some s"
| "rounds f (now # nows) s = (case f now s of None \<Rightarrow> None | Some s' \<Rightarrow> rounds f nows s')"

lemma run_processes:
  "run_alone (processTimeoutCheck conf nows k) s =
     (case rounds (\<lambda>now s. Some (timeoutCheck conf now s)) nows s of None \<Rightarrow> None | Some s' \<Rightarrow> run_alone k s')"
  "run_alone (processRetryRollingBack conf nows k) s =
     (case rounds (handleRetryRollingBack conf) nows s of None \<Rightarrow> None | Some s' \<Rightarrow> run_alone k s')"
  "run_alone (processRetryCommitting conf nows k) s =
     (case rounds (handleRetryCommitting conf) nows s of None \<Rightarrow> None | Some s' \<Rightarrow> run_alone k s')"
  "run_alone (processAsyncCommitting conf nows k) s =
     (case rounds (handleAsyncCommitting conf) nows s of None \<Rightarrow> None | Some s' \<Rightarrow> run_alone k s')"
  by (induction nows arbitrary: s) (auto split: option.splits)

subsection \<open>Concurrent calls\<close>

datatype call = Commit_call uint64 string | Rollback_call uint64 string | Register_call BranchRegisterRequest
  | Report_call BranchReportRequest | Timeout_rounds "uint64 list" | Rollback_rounds "uint64 list"
  | Commit_rounds "uint64 list" | Async_rounds "uint64 list"

datatype call_answer = Global_answer "goerror + GlobalResponse" | Register_answer BranchRegisterResponse
  | Report_answer BranchReportResponse | No_answer

primrec thread_of :: "'d tc_conf \<Rightarrow> call \<Rightarrow> ('d, call_answer) handler" where
  "thread_of conf (Commit_call now xid) = map_thread Global_answer (Commit_steps conf now xid)"
| "thread_of conf (Rollback_call now xid) = map_thread Global_answer (Rollback_steps conf now xid)"
| "thread_of conf (Register_call request) = map_thread Register_answer (BranchRegister_steps conf request)"
| "thread_of conf (Report_call report) = map_thread Report_answer (BranchReport_steps conf report)"
| "thread_of conf (Timeout_rounds nows) = processTimeoutCheck conf nows (Done No_answer)"
| "thread_of conf (Rollback_rounds nows) = processRetryRollingBack conf nows (Done No_answer)"
| "thread_of conf (Commit_rounds nows) = processRetryCommitting conf nows (Done No_answer)"
| "thread_of conf (Async_rounds nows) = processAsyncCommitting conf nows (Done No_answer)"

text \<open>The handlers and passes as the other theories have them.\<close>

primrec handle_call :: "'d tc_conf \<Rightarrow> call \<Rightarrow> 'd tc \<Rightarrow> (call_answer \<times> 'd tc) option" where
  "handle_call conf (Commit_call now xid) s = map_option (map_prod Global_answer id) (tc_Commit conf now xid s)"
| "handle_call conf (Rollback_call now xid) s = map_option (map_prod Global_answer id) (tc_Rollback conf now xid s)"
| "handle_call conf (Register_call request) s = map_option (map_prod Register_answer id) (tc_BranchRegister conf request s)"
| "handle_call conf (Report_call report) s = Some (map_prod Report_answer id (tc_BranchReport conf report s))"
| "handle_call conf (Timeout_rounds nows) s =
     map_option (Pair No_answer) (rounds (\<lambda>now s. Some (timeoutCheck conf now s)) nows s)"
| "handle_call conf (Rollback_rounds nows) s = map_option (Pair No_answer) (rounds (handleRetryRollingBack conf) nows s)"
| "handle_call conf (Commit_rounds nows) s = map_option (Pair No_answer) (rounds (handleRetryCommitting conf) nows s)"
| "handle_call conf (Async_rounds nows) s = map_option (Pair No_answer) (rounds (handleAsyncCommitting conf) nows s)"

end
