(* ===== verification/Handler_Races.thy ===== *)
theory Handler_Races
  imports Handler_Steps Inmemory_Phase_Two
begin

text \<open>
  What interleaved handlers can do over the in-memory driver: three schedules whose outcome no
  sequence of whole handlers has. The session lock that the handlers take does not prevent them, since
  its implementation does nothing. Each is shown for all states and requests of a kind.
\<close>

subsection \<open>A check for timeouts with stale sessions\<close>

text \<open>A reference the session map has.\<close>

definition entered :: "inmem world \<Rightarrow> gref \<Rightarrow> bool" where
  "entered w g \<longleftrightarrow> (\<exists>e. map_of (SessionMap (drv w)) (gs_XID (gobj w g)) = Some e \<and> gt_GlobalSession e = g)"

definition timed_out :: "uint64 \<Rightarrow> GlobalSession \<Rightarrow> GlobalSession" where
  "timed_out now g = (if isGlobalSessionTimeout now g then g\<lparr>gs_Active := False, gs_Status := TimeoutRollingBack\<rparr> else g)"

lemma timed_out_simps [simp]: "gs_XID (timed_out now g) = gs_XID g" "timed_out now (timed_out now g) = timed_out now g"
  by (simp_all add: timed_out_def isGlobalSessionTimeout_def)

text \<open>The pass sets the status of every session on its list that is late, whatever it is by then.\<close>

lemma timeout_sessions_inmem:
  assumes "\<forall>g \<in> set gs. entered (wld s) g"
  shows "SessionMap (drv (wld (timeout_sessions (inmem_tc conf) now gs s))) = SessionMap (drv (wld s)) \<and>
    gobj (wld (timeout_sessions (inmem_tc conf) now gs s)) =
      (\<lambda>h. if h \<in> set gs then timed_out now (gobj (wld s) h) else gobj (wld s) h)"
  using assms
proof (induction gs arbitrary: s)
  case (Cons g gs)
  show ?case
  proof (cases "isGlobalSessionTimeout now (gobj (wld s) g)")
    case True
    obtain e where e: "map_of (SessionMap (drv (wld s))) (gs_XID (gobj (wld s) g)) = Some e" "gt_GlobalSession e = g"
      using Cons.prems by (auto simp: entered_def)
    obtain s1 where 1: "(if gs_Active (gobj (wld s) g) then on_wld (InactiveGlobalSession inmem_sm g) s else (None, s)) = (None, s1)"
      and d1: "decided_world g (gs_Status (gobj (wld s) g)) (wld s) (wld s1)" by (rule close_inmem [OF e refl])
    have e1: "map_of (SessionMap (drv (wld s1))) (gs_XID (gobj (wld s) g)) = Some e" "gs_XID (gobj (wld s1) g) = gs_XID (gobj (wld s) g)"
      using d1 e by (simp_all add: decided_world_def)
    obtain s2 where 2: "on_wld (UpdateGlobalSessionStatus inmem_sm g TimeoutRollingBack) s1 = (None, s2)"
      and d2: "gobj (wld s2) = (gobj (wld s1))(g := (gobj (wld s1) g)\<lparr>gs_Status := TimeoutRollingBack\<rparr>)"
        "drv (wld s2) = drv (wld s1)" by (rule status_inmem [OF e1(1) e(2) e1(2)])
    have o: "gobj (wld s2) = (gobj (wld s))(g := timed_out now (gobj (wld s) g))" "SessionMap (drv (wld s2)) = SessionMap (drv (wld s))"
      using d1 d2 True by (simp_all add: decided_world_def timed_out_def)
    let ?s = "publish_event g 0 s2"
    have "\<forall>h \<in> set gs. entered (wld ?s) h"
      using Cons.prems o by (auto simp: entered_def publish_event_def)
    from Cons.IH [OF this] o have
      "SessionMap (drv (wld (timeout_sessions (inmem_tc conf) now gs ?s))) = SessionMap (drv (wld s)) \<and>
       gobj (wld (timeout_sessions (inmem_tc conf) now gs ?s)) =
         (\<lambda>h. if h \<in> set (g # gs) then timed_out now (gobj (wld s) h) else gobj (wld s) h)"
      by (auto simp: publish_event_def fun_eq_iff)
    moreover have "timeout_sessions (inmem_tc conf) now (g # gs) s = timeout_sessions (inmem_tc conf) now gs ?s"
      by (subst timeout_sessions_eq [of "inmem_tc conf" now s g None s1]) (use True 1 2 in \<open>auto split: if_splits\<close>)
    ultimately show ?thesis by simp
  next
    case False
    with Cons show ?thesis by (auto simp: timed_out_def fun_eq_iff)
  qed
qed simp

subsection \<open>A registration that is interrupted\<close>

text \<open>A registration that would succeed on its own runs until it has its row locks, and the branch is
  still to be stored.\<close>

abbreviation registering :: "inmem tc_conf \<Rightarrow> BranchRegisterRequest \<Rightarrow> GlobalTransaction \<Rightarrow> int64 \<Rightarrow> bref \<Rightarrow>
    (inmem, call_answer) handler" where
  "registering conf rq e i b \<equiv> map_thread Register_answer
     (add_branch_steps (inmem_tc conf) rq
        \<lparr>gt_GlobalSession = gt_GlobalSession e, gt_BranchSessions = put_keys [] (gt_BranchSessions e)\<rparr> i b
        (\<lambda>r. unlocking (inmem_tc conf) (gt_GlobalSession e) (Done r)))"

lemma acquire_frame:
  assumes "AcquireLock d inmem_lm (Some b) w = Some (r, w')"
  shows "SessionMap (drv w') = SessionMap (drv w)" "gobj w' = gobj w" "bobj w' = bobj w"
  using assms by (auto simp: AcquireLock_eq inmem_AcquireLock_def Let_def split: if_splits prod.splits)

lemma registration_prefix:
  assumes e: "map_of (SessionMap (drv (wld s))) (brq_XID rq) = Some e" and "brq_BranchType rq = AT"
    and r: "tc_BranchRegister (inmem_tc conf) rq s = Some (register_ok i, s0)"
  obtains s1 where
    "runs thread_step (replicate 9 0) ([thread_of (inmem_tc conf) (Register_call rq), q], s) =
       Some ([registering conf rq e i (btop (wld s)), q], s1)"
    "SessionMap (drv (wld s1)) = SessionMap (drv (wld s))" "gobj (wld s1) = gobj (wld s)"
    "bobj (wld s1) = (bobj (wld s))(btop (wld s) := branch_of_request rq (gs_TransactionID (gt_session (wld s) e)) i)"
    "inmem_held (wld s1) = inmem_held (wld s0)"
    "\<And>k. inmem_held (wld s0) k \<noteq> inmem_held (wld s) k \<Longrightarrow>
       inmem_held (wld s0) k = Some (gs_TransactionID (gt_session (wld s) e))"
proof -
  let ?c = "inmem_tc conf"
  let ?gt = "\<lparr>gt_GlobalSession = gt_GlobalSession e, gt_BranchSessions = put_keys [] (gt_BranchSessions e)\<rparr>"
  let ?b = "btop (wld s)"
  obtain i' s2 where 1: "next_id s = (i', s2)" by fastforce
  then have w2: "wld s2 = wld s" by (auto simp: next_id_def split: prod.splits)
  let ?new = "branch_of_request rq (gs_TransactionID (gt_session (wld s) e)) i'"
  obtain s3 where 2: "on_wld (new_bs ?new) s2 = (?b, s3)" "bobj (wld s3) = (bobj (wld s))(?b := ?new)"
    "gobj (wld s3) = gobj (wld s)" "drv (wld s3) = drv (wld s)"
    by (simp_all add: on_wld_def new_bs_def w2)
  have act: "gs_Active (gobj (wld s) (gt_GlobalSession e)) \<and> gs_Status (gobj (wld s) (gt_GlobalSession e)) = Begin \<and>
      register_branch ?c rq ?gt s = Some (register_ok i, s0)"
    using r by (auto simp: tc_BranchRegister_def find_inmem [OF e] on_wld_def [of "gl_TryLock _ _ _"] gt_session_def
        Let_def register_ok_def register_failed_def split: if_splits)
  then have rb: "register_branch ?c rq ?gt s = Some (register_ok i, s0)" by blast
  have tid: "gs_TransactionID (gt_session (wld s2) ?gt) = gs_TransactionID (gt_session (wld s) e)"
    by (simp add: gt_session_def w2)
  have at: "bs_Type (bobj (wld s3) ?b) = AT" using assms(2) by (simp add: 2(2) branch_of_request_def)
  let ?a = "on_wld_opt (AcquireLock (decode ?c) inmem_lm (Some ?b)) s3"
  have none: "?a \<noteq> None" by (rule notI) (use rb in \<open>simp add: register_branch_def 1 tid 2(1) at\<close>)
  then obtain t s4 where 3: "?a = Some (t, s4)" by fastforce
  obtain err s5 where 4: "on_wld (AddBranchSession inmem_sm (gt_GlobalSession e) ?b) s4 = (err, s5)" by fastforce
  from rb have t: "t" and err: "err = None" and i: "i' = i" and s5: "s5 = s0"
    by (simp_all add: register_branch_def 1 tid 2(1) at 3 4 register_ok_def register_failed_def
        split: if_splits option.splits)
  note 3 = 3 [simplified t] and 4 = 4 [unfolded err s5]
  from 3 have a: "AcquireLock (decode ?c) inmem_lm (Some ?b) (wld s3) = Some (True, wld s4)"
    by (auto simp: on_wld_opt_def split: option.splits)
  note f = acquire_frame [OF a] inmem_lm.AcquireLock_spec [OF TrueI a]
  have k: "inmem_held (wld s0) = inmem_held (wld s4)"
    using 4 by (auto simp: on_wld_def AddBranchSession_def inmem_AddBranchSession_def inmem_held_def Let_def
        put_session_def split: option.splits)
  show thesis
  proof (rule that [of s4])
    show "runs thread_step (replicate 9 0) ([thread_of ?c (Register_call rq), q], s) =
        Some ([registering conf rq e i ?b, q], s4)"
      using act by (simp add: Let_def numeral_eq_Suc BranchRegister_steps_def find_inmem [OF e] locking_def
          on_wld_def [of "gl_TryLock _ _ _"] register_branch_steps_def 1 [unfolded i] tid 2(1) [unfolded i] 3 assms(2))
    show "inmem_held (wld s0) k = Some (gs_TransactionID (gt_session (wld s) e))"
      if "inmem_held (wld s0) k \<noteq> inmem_held (wld s) k" for k
    proof -
      have "inmem_held (wld s3) k = inmem_held (wld s) k" by (simp add: inmem_held_def 2(4))
      with that f(6) [of k] k have "k \<in> branch_rows (bobj (wld s3) ?b)" by metis
      from f(5) [OF TrueI this] show ?thesis by (simp add: k 2(2) branch_of_request_def)
    qed
  qed (use 2 f k i in simp_all)
qed

lemma begun_sessions:
  assumes "inmem_ok (wld s)" and "map_of (SessionMap (drv (wld s))) x = Some e"
    and "gs_Status (gt_session (wld s) e) = Begin"
  obtains gs where "FindGlobalSessions inmem_sm [Begin] (wld s) = (gs, wld s)" "gt_GlobalSession e \<in> set gs"
    "\<forall>g \<in> set gs. entered (wld s) g"
proof
  show "FindGlobalSessions inmem_sm [Begin] (wld s) = (fst (inmem_FindGlobalSessions [Begin] (wld s)), wld s)"
    by (simp add: FindGlobalSessions_def inmem_FindGlobalSessions_def)
  show "gt_GlobalSession e \<in> set (fst (inmem_FindGlobalSessions [Begin] (wld s)))"
    using assms(2,3) by (force simp: inmem_FindGlobalSessions_def dest: map_of_SomeD)
  show "\<forall>g \<in> set (fst (inmem_FindGlobalSessions [Begin] (wld s))). entered (wld s) g"
    using assms(1) by (force simp: inmem_FindGlobalSessions_def entered_def inmem_ok_def gt_session_def)
qed

text \<open>The rest of the registration, in whatever state it goes on.\<close>

lemma run_registering:
  assumes "gs_XID (gobj (wld s) (gt_GlobalSession e)) = x"
  shows "map_of (SessionMap (drv (wld s))) x = None \<Longrightarrow>
      \<exists>m. run_alone (registering conf rq e i b) s = Some (Register_answer (register_failed BranchRegisterFailed m), s)"
    and "map_of (SessionMap (drv (wld s))) x = Some e' \<Longrightarrow> b \<notin> set (gt_BranchSessions e') \<Longrightarrow>
      run_alone (registering conf rq e i b) s = Some (Register_answer (register_ok i),
        s\<lparr>wld := put_session x (e'\<lparr>gt_BranchSessions := gt_BranchSessions e' @ [b]\<rparr>) (wld s)\<rparr>)"
  using assms by (auto simp: run_add_branch on_wld_def AddBranchSession_def inmem_AddBranchSession_def)

text \<open>What the registration did so far leaves a pending session pending.\<close>

lemma pending_kept:
  assumes "pending s x bs" and "SessionMap (drv (wld s1)) = SessionMap (drv (wld s))" and "gobj (wld s1) = gobj (wld s)"
    and "\<forall>b \<in> set bs. bobj (wld s1) b = bobj (wld s) b"
  shows "pending s1 x bs"
  using assms by (auto simp: pending_def gt_session_def IsSaga_def list_ex_iff split: option.splits)

text \<open>The scenario of the witnesses.\<close>

lemma demo_register_simps: "brq_XID (demo_register t) = ''tm:1''" "brq_BranchType (demo_register t) = t"
  by (simp_all add: demo_register_def)

lemma demo_begun_pending: "pending demo_begun ''tm:1'' []" by code_simp

lemma demo_registration:
  "tc_BranchRegister (inmem_tc demo_conf) (demo_register AT) demo_begun = Some (register_ok 2, demo_registered AT)"
proof -
  obtain p s0 where 1: "tc_BranchRegister (inmem_tc demo_conf) (demo_register AT) demo_begun = Some (p, s0)"
    using demo_some(1) by (auto simp: Option.is_none_def)
  have "fst (the (tc_BranchRegister (inmem_tc demo_conf) (demo_register AT) demo_begun)) = register_ok 2" by code_simp
  with 1 show ?thesis by (simp add: demo_registered_def)
qed

subsection \<open>Properties of interleaved handlers\<close>


text \<open>C18: the list of \<open>timeoutCheck\<close> may be old when it is used. Over the in-memory driver, the pass may be
  interrupted after it found a late session; a \<open>Commit\<close> is answered with \<open>Committed\<close>; and the pass
  then sets the session to be rolled back, as \<open>GetStatus\<close> reports.\<close>

theorem committed_then_timed_out:
  assumes "inmem_ok (wld s)" and "pending s x bs" and "\<forall>b \<in> set bs. bs_AsyncCommit (bobj (wld s) b)"
    and "inmem_gv (wld s) x = Some a" and "isGlobalSessionTimeout now a"
  shows "\<exists>schedule s'. runs thread_step schedule
      (map (thread_of (inmem_tc conf)) [Timeout_rounds [now], Commit_call now x], s) =
        Some ([Done No_answer, Done (Global_answer (Inr (success Committed)))], s') \<and>
    fst (tc_GetStatus (inmem_tc conf) x s') = Inr (success TimeoutRollingBack)"
proof -
  from assms(2) obtain e where e: "map_of (SessionMap (drv (wld s))) x = Some e" "gt_BranchSessions e = bs"
    "gs_XID (gt_session (wld s) e) = x" "gs_Status (gt_session (wld s) e) = Begin" by (rule pendingE)
  let ?g = "gt_GlobalSession e"
  have async: "CanBeCommittedAsync (wld s) e" using assms(3) e(2) by (auto simp: CanBeCommittedAsync_def list_all_iff)
  obtain gs where gs: "FindGlobalSessions inmem_sm [Begin] (wld s) = (gs, wld s)" "?g \<in> set gs"
    "\<forall>g \<in> set gs. entered (wld s) g" by (rule begun_sessions [OF assms(1) e(1,4)])
  let ?p = "timeout_steps (inmem_tc conf) now gs (Done No_answer)"
  let ?q = "thread_of (inmem_tc conf) (Commit_call now x)" and ?d = "Done (Global_answer (Inr (success Committed)))"
  have 1: "runs thread_step [0] ([thread_of (inmem_tc conf) (Timeout_rounds [now]), ?q], s) = Some ([?p, ?q], s)"
    using gs by (auto simp: timeoutCheck_steps_def on_wld_def)
  obtain s1 where c: "tc_Commit (inmem_tc conf) now x s = Some (Inr (success Committed), s1)"
    and d: "decided_world ?g AsyncCommitting (wld s) (wld s1)"
    using commit_asynchronous [OF e(1,3,4) async, of conf now] by blast
  have "run_alone ?q s = Some (Global_answer (Inr (success Committed)), s1)" using c by (simp add: run_Commit)
  from two_threads(1) [OF this, of ?p] obtain n where
    2: "runs thread_step (replicate n 1) ([?p, ?q], s) = Some ([?p, ?d], s1)" by blast
  let ?s2 = "timeout_sessions (inmem_tc conf) now gs s1"
  have "run_alone ?p s1 = Some (No_answer, ?s2)" by (simp add: run_timeout)
  from two_threads(2) [OF this, of ?d] obtain m where
    3: "runs thread_step (replicate m 0) ([?p, ?d], s1) = Some ([Done No_answer, ?d], ?s2)" by blast
  have r: "runs thread_step ([0] @ replicate n 1 @ replicate m 0)
      (map (thread_of (inmem_tc conf)) [Timeout_rounds [now], Commit_call now x], s) = Some ([Done No_answer, ?d], ?s2)"
    unfolding runs_append using 1 2 3 by simp
  have "\<forall>g \<in> set gs. entered (wld s1) g" using gs(3) d by (auto simp: entered_def decided_world_def)
  from timeout_sessions_inmem [OF this, of conf now] have
    "SessionMap (drv (wld ?s2)) = SessionMap (drv (wld s))" "gobj (wld ?s2) ?g = timed_out now (gobj (wld s1) ?g)"
    using gs(2) d by (simp_all add: decided_world_def)
  moreover have "isGlobalSessionTimeout now (gobj (wld s1) ?g)"
    using assms(4,5) e(1) d by (simp add: decided_world_def isGlobalSessionTimeout_def inmem_gv_def gt_session_def)
  ultimately have "fst (tc_GetStatus (inmem_tc conf) x ?s2) = Inr (success TimeoutRollingBack)"
    using e(1) by (simp add: tc_GetStatus_def on_wld_def FindGlobalSession_def inmem_FindGlobalSession_def timed_out_def)
  with r show ?thesis by blast
qed

theorem committed_then_timed_out_witness:
  "\<exists>schedule s'. runs thread_step schedule
      (map (thread_of (inmem_tc demo_conf)) [Timeout_rounds [70000], Commit_call 70000 ''tm:1''], demo_registered AT) =
        Some ([Done No_answer, Done (Global_answer (Inr (success Committed)))], s') \<and>
    fst (tc_GetStatus (inmem_tc demo_conf) ''tm:1'' s') = Inr (success TimeoutRollingBack)"
proof -
  have ok: "inmem_ok (wld (demo_registered AT))" by code_simp
  have a: "inmem_gv (wld (demo_registered AT)) ''tm:1'' = Some (gobj (wld (demo_registered AT)) 0)" by code_simp
  have "\<forall>b \<in> set [0]. bs_AsyncCommit (bobj (wld (demo_registered AT)) b)" by code_simp
  moreover have "isGlobalSessionTimeout 70000 (gobj (wld (demo_registered AT)) 0)" by code_simp
  ultimately show ?thesis using committed_then_timed_out [OF ok demo_pending(2) _ a, of 70000 demo_conf] by blast
qed

text \<open>C17: a closed session may still take a branch. Over the in-memory driver, a \<open>BranchRegister\<close> may be
  interrupted before it stores the branch; a \<open>Commit\<close> closes the session and is answered with
  \<open>Committed\<close>; and the registration then succeeds, its rows locked.\<close>

theorem registered_after_commit:
  assumes "pending s (brq_XID rq) bs" and "\<forall>b \<in> set bs. bs_AsyncCommit (bobj (wld s) b) \<and> b < btop (wld s)"
    and "brq_BranchType rq = AT" and "tc_BranchRegister (inmem_tc conf) rq s = Some (register_ok i, s0)"
  shows "\<exists>before after p s1 s'.
    runs thread_step before
      (map (thread_of (inmem_tc conf)) [Register_call rq, Commit_call now (brq_XID rq)], s) =
        Some ([p, Done (Global_answer (Inr (success Committed)))], s1) \<and>
    map_option gs_Active (inmem_gv (wld s1) (brq_XID rq)) = Some False \<and>
    fst (inmem_FindBranchSessions (brq_XID rq) (wld s1)) = bs \<and>
    runs thread_step after ([p, Done (Global_answer (Inr (success Committed)))], s1) =
        Some ([Done (Register_answer (register_ok i)), Done (Global_answer (Inr (success Committed)))], s') \<and>
    fst (inmem_FindBranchSessions (brq_XID rq) (wld s')) = bs @ [btop (wld s)]"
proof -
  let ?x = "brq_XID rq" and ?b = "btop (wld s)" and ?d = "Done (Global_answer (Inr (success Committed)))"
  let ?q = "thread_of (inmem_tc conf) (Commit_call now ?x)"
  from assms(1) obtain e where e: "map_of (SessionMap (drv (wld s))) ?x = Some e" "gt_BranchSessions e = bs"
    by (rule pendingE)
  obtain s1 where r: "runs thread_step (replicate 9 0) ([thread_of (inmem_tc conf) (Register_call rq), ?q], s) =
      Some ([registering conf rq e i ?b, ?q], s1)"
    and s1: "SessionMap (drv (wld s1)) = SessionMap (drv (wld s))" "gobj (wld s1) = gobj (wld s)"
      "bobj (wld s1) = (bobj (wld s))(?b := branch_of_request rq (gs_TransactionID (gt_session (wld s) e)) i)"
    by (rule registration_prefix [OF e(1) assms(3,4)])
  have "pending s1 ?x bs" by (rule pending_kept [OF assms(1) s1(1,2)]) (use assms(2) s1(3) in auto)
  then obtain f where f: "map_of (SessionMap (drv (wld s1))) ?x = Some f" "gs_XID (gt_session (wld s1) f) = ?x"
    "gs_Status (gt_session (wld s1) f) = Begin" by (rule pendingE)
  have [simp]: "f = e" using f(1) e(1) s1(1) by simp
  have "CanBeCommittedAsync (wld s1) f"
    using assms(2) e(2) s1(3) by (auto simp: CanBeCommittedAsync_def list_all_iff)
  from commit_asynchronous [OF f this, of conf now] obtain s2 where
    c: "tc_Commit (inmem_tc conf) now ?x s1 = Some (Inr (success Committed), s2)"
    and d: "decided_world (gt_GlobalSession e) AsyncCommitting (wld s1) (wld s2)" by auto
  have "run_alone ?q s1 = Some (Global_answer (Inr (success Committed)), s2)" using c by (simp add: run_Commit)
  from two_threads(1) [OF this, of "registering conf rq e i ?b"] obtain n where
    n: "runs thread_step (replicate n 1) ([registering conf rq e i ?b, ?q], s1) = Some ([registering conf rq e i ?b, ?d], s2)"
    by blast
  have e2: "map_of (SessionMap (drv (wld s2))) ?x = Some e" "gs_XID (gobj (wld s2) (gt_GlobalSession e)) = ?x"
    using d f(1,2) by (simp_all add: decided_world_def gt_session_def)
  have "?b \<notin> set (gt_BranchSessions e)" using assms(2) e(2) by auto
  from two_threads(2) [OF run_registering(2) [OF e2(2,1) this, of conf rq i], of ?d] obtain m s' where
    m: "runs thread_step (replicate m 0) ([registering conf rq e i ?b, ?d], s2) =
      Some ([Done (Register_answer (register_ok i)), ?d], s')"
    and s': "wld s' = put_session ?x (e\<lparr>gt_BranchSessions := gt_BranchSessions e @ [?b]\<rparr>) (wld s2)" by auto
  have "runs thread_step (replicate 9 0 @ replicate n 1)
      (map (thread_of (inmem_tc conf)) [Register_call rq, Commit_call now ?x], s) =
      Some ([registering conf rq e i ?b, ?d], s2)"
    unfolding runs_append using r n by simp
  moreover have "map_option gs_Active (inmem_gv (wld s2) ?x) = Some False"
    using e2(1) d by (simp add: inmem_gv_def gt_session_def decided_world_def)
  moreover have "fst (inmem_FindBranchSessions ?x (wld s2)) = bs" "fst (inmem_FindBranchSessions ?x (wld s')) = bs @ [?b]"
    using e2(1) e(2) s' by (simp_all add: inmem_FindBranchSessions_def put_session_def)
  ultimately show ?thesis using m by blast
qed

theorem registered_after_commit_witness:
  "\<exists>before after p s1 s'.
    runs thread_step before
      (map (thread_of (inmem_tc demo_conf)) [Register_call (demo_register AT), Commit_call 2000 ''tm:1''], demo_begun) =
        Some ([p, Done (Global_answer (Inr (success Committed)))], s1) \<and>
    fst (inmem_FindBranchSessions ''tm:1'' (wld s1)) = [] \<and>
    runs thread_step after ([p, Done (Global_answer (Inr (success Committed)))], s1) =
        Some ([Done (Register_answer (register_ok 2)), Done (Global_answer (Inr (success Committed)))], s') \<and>
    fst (inmem_FindBranchSessions ''tm:1'' (wld s')) = [btop (wld demo_begun)]"
  using registered_after_commit [OF _ _ _ demo_registration, of "[]" 2000] demo_begun_pending
  by (simp add: demo_register_simps) blast

text \<open>C19: a registration that fails last keeps its row locks. Over the in-memory driver, a \<open>BranchRegister\<close> may
  be interrupted once it has locked its rows; a \<open>Rollback\<close> is answered with \<open>RolledBack\<close> and removes
  the session; the registration then fails, and its rows stay locked by a transaction that no
  longer exists.\<close>

theorem failed_registration_keeps_rows:
  assumes "rolls_back_all conf" and "pending s (brq_XID rq) bs"
    and "\<forall>b \<in> set bs. b < btop (wld s) \<and> k \<notin> branch_rows (bobj (wld s) b)"
    and "brq_BranchType rq = AT" and "tc_BranchRegister (inmem_tc conf) rq s = Some (register_ok i, s0)"
    and "inmem_held (wld s) k = None" and "inmem_held (wld s0) k = Some t"
  shows "\<exists>schedule m s'. runs thread_step schedule
      (map (thread_of (inmem_tc conf)) [Register_call rq, Rollback_call now (brq_XID rq)], s) =
        Some ([Done (Register_answer (register_failed BranchRegisterFailed m)),
               Done (Global_answer (Inr (success RolledBack)))], s') \<and>
    inmem_gv (wld s') (brq_XID rq) = None \<and> inmem_held (wld s') k = Some t"
proof -
  let ?x = "brq_XID rq" and ?b = "btop (wld s)" and ?d = "Done (Global_answer (Inr (success RolledBack)))"
  let ?q = "thread_of (inmem_tc conf) (Rollback_call now ?x)"
  from assms(2) obtain e where e: "map_of (SessionMap (drv (wld s))) ?x = Some e" "gt_BranchSessions e = bs"
    by (rule pendingE)
  obtain s1 where r: "runs thread_step (replicate 9 0) ([thread_of (inmem_tc conf) (Register_call rq), ?q], s) =
      Some ([registering conf rq e i ?b, ?q], s1)"
    and s1: "SessionMap (drv (wld s1)) = SessionMap (drv (wld s))" "gobj (wld s1) = gobj (wld s)"
      "bobj (wld s1) = (bobj (wld s))(?b := branch_of_request rq (gs_TransactionID (gt_session (wld s) e)) i)"
    and h: "inmem_held (wld s1) = inmem_held (wld s0)"
    by (rule registration_prefix [OF e(1) assms(4,5)])
  have "pending s1 ?x bs" by (rule pending_kept [OF assms(2) s1(1,2)]) (use assms(3) s1(3) in auto)
  then obtain f where f: "map_of (SessionMap (drv (wld s1))) ?x = Some f" "gs_XID (gt_session (wld s1) f) = ?x"
    "gs_Status (gt_session (wld s1) f) = Begin" "\<not> IsSaga (wld s1) f" by (rule pendingE)
  have fe: "f = e" using f(1) e(1) s1(1) by simp
  from rollback_whole [OF assms(1) f, of now] fe e(2) obtain s2 where
    c: "tc_Rollback (inmem_tc conf) now ?x s1 = Some (Inr (success RolledBack), s2)"
    and w: "finished_world ?x (gt_GlobalSession e) (set bs) (wld s1) (wld s2)" by auto
  have "run_alone ?q s1 = Some (Global_answer (Inr (success RolledBack)), s2)" using c by (simp add: run_Rollback)
  from two_threads(1) [OF this, of "registering conf rq e i ?b"] obtain n where
    n: "runs thread_step (replicate n 1) ([registering conf rq e i ?b, ?q], s1) = Some ([registering conf rq e i ?b, ?d], s2)"
    by blast
  have none: "map_of (SessionMap (drv (wld s2))) ?x = None" and x2: "gs_XID (gobj (wld s2) (gt_GlobalSession e)) = ?x"
    using w f(2) fe by (simp_all add: finished_world_def gt_session_def)
  from run_registering(1) [OF x2 none] obtain msg where
    "run_alone (registering conf rq e i ?b) s2 = Some (Register_answer (register_failed BranchRegisterFailed msg), s2)"
    by blast
  from two_threads(2) [OF this, of ?d] obtain m where
    m: "runs thread_step (replicate m 0) ([registering conf rq e i ?b, ?d], s2) =
      Some ([Done (Register_answer (register_failed BranchRegisterFailed msg)), ?d], s2)" by blast
  have "runs thread_step (replicate 9 0 @ replicate n 1 @ replicate m 0)
      (map (thread_of (inmem_tc conf)) [Register_call rq, Rollback_call now ?x], s) =
      Some ([Done (Register_answer (register_failed BranchRegisterFailed msg)), ?d], s2)"
    unfolding runs_append using r n m by simp
  moreover have "\<not> (\<exists>b \<in> set bs. k \<in> branch_rows (bobj (wld s1) b))" using assms(3) s1(3) by auto
  then have "inmem_held (wld s2) k = Some t" using w h assms(7) by (auto simp: finished_world_def)
  ultimately show ?thesis using none by (auto simp: inmem_gv_def)
qed

theorem failed_registration_keeps_rows_witness:
  "\<exists>schedule m s'. runs thread_step schedule
      (map (thread_of (inmem_tc demo_conf)) [Register_call (demo_register AT), Rollback_call 2000 ''tm:1''], demo_begun) =
        Some ([Done (Register_answer (register_failed BranchRegisterFailed m)),
               Done (Global_answer (Inr (success RolledBack)))], s') \<and>
    inmem_gv (wld s') ''tm:1'' = None \<and> inmem_held (wld s') ''db^^^a^^^1'' = Some 1"
proof -
  have "inmem_held (wld demo_begun) ''db^^^a^^^1'' = None" by code_simp
  moreover have "inmem_held (wld (demo_registered AT)) ''db^^^a^^^1'' = Some 1" by code_simp
  ultimately show ?thesis
    using failed_registration_keeps_rows [OF rolls_back_all_demo _ _ _ demo_registration, of "[]" "''db^^^a^^^1''" 1 2000]
      demo_begun_pending by (simp add: demo_register_simps)
qed

end
