(* ===== verification/Handler_Schedules.thy ===== *)
theory Handler_Schedules
  imports Handler_Steps Inmemory_System
begin

text \<open>
  What no interleaving of handlers can do over the in-memory driver: give a session another identity,
  or open a closed session again.
\<close>

subsection \<open>Threads whose steps stay in a relation\<close>

inductive stays :: "('s \<Rightarrow> 's \<Rightarrow> bool) \<Rightarrow> ('s, 'r) thread \<Rightarrow> bool" for R where
  stays_Done [intro, simp]: "stays R (Done r)"
| stays_Atom: "(\<And>s p s'. f s = Some (p, s') \<Longrightarrow> R s s' \<and> stays R p) \<Longrightarrow> stays R (Atom f)"

inductive_cases stays_AtomE: "stays R (Atom f)"

lemma stays_steps [intro!]:
  "(\<And>s a s'. f s = (a, s') \<Longrightarrow> R s s') \<Longrightarrow> (\<And>a. stays R (k a)) \<Longrightarrow> stays R (atomic f k)"
  "(\<And>s a s'. g s = Some (a, s') \<Longrightarrow> R s s') \<Longrightarrow> (\<And>a. stays R (k' a)) \<Longrightarrow> stays R (atomic_opt g k')"
  "reflp R \<Longrightarrow> (\<And>a. stays R (k'' a)) \<Longrightarrow> stays R (look h k'')"
  by (auto simp: atomic_def atomic_opt_def look_def reflp_def intro!: stays_Atom split: prod.splits option.splits)

lemma stays_map [intro!]: "stays R p \<Longrightarrow> stays R (map_thread m p)"
  by (induction rule: stays.induct) (force intro!: stays_Atom)+

lemma schedule_stays:
  assumes "runs thread_step schedule (ps, s) = Some (ps', s')" and "\<forall>p \<in> set ps. stays R p" and "reflp R" "transp R"
  shows "R s s'"
  using assms(1,2)
proof (induction schedule arbitrary: ps s)
  case (Cons i schedule)
  from Cons.prems(1) obtain ps1 s1 where 1: "thread_step i (ps, s) = Some (ps1, s1)"
    and r: "runs thread_step schedule (ps1, s1) = Some (ps', s')" by (auto split: option.splits)
  from 1 obtain f p where n: "i < length ps" "ps ! i = Atom f" "f s = Some (p, s1)" "ps1 = ps[i := p]"
    by (auto simp: thread_step_def split: if_splits thread.splits option.splits)
  have "stays R (Atom f)" using Cons.prems(2) n(1,2) nth_mem by metis
  then have "R s s1 \<and> stays R p" using n(3) by (auto elim: stays_AtomE)
  moreover from this have "\<forall>p \<in> set ps1. stays R p"
    using Cons.prems(2) n(4) set_update_subset_insert by fastforce
  ultimately show ?case using Cons.IH [OF r] assms(4) by (meson transpD)
qed (use assms(3) in \<open>simp add: reflp_def\<close>)

subsection \<open>Sessions that keep their identity and are not opened again\<close>

definition kept_session :: "GlobalSession \<Rightarrow> GlobalSession \<Rightarrow> bool" where
  "kept_session a b \<longleftrightarrow> b\<lparr>gs_Status := gs_Status a, gs_Active := gs_Active a\<rparr> = a \<and> (gs_Active b \<longrightarrow> gs_Active a)"

definition kept :: "'d world \<Rightarrow> 'd world \<Rightarrow> bool" where
  "kept w w' \<longleftrightarrow> (\<forall>g. kept_session (gobj w g) (gobj w' g))"

lemma kept_session_refl [simp]: "kept_session a a" by (simp add: kept_session_def)

lemma kept_session_trans: "kept_session a b \<Longrightarrow> kept_session b c \<Longrightarrow> kept_session a c"
  by (cases a; cases b; cases c) (auto simp: kept_session_def)

lemma kept_refl [simp]: "kept w w" by (simp add: kept_def)

lemma kept_trans [trans]: "kept w w1 \<Longrightarrow> kept w1 w2 \<Longrightarrow> kept w w2"
  unfolding kept_def using kept_session_trans by blast

lemma kept_same: "gobj w' = gobj w \<Longrightarrow> kept w w'" by (simp add: kept_def)

lemma kept_set_gs: "(\<And>a. kept_session a (f a)) \<Longrightarrow> kept w (set_gs g f w)"
  by (simp add: kept_def set_gs_def)

text \<open>The relation on the coordinator's state.\<close>

abbreviation keeping :: "'d tc \<Rightarrow> 'd tc \<Rightarrow> bool" where
  "keeping s s' \<equiv> kept (wld s) (wld s')"

lemma keeping_refl [simp, intro!]: "reflp keeping" by (simp add: reflp_def)

lemma keeping_trans [simp, intro!]: "transp keeping" by (auto simp: transp_def intro: kept_trans)

subsection \<open>Coordinators over a driver that keeps sessions\<close>

locale session_keeper =
  fixes conf :: "'d tc_conf"
  assumes no_session_lock: "locker conf = UnimplementedGlobalSessionLocker"
    and find_kept: "sm_FindGlobalSession (holder conf) x w = (o1, w') \<Longrightarrow> kept w w'"
    and finds_kept: "sm_FindGlobalSessions (holder conf) sts w = (o2, w') \<Longrightarrow> kept w w'"
    and finds_of_kept: "sm_FindGlobalSessionsWithAddressingIdentities (holder conf) sts ads w = (o2, w') \<Longrightarrow> kept w w'"
    and batch_kept: "sm_FindBatchBranchSessions (holder conf) xs w = (bs, w') \<Longrightarrow> kept w w'"
    and report_kept: "sm_UpdateBranchSessionStatus (holder conf) b bst w = (e, w') \<Longrightarrow> kept w w'"
    and branches_kept: "sm_FindBranchSessions (holder conf) x w = (bs, w') \<Longrightarrow> kept w w'"
    and update_kept: "sm_UpdateGlobalSessionStatus (holder conf) g st w = (e, w') \<Longrightarrow> kept w w'"
    and inactive_kept: "sm_InactiveGlobalSession (holder conf) g w = (e, w') \<Longrightarrow> kept w w'"
    and remove_kept: "sm_RemoveGlobalSession (holder conf) g w = (e, w') \<Longrightarrow> kept w w'"
    and add_branch_kept: "sm_AddBranchSession (holder conf) g b w = (e, w') \<Longrightarrow> kept w w'"
    and remove_branch_kept: "sm_RemoveBranchSession (holder conf) g b w = (e, w') \<Longrightarrow> kept w w'"
    and acquire_kept: "lm_AcquireLock (resourceDataLocker conf) ls skip w = Some (r, w') \<Longrightarrow> kept w w'"
    and release_kept: "lm_ReleaseLock (resourceDataLocker conf) ls w = Some (r, w') \<Longrightarrow> kept w w'"
begin

lemma holder_kept:
  "FindGlobalTransaction (holder conf) x w = (o1, w') \<Longrightarrow> kept w w'"
  "FindGlobalSessions (holder conf) sts w = (o2, w') \<Longrightarrow> kept w w'"
  "AddBranchSession (holder conf) g b w = (e, w') \<Longrightarrow> kept w w'"
  "RemoveBranchSession (holder conf) g b w = (e, w') \<Longrightarrow> kept w w'"
  "UpdateBranchSessionStatus (holder conf) b bst w = (e, w') \<Longrightarrow> kept w w'"
  by (auto simp: FindGlobalTransaction_def FindGlobalSessions_def AddBranchSession_def RemoveBranchSession_def
      UpdateBranchSessionStatus_def split: prod.splits option.splits
      dest: find_kept finds_kept branches_kept add_branch_kept remove_branch_kept report_kept intro: kept_trans)

lemma find_by_address_kept:
  "findGlobalTransactionsWithAddressingIdentities (holder conf) sts ads w = (ts, w') \<Longrightarrow> kept w w'"
  by (auto simp: findGlobalTransactionsWithAddressingIdentities_def findGlobalTransactionsByGlobalSessions_def
      split: prod.splits if_splits dest!: finds_of_kept batch_kept intro: kept_trans)

lemma find_retries_kept:
  "FindAsyncCommittingGlobalTransactions (holder conf) ads w = (ts, w') \<Longrightarrow> kept w w'"
  "FindRetryCommittingGlobalTransactions (holder conf) ads w = (ts, w') \<Longrightarrow> kept w w'"
  "FindRetryRollbackGlobalTransactions (holder conf) ads w = (ts, w') \<Longrightarrow> kept w w'"
  by (simp_all add: FindAsyncCommittingGlobalTransactions_def FindRetryCommittingGlobalTransactions_def
      FindRetryRollbackGlobalTransactions_def find_by_address_kept)

lemma status_kept: "UpdateGlobalSessionStatus (holder conf) g st w = (e, w') \<Longrightarrow> kept w w'"
  unfolding UpdateGlobalSessionStatus_def
  by (rule kept_trans [OF kept_set_gs update_kept]) (simp_all add: kept_session_def)

lemma closing_kept: "InactiveGlobalSession (holder conf) g w = (e, w') \<Longrightarrow> kept w w'"
  unfolding InactiveGlobalSession_def
  by (rule kept_trans [OF kept_set_gs inactive_kept]) (simp_all add: kept_session_def)

lemma remove_branches_kept: "removeBranches (holder conf) g bs w = (e, w') \<Longrightarrow> kept w w'"
  by (induction bs arbitrary: w)
    (auto split: prod.splits option.splits dest: remove_branch_kept intro: kept_trans)

lemma remove_transaction_kept: "RemoveGlobalTransaction (holder conf) gt w = (e, w') \<Longrightarrow> kept w w'"
  by (auto simp: RemoveGlobalTransaction_def split: prod.splits option.splits
      dest: remove_kept remove_branches_kept intro: kept_trans)

lemma locks_kept:
  "AcquireLock d (resourceDataLocker conf) (Some b) w = Some (r, w') \<Longrightarrow> kept w w'"
  "ReleaseLock (resourceDataLocker conf) (Some b) w = Some (r, w') \<Longrightarrow> kept w w'"
  "ReleaseGlobalSessionLock (resourceDataLocker conf) gt w = Some (r, w') \<Longrightarrow> kept w w'"
  by (auto simp: AcquireLock_eq ReleaseLock_eq ReleaseGlobalSessionLock_def split: if_splits
      dest: acquire_kept release_kept)

text \<open>The same on the coordinator's state.\<close>

lemma world_keeping:
  "on_wld (FindGlobalTransaction (holder conf) x) s = (o1, s') \<Longrightarrow> keeping s s'"
  "on_wld (FindGlobalSessions (holder conf) sts) s = (o2, s') \<Longrightarrow> keeping s s'"
  "on_wld (AddBranchSession (holder conf) g b) s = (e, s') \<Longrightarrow> keeping s s'"
  "on_wld (RemoveBranchSession (holder conf) g b) s = (e, s') \<Longrightarrow> keeping s s'"
  "on_wld (UpdateGlobalSessionStatus (holder conf) g st) s = (e, s') \<Longrightarrow> keeping s s'"
  "on_wld (InactiveGlobalSession (holder conf) g) s = (e, s') \<Longrightarrow> keeping s s'"
  "on_wld (RemoveGlobalTransaction (holder conf) gt) s = (e, s') \<Longrightarrow> keeping s s'"
  "on_wld (UpdateBranchSessionStatus (holder conf) b bst) s = (e, s') \<Longrightarrow> keeping s s'"
  "on_wld (FindAsyncCommittingGlobalTransactions (holder conf) ads) s = (ts, s') \<Longrightarrow> keeping s s'"
  "on_wld (FindRetryCommittingGlobalTransactions (holder conf) ads) s = (ts, s') \<Longrightarrow> keeping s s'"
  "on_wld (FindRetryRollbackGlobalTransactions (holder conf) ads) s = (ts, s') \<Longrightarrow> keeping s s'"
  "on_wld_opt (AcquireLock d (resourceDataLocker conf) (Some b)) s = Some (r, s') \<Longrightarrow> keeping s s'"
  "on_wld_opt (ReleaseLock (resourceDataLocker conf) (Some b)) s = Some (r, s') \<Longrightarrow> keeping s s'"
  "on_wld_opt (ReleaseGlobalSessionLock (resourceDataLocker conf) gt) s = Some (r, s') \<Longrightarrow> keeping s s'"
  by (auto simp: on_wld_def on_wld_opt_def split: prod.splits option.splits
      dest: holder_kept find_retries_kept status_kept closing_kept remove_transaction_kept locks_kept)

subsection \<open>The threads\<close>

lemma session_lock_keeping:
  "on_wld (gl_TryLock (locker conf) g t) s = (r, s') \<Longrightarrow> keeping s s'"
  "keeping s (s\<lparr>wld := gl_Unlock (locker conf) g (wld s)\<rparr>)"
  by (auto simp: no_session_lock on_wld_def)

lemma parts_stay [intro!]:
  "stays keeping p \<Longrightarrow> stays keeping (unlocking conf g p)"
  "(\<And>r. stays keeping (k1 r)) \<Longrightarrow> stays keeping (locking conf g k1)"
  "(\<And>e. stays keeping (k2 e)) \<Longrightarrow> stays keeping (closing conf g k2)"
  "(\<And>r. stays keeping (k3 r)) \<Longrightarrow> stays keeping (deciding conf g st k3)"
  unfolding step_defs by (auto intro: session_lock_keeping(2) dest!: world_keeping session_lock_keeping(1))

lemma send_keeping: "send_message t bs s = (r, s') \<Longrightarrow> keeping s s'"
  by (auto simp: send_message_def Let_def)

lemma phase_two_parts_stay [intro!]:
  "(\<And>r. stays keeping (k1 r)) \<Longrightarrow> stays keeping (branchCommit_steps conf b k1)"
  "(\<And>r. stays keeping (k2 r)) \<Longrightarrow> stays keeping (branchRollback_steps conf b k2)"
  "(\<And>r. stays keeping (k3 r)) \<Longrightarrow> stays keeping (updating conf gt st r k3)"
  "(\<And>r. stays keeping (k4 r)) \<Longrightarrow> stays keeping (finishing conf gt st r k4)"
  "(\<And>e. stays keeping (k5 e)) \<Longrightarrow> stays keeping (dropping conf gt b k5)"
  "(\<And>st. stays keeping (k6 st)) \<Longrightarrow> stays keeping (choosing gt st st' k6)"
  unfolding branchCommit_steps_def branchRollback_steps_def updating_def finishing_def dropping_def choosing_def Let_def
  by (cases r; auto split: option.splits rm_outcome.splits rm_reply.splits dest!: world_keeping send_keeping
      intro!: stays_Atom)+

lemma commit_branches_stay:
  "(\<And>r gt. stays keeping (k r gt)) \<Longrightarrow> stays keeping (commit_branch_steps conf retrying bs gt k)"
  by (induction bs arbitrary: gt) (auto split: option.splits)

lemma rollback_branches_stay:
  "(\<And>r gt. stays keeping (k r gt)) \<Longrightarrow> stays keeping (rollback_branch_steps conf retrying bs gt k)"
  by (induction bs arbitrary: gt) (auto simp: Let_def split: option.splits)

lemma phase_two_stays [intro!]:
  "(\<And>r. stays keeping (k r)) \<Longrightarrow> stays keeping (doGlobalCommit_steps conf now gt retrying k)"
  "(\<And>r. stays keeping (k' r)) \<Longrightarrow> stays keeping (doGlobalRollback_steps conf now gt retrying k')"
  unfolding doGlobalCommit_steps_def doGlobalRollback_steps_def
  by (auto intro!: commit_branches_stay rollback_branches_stay simp: spawn_event_def split: option.splits
      dest!: world_keeping)

lemma Commit_stays: "stays keeping (Commit_steps conf now xid)"
  by (auto simp: Commit_steps_def commit_decision_steps_def commit_answer_def commit_phase_two_def Let_def
      split: option.splits dest!: world_keeping)

lemma Rollback_stays: "stays keeping (Rollback_steps conf now xid)"
  by (auto simp: Rollback_steps_def rollback_decision_steps_def rollback_answer_def Let_def
      split: option.splits dest!: world_keeping)

lemma next_id_keeping: "next_id s = (i, s') \<Longrightarrow> keeping s s'"
  by (auto simp: next_id_def split: prod.splits)

lemma new_bs_keeping: "on_wld (new_bs b) s = (r, s') \<Longrightarrow> keeping s s'"
  by (auto simp: on_wld_def new_bs_def kept_same)

lemma BranchRegister_stays: "stays keeping (BranchRegister_steps conf rq)"
  by (auto simp: BranchRegister_steps_def register_branch_steps_def add_branch_steps_def Let_def
      split: option.splits dest!: world_keeping next_id_keeping new_bs_keeping)

lemma BranchReport_stays: "stays keeping (BranchReport_steps conf rp)"
  by (auto simp: BranchReport_steps_def split: option.splits dest!: world_keeping)

lemma loops_stay:
  assumes [simp]: "stays keeping k"
  shows "stays keeping (timeout_steps conf now gs k)" "stays keeping (retry_rollback_steps conf now ts k)"
    and "stays keeping (retry_commit_steps conf now ts k)" "stays keeping (async_commit_steps conf now ts k)"
proof -
  show "stays keeping (timeout_steps conf now gs k)"
    by (induction gs) (auto simp: publish_event_def dest!: world_keeping)
  show "stays keeping (retry_rollback_steps conf now ts k)"
    by (induction ts) (auto simp: Let_def dest!: world_keeping)
  show "stays keeping (retry_commit_steps conf now ts k)" "stays keeping (async_commit_steps conf now ts k)"
    by (induction ts) (auto dest!: world_keeping)
qed

lemma passes_stay:
  assumes "stays keeping k"
  shows "stays keeping (timeoutCheck_steps conf now k)" "stays keeping (handleRetryRollingBack_steps conf now k)"
    and "stays keeping (handleRetryCommitting_steps conf now k)" "stays keeping (handleAsyncCommitting_steps conf now k)"
  using assms loops_stay [OF assms]
  by (auto simp: timeoutCheck_steps_def handleRetryRollingBack_steps_def handleRetryCommitting_steps_def
      handleAsyncCommitting_steps_def dest!: world_keeping)

lemma processes_stay:
  assumes "stays keeping k"
  shows "stays keeping (processTimeoutCheck conf nows k)" "stays keeping (processRetryRollingBack conf nows k)"
    and "stays keeping (processRetryCommitting conf nows k)" "stays keeping (processAsyncCommitting conf nows k)"
  by (induction nows) (auto intro: assms passes_stay)

lemma thread_stays: "stays keeping (thread_of conf c)"
  by (cases c) (auto intro: Commit_stays Rollback_stays BranchRegister_stays BranchReport_stays processes_stay)

lemma schedule_kept:
  assumes "runs thread_step schedule (map (thread_of conf) calls, s) = Some (ps, s')"
  shows "kept (wld s) (wld s')"
  by (rule schedule_stays [OF assms, of keeping]) (auto intro: thread_stays)

end

subsection \<open>The in-memory driver\<close>

interpretation inmem_keeper: session_keeper "inmem_tc conf" for conf
proof unfold_locales
  show "kept w w'" if "lm_AcquireLock (resourceDataLocker (inmem_tc conf)) ls skip w = Some (r, w')" for ls skip w r w'
    using that by (auto simp: inmem_AcquireLock_def kept_same split: option.splits prod.splits)
  show "kept w w'" if "lm_ReleaseLock (resourceDataLocker (inmem_tc conf)) ls w = Some (r, w')" for ls w r w'
    using that by (auto simp: inmem_ReleaseLock_def kept_same split: option.splits)
qed (auto simp: inmem_FindGlobalSession_def inmem_FindGlobalSessions_def inmem_FindBranchSessions_def
    inmem_UpdateGlobalSessionStatus_def inmem_InactiveGlobalSession_def inmem_RemoveGlobalSession_def
    inmem_AddBranchSession_def inmem_RemoveBranchSession_def
    inmem_FindGlobalSessionsWithAddressingIdentities_def inmem_FindBatchBranchSessions_def
    inmem_UpdateBranchSessionStatus_def Let_def kept_same kept_session_def
    split: option.splits intro!: kept_set_gs)

text \<open>C10: however the steps of any number of concurrent \<open>Commit\<close>, \<open>Rollback\<close>, \<open>BranchRegister\<close> and
  \<open>BranchReport\<close> calls and of the loops that check for timeouts and retry are interleaved, over the
  in-memory driver a session keeps all its fields but its status and its activity, and a session
  that was closed stays closed.\<close>

theorem no_schedule_reopens:
  assumes "runs thread_step schedule (map (thread_of (inmem_tc conf)) calls, s) = Some (ps, s')"
  shows "\<exists>status active. gobj (wld s') g = (gobj (wld s) g)\<lparr>gs_Status := status, gs_Active := active\<rparr> \<and>
    (active \<longrightarrow> gs_Active (gobj (wld s) g))"
proof -
  let ?a = "gobj (wld s) g" and ?b = "gobj (wld s') g"
  have "kept_session ?a ?b" using inmem_keeper.schedule_kept [OF assms] by (simp add: kept_def)
  then have "?b = ?a\<lparr>gs_Status := gs_Status ?b, gs_Active := gs_Active ?b\<rparr> \<and> (gs_Active ?b \<longrightarrow> gs_Active ?a)"
    by (cases ?a; cases ?b) (simp add: kept_session_def)
  then show ?thesis by blast
qed

theorem no_schedule_reopens_witness:
  "\<exists>schedule answer s' status active. runs thread_step schedule
      (map (thread_of (inmem_tc demo_conf)) [Commit_call 2000 ''tm:1'', Timeout_rounds [70000]], demo_registered AT) =
        Some ([Done answer, Done No_answer], s') \<and>
    gobj (wld s') 0 = (gobj (wld (demo_registered AT)) 0)\<lparr>gs_Status := status, gs_Active := active\<rparr>"
proof -
  let ?c = "thread_of (inmem_tc demo_conf) (Commit_call 2000 ''tm:1'')"
    and ?t = "thread_of (inmem_tc demo_conf) (Timeout_rounds [70000])"
  obtain r s1 where "tc_Commit (inmem_tc demo_conf) 2000 ''tm:1'' (demo_registered AT) = Some (r, s1)"
    using demo_some(3) by (auto simp: Option.is_none_def)
  then have 1: "run_alone ?c (demo_registered AT) = Some (Global_answer r, s1)" by (simp add: run_Commit)
  have 2: "run_alone ?t s1 = Some (No_answer, timeoutCheck (inmem_tc demo_conf) 70000 s1)"
    by (simp add: run_timeoutCheck)
  obtain n where n: "runs thread_step (replicate n 0) ([?c, ?t], demo_registered AT) =
      Some ([Done (Global_answer r), ?t], s1)" using two_threads(2) [OF 1] by blast
  obtain m where m: "runs thread_step (replicate m 1) ([Done (Global_answer r), ?t], s1) =
      Some ([Done (Global_answer r), Done No_answer], timeoutCheck (inmem_tc demo_conf) 70000 s1)"
    using two_threads(1) [OF 2] by blast
  have "runs thread_step (replicate n 0 @ replicate m 1)
      (map (thread_of (inmem_tc demo_conf)) [Commit_call 2000 ''tm:1'', Timeout_rounds [70000]], demo_registered AT) =
      Some ([Done (Global_answer r), Done No_answer], timeoutCheck (inmem_tc demo_conf) 70000 s1)"
    unfolding runs_append using n m by simp
  from no_schedule_reopens [OF this, of 0] this show ?thesis by blast
qed

end
