(* ===== verification/Lock_Races.thy ===== *)
theory Lock_Races
  imports Inmemory Interleaving
begin

text \<open>
  The row locks of \<open>driver/inmemory/inmemory.go\<close> under concurrent requests. Each method of the
  \<open>sync.Map\<close> is one step: \<open>LoadOrStore\<close>, \<open>Load\<close> and \<open>Delete\<close>; \<open>AcquireLock\<close> and \<open>ReleaseLock\<close> loop over
  them without a lock of their own. The state is the map.
\<close>

type_synonym lock_map = "(string \<times> int64) list"

text \<open>The value that is there or was stored, and whether it was there.\<close>

definition LoadOrStore :: "string \<Rightarrow> int64 \<Rightarrow> lock_map \<Rightarrow> (int64 \<times> bool) \<times> lock_map" where
  "LoadOrStore key v m =
     (case map_of m key of Some u \<Rightarrow> ((u, True), m) | None \<Rightarrow> ((v, False), AList.update key v m))"

fun release_steps :: "RowLock list \<Rightarrow> (lock_map, 'r) thread \<Rightarrow> (lock_map, 'r) thread" where
  "release_steps [] k = k"
| "release_steps (l # ls) k =
     look (\<lambda>m. map_of m (rl_RowKey l)) (\<lambda>loaded.
       if loaded = Some (rl_TransactionID l)
       then atomic (\<lambda>m. ((), AList.delete (rl_RowKey l) m)) (\<lambda>u. release_steps ls k)
       else release_steps ls k)"

fun acquire_steps :: "RowLock list \<Rightarrow> RowLock list \<Rightarrow> (bool \<Rightarrow> (lock_map, 'r) thread) \<Rightarrow> (lock_map, 'r) thread" where
  "acquire_steps rowLocks [] k = k True"
| "acquire_steps rowLocks (l # ls) k =
     atomic (LoadOrStore (rl_RowKey l) (rl_TransactionID l)) (\<lambda>(previousLockTransactionID, loaded).
       if loaded then
         (if previousLockTransactionID = rl_TransactionID l then acquire_steps rowLocks ls k
          else release_steps rowLocks (k False))
       else acquire_steps rowLocks ls k)"

datatype lock_call = Acquire_call "RowLock slice" | Release_call "RowLock slice"

fun lock_thread :: "lock_call \<Rightarrow> (lock_map, bool) thread" where
  "lock_thread (Acquire_call None) = Done True"
| "lock_thread (Acquire_call (Some ls)) = acquire_steps ls ls Done"
| "lock_thread (Release_call None) = Done True"
| "lock_thread (Release_call (Some ls)) = release_steps ls (Done True)"

subsection \<open>Without interruption\<close>

lemma run_release_steps: "run_alone (release_steps ls k) m = run_alone k (releaseLoop ls m)"
  by (induction ls arbitrary: m) (auto split: option.splits)

lemma run_acquire_steps:
  "run_alone (acquire_steps all ls k) m = (case acquireLoop all ls m of (r, m') \<Rightarrow> run_alone (k r) m')"
  by (induction ls arbitrary: m) (auto simp: LoadOrStore_def run_release_steps split: option.splits)

fun lock_call_world :: "lock_call \<Rightarrow> inmem world \<Rightarrow> (bool \<times> inmem world) option" where
  "lock_call_world (Acquire_call ls) w = inmem_AcquireLock ls False w"
| "lock_call_world (Release_call ls) w = inmem_ReleaseLock ls w"

lemma run_lock_thread:
  "lock_call_world c w =
     map_option (map_prod id (\<lambda>m. w\<lparr>drv := (drv w)\<lparr>LockMap := m\<rparr>\<rparr>)) (run_alone (lock_thread c) (LockMap (drv w)))"
  by (cases c rule: lock_thread.cases)
    (auto simp: run_release_steps run_acquire_steps inmem_AcquireLock_def inmem_ReleaseLock_def split: prod.splits)

subsection \<open>Rows of a transaction\<close>

definition rows_of :: "int64 \<Rightarrow> lock_map \<Rightarrow> string set" where
  "rows_of t m = {k. map_of m k = Some t}"

lemma rows_of_update: "rows_of u (AList.update k t m) = (if u = t then insert k (rows_of u m) else rows_of u m - {k})"
  by (auto simp: rows_of_def update_conv')

lemma rows_of_delete: "rows_of u (AList.delete k m) = rows_of u m - {k}"
  by (auto simp: rows_of_def delete_conv')

text \<open>A loop of a transaction keeps to the rows of the transaction.\<close>

lemma release_keeps:
  assumes "\<forall>l \<in> set ls. rl_TransactionID l = t" and "keeps_to rows_of t Q k (v - row_keys ls)"
  shows "keeps_to rows_of t Q (release_steps ls k) v"
  using assms
proof (induction ls arbitrary: v)
  case (Cons l ls)
  have "keeps_to rows_of t Q
      (atomic (\<lambda>m. ((), AList.delete (rl_RowKey l) m)) (\<lambda>u. release_steps ls k)) v" if "rl_RowKey l \<in> v"
  proof (rule keeps_atomic)
    fix m a m' assume "rows_of t m = v" and "((), AList.delete (rl_RowKey l) m) = (a, m')"
    moreover from this that have "rl_RowKey l \<notin> rows_of u m" if "u \<noteq> t" for u using that by (auto simp: rows_of_def)
    moreover have "keeps_to rows_of t Q (release_steps ls k) (v - {rl_RowKey l})"
      using Cons.prems by (intro Cons.IH) (simp_all add: set_diff_eq Diff_insert2)
    ultimately show "(\<forall>j. j \<noteq> t \<longrightarrow> rows_of j m' = rows_of j m) \<and>
        keeps_to rows_of t Q (release_steps ls k) (rows_of t m')" by (auto simp: rows_of_delete)
  qed
  moreover have "keeps_to rows_of t Q (release_steps ls k) v" if "rl_RowKey l \<notin> v"
    using Cons.prems that by (intro Cons.IH) simp_all
  ultimately have "rows_of t m = v \<Longrightarrow> keeps_to rows_of t Q
      (if map_of m (rl_RowKey l) = Some (rl_TransactionID l)
       then atomic (\<lambda>m. ((), AList.delete (rl_RowKey l) m)) (\<lambda>u. release_steps ls k)
       else release_steps ls k) v" for m
    using Cons.prems(1) by (auto simp: rows_of_def)
  then show ?case unfolding release_steps.simps by (rule keeps_look)
qed simp

lemma acquire_keeps:
  assumes "\<forall>l \<in> set ls. rl_TransactionID l = t" and "\<forall>l \<in> set rows. rl_TransactionID l = t"
    and "set ls \<subseteq> set rows" and "keeps_to rows_of t Q (k True) (v \<union> row_keys ls)"
    and "keeps_to rows_of t Q (k False) (v - row_keys rows)"
  shows "keeps_to rows_of t Q (acquire_steps rows ls k) v"
  using assms
proof (induction ls arbitrary: v)
  case (Cons l ls)
  let ?k = "rl_RowKey l"
  have l: "rl_TransactionID l = t" "?k \<in> row_keys rows" using Cons.prems by (auto simp: row_keys_def)
  have step: "keeps_to rows_of t Q (acquire_steps rows ls k) (insert ?k v)"
    using Cons.prems l(2) by (intro Cons.IH) (simp_all add: insert_Diff_if Un_commute)
  have fail: "keeps_to rows_of t Q (release_steps rows (k False)) v"
    using Cons.prems(2,5) by (rule release_keeps)
  show ?case
  proof (simp only: acquire_steps.simps, rule keeps_atomic)
    fix m a m' assume v: "rows_of t m = v" and a: "LoadOrStore ?k (rl_TransactionID l) m = (a, m')"
    show "(\<forall>j. j \<noteq> t \<longrightarrow> rows_of j m' = rows_of j m) \<and>
      keeps_to rows_of t Q
        ((\<lambda>(previousLockTransactionID, loaded).
            if loaded then
              (if previousLockTransactionID = rl_TransactionID l then acquire_steps rows ls k
               else release_steps rows (k False))
            else acquire_steps rows ls k) a) (rows_of t m')"
    proof (cases "map_of m ?k")
      case None
      then have "?k \<notin> rows_of u m" for u by (simp add: rows_of_def)
      with None a v l(1) step show ?thesis by (auto simp: LoadOrStore_def rows_of_update)
    next
      case (Some u)
      then have "u = t \<Longrightarrow> insert ?k v = v" using v by (auto simp: rows_of_def)
      with Some a v l(1) step fail show ?thesis by (auto simp: LoadOrStore_def)
    qed
  qed
qed simp

fun call_rows :: "lock_call \<Rightarrow> RowLock list" where
  "call_rows (Acquire_call ls) = elems ls"
| "call_rows (Release_call ls) = elems ls"

text \<open>The rows a transaction holds after a call that answered \<open>r\<close>.\<close>

fun rows_after :: "lock_call \<Rightarrow> bool \<Rightarrow> string set \<Rightarrow> string set" where
  "rows_after (Acquire_call ls) r v = (if r then v \<union> row_keys (elems ls) else v - row_keys (elems ls))"
| "rows_after (Release_call ls) r v = v - row_keys (elems ls)"

lemma lock_thread_keeps:
  assumes "\<forall>l \<in> set (call_rows c). rl_TransactionID l = t"
  shows "keeps_to rows_of t (\<lambda>r w. w = rows_after c r v) (lock_thread c) v"
  using assms
  by (cases c rule: lock_thread.cases) (auto intro!: keeps_Done release_keeps acquire_keeps)

subsection \<open>Properties of concurrent lock requests\<close>

text \<open>C9: when every transaction has at most one call of \<open>AcquireLock\<close> or \<open>ReleaseLock\<close> under way, then, in
  whatever order the steps of the calls are interleaved, a call that has answered left its
  transaction exactly the rows it would have without the others: all it asked for when granted,
  none of them when refused or after a release. So no two transactions are granted the same row.
  The rows of transactions without a call are untouched.\<close>

theorem concurrent_row_locks:
  assumes "distinct (map fst calls)" and "\<forall>(t, c) \<in> set calls. \<forall>l \<in> set (call_rows c). rl_TransactionID l = t"
    and "runs thread_step schedule (map (lock_thread \<circ> snd) calls, m) = Some (ps, m')"
    and "i < length calls" and "ps ! i = Done r"
  shows "rows_of (fst (calls ! i)) m' = rows_after (snd (calls ! i)) r (rows_of (fst (calls ! i)) m) \<and>
    (\<forall>u. u \<notin> fst ` set calls \<longrightarrow> rows_of u m' = rows_of u m)"
proof -
  have "keeps_to rows_of (map fst calls ! j) (\<lambda>r w. w = rows_after (snd (calls ! j)) r (rows_of (fst (calls ! j)) m))
      (map (lock_thread \<circ> snd) calls ! j) (rows_of (map fst calls ! j) m)" if "j < length calls" for j
    using that assms(2) by (auto intro!: lock_thread_keeps dest!: nth_mem)
  from schedule_keeps [where ids = "map fst calls" and part = rows_of
      and Q = "\<lambda>j r w. w = rows_after (snd (calls ! j)) r (rows_of (fst (calls ! j)) m)",
      OF assms(3) _ assms(1)] this
  have k: "\<forall>u. u \<notin> set (map fst calls) \<longrightarrow> rows_of u m' = rows_of u m"
    "\<forall>j < length calls. keeps_to rows_of (fst (calls ! j))
       (\<lambda>r w. w = rows_after (snd (calls ! j)) r (rows_of (fst (calls ! j)) m)) (ps ! j) (rows_of (fst (calls ! j)) m')"
    by auto
  from k(2) assms(4,5) have "keeps_to rows_of (fst (calls ! i))
      (\<lambda>r w. w = rows_after (snd (calls ! i)) r (rows_of (fst (calls ! i)) m)) (Done r) (rows_of (fst (calls ! i)) m')"
    by metis
  then have "rows_of (fst (calls ! i)) m' = rows_after (snd (calls ! i)) r (rows_of (fst (calls ! i)) m)"
    by (rule keeps_DoneE)
  with k(1) show ?thesis by simp
qed

text \<open>Two transactions that ask for the same two rows in turn: the first is refused, the second granted.\<close>

definition demo_row :: "string \<Rightarrow> int64 \<Rightarrow> RowLock" where
  "demo_row k t = \<lparr>rl_XID = ''tm:1'', rl_TransactionID = t, rl_BranchID = 3, rl_ResourceID = ''db'',
     rl_TableName = ''a'', rl_PK = k, rl_RowKey = ''db^^^a^^^'' @ k\<rparr>"

definition demo_calls :: "(int64 \<times> lock_call) list" where
  "demo_calls = [(1, Acquire_call (Some [demo_row ''1'' 1, demo_row ''2'' 1])),
     (2, Acquire_call (Some [demo_row ''2'' 2, demo_row ''3'' 2]))]"

theorem concurrent_row_locks_witness:
  "\<exists>m'. runs thread_step [0, 1, 0, 0, 0, 0, 1] (map (lock_thread \<circ> snd) demo_calls, []) =
      Some ([Done False, Done True], m') \<and>
    rows_of 1 m' = {} \<and> rows_of 2 m' = {''db^^^a^^^2'', ''db^^^a^^^3''}"
proof -
  obtain m' where r: "runs thread_step [0, 1, 0, 0, 0, 0, 1] (map (lock_thread \<circ> snd) demo_calls, []) =
      Some ([Done False, Done True], m')"
    by (simp add: demo_calls_def demo_row_def LoadOrStore_def)
  have "distinct (map fst demo_calls)" "\<forall>(t, c) \<in> set demo_calls. \<forall>l \<in> set (call_rows c). rl_TransactionID l = t"
    by (simp_all add: demo_calls_def demo_row_def)
  note k = concurrent_row_locks [OF this r]
  have "rows_of 1 m' = {}" using k [of 0 False] by (simp add: demo_calls_def demo_row_def rows_of_def)
  moreover have "rows_of 2 m' = {''db^^^a^^^2'', ''db^^^a^^^3''}"
    using k [of 1 True] by (auto simp: demo_calls_def demo_row_def rows_of_def)
  ultimately show ?thesis using r by blast
qed

text \<open>C20: \<open>ReleaseLock\<close> checks a row and then deletes it. When two calls release a row of the same
  transaction, another transaction may be granted the row in between and lose it again: it was
  told it has the row, and the row is free.\<close>

theorem overlapping_releases_free_foreign_row:
  assumes "map_of m (rl_RowKey l) = Some (rl_TransactionID l)"
    and "rl_RowKey l' = rl_RowKey l" and "rl_TransactionID l' \<noteq> rl_TransactionID l"
  shows "\<exists>before after p m1 m'.
    runs thread_step before
      (map lock_thread [Release_call (Some [l]), Release_call (Some [l]), Acquire_call (Some [l'])], m) =
        Some ([p, Done True, Done True], m1) \<and>
    map_of m1 (rl_RowKey l') = Some (rl_TransactionID l') \<and>
    runs thread_step after ([p, Done True, Done True], m1) = Some ([Done True, Done True, Done True], m') \<and>
    map_of m' (rl_RowKey l') = None"
proof -
  let ?k = "rl_RowKey l"
  let ?m1 = "AList.update ?k (rl_TransactionID l') (AList.delete ?k m)"
  let ?p = "atomic (\<lambda>m. ((), AList.delete ?k m)) (\<lambda>u. Done True)"
  have "runs thread_step [0, 1, 1, 2]
      (map lock_thread [Release_call (Some [l]), Release_call (Some [l]), Acquire_call (Some [l'])], m) =
      Some ([?p, Done True, Done True], ?m1)"
    using assms by (simp add: LoadOrStore_def)
  moreover have "runs thread_step [0] ([?p, Done True, Done True], ?m1) =
      Some ([Done True, Done True, Done True], AList.delete ?k ?m1)" by simp
  moreover have "map_of ?m1 ?k = Some (rl_TransactionID l')" "map_of (AList.delete ?k ?m1) ?k = None"
    by (simp_all add: update_conv' delete_conv')
  ultimately show ?thesis using assms(2) by metis
qed

theorem overlapping_releases_free_foreign_row_witness:
  "\<exists>before after p m1 m'.
    runs thread_step before
      (map lock_thread [Release_call (Some [demo_row ''1'' 1]), Release_call (Some [demo_row ''1'' 1]),
         Acquire_call (Some [demo_row ''1'' 2])], [(''db^^^a^^^1'', 1)]) = Some ([p, Done True, Done True], m1) \<and>
    map_of m1 ''db^^^a^^^1'' = Some 2 \<and>
    runs thread_step after ([p, Done True, Done True], m1) = Some ([Done True, Done True, Done True], m') \<and>
    map_of m' ''db^^^a^^^1'' = None"
  using overlapping_releases_free_foreign_row [of "[(''db^^^a^^^1'', 1)]" "demo_row ''1'' 1" "demo_row ''1'' 2"]
  by (simp add: demo_row_def)

end
