(* ===== verification/Message_Exchange.thy ===== *)
theory Message_Exchange
  imports Coordinator_Branch Channels
begin

text \<open>
  The exchange of branch messages inside \<open>transaction_coordinator.go\<close>, at the grain of its
  goroutines: the calls of \<open>branchCommit\<close> and \<open>branchRollback\<close>, which offer a message to the channel
  of an address and wait for the future of its number (\<open>message_future.go\<close>), and the streams of
  \<open>BranchCommunicate\<close>, each with a goroutine that sends and a loop that receives. An operation on a
  \<open>sync.Map\<close>, a meeting at a channel, or a timer is one action; a schedule, the list of actions, stands
  for the scheduler, the network and the clock. In the other theories the whole exchange is the
  parameter \<open>reply\<close>.
\<close>

subsection \<open>State\<close>

text \<open>The future of a call is part of it: its number is that of the message, \<open>Response\<close> is the field here,
  \<open>Done\<close> is the meeting in \<open>signal\<close>, and \<open>Err\<close> is never set nor read.

  A call: before its first \<open>select\<close>, after its message was taken, in the second \<open>select\<close>, after
  its timer fired, after it received from \<open>Done\<close>, or returned.\<close>

datatype call_pc = Offering | Handed | Waiting | Expired | Woken | Returned rm_outcome

record request =
  rq_Addressing :: string
  rq_message :: BranchMessage
  rq_pc :: call_pc
  rq_Response :: "rm_reply option"

text \<open>The handler of a stream: before it counts its address, with the count it loaded, in its loop,
  with a response before the look-up of the future, with the future, about to send to \<open>Done\<close>,
  before the future is deleted, and on its way out through the deferred function.\<close>

datatype stream_pc =
    Entered
  | Counting "int option"
  | Listening
  | Got int64 rm_reply
  | Found int64 nat rm_reply
  | Signalling int64 nat
  | Signalled int64
  | Leaving
  | Uncounting int
  | Left

text \<open>\<open>st_received\<close> and \<open>st_sent\<close> record what passed over the wire; no action reads them.\<close>

record stream =
  st_addressing :: string
  st_counted :: bool
  st_pc :: stream_pc
  st_sender :: "BranchMessage sender"
  st_closed :: bool
  st_received :: "(int64 \<times> rm_reply) list"
  st_sent :: "BranchMessage list"

record exchange =
  generator :: uint64
  futures :: "int64 \<Rightarrow> nat option"
  active :: "string \<Rightarrow> int option"
  requests :: "request list"
  streams :: "stream list"

definition new_exchange :: exchange where
  "new_exchange = \<lparr>generator = 0, futures = Map.empty, active = Map.empty, requests = [], streams = []\<rparr>"

definition set_request :: "nat \<Rightarrow> (request \<Rightarrow> request) \<Rightarrow> exchange \<Rightarrow> exchange" where
  "set_request t f x = x\<lparr>requests := (requests x)[t := f (requests x ! t)]\<rparr>"

definition set_stream :: "nat \<Rightarrow> (stream \<Rightarrow> stream) \<Rightarrow> exchange \<Rightarrow> exchange" where
  "set_stream i f x = x\<lparr>streams := (streams x)[i := f (streams x ! i)]\<rparr>"

definition call_at :: "nat \<Rightarrow> call_pc \<Rightarrow> exchange \<Rightarrow> bool" where
  "call_at t pc x \<longleftrightarrow> t < length (requests x) \<and> rq_pc (requests x ! t) = pc"

definition stream_at :: "nat \<Rightarrow> stream_pc \<Rightarrow> exchange \<Rightarrow> bool" where
  "stream_at i pc x \<longleftrightarrow> i < length (streams x) \<and> st_pc (streams x ! i) = pc"

definition sender_at :: "nat \<Rightarrow> BranchMessage sender \<Rightarrow> exchange \<Rightarrow> bool" where
  "sender_at i p x \<longleftrightarrow> i < length (streams x) \<and> st_sender (streams x ! i) = p"

definition go_on :: "call_pc \<Rightarrow> request \<Rightarrow> request" where "go_on pc r = r\<lparr>rq_pc := pc\<rparr>"
definition go_to :: "stream_pc \<Rightarrow> stream \<Rightarrow> stream" where "go_to pc s = s\<lparr>st_pc := pc\<rparr>"

definition rq_ID :: "request \<Rightarrow> int64" where "rq_ID r = bm_ID (rq_message r)"

subsection \<open>Calls\<close>

text \<open>A call takes a number and builds its message.\<close>

definition start_call :: "BranchMessageType \<Rightarrow> BranchSession \<Rightarrow> exchange \<Rightarrow> exchange" where
  "start_call ty bs x =
     (let n = generator x + 1
      in x\<lparr>generator := n,
           requests := requests x @
             [\<lparr>rq_Addressing = bs_Addressing bs,
               rq_message = \<lparr>bm_ID = n, bm_BranchMessageType = ty, bm_Message = branch_request bs\<rparr>,
               rq_pc = Offering, rq_Response = None\<rparr>]\<rparr>)"

text \<open>The first \<open>select\<close>: the message goes to a goroutine that waits at the channel of the address, and
  only if there is none the call returns.\<close>

definition hand_over :: "nat \<Rightarrow> nat \<Rightarrow> exchange \<Rightarrow> exchange option" where
  "hand_over t i x =
     (if call_at t Offering x \<and> sender_at i Parked x \<and>
         st_addressing (streams x ! i) = rq_Addressing (requests x ! t)
      then Some (set_stream i (\<lambda>s. s\<lparr>st_sender := Sending (rq_message (requests x ! t))\<rparr>)
             (set_request t (go_on Handed) x))
      else None)"

definition no_reader :: "nat \<Rightarrow> exchange \<Rightarrow> exchange option" where
  "no_reader t x =
     (if call_at t Offering x \<and>
         list_all (\<lambda>s. st_sender s = Parked \<longrightarrow> st_addressing s \<noteq> rq_Addressing (requests x ! t)) (streams x)
      then Some (set_request t (go_on (Returned NotReady)) x)
      else None)"

definition store_future :: "nat \<Rightarrow> exchange \<Rightarrow> exchange option" where
  "store_future t x =
     (if call_at t Handed x
      then Some (set_request t (go_on Waiting) (x\<lparr>futures := (futures x)(rq_ID (requests x ! t) \<mapsto> t)\<rparr>))
      else None)"

text \<open>The second \<open>select\<close>, when the timer fires; the other case is \<open>signal\<close> below.\<close>

definition expire :: "nat \<Rightarrow> exchange \<Rightarrow> exchange option" where
  "expire t x = (if call_at t Waiting x then Some (set_request t (go_on Expired) x) else None)"

definition give_up :: "nat \<Rightarrow> exchange \<Rightarrow> exchange option" where
  "give_up t x =
     (if call_at t Expired x
      then Some (set_request t (go_on (Returned NoReply))
             (x\<lparr>futures := (futures x)(rq_ID (requests x ! t) := None)\<rparr>))
      else None)"

definition read_response :: "nat \<Rightarrow> exchange \<Rightarrow> exchange option" where
  "read_response t x =
     (if call_at t Woken x
      then (case rq_Response (requests x ! t) of
              None \<Rightarrow> None
            | Some r \<Rightarrow> Some (set_request t (go_on (Returned (Replied r))) x))
      else None)"

text \<open>What a call returns, \<open>None\<close> for a panic; \<open>bs\<close> is the branch when it returns.\<close>

definition call_result ::
    "BranchMessageType \<Rightarrow> BranchSession \<Rightarrow> rm_outcome \<Rightarrow> (BranchStatus \<times> goerror option) option" where
  "call_result ty bs out =
     (let answered = (\<lambda>response.
            if bp_ResultCode response = ResultCodeSuccess then (bp_BranchStatus response, None)
            else (bs_Status bs, Some (Errorf (bp_Message response))))
      in case out of
           NotReady \<Rightarrow> Some (bs_Status bs, None)
         | NoReply \<Rightarrow>
             Some (bs_Status bs, Some (Errorf
               (if ty = TypeBranchCommit then ''wait branch commit response timeout''
                else ''wait branch rollback response timeout'')))
         | Replied (CommitReply response) \<Rightarrow> (if ty = TypeBranchCommit then Some (answered response) else None)
         | Replied (RollbackReply response) \<Rightarrow>
             (if ty = TypeBranchCommit then Some (bs_Status bs, Some (Errorf ''response type not right''))
              else Some (answered response)))"

subsection \<open>Streams\<close>

text \<open>A stream opens with the address of its metadata, or uncounted with an empty one when the call
  has none. The count of the address is loaded, and stored, in two steps.\<close>

definition enter :: "string option \<Rightarrow> exchange \<Rightarrow> exchange" where
  "enter md x = x\<lparr>streams := streams x @
     [\<lparr>st_addressing = (case md of None \<Rightarrow> [] | Some a \<Rightarrow> a), st_counted = (md \<noteq> None),
       st_pc = (if md = None then Listening else Entered),
       st_sender = (if md = None then Running else Absent),
       st_closed = False, st_received = [], st_sent = []\<rparr>]\<rparr>"

definition load_count :: "nat \<Rightarrow> exchange \<Rightarrow> exchange option" where
  "load_count i x =
     (if stream_at i Entered x
      then Some (set_stream i (go_to (Counting (active x (st_addressing (streams x ! i))))) x) else None)"

definition store_count :: "nat \<Rightarrow> exchange \<Rightarrow> exchange option" where
  "store_count i x =
     (if i < length (streams x)
      then (case st_pc (streams x ! i) of
              Counting c \<Rightarrow>
                Some (set_stream i (\<lambda>s. s\<lparr>st_pc := Listening, st_sender := Running\<rparr>)
                  (x\<lparr>active := (active x)(st_addressing (streams x ! i) \<mapsto>
                     (case c of Some k \<Rightarrow> k + 1 | None \<Rightarrow> 1))\<rparr>))
            | _ \<Rightarrow> None)
      else None)"

text \<open>The goroutine that sends. Its \<open>select\<close> finds no message, as calls do not wait to hand one over.\<close>

definition wait_message :: "nat \<Rightarrow> exchange \<Rightarrow> exchange option" where
  "wait_message i x =
     (if sender_at i Running x
      then Some (set_stream i (\<lambda>s. s\<lparr>st_sender := park (st_closed s)\<rparr>) x) else None)"

definition send :: "nat \<Rightarrow> bool \<Rightarrow> exchange \<Rightarrow> exchange option" where
  "send i ok x =
     (if i < length (streams x)
      then (case st_sender (streams x ! i) of
              Sending m \<Rightarrow>
                Some (set_stream i
                  (\<lambda>s. if ok then s\<lparr>st_sender := Running, st_sent := st_sent s @ [m]\<rparr>
                       else s\<lparr>st_sender := Absent\<rparr>) x)
            | _ \<Rightarrow> None)
      else None)"

text \<open>A message from the wire: its number, its type, its payload unless \<open>Unmarshal\<close> fails. The loop
  passes over a message that is no response.\<close>

definition response_of :: "int64 \<times> BranchMessageType \<times> BranchResponse option \<Rightarrow> (int64 \<times> rm_reply) option" where
  "response_of msg =
     (case msg of
        (n, TypeBranchCommitResult, Some response) \<Rightarrow> Some (n, CommitReply response)
      | (n, TypeBranchRollBackResult, Some response) \<Rightarrow> Some (n, RollbackReply response)
      | _ \<Rightarrow> None)"

definition receive :: "nat \<Rightarrow> int64 \<times> BranchMessageType \<times> BranchResponse option \<Rightarrow> exchange \<Rightarrow> exchange option" where
  "receive i msg x =
     (if stream_at i Listening x
      then Some (case response_of msg of
              None \<Rightarrow> x
            | Some (n, r) \<Rightarrow>
                set_stream i (\<lambda>s. s\<lparr>st_pc := Got n r, st_received := st_received s @ [(n, r)]\<rparr>) x)
      else None)"

definition look_up :: "nat \<Rightarrow> exchange \<Rightarrow> exchange option" where
  "look_up i x =
     (if i < length (streams x)
      then (case st_pc (streams x ! i) of
              Got n r \<Rightarrow>
                Some (set_stream i (go_to (case futures x n of None \<Rightarrow> Listening | Some t \<Rightarrow> Found n t r)) x)
            | _ \<Rightarrow> None)
      else None)"

definition set_response :: "nat \<Rightarrow> exchange \<Rightarrow> exchange option" where
  "set_response i x =
     (if i < length (streams x)
      then (case st_pc (streams x ! i) of
              Found n t r \<Rightarrow>
                Some (set_stream i (go_to (Signalling n t)) (set_request t (\<lambda>q. q\<lparr>rq_Response := Some r\<rparr>) x))
            | _ \<Rightarrow> None)
      else None)"

text \<open>The channel \<open>Done\<close> has no buffer: the loop goes on only when the call receives from it.\<close>

definition signal :: "nat \<Rightarrow> exchange \<Rightarrow> exchange option" where
  "signal i x =
     (if i < length (streams x)
      then (case st_pc (streams x ! i) of
              Signalling n t \<Rightarrow>
                (if call_at t Waiting x
                 then Some (set_stream i (go_to (Signalled n)) (set_request t (go_on Woken) x)) else None)
            | _ \<Rightarrow> None)
      else None)"

definition drop_future :: "nat \<Rightarrow> exchange \<Rightarrow> exchange option" where
  "drop_future i x =
     (if i < length (streams x)
      then (case st_pc (streams x ! i) of
              Signalled n \<Rightarrow> Some (set_stream i (go_to Listening) (x\<lparr>futures := (futures x)(n := None)\<rparr>))
            | _ \<Rightarrow> None)
      else None)"

text \<open>The stream breaks, ends, or its context is done.\<close>

definition close_done :: "nat \<Rightarrow> exchange \<Rightarrow> exchange option" where
  "close_done i x =
     (if stream_at i Listening x
      then Some (set_stream i (\<lambda>s. s\<lparr>st_pc := (if st_counted s then Leaving else Left),
             st_sender := on_close (st_sender s), st_closed := True\<rparr>) x)
      else None)"

definition load_last_count :: "nat \<Rightarrow> exchange \<Rightarrow> exchange option" where
  "load_last_count i x =
     (if stream_at i Leaving x
      then (case active x (st_addressing (streams x ! i)) of
              None \<Rightarrow> None
            | Some k \<Rightarrow> Some (set_stream i (go_to (Uncounting k)) x))
      else None)"

definition store_last_count :: "nat \<Rightarrow> exchange \<Rightarrow> exchange option" where
  "store_last_count i x =
     (if i < length (streams x)
      then (case st_pc (streams x ! i) of
              Uncounting k \<Rightarrow>
                Some (set_stream i (go_to Left)
                  (x\<lparr>active := (active x)(st_addressing (streams x ! i) \<mapsto> k - 1)\<rparr>))
            | _ \<Rightarrow> None)
      else None)"

subsection \<open>Actions\<close>

datatype action =
    Start BranchMessageType BranchSession
  | Hand_over nat nat
  | No_reader nat
  | Store_future nat
  | Expire nat
  | Give_up nat
  | Read_response nat
  | Enter "string option"
  | Load_count nat
  | Store_count nat
  | Wait_message nat
  | Send nat bool
  | Receive nat "int64 \<times> BranchMessageType \<times> BranchResponse option"
  | Look_up nat
  | Set_response nat
  | Signal nat
  | Drop_future nat
  | Close_done nat
  | Load_last_count nat
  | Store_last_count nat

primrec act :: "action \<Rightarrow> exchange \<Rightarrow> exchange option" where
  "act (Start ty bs) = (\<lambda>x.
     if ty = TypeBranchCommit \<or> ty = TypeBranchRollback then Some (start_call ty bs x) else None)"
| "act (Hand_over t i) = hand_over t i"
| "act (No_reader t) = no_reader t"
| "act (Store_future t) = store_future t"
| "act (Expire t) = expire t"
| "act (Give_up t) = give_up t"
| "act (Read_response t) = read_response t"
| "act (Enter md) = (\<lambda>x. Some (enter md x))"
| "act (Load_count i) = load_count i"
| "act (Store_count i) = store_count i"
| "act (Wait_message i) = wait_message i"
| "act (Send i ok) = send i ok"
| "act (Receive i msg) = receive i msg"
| "act (Look_up i) = look_up i"
| "act (Set_response i) = set_response i"
| "act (Signal i) = signal i"
| "act (Drop_future i) = drop_future i"
| "act (Close_done i) = close_done i"
| "act (Load_last_count i) = load_last_count i"
| "act (Store_last_count i) = store_last_count i"

lemmas action_defs =
  start_call_def hand_over_def no_reader_def store_future_def expire_def give_up_def read_response_def
  enter_def load_count_def store_count_def wait_message_def send_def receive_def look_up_def
  set_response_def signal_def drop_future_def close_done_def load_last_count_def store_last_count_def

lemmas state_defs = set_request_def set_stream_def go_on_def go_to_def call_at_def stream_at_def sender_at_def

text \<open>When the actions that depend on what a goroutine holds are possible, and what they do.\<close>

lemma action_iffs:
  "store_count i x = Some x' \<longleftrightarrow> (\<exists>c. stream_at i (Counting c) x \<and>
     x' = set_stream i (\<lambda>s. s\<lparr>st_pc := Listening, st_sender := Running\<rparr>)
       (x\<lparr>active := (active x)(st_addressing (streams x ! i) \<mapsto> (case c of Some k \<Rightarrow> k + 1 | None \<Rightarrow> 1))\<rparr>))"
  "send i ok x = Some x' \<longleftrightarrow> (\<exists>m. sender_at i (Sending m) x \<and>
     x' = set_stream i (\<lambda>s. if ok then s\<lparr>st_sender := Running, st_sent := st_sent s @ [m]\<rparr>
       else s\<lparr>st_sender := Absent\<rparr>) x)"
  "look_up i x = Some x' \<longleftrightarrow> (\<exists>n r. stream_at i (Got n r) x \<and>
     x' = set_stream i (go_to (case futures x n of None \<Rightarrow> Listening | Some t \<Rightarrow> Found n t r)) x)"
  "set_response i x = Some x' \<longleftrightarrow> (\<exists>n t r. stream_at i (Found n t r) x \<and>
     x' = set_stream i (go_to (Signalling n t)) (set_request t (\<lambda>q. q\<lparr>rq_Response := Some r\<rparr>) x))"
  "signal i x = Some x' \<longleftrightarrow> (\<exists>n t. stream_at i (Signalling n t) x \<and> call_at t Waiting x \<and>
     x' = set_stream i (go_to (Signalled n)) (set_request t (go_on Woken) x))"
  "drop_future i x = Some x' \<longleftrightarrow> (\<exists>n. stream_at i (Signalled n) x \<and>
     x' = set_stream i (go_to Listening) (x\<lparr>futures := (futures x)(n := None)\<rparr>))"
  "store_last_count i x = Some x' \<longleftrightarrow> (\<exists>k. stream_at i (Uncounting k) x \<and>
     x' = set_stream i (go_to Left) (x\<lparr>active := (active x)(st_addressing (streams x ! i) \<mapsto> k - 1)\<rparr>))"
  by (cases "st_pc (streams x ! i)"; cases "st_sender (streams x ! i)";
      auto simp: store_count_def send_def look_up_def set_response_def signal_def drop_future_def store_last_count_def
        stream_at_def sender_at_def)+

lemmas act_simps =
  action_iffs start_call_def hand_over_def no_reader_def store_future_def expire_def give_up_def read_response_def
  enter_def load_count_def wait_message_def receive_def close_done_def load_last_count_def
  state_defs nth_update nth_append Let_def

subsection \<open>What never changes, and what only grows\<close>

definition grows :: "exchange \<Rightarrow> exchange \<Rightarrow> bool" where
  "grows x x' \<longleftrightarrow>
     length (requests x) \<le> length (requests x') \<and> length (streams x) \<le> length (streams x') \<and>
     (\<forall>t < length (requests x).
        rq_message (requests x' ! t) = rq_message (requests x ! t) \<and>
        rq_Addressing (requests x' ! t) = rq_Addressing (requests x ! t) \<and>
        (rq_Response (requests x ! t) \<noteq> None \<longrightarrow> rq_Response (requests x' ! t) \<noteq> None)) \<and>
     (\<forall>i < length (streams x).
        st_addressing (streams x' ! i) = st_addressing (streams x ! i) \<and>
        st_counted (streams x' ! i) = st_counted (streams x ! i) \<and>
        set (st_received (streams x ! i)) \<subseteq> set (st_received (streams x' ! i)))"

lemma act_grows:
  assumes "act a x = Some x'"
  shows "grows x x'"
  using assms
  by (cases a) (auto simp: grows_def act_simps
      split: if_splits option.splits prod.splits)

definition owns :: "exchange \<Rightarrow> nat \<Rightarrow> int64 \<Rightarrow> bool" where
  "owns x t n \<longleftrightarrow> t < length (requests x) \<and> rq_ID (requests x ! t) = n"

definition answered :: "exchange \<Rightarrow> nat \<Rightarrow> bool" where
  "answered x t \<longleftrightarrow> t < length (requests x) \<and> rq_Response (requests x ! t) \<noteq> None"

definition heard :: "exchange \<Rightarrow> int64 \<Rightarrow> rm_reply \<Rightarrow> bool" where
  "heard x n r \<longleftrightarrow> (\<exists>i < length (streams x). (n, r) \<in> set (st_received (streams x ! i)))"

lemma grows_keeps:
  assumes "grows x x'"
  shows "owns x t n \<Longrightarrow> owns x' t n" and "answered x t \<Longrightarrow> answered x' t" and "heard x n r \<Longrightarrow> heard x' n r"
proof -
  show "owns x t n \<Longrightarrow> owns x' t n" and "answered x t \<Longrightarrow> answered x' t"
    using assms by (auto simp: grows_def owns_def answered_def rq_ID_def)
  assume "heard x n r"
  then obtain i where "i < length (streams x)" and "(n, r) \<in> set (st_received (streams x ! i))"
    unfolding heard_def by blast
  with assms have "i < length (streams x')" and "(n, r) \<in> set (st_received (streams x' ! i))"
    unfolding grows_def by (meson order_less_le_trans, blast)
  then show "heard x' n r" unfolding heard_def by blast
qed

lemma runs_grow:
  assumes "runs act as x = Some x'"
  shows "grows x x'"
proof (rule runs_invariant [OF assms])
  show "grows x x" by (simp add: grows_def)
  fix a t t'
  assume "grows x t" and "act a t = Some t'"
  with act_grows [of a t t'] show "grows x t'"
    unfolding grows_def by (smt (verit, best) order_less_le_trans order_trans)
qed

subsection \<open>The invariant\<close>

definition numbered :: "exchange \<Rightarrow> bool" where
  "numbered x \<longleftrightarrow> generator x = of_nat (length (requests x)) \<and>
     (\<forall>t < length (requests x). rq_ID (requests x ! t) = of_nat (Suc t))"

definition stored_own :: "exchange \<Rightarrow> bool" where
  "stored_own x \<longleftrightarrow> (\<forall>n t. futures x n = Some t \<longrightarrow> owns x t n)"

definition stream_ok :: "exchange \<Rightarrow> nat \<Rightarrow> bool" where
  "stream_ok x i \<longleftrightarrow>
     (case st_pc (streams x ! i) of
        Got n r \<Rightarrow> heard x n r
      | Found n t r \<Rightarrow> owns x t n \<and> heard x n r
      | Signalling n t \<Rightarrow> owns x t n \<and> answered x t
      | _ \<Rightarrow> True)"

definition call_ok :: "exchange \<Rightarrow> nat \<Rightarrow> bool" where
  "call_ok x t \<longleftrightarrow>
     (case rq_pc (requests x ! t) of
        Woken \<Rightarrow> answered x t
      | Returned (Replied r) \<Rightarrow> heard x (rq_ID (requests x ! t)) r
      | _ \<Rightarrow> True) \<and>
     (\<forall>r. rq_Response (requests x ! t) = Some r \<longrightarrow> heard x (rq_ID (requests x ! t)) r)"

definition exchange_ok :: "exchange \<Rightarrow> bool" where
  "exchange_ok x \<longleftrightarrow> numbered x \<and> stored_own x \<and>
     (\<forall>i < length (streams x). stream_ok x i) \<and> (\<forall>t < length (requests x). call_ok x t)"

lemma new_exchange_ok: "exchange_ok new_exchange"
  by (simp add: exchange_ok_def new_exchange_def numbered_def stored_own_def)

lemma act_numbered:
  assumes "act a x = Some x'" and "numbered x"
  shows "numbered x'"
  using assms
  by (cases a) (auto simp: numbered_def rq_ID_def act_simps less_Suc_eq
      split: if_splits option.splits prod.splits)

lemma act_stored_own:
  assumes "act a x = Some x'" and "stored_own x"
  shows "stored_own x'"
proof -
  have "futures x' n = Some t \<Longrightarrow> futures x n = Some t \<or> owns x t n" for n t
    using assms(1)
    by (cases a) (auto simp: owns_def act_simps
        split: if_splits option.splits prod.splits)
  with assms(2) grows_keeps(1) [OF act_grows [OF assms(1)]] show ?thesis unfolding stored_own_def by blast
qed

text \<open>How the program counters of a stream and of a call move.\<close>

lemma act_stream_pc:
  assumes "act a x = Some x'" and "i < length (streams x')"
  shows "i < length (streams x) \<and> st_pc (streams x' ! i) = st_pc (streams x ! i) \<or>
    (case st_pc (streams x' ! i) of
       Got n r \<Rightarrow> (n, r) \<in> set (st_received (streams x' ! i))
     | Found n t r \<Rightarrow> stream_at i (Got n r) x \<and> futures x n = Some t
     | Signalling n t \<Rightarrow> (\<exists>r. stream_at i (Found n t r) x) \<and> (t < length (requests x) \<longrightarrow> answered x' t)
     | _ \<Rightarrow> True)"
  using assms
  by (cases a) (auto simp: answered_def act_simps split: if_splits option.splits prod.splits)

lemma act_call_pc:
  assumes "act a x = Some x'" and "t < length (requests x')"
  shows "t < length (requests x) \<and> rq_pc (requests x' ! t) = rq_pc (requests x ! t) \<or>
    (case rq_pc (requests x' ! t) of
       Woken \<Rightarrow> call_at t Waiting x \<and> (\<exists>i n. stream_at i (Signalling n t) x)
     | Returned (Replied r) \<Rightarrow> call_at t Woken x \<and> rq_Response (requests x ! t) = Some r
     | _ \<Rightarrow> True)"
  using assms
  by (cases a) (auto simp: act_simps split: if_splits option.splits prod.splits)

lemma act_response:
  assumes "act a x = Some x'" and "t < length (requests x')"
  shows "rq_Response (requests x' ! t) = None \<or>
    t < length (requests x) \<and> rq_Response (requests x' ! t) = rq_Response (requests x ! t) \<or>
    (\<exists>i n r. rq_Response (requests x' ! t) = Some r \<and> i < length (streams x) \<and> st_pc (streams x ! i) = Found n t r)"
  using assms
  by (cases a) (auto simp: act_simps less_Suc_eq
      split: if_splits option.splits prod.splits)

lemma act_stream_ok:
  assumes "act a x = Some x'" and "exchange_ok x" and "i < length (streams x')"
  shows "stream_ok x' i"
proof -
  note keeps = grows_keeps [OF act_grows [OF assms(1)]]
  have old: "stream_ok x i" if "i < length (streams x)" using assms(2) that by (simp add: exchange_ok_def)
  have own: "owns x t n" if "futures x n = Some t" for n t
    using assms(2) that by (simp add: exchange_ok_def stored_own_def)
  have rec: "heard x' n r" if "(n, r) \<in> set (st_received (streams x' ! i))" for n r
    using that assms(3) by (auto simp: heard_def)
  have from_old: "stream_ok x i" if "stream_at i pc x" for pc
    using old that by (simp add: stream_at_def)
  from act_stream_pc [OF assms(1,3)] show ?thesis
  proof (elim disjE)
    assume "i < length (streams x) \<and> st_pc (streams x' ! i) = st_pc (streams x ! i)"
    with old keeps show ?thesis by (auto simp: stream_ok_def split: stream_pc.splits)
  qed (cases "st_pc (streams x' ! i)";
      use from_old own keeps rec in \<open>fastforce simp: stream_ok_def stream_at_def owns_def\<close>)
qed

lemma act_call_ok:
  assumes "act a x = Some x'" and "exchange_ok x" and "t < length (requests x')"
  shows "call_ok x' t"
proof -
  note keeps = grows_keeps [OF act_grows [OF assms(1)]]
  have same: "rq_ID (requests x' ! t) = rq_ID (requests x ! t)" if "t < length (requests x)"
    using act_grows [OF assms(1)] that by (simp add: grows_def rq_ID_def)
  have old: "call_ok x t" if "t < length (requests x)" using assms(2) that by (simp add: exchange_ok_def)
  have str: "stream_ok x i" if "i < length (streams x)" for i using assms(2) that by (simp add: exchange_ok_def)
  have response: "heard x' (rq_ID (requests x' ! t)) r" if "rq_Response (requests x' ! t) = Some r" for r
    using act_response [OF assms(1,3)]
  proof (elim disjE exE conjE)
    fix i n r'
    assume "rq_Response (requests x' ! t) = Some r'" and i: "i < length (streams x)" "st_pc (streams x ! i) = Found n t r'"
    with that str [OF i(1)] have "owns x t n" "heard x n r" by (auto simp: stream_ok_def)
    with keeps(3) same show ?thesis by (auto simp: owns_def)
  qed (use that old keeps(3) same in \<open>auto simp: call_ok_def\<close>)
  have signalled: "answered x' t" if "stream_at i (Signalling n t) x" for i n
    using that str [of i] keeps(2) by (auto simp: stream_at_def stream_ok_def)
  have "case rq_pc (requests x' ! t) of
      Woken \<Rightarrow> answered x' t
    | Returned (Replied r) \<Rightarrow> heard x' (rq_ID (requests x' ! t)) r
    | _ \<Rightarrow> True"
    using act_call_pc [OF assms(1,3)] old keeps same signalled
    by (auto simp: call_ok_def call_at_def split: call_pc.splits rm_outcome.splits)
  with response show ?thesis by (simp add: call_ok_def)
qed

lemma act_ok:
  assumes "exchange_ok x" and "act a x = Some x'"
  shows "exchange_ok x'"
  using assms(1) act_numbered [OF assms(2)] act_stored_own [OF assms(2)] act_stream_ok [OF assms(2,1)]
    act_call_ok [OF assms(2,1)]
  by (simp add: exchange_ok_def)

lemma runs_ok:
  assumes "runs act as x = Some x'" and "exchange_ok x"
  shows "exchange_ok x'"
  using assms by (rule runs_invariant) (rule act_ok)

lemmas reached_ok = runs_ok [OF _ new_exchange_ok]

subsection \<open>The outcome of a call\<close>

text \<open>What the exchange answers to a message: the outcome of the call that has its number.\<close>

definition exchange_reply :: "exchange \<Rightarrow> BranchMessage \<Rightarrow> rm_outcome" where
  "exchange_reply x m =
     (case find (\<lambda>r. rq_ID r = bm_ID m) (requests x) of
        Some r \<Rightarrow> (case rq_pc r of Returned out \<Rightarrow> out | _ \<Rightarrow> NoReply)
      | None \<Rightarrow> NotReady)"

lemma distinct_numbers:
  assumes "numbered x" and "length (requests x) \<le> 2 ^ 64"
    and "t < length (requests x)" and "u < length (requests x)"
    and "rq_ID (requests x ! t) = rq_ID (requests x ! u)"
  shows "t = u"
proof -
  from assms have "(of_nat (Suc t) :: int64) = of_nat (Suc u)" by (simp add: numbered_def)
  then have "Suc t mod 2 ^ 64 = Suc u mod 2 ^ 64" by (simp add: word_of_nat_eq_iff take_bit_eq_mod del: of_nat_Suc)
  moreover have "Suc t \<le> 2 ^ 64" "Suc u \<le> 2 ^ 64" using assms(2-4) by linarith+
  ultimately show ?thesis
    by (cases "Suc t = 2 ^ 64"; cases "Suc u = 2 ^ 64") (auto simp del: power_numeral)
qed

lemma exchange_reply_own:
  assumes "numbered x" and "length (requests x) \<le> 2 ^ 64" and "call_at t (Returned out) x"
  shows "exchange_reply x (rq_message (requests x ! t)) = out"
proof -
  let ?P = "\<lambda>r. rq_ID r = bm_ID (rq_message (requests x ! t))"
  have t: "t < length (requests x)" "rq_pc (requests x ! t) = Returned out" using assms(3) by (simp_all add: call_at_def)
  have "find ?P (requests x) \<noteq> None" unfolding find_None_iff using nth_mem [OF t(1)] by (auto simp: rq_ID_def)
  then obtain r where r: "find ?P (requests x) = Some r" by blast
  then obtain u where u: "u < length (requests x)" "?P (requests x ! u)" "r = requests x ! u"
    by (auto simp: find_Some_iff)
  then have "t = u" using distinct_numbers [OF assms(1,2) t(1), of u] by (simp add: rq_ID_def)
  with u(3) r t(2) show ?thesis by (simp add: exchange_reply_def)
qed

text \<open>The atomic operations return what the call does.\<close>

lemma branchCommit_call_result:
  assumes "MarshalAny conf TypeBranchCommit (branch_request (bobj (wld s) b)) = None"
  shows "Some (fst (branchCommit conf b s)) =
    call_result TypeBranchCommit (bobj (wld s) b)
      (reply conf (fst (send_message TypeBranchCommit (bobj (wld s) b) s)))"
  using assms
  by (auto simp: branchCommit_def call_result_def Let_def send_message_def
      split: rm_outcome.splits rm_reply.splits)

lemma branchRollback_call_result:
  assumes "MarshalAny conf TypeBranchRollback (branch_request (bobj (wld s) b)) = None"
  shows "map_option fst (branchRollback conf b s) =
    call_result TypeBranchRollback (bobj (wld s) b)
      (reply conf (fst (send_message TypeBranchRollback (bobj (wld s) b) s)))"
  using assms
  by (auto simp: branchRollback_def call_result_def Let_def send_message_def
      split: rm_outcome.splits rm_reply.splits)

subsection \<open>A future is stored late, and a call does not go back\<close>

definition stored_late :: "exchange \<Rightarrow> bool" where
  "stored_late x \<longleftrightarrow> (\<forall>n t. futures x n = Some t \<longrightarrow>
     t < length (requests x) \<and> rq_pc (requests x ! t) \<noteq> Offering \<and> rq_pc (requests x ! t) \<noteq> Handed)"

lemma act_call_later:
  assumes "act a x = Some x'" and "t < length (requests x)"
  shows "rq_pc (requests x' ! t) = rq_pc (requests x ! t) \<or>
    (case rq_pc (requests x ! t) of
       Offering \<Rightarrow> rq_pc (requests x' ! t) \<in> {Handed, Returned NotReady}
     | Handed \<Rightarrow> rq_pc (requests x' ! t) = Waiting
     | Waiting \<Rightarrow> rq_pc (requests x' ! t) \<in> {Expired, Woken}
     | Expired \<Rightarrow> rq_pc (requests x' ! t) = Returned NoReply
     | Woken \<Rightarrow> \<exists>r. rq_pc (requests x' ! t) = Returned (Replied r)
     | Returned out \<Rightarrow> False)"
  using assms
  by (cases a) (auto simp: act_simps
      split: if_splits option.splits prod.splits)

lemma act_stored_late:
  assumes "act a x = Some x'" and "stored_late x"
  shows "stored_late x'"
proof -
  have "t < length (requests x') \<and> rq_pc (requests x' ! t) \<noteq> Offering \<and> rq_pc (requests x' ! t) \<noteq> Handed"
    if f: "futures x' n = Some t" for n t
  proof (cases "futures x n = Some t")
    case True
    with assms(2) have t: "t < length (requests x)" "rq_pc (requests x ! t) \<noteq> Offering" "rq_pc (requests x ! t) \<noteq> Handed"
      by (auto simp: stored_late_def)
    with act_call_later [OF assms(1) t(1)] act_grows [OF assms(1)] show ?thesis
      by (auto simp: grows_def split: call_pc.splits)
  next
    case False
    with assms(1) f show ?thesis
      by (cases a) (auto simp: act_simps
          split: if_splits option.splits prod.splits)
  qed
  then show ?thesis by (simp add: stored_late_def)
qed

lemma reached_stored_late:
  assumes "runs act as new_exchange = Some x"
  shows "stored_late x"
  using assms
proof (rule runs_invariant)
  show "stored_late new_exchange" by (simp add: stored_late_def new_exchange_def)
qed (rule act_stored_late)

subsection \<open>A stream whose call has gone\<close>

text \<open>The call has left its second \<open>select\<close>, by the timer or by another stream's answer.\<close>

definition abandoned :: "exchange \<Rightarrow> nat \<Rightarrow> bool" where
  "abandoned x t \<longleftrightarrow> t < length (requests x) \<and>
     (case rq_pc (requests x ! t) of Expired \<Rightarrow> True | Woken \<Rightarrow> True | Returned out \<Rightarrow> True | _ \<Rightarrow> False)"

lemma act_abandoned:
  assumes "act a x = Some x'" and "abandoned x t"
  shows "abandoned x' t"
  using act_call_later [OF assms(1), of t] act_grows [OF assms(1)] assms(2)
  by (auto simp: abandoned_def grows_def split: call_pc.splits)

lemma act_stuck:
  assumes "act a x = Some x'" and "stream_at i (Signalling n t) x" and "abandoned x t"
  shows "stream_at i (Signalling n t) x' \<and> st_received (streams x' ! i) = st_received (streams x ! i) \<and>
    st_closed (streams x' ! i) = st_closed (streams x ! i)"
  using assms
  by (cases a) (auto simp: abandoned_def act_simps
      split: if_splits option.splits prod.splits)

lemma runs_stuck:
  assumes "runs act bs x = Some x'" and "stream_at i (Signalling n t) x" and "abandoned x t"
  shows "stream_at i (Signalling n t) x' \<and> st_received (streams x' ! i) = st_received (streams x ! i) \<and>
    st_closed (streams x' ! i) = st_closed (streams x ! i)"
proof -
  let ?P = "\<lambda>y. stream_at i (Signalling n t) y \<and> st_received (streams y ! i) = st_received (streams x ! i) \<and>
    st_closed (streams y ! i) = st_closed (streams x ! i)"
  have "?P x' \<and> abandoned x' t"
  proof (rule runs_invariant [OF assms(1)])
    show "?P x \<and> abandoned x t" using assms(2,3) by simp
    fix a y y'
    assume "?P y \<and> abandoned y t" and "act a y = Some y'"
    with act_stuck [of a y y' i n t] act_abandoned [of a y y' t] show "?P y' \<and> abandoned y' t" by metis
  qed
  then show ?thesis by simp
qed

subsection \<open>A response that came too early\<close>

text \<open>No response with the number is on its way through a stream.\<close>

definition no_response :: "int64 \<Rightarrow> exchange \<Rightarrow> bool" where
  "no_response n x \<longleftrightarrow> (\<forall>i < length (streams x). \<forall>r t.
     st_pc (streams x ! i) \<noteq> Got n r \<and> st_pc (streams x ! i) \<noteq> Found n t r \<and> st_pc (streams x ! i) \<noteq> Signalling n t)"

lemma act_no_response:
  assumes "act a x = Some x'" and "no_response n x"
    and "\<And>i msg. a = Receive i msg \<Longrightarrow> map_option fst (response_of msg) \<noteq> Some n"
  shows "no_response n x'"
  using assms
  by (cases a) (auto simp: no_response_def act_simps less_Suc_eq
      split: if_splits option.splits prod.splits)

text \<open>Then the call whose number it is cannot be woken.\<close>

lemma act_unanswered:
  assumes "act a x = Some x'" and "exchange_ok x" and "no_response n x" and "owns x t n"
    and "rq_pc (requests x ! t) \<in> {Handed, Waiting, Expired, Returned NoReply}"
  shows "rq_pc (requests x' ! t) \<in> {Handed, Waiting, Expired, Returned NoReply}"
proof -
  have t: "t < length (requests x')" "t < length (requests x)"
    using assms(4) grows_keeps(1) [OF act_grows [OF assms(1)] assms(4)] by (simp_all add: owns_def)
  have "st_pc (streams x ! i) \<noteq> Signalling m t" if "i < length (streams x)" for i m
    using assms(2-4) that by (auto simp: exchange_ok_def stream_ok_def no_response_def owns_def)
  with act_call_pc [OF assms(1) t(1)] act_call_later [OF assms(1) t(2)] assms(5) show ?thesis
    by (auto simp: stream_at_def split: call_pc.splits)
qed

end
