(* ===== verification/Exchange_Counts.thy ===== *)
theory Exchange_Counts
  imports Message_Exchange
begin

text \<open>
  The counts of \<open>activeApplications\<close>: when no other action comes between the load and the store of a
  count, the count of an address is the number of its open streams.
\<close>

text \<open>What a stream adds to the count of an address; a stream on its way in or out is not in it.\<close>

definition open_for :: "string \<Rightarrow> stream \<Rightarrow> bool" where
  "open_for a s \<longleftrightarrow> st_counted s \<and> st_addressing s = a \<and>
     (case st_pc s of Entered \<Rightarrow> False | Counting c \<Rightarrow> False | Left \<Rightarrow> False | _ \<Rightarrow> True)"

definition counts_for :: "string \<Rightarrow> stream \<Rightarrow> int" where
  "counts_for a s = (if open_for a s then 1 else 0)"

lemma counts_number: "sum_list (map (counts_for a) ss) = int (length (filter (open_for a) ss))"
  by (induction ss) (simp_all add: counts_for_def)

definition exact_counts :: "exchange \<Rightarrow> bool" where
  "exact_counts x \<longleftrightarrow> (\<forall>a. (case active x a of None \<Rightarrow> 0 | Some k \<Rightarrow> k) = sum_list (map (counts_for a) (streams x)))"

text \<open>Schedules in which a load is followed by its store at once.\<close>

fun serial :: "action list \<Rightarrow> bool" where
  "serial [] \<longleftrightarrow> True"
| "serial (Load_count i # as) \<longleftrightarrow> (case as of b # bs \<Rightarrow> b = Store_count i \<and> serial bs | [] \<Rightarrow> False)"
| "serial (Load_last_count i # as) \<longleftrightarrow> (case as of b # bs \<Rightarrow> b = Store_last_count i \<and> serial bs | [] \<Rightarrow> False)"
| "serial (Store_count i # as) \<longleftrightarrow> False"
| "serial (Store_last_count i # as) \<longleftrightarrow> False"
| "serial (a # as) \<longleftrightarrow> serial as"

lemma counts_update:
  assumes "i < length xs"
  shows "sum_list (map (counts_for a) (xs[i := s])) =
    sum_list (map (counts_for a) xs) + counts_for a s - counts_for a (xs ! i)"
  using assms by (induction xs arbitrary: i) (auto split: nat.splits)

lemma act_counts:
  assumes "act b x = Some x'"
    and "\<And>i. b \<noteq> Store_count i" and "\<And>i. b \<noteq> Store_last_count i"
  shows "active x' = active x \<and> sum_list (map (counts_for a) (streams x')) = sum_list (map (counts_for a) (streams x))"
  using assms
  by (cases b) (auto simp: act_simps counts_update counts_for_def open_for_def
      split: if_splits option.splits prod.splits)

lemma count_in:
  assumes "runs act [Load_count i, Store_count i] x = Some x'"
  shows "i < length (streams x) \<and> st_pc (streams x ! i) = Entered \<and>
    active x' = (active x)(st_addressing (streams x ! i) \<mapsto>
      (case active x (st_addressing (streams x ! i)) of None \<Rightarrow> 0 | Some k \<Rightarrow> k) + 1) \<and>
    (\<exists>s. streams x' = (streams x)[i := s] \<and> st_pc s = Listening \<and> st_addressing s = st_addressing (streams x ! i) \<and>
       st_counted s = st_counted (streams x ! i))"
  using assms
  by (auto simp: load_count_def store_count_def state_defs split: if_splits option.splits)

lemma count_out:
  assumes "runs act [Load_last_count i, Store_last_count i] x = Some x'"
  shows "i < length (streams x) \<and> st_pc (streams x ! i) = Leaving \<and>
    active x' = (active x)(st_addressing (streams x ! i) \<mapsto>
      (case active x (st_addressing (streams x ! i)) of None \<Rightarrow> 0 | Some k \<Rightarrow> k) - 1) \<and>
    (\<exists>s. streams x' = (streams x)[i := s] \<and> st_pc s = Left \<and> st_addressing s = st_addressing (streams x ! i) \<and>
       st_counted s = st_counted (streams x ! i))"
  using assms
  by (auto simp: load_last_count_def store_last_count_def state_defs intro!: exI [where P = "\<lambda>s. _ = (streams x)[i := s] \<and> _ s"]
      split: if_splits option.splits)

text \<open>Only a counted stream passes through the steps of counting.\<close>

fun counting :: "stream_pc \<Rightarrow> bool" where
  "counting Entered \<longleftrightarrow> True"
| "counting (Counting c) \<longleftrightarrow> True"
| "counting Leaving \<longleftrightarrow> True"
| "counting (Uncounting k) \<longleftrightarrow> True"
| "counting _ \<longleftrightarrow> False"

definition counting_ok :: "exchange \<Rightarrow> bool" where
  "counting_ok x \<longleftrightarrow> (\<forall>i < length (streams x). counting (st_pc (streams x ! i)) \<longrightarrow> st_counted (streams x ! i))"

lemma act_counting:
  assumes "act a x = Some x'" and "i < length (streams x')" and "counting (st_pc (streams x' ! i))"
  shows "i < length (streams x) \<and> counting (st_pc (streams x ! i)) \<or> st_counted (streams x' ! i)"
  using assms
  by (cases a) (auto simp: act_simps less_Suc_eq split: if_splits option.splits prod.splits)

lemma act_counting_ok:
  assumes "act a x = Some x'" and "counting_ok x"
  shows "counting_ok x'"
  using act_counting [OF assms(1)] act_grows [OF assms(1)] assms(2) by (fastforce simp: counting_ok_def grows_def)

lemma serial_step:
  assumes "runs act (b # as) x = Some x'" and "\<And>i. b \<noteq> Store_count i" and "\<And>i. b \<noteq> Store_last_count i"
    and "counting_ok x" and "exact_counts x"
    and "\<And>y. runs act as y = Some x' \<Longrightarrow> counting_ok y \<Longrightarrow> exact_counts y \<Longrightarrow> exact_counts x'"
  shows "exact_counts x'"
proof -
  obtain y where y: "act b x = Some y" "runs act as y = Some x'"
    using assms(1) by (auto simp del: act.simps split: option.splits)
  have "exact_counts y" using act_counts [OF y(1) assms(2,3)] assms(5) by (simp add: exact_counts_def)
  with act_counting_ok [OF y(1) assms(4)] y(2) show ?thesis using assms(6) by blast
qed

lemma exact_counts_serial:
  assumes "runs act as x = Some x'" and "serial as" and "counting_ok x" and "exact_counts x"
  shows "exact_counts x'"
  using assms
proof (induction as arbitrary: x rule: serial.induct)
  case (2 i as)
  then obtain bs where as: "as = Store_count i # bs" "serial bs" by (auto split: list.splits)
  with "2.prems"(1) obtain y where y: "runs act [Load_count i, Store_count i] x = Some y" "runs act bs y = Some x'"
    by (auto simp del: act.simps split: option.splits)
  have ok: "counting_ok y" using y(1) "2.prems"(3) by (rule runs_invariant) (rule act_counting_ok)
  from count_in [OF y(1)] obtain s where i: "i < length (streams x)" "st_pc (streams x ! i) = Entered"
    and s: "streams y = (streams x)[i := s]" "st_pc s = Listening" "st_addressing s = st_addressing (streams x ! i)"
      "st_counted s = st_counted (streams x ! i)"
    and a: "active y = (active x)(st_addressing (streams x ! i) \<mapsto>
      (case active x (st_addressing (streams x ! i)) of None \<Rightarrow> 0 | Some k \<Rightarrow> k) + 1)" by blast
  have "st_counted (streams x ! i)" using "2.prems"(3) i by (simp add: counting_ok_def)
  then have "exact_counts y" using "2.prems"(4) i s a by (auto simp: exact_counts_def counts_update counts_for_def open_for_def)
  with "2.IH" [OF as(1) y(2) as(2) ok] as(2) show ?case by simp
next
  case (3 i as)
  then obtain bs where as: "as = Store_last_count i # bs" "serial bs" by (auto split: list.splits)
  with "3.prems"(1) obtain y where y: "runs act [Load_last_count i, Store_last_count i] x = Some y" "runs act bs y = Some x'"
    by (auto simp del: act.simps split: option.splits)
  have ok: "counting_ok y" using y(1) "3.prems"(3) by (rule runs_invariant) (rule act_counting_ok)
  from count_out [OF y(1)] obtain s where i: "i < length (streams x)" "st_pc (streams x ! i) = Leaving"
    and s: "streams y = (streams x)[i := s]" "st_pc s = Left" "st_addressing s = st_addressing (streams x ! i)"
      "st_counted s = st_counted (streams x ! i)"
    and a: "active y = (active x)(st_addressing (streams x ! i) \<mapsto>
      (case active x (st_addressing (streams x ! i)) of None \<Rightarrow> 0 | Some k \<Rightarrow> k) - 1)" by blast
  have "st_counted (streams x ! i)" using "3.prems"(3) i by (simp add: counting_ok_def)
  then have "exact_counts y" using "3.prems"(4) i s a by (auto simp: exact_counts_def counts_update counts_for_def open_for_def)
  with "3.IH" [OF as(1) y(2) as(2) ok] as(2) show ?case by simp
qed (simp, simp, simp, (erule serial_step; simp)+)

lemma new_counts: "counting_ok new_exchange" "exact_counts new_exchange"
  by (simp_all add: counting_ok_def exact_counts_def new_exchange_def)

end
