(* ===== verification/Root_Context.thy ===== *)
theory Root_Context
  imports Apis Go_Strings
begin

text \<open>
  The client's transaction context and errors: \<open>RootContext\<close> of
  \<open>pkg/client/base/context/root_context.go\<close>, a Go context with a map of its own beside it, and
  \<open>TransactionException\<close> of \<open>pkg/client/base/exception\<close>. A context is mutated through a pointer;
  the operations return it updated.
\<close>

subsection \<open>The context\<close>

text \<open>A value of type \<open>interface{}\<close>: a string, or something else.\<close>

datatype anyval = AnyStr string | AnyOther nat

definition KeyXID :: string where "KeyXID = ''TX_XID''"
definition KeyXIDInterceptorType :: string where "KeyXIDInterceptorType = ''tx-xid-interceptor-type''"
definition KeyGlobalLockFlag :: string where "KeyGlobalLockFlag = ''TX_LOCK''"

lemmas context_keys = KeyXID_def KeyXIDInterceptorType_def KeyGlobalLockFlag_def

text \<open>Of the embedded \<open>context.Context\<close> only \<open>Value(KeyXID)\<close> matters; \<open>None\<close> is nil.\<close>

record RootContext =
  ctx_Value :: "anyval option"
  localMap :: "string \<rightharpoonup> anyval"

definition ctx_Set :: "string \<Rightarrow> anyval \<Rightarrow> RootContext \<Rightarrow> RootContext" where
  "ctx_Set key value c = c\<lparr>localMap := (localMap c)(key \<mapsto> value)\<rparr>"

definition ctx_Get :: "string \<Rightarrow> RootContext \<Rightarrow> anyval option" where
  "ctx_Get key c = localMap c key"

definition Bind :: "string \<Rightarrow> RootContext \<Rightarrow> RootContext" where
  "Bind xid c = ctx_Set KeyXID (AnyStr xid) c"

text \<open>The type assertion on the value of the parent context panics on anything but a string.\<close>

definition NewRootContext :: "anyval option \<Rightarrow> RootContext option" where
  "NewRootContext value =
     (let rootCtx = \<lparr>ctx_Value = value, localMap = Map.empty\<rparr>
      in case value of
           None \<Rightarrow> Some rootCtx
         | Some (AnyStr xid) \<Rightarrow> Some (Bind xid rootCtx)
         | Some (AnyOther n) \<Rightarrow> None)"

text \<open>\<open>x, ok := v.(string)\<close>, with the zero string when \<open>ok\<close> is false.\<close>

fun as_str :: "anyval option \<Rightarrow> string" where
  "as_str (Some (AnyStr s)) = s" | "as_str _ = []"

definition GetXID :: "RootContext \<Rightarrow> string" where
  "GetXID c =
     (let xid = as_str (localMap c KeyXID)
      in if xid \<noteq> [] then xid
         else let xidType = as_str (localMap c KeyXIDInterceptorType)
              in if xidType \<noteq> [] \<and> CHR ''_'' \<in> set xidType then hd (Split xidType (CHR ''_'')) else [])"

definition GetXIDInterceptorType :: "RootContext \<Rightarrow> string" where
  "GetXIDInterceptorType c = as_str (localMap c KeyXIDInterceptorType)"

definition BindInterceptorTypeWithBranchType :: "string \<Rightarrow> BranchType \<Rightarrow> RootContext \<Rightarrow> RootContext" where
  "BindInterceptorTypeWithBranchType xid branchType c =
     ctx_Set KeyXIDInterceptorType (AnyStr (xid @ ''_'' @ BranchType_name branchType)) c"

definition BindInterceptorType :: "string \<Rightarrow> RootContext \<Rightarrow> RootContext" where
  "BindInterceptorType xidType c =
     (if xidType \<noteq> [] then
        let xidTypes = Split xidType (CHR ''_'')
        in if length xidTypes = 2
           then BindInterceptorTypeWithBranchType (xidTypes ! 0) (BranchType_value (xidTypes ! 1)) c
           else c
      else c)"

definition BindGlobalLockFlag :: "RootContext \<Rightarrow> RootContext" where
  "BindGlobalLockFlag c = ctx_Set KeyGlobalLockFlag (AnyStr KeyGlobalLockFlag) c"

definition ctx_delete :: "string \<Rightarrow> RootContext \<Rightarrow> RootContext" where
  "ctx_delete key c = c\<lparr>localMap := (localMap c)(key := None)\<rparr>"

definition Unbind :: "RootContext \<Rightarrow> string \<times> RootContext" where
  "Unbind c =
     (let xid = as_str (localMap c KeyXID) in if xid \<noteq> [] then (xid, ctx_delete KeyXID c) else ([], c))"

definition UnbindInterceptorType :: "RootContext \<Rightarrow> string \<times> RootContext" where
  "UnbindInterceptorType c =
     (let xt = as_str (localMap c KeyXIDInterceptorType)
      in if xt \<noteq> [] then (xt, ctx_delete KeyXIDInterceptorType c) else ([], c))"

definition UnbindGlobalLockFlag :: "RootContext \<Rightarrow> RootContext" where
  "UnbindGlobalLockFlag c = ctx_delete KeyGlobalLockFlag c"

definition InGlobalTransaction :: "RootContext \<Rightarrow> bool" where
  "InGlobalTransaction c \<longleftrightarrow> localMap c KeyXID \<noteq> None"

definition RequireGlobalLock :: "RootContext \<Rightarrow> bool" where
  "RequireGlobalLock c \<longleftrightarrow> localMap c KeyGlobalLockFlag \<noteq> None"

subsection \<open>What the operations do to each other\<close>

lemma keys_distinct [simp]:
  "KeyXID \<noteq> KeyXIDInterceptorType" "KeyXIDInterceptorType \<noteq> KeyXID"
  "KeyXID \<noteq> KeyGlobalLockFlag" "KeyGlobalLockFlag \<noteq> KeyXID"
  "KeyGlobalLockFlag \<noteq> KeyXIDInterceptorType" "KeyXIDInterceptorType \<noteq> KeyGlobalLockFlag"
  by (simp_all add: context_keys)

lemma GetXID_Bind [simp]: "xid \<noteq> [] \<Longrightarrow> GetXID (Bind xid c) = xid"
  by (simp add: GetXID_def Bind_def ctx_Set_def)

lemma InGlobal_Bind [simp]: "InGlobalTransaction (Bind xid c)"
  by (simp add: InGlobalTransaction_def Bind_def ctx_Set_def)

lemma ctx_Value_simps [simp]:
  "ctx_Value (ctx_Set k v c) = ctx_Value c" "ctx_Value (Bind xid c) = ctx_Value c"
  "ctx_Value (ctx_delete k c) = ctx_Value c" "ctx_Value (snd (Unbind c)) = ctx_Value c"
  by (simp_all add: ctx_Set_def Bind_def ctx_delete_def Unbind_def Let_def)

text \<open>A context of the usual kind: the XID is bound as a string, and the interceptor type is not set.\<close>

definition bound :: "string \<Rightarrow> RootContext \<Rightarrow> bool" where
  "bound xid c \<longleftrightarrow> localMap c KeyXID = Some (AnyStr xid) \<and> xid \<noteq> [] \<and> localMap c KeyXIDInterceptorType = None"

lemma bound_simps:
  assumes "bound xid c"
  shows "GetXID c = xid" and "InGlobalTransaction c" and "xid \<noteq> []" and "fst (Unbind c) = xid"
    and "GetXID (snd (Unbind c)) = []" and "\<not> InGlobalTransaction (snd (Unbind c))"
    and "Bind xid (snd (Unbind c)) = c"
  using assms
  by (simp_all add: bound_def GetXID_def InGlobalTransaction_def Unbind_def ctx_delete_def Bind_def ctx_Set_def Let_def
      fun_upd_idem)

text \<open>The interceptor type carries the XID as long as that has no underscore.\<close>

lemma interceptor_roundtrip:
  assumes "localMap c KeyXID = None"
  shows "GetXID (BindInterceptorTypeWithBranchType xid t c) = xid \<longleftrightarrow> CHR ''_'' \<notin> set xid"
proof -
  have s: "GetXID (BindInterceptorTypeWithBranchType xid t c) = hd (Split (xid @ CHR ''_'' # BranchType_name t) (CHR ''_''))"
    using assms by (simp add: GetXID_def BindInterceptorTypeWithBranchType_def ctx_Set_def Let_def)
  show ?thesis
  proof
    assume "GetXID (BindInterceptorTypeWithBranchType xid t c) = xid"
    moreover have "hd (Split s (CHR ''_'')) \<in> set (Split s (CHR ''_''))" for s by simp
    ultimately show "CHR ''_'' \<notin> set xid" using Split_parts_free s by metis
  next
    assume "CHR ''_'' \<notin> set xid"
    then show "GetXID (BindInterceptorTypeWithBranchType xid t c) = xid" by (simp add: s Split_append)
  qed
qed

subsection \<open>Errors\<close>

text \<open>The errors the client handles: one of the gRPC call, a new one, a \<open>TransactionException\<close>, and
  one with a stack trace attached by \<open>errors.WithStack\<close>.\<close>

datatype clienterror =
    RpcError goerror
  | NewError string
  | TransactionException ExceptionCode string "clienterror option"
  | WithStack clienterror

text \<open>\<open>Error()\<close>, with the text of a gRPC error as a parameter.\<close>

fun error_text :: "(goerror \<Rightarrow> string) \<Rightarrow> clienterror \<Rightarrow> string" where
  "error_text rpc_text (RpcError e) = rpc_text e"
| "error_text rpc_text (NewError s) = s"
| "error_text rpc_text (TransactionException code msg e) = ''TransactionException: '' @ msg"
| "error_text rpc_text (WithStack e) = error_text rpc_text e"

text \<open>\<open>errors.As\<close> for a \<open>TransactionException\<close>: the first one along the chain of \<open>Unwrap\<close>.\<close>

fun as_exception :: "clienterror \<Rightarrow> clienterror option" where
  "as_exception (TransactionException code msg e) = Some (TransactionException code msg e)"
| "as_exception (WithStack e) = as_exception e"
| "as_exception _ = None"

datatype TransactionExceptionOption = WithExceptionCode ExceptionCode | WithMessage string

fun apply_option :: "TransactionExceptionOption \<Rightarrow> clienterror \<Rightarrow> clienterror" where
  "apply_option (WithExceptionCode c) (TransactionException code msg e) = TransactionException c msg e"
| "apply_option (WithMessage m) (TransactionException code msg e) = TransactionException code m e"
| "apply_option op e = e"

definition NewTransactionException ::
    "(goerror \<Rightarrow> string) \<Rightarrow> clienterror \<Rightarrow> TransactionExceptionOption list \<Rightarrow> clienterror" where
  "NewTransactionException rpc_text err opts =
     (case as_exception err of
        Some ex \<Rightarrow> ex
      | None \<Rightarrow> fold apply_option opts (TransactionException UnknownErr (error_text rpc_text err) (Some err)))"

lemma as_exception_is: "as_exception e = Some x \<Longrightarrow> \<exists>c m u. x = TransactionException c m u"
  by (induction e) auto

text \<open>The result is always an exception; one found along the chain is kept and the options ignored.\<close>

lemma NewTransactionException_exception: "\<exists>c m u. NewTransactionException rpc_text err opts = TransactionException c m u"
proof (cases "as_exception err")
  case None
  have "\<exists>c' m' u'. fold apply_option opts (TransactionException c m u) = TransactionException c' m' u'" for c m u
  proof (induction opts arbitrary: c m u)
    case (Cons op opts)
    then show ?case by (cases op) auto
  qed simp
  with None show ?thesis by (simp add: NewTransactionException_def)
qed (auto simp: NewTransactionException_def dest: as_exception_is)

lemma NewTransactionException_idem:
  "NewTransactionException f (NewTransactionException f err opts) opts' = NewTransactionException f err opts"
  using NewTransactionException_exception [of f err opts] by (auto simp: NewTransactionException_def)

end
