(* ===== verification/Proxy_Service.thy ===== *)
theory Proxy_Service
  imports Prelude Root_Context
begin

text \<open>
  \<open>pkg/client/proxy/service.go\<close>: the methods of a service as descriptors, the registry of the
  descriptors, and the call of a method through its descriptor. What the code reads of
  \<open>reflect\<close> is modelled: the text, the kind, the name and the package of a type, and \<open>Func.Call\<close>
  with its panic when the number of arguments is not the method's. Methods take a fixed number
  of arguments, and a call is made with arguments of the declared types. \<open>'v\<close> is the type of
  the values, \<open>'s\<close> that of the world a method runs in.
\<close>

subsection \<open>Types and methods\<close>

text \<open>A named type with its package path, package and name; the flag of an interface type tells
  that it has no method; a built-in type has no path and no package.\<close>

datatype gotype =
    Named string string string
  | Iface string string string bool
  | Ptr gotype

definition with_package :: "string \<Rightarrow> string \<Rightarrow> string" where
  "with_package pkg name = (if pkg = [] then name else pkg @ ''.'' @ name)"

fun type_String :: "gotype \<Rightarrow> string" where
  "type_String (Named path pkg name) = with_package pkg name"
| "type_String (Iface path pkg name bare) = with_package pkg name"
| "type_String (Ptr t) = CHR ''*'' # type_String t"

definition ContextType :: gotype where
  "ContextType = Iface ''context'' ''context'' ''Context'' False"

datatype 'r outcome = Return 'r | Panicked

text \<open>A result of a call: a value, or the value of an \<open>error\<close>.\<close>

datatype 'v retval = RVal 'v | RErr "clienterror option"

text \<open>What a method receives: the root context (nil for \<open>CtxNil\<close>), a value, or a pointer to a new value.\<close>

datatype 'v goval = CtxRoot | CtxNil | Value 'v | New gotype

record ('v, 's) gomethod =
  gm_Name :: string
  gm_PkgPath :: string
  gm_In :: "gotype list"
  gm_Out :: "gotype list"
  gm_Func :: "nat \<Rightarrow> 'v goval list \<Rightarrow> 's \<Rightarrow> 'v retval list outcome \<times> 's"

text \<open>A service is a receiver, numbered, with the name of its type and its methods.\<close>

record ('v, 's) service =
  svc_TypeName :: string
  svc_Value :: nat
  svc_MethodByName :: "string \<Rightarrow> ('v, 's) gomethod option"

subsection \<open>Descriptors\<close>

record ('v, 's) MethodDescriptor =
  md_Method :: "('v, 's) gomethod"
  md_CallerValue :: nat
  md_CtxType :: "gotype option"
  md_ArgsType :: "gotype list"
  md_ArgsNum :: nat
  md_ReturnValuesType :: "gotype list"
  md_ReturnValuesNum :: nat

text \<open>\<open>unicode.IsUpper\<close> of the first rune, for ASCII.\<close>

definition isExported :: "string \<Rightarrow> bool" where
  "isExported name = (case name of [] \<Rightarrow> False | c # cs \<Rightarrow> of_char CHR ''A'' \<le> (of_char c :: nat) \<and> of_char c \<le> (of_char CHR ''Z'' :: nat))"

fun isExportedOrBuiltinType :: "gotype \<Rightarrow> bool" where
  "isExportedOrBuiltinType (Ptr t) = isExportedOrBuiltinType t"
| "isExportedOrBuiltinType (Named path pkg name) = (isExported name \<or> path = [])"
| "isExportedOrBuiltinType (Iface path pkg name bare) = (isExported name \<or> path = [])"

definition is_ctx :: "gotype \<Rightarrow> bool" where
  "is_ctx t \<longleftrightarrow> type_String t = ''context.Context''"

definition describeMethod :: "('v, 's) gomethod \<Rightarrow> ('v, 's) MethodDescriptor option" where
  "describeMethod method =
     (if gm_PkgPath method \<noteq> [] then None
      else if \<not> list_all isExportedOrBuiltinType (gm_In method) then None
      else Some
        \<lparr>md_Method = method, md_CallerValue = 0,
         md_CtxType = (case filter is_ctx (gm_In method) of [] \<Rightarrow> None | ts \<Rightarrow> Some (last ts)),
         md_ArgsType = gm_In method, md_ArgsNum = length (gm_In method) + 1,
         md_ReturnValuesType = gm_Out method, md_ReturnValuesNum = length (gm_Out method)\<rparr>)"

text \<open>The registry: for the name of a service's type, its methods described so far.\<close>

type_synonym ('v, 's) registry = "string \<Rightarrow> (string \<Rightarrow> ('v, 's) MethodDescriptor option) option"

definition Register ::
    "('v, 's) service \<Rightarrow> string \<Rightarrow> ('v, 's) registry \<Rightarrow> ('v, 's) MethodDescriptor option \<times> ('v, 's) registry" where
  "Register service methodName serviceDescriptorMap =
     (let svcName = svc_TypeName service;
          methods = (case serviceDescriptorMap svcName of Some ms \<Rightarrow> ms | None \<Rightarrow> Map.empty);
          services = serviceDescriptorMap(svcName \<mapsto> methods)
      in case methods methodName of
           Some methodDescriptor \<Rightarrow> (Some methodDescriptor, services)
         | None \<Rightarrow>
             (case svc_MethodByName service methodName of
                None \<Rightarrow> (None, services)
              | Some method \<Rightarrow>
                  (case describeMethod method of
                     None \<Rightarrow> (None, services)
                   | Some descriptor \<Rightarrow>
                       (let methodDescriptor = descriptor\<lparr>md_CallerValue := svc_Value service\<rparr>
                        in (Some methodDescriptor,
                            services(svcName \<mapsto> methods(methodName \<mapsto> methodDescriptor)))))))"

subsection \<open>Calls\<close>

text \<open>An argument as the caller passed it: a context, its \<open>Value(KeyXID)\<close> or nil, a nil interface,
  or any other value.\<close>

datatype 'v goarg = CtxArg "anyval option option" | NilArg | Arg 'v

text \<open>The argument a method receives, \<open>None\<close> where \<open>Func.Call\<close> panics: a nil interface of a type with
  methods is replaced by a pointer, which does not have them. \<open>root\<close> tells whether \<open>ctx\<close> is not nil.\<close>

definition call_arg :: "bool \<Rightarrow> gotype \<Rightarrow> 'v goarg \<Rightarrow> 'v goval option" where
  "call_arg root t arg =
     (if is_ctx t then Some (if root then CtxRoot else CtxNil)
      else case arg of
        Arg v \<Rightarrow> Some (Value v)
      | CtxArg c \<Rightarrow> None
      | NilArg \<Rightarrow>
          (case t of
             Iface path pkg name bare \<Rightarrow> if bare then Some (New t) else None
           | Ptr at \<Rightarrow> Some (New at)
           | Named path pkg name \<Rightarrow> None))"

definition Invoke ::
    "('v, 's) MethodDescriptor \<Rightarrow> bool \<Rightarrow> 'v goarg list \<Rightarrow> 's \<Rightarrow> 'v retval list outcome \<times> 's" where
  "Invoke methodDesc root args s =
     (if length args \<noteq> length (md_ArgsType methodDesc) then (Panicked, s)
      else case those (map2 (call_arg root) (md_ArgsType methodDesc) args) of
        None \<Rightarrow> (Panicked, s)
      | Some in_ \<Rightarrow> gm_Func (md_Method methodDesc) (md_CallerValue methodDesc) in_ s)"

text \<open>\<open>zero\<close> is \<open>reflect.Zero\<close>.\<close>

definition ReturnWithError ::
    "(gotype \<Rightarrow> 'v) \<Rightarrow> ('v, 's) MethodDescriptor \<Rightarrow> clienterror \<Rightarrow> 'v retval list" where
  "ReturnWithError zero methodDesc err =
     map (\<lambda>t. RVal (zero t)) (take (md_ReturnValuesNum methodDesc - 1) (md_ReturnValuesType methodDesc)) @
     [RErr (Some err)]"

text \<open>\<open>errValue := returnValues[len(returnValues)-1]\<close> and the test whether it is an error: \<open>None\<close> for
  the panic of an empty list and of a value that is not an error.\<close>

definition error_value :: "'v retval list \<Rightarrow> clienterror option option" where
  "error_value returnValues =
     (if returnValues = [] then None
      else case last returnValues of RVal v \<Rightarrow> None | RErr e \<Rightarrow> Some e)"

lemma error_value_ReturnWithError [simp]: "error_value (ReturnWithError zero md err) = Some (Some err)"
  by (simp add: error_value_def ReturnWithError_def)

subsection \<open>The registry\<close>

text \<open>A registration is kept: registering again yields the same descriptor and changes nothing.\<close>

lemma Register_again:
  assumes "Register service name m = (Some d, m')"
  shows "Register service name m' = (Some d, m')"
  using assms by (auto simp: Register_def Let_def fun_upd_idem split: option.splits)

lemma Register_other:
  assumes "Register service name m = (r, m')" and "svc \<noteq> svc_TypeName service"
  shows "m' svc = m svc"
  using assms by (auto simp: Register_def Let_def split: option.splits)

text \<open>What describes a method of the service itself.\<close>

definition describes :: "('v, 's) MethodDescriptor \<Rightarrow> ('v, 's) service \<Rightarrow> string \<Rightarrow> bool" where
  "describes d service name \<longleftrightarrow>
     (\<exists>m. svc_MethodByName service name = Some m \<and> md_Method d = m \<and> md_CallerValue d = svc_Value service \<and>
       md_ArgsType d = gm_In m \<and> md_ArgsNum d = length (gm_In m) + 1 \<and>
       md_ReturnValuesType d = gm_Out m \<and> md_ReturnValuesNum d = length (gm_Out m))"

lemma Register_fresh:
  assumes "Register service name m = (Some d, m')" and "m (svc_TypeName service) = None"
  shows "describes d service name"
  using assms
  by (auto simp: Register_def Let_def describes_def describeMethod_def split: option.splits if_splits)

lemma Register_shared:
  assumes "Register service name m = (Some d, m')" and "svc_TypeName other = svc_TypeName service"
  shows "Register other name m' = (Some d, m')"
  using Register_again [OF assms(1)] assms by (auto simp: Register_def Let_def fun_upd_idem split: option.splits)

lemma Invoke_arity:
  "length args \<noteq> length (md_ArgsType md) \<Longrightarrow> Invoke md root args s = (Panicked, s)"
  by (simp add: Invoke_def)

end
