(* ===== verification/Rm_Client.thy ===== *)
theory Rm_Client
  imports Proxy_Service "HOL-Library.Sublist"
begin

text \<open>
  \<open>pkg/client/rm/resource_manager.go\<close>: the calls of a resource manager to the coordinator, the
  dispatch of a branch request to the manager of its branch type, and the loop that answers the
  messages of the coordinator. The payloads of the messages are kept as values, so decoding them
  does not fail. \<open>RegisterResource\<close> works on the state of the manager it is passed on to.
\<close>

subsection \<open>Calls to the coordinator\<close>

record 's rm_rpc =
  rpc_BranchRegister :: "BranchRegisterRequest \<Rightarrow> 's \<Rightarrow> (goerror + BranchRegisterResponse) \<times> 's"
  rpc_BranchReport :: "BranchReportRequest \<Rightarrow> 's \<Rightarrow> (goerror + BranchReportResponse) \<times> 's"
  rpc_LockQuery :: "GlobalLockQueryRequest \<Rightarrow> 's \<Rightarrow> (goerror + GlobalLockQueryResponse) \<times> 's"

text \<open>\<open>ResourceManagerInterface\<close>, the two operations that requests reach. A panic is an outcome.\<close>

type_synonym 's branch_handler = "BranchRequest \<Rightarrow> 's \<Rightarrow> (clienterror + BranchResponse) outcome \<times> 's"

record 's ResourceManagerInterface =
  rmi_BranchCommit :: "'s branch_handler"
  rmi_BranchRollback :: "'s branch_handler"

record 's ResourceManager =
  rm_addressing :: string
  rm_rpcClient :: "'s rm_rpc"
  managers :: "BranchType \<Rightarrow> 's ResourceManagerInterface option"

definition InitResourceManager :: "string \<Rightarrow> 's rm_rpc \<Rightarrow> 's ResourceManager" where
  "InitResourceManager addressing client =
     \<lparr>rm_addressing = addressing, rm_rpcClient = client, managers = Map.empty\<rparr>"

definition RegisterTransactionServiceServer ::
    "BranchType \<Rightarrow> 's ResourceManagerInterface \<Rightarrow> 's ResourceManager \<Rightarrow> 's ResourceManager" where
  "RegisterTransactionServiceServer t rm manager = manager\<lparr>managers := (managers manager)(t \<mapsto> rm)\<rparr>"

definition rm_BranchRegister ::
    "'s ResourceManager \<Rightarrow> string \<Rightarrow> string \<Rightarrow> BranchType \<Rightarrow> string option \<Rightarrow> string \<Rightarrow> bool \<Rightarrow> 's \<Rightarrow>
     (clienterror + int64) \<times> 's" where
  "rm_BranchRegister manager xid resourceID branchType applicationData lockKeys asyncCommit s =
     (case rpc_BranchRegister (rm_rpcClient manager)
             \<lparr>brq_Addressing = rm_addressing manager, brq_XID = xid, brq_ResourceID = resourceID,
              brq_LockKey = lockKeys, brq_BranchType = branchType, brq_ApplicationData = applicationData,
              brq_AsyncCommit = asyncCommit\<rparr> s of
        (Inl err, s1) \<Rightarrow> (Inl (RpcError err), s1)
      | (Inr resp, s1) \<Rightarrow>
          (if brp_ResultCode resp = ResultCodeSuccess then (Inr (brp_BranchID resp), s1)
           else (Inl (TransactionException (brp_ExceptionCode resp) (brp_Message resp) None), s1)))"

definition rm_BranchReport ::
    "'s ResourceManager \<Rightarrow> string \<Rightarrow> int64 \<Rightarrow> BranchType \<Rightarrow> BranchStatus \<Rightarrow> string option \<Rightarrow> 's \<Rightarrow>
     clienterror option \<times> 's" where
  "rm_BranchReport manager xid branchID branchType status applicationData s =
     (case rpc_BranchReport (rm_rpcClient manager)
             \<lparr>btq_XID = xid, btq_BranchID = branchID, btq_ResourceID = [], btq_BranchType = branchType,
              btq_BranchStatus = status, btq_ApplicationData = applicationData\<rparr> s of
        (Inl err, s1) \<Rightarrow> (Some (RpcError err), s1)
      | (Inr resp, s1) \<Rightarrow>
          (if btp_ResultCode resp = ResultCodeFailed
           then (Some (TransactionException (btp_ExceptionCode resp) (btp_Message resp) None), s1)
           else (None, s1)))"

definition rm_LockQuery ::
    "'s ResourceManager \<Rightarrow> string \<Rightarrow> string \<Rightarrow> BranchType \<Rightarrow> string \<Rightarrow> 's \<Rightarrow> (clienterror + bool) \<times> 's" where
  "rm_LockQuery manager xid resourceID branchType lockKeys s =
     (case rpc_LockQuery (rm_rpcClient manager)
             \<lparr>glq_XID = xid, glq_ResourceID = resourceID, glq_LockKey = lockKeys, glq_BranchType = branchType\<rparr> s of
        (Inl err, s1) \<Rightarrow> (Inl (RpcError err), s1)
      | (Inr resp, s1) \<Rightarrow>
          (if glp_ResultCode resp = ResultCodeSuccess then (Inr (glp_Lockable resp), s1)
           else (Inl (TransactionException (glp_ExceptionCode resp) (glp_Message resp) None), s1)))"

subsection \<open>Requests of the coordinator\<close>

text \<open>A response that only tells of a failure.\<close>

definition branch_failed :: "string \<Rightarrow> BranchResponse" where
  "branch_failed msg =
     \<lparr>bp_ResultCode = ResultCodeFailed, bp_ExceptionCode = UnknownErr, bp_Message = msg, bp_XID = [],
      bp_BranchID = 0, bp_BranchStatus = UnknownBranchStatus\<rparr>"

definition no_manager :: "BranchType \<Rightarrow> BranchResponse" where
  "no_manager t = branch_failed (''there is no resource manager for '' @ BranchType_name t)"

definition rm_BranchCommit :: "'s ResourceManager \<Rightarrow> 's branch_handler" where
  "rm_BranchCommit manager request s =
     (case managers manager (bq_BranchType request) of
        Some rm \<Rightarrow> rmi_BranchCommit rm request s
      | None \<Rightarrow> (Return (Inr (no_manager (bq_BranchType request))), s))"

definition rm_BranchRollback :: "'s ResourceManager \<Rightarrow> 's branch_handler" where
  "rm_BranchRollback manager request s =
     (case managers manager (bq_BranchType request) of
        Some rm \<Rightarrow> rmi_BranchRollback rm request s
      | None \<Rightarrow> (Return (Inr (no_manager (bq_BranchType request))), s))"

text \<open>One message of the stream: the answer sent back, \<open>None\<close> when none is. Messages of other types
  are dropped.\<close>

record answer =
  an_ID :: int64
  an_Type :: BranchMessageType
  an_Message :: BranchResponse

definition answer_with ::
    "int64 \<Rightarrow> BranchMessageType \<Rightarrow> (clienterror + BranchResponse) outcome \<times> 's \<Rightarrow> answer option outcome \<times> 's" where
  "answer_with n t p =
     (case p of
        (Panicked, s) \<Rightarrow> (Panicked, s)
      | (Return (Inl err), s) \<Rightarrow> (Return None, s)
      | (Return (Inr response), s) \<Rightarrow>
          (Return (Some \<lparr>an_ID = n, an_Type = t, an_Message = response\<rparr>), s))"

definition handle_message :: "'s ResourceManager \<Rightarrow> BranchMessage \<Rightarrow> 's \<Rightarrow> answer option outcome \<times> 's" where
  "handle_message manager msg s =
     (case bm_BranchMessageType msg of
        TypeBranchCommit \<Rightarrow>
          answer_with (bm_ID msg) TypeBranchCommitResult (rm_BranchCommit manager (bm_Message msg) s)
      | TypeBranchRollback \<Rightarrow>
          answer_with (bm_ID msg) TypeBranchRollBackResult (rm_BranchRollback manager (bm_Message msg) s)
      | _ \<Rightarrow> (Return None, s))"

text \<open>\<open>branchCommunicate\<close> over the messages that arrive, with the answers it sends and whether its
  goroutine is still there: \<open>GoWithRecover\<close> ends it after a panic, and nothing starts it again.\<close>

fun branchCommunicate :: "'s ResourceManager \<Rightarrow> BranchMessage list \<Rightarrow> 's \<Rightarrow> (answer list \<times> bool) \<times> 's" where
  "branchCommunicate manager [] s = (([], True), s)"
| "branchCommunicate manager (msg # msgs) s =
     (case handle_message manager msg s of
        (Panicked, s1) \<Rightarrow> (([], False), s1)
      | (Return a, s1) \<Rightarrow>
          (let ((answers, alive), s2) = branchCommunicate manager msgs s1
           in (((case a of Some x \<Rightarrow> [x] | None \<Rightarrow> []) @ answers, alive), s2)))"

subsection \<open>The loop\<close>

lemma branchCommunicate_append:
  "branchCommunicate manager (ms @ ns) s =
     (let ((as, alive), s1) = branchCommunicate manager ms s
      in if alive then let ((bs, alive'), s2) = branchCommunicate manager ns s1 in ((as @ bs, alive'), s2)
         else ((as, False), s1))"
  by (induction ms arbitrary: s) (auto simp: Let_def split: prod.splits outcome.splits option.splits)

text \<open>A panic ends it for good: nothing that arrives later is answered or handled.\<close>

lemma branchCommunicate_dead:
  assumes "handle_message manager msg s1 = (Panicked, s2)" and "branchCommunicate manager ms s = ((as, True), s1)"
  shows "branchCommunicate manager (ms @ msg # ns) s = ((as, False), s2)"
  using assms by (simp add: branchCommunicate_append)

lemma handle_message_answers:
  assumes "handle_message manager msg s = (Return (Some a), s')"
  shows "an_ID a = bm_ID msg"
    and "an_Type a = (if bm_BranchMessageType msg = TypeBranchCommit then TypeBranchCommitResult else TypeBranchRollBackResult)"
  using assms
  by (auto simp: handle_message_def answer_with_def split: BranchMessageType.splits prod.splits outcome.splits sum.splits)

text \<open>The answers come in the order of the messages, at most one for each.\<close>

lemma branchCommunicate_ids:
  assumes "branchCommunicate manager ms s = ((as, alive), s')"
  shows "subseq (map an_ID as) (map bm_ID ms)"
  using assms
proof (induction ms arbitrary: s as)
  case (Cons m ms)
  show ?case
  proof (cases "handle_message manager m s")
    case (Pair r s1)
    show ?thesis
    proof (cases r)
      case (Return a)
      obtain bs where b: "branchCommunicate manager ms s1 = ((bs, alive), s')"
        and as: "as = (case a of Some x \<Rightarrow> [x] | None \<Rightarrow> []) @ bs"
        using Cons.prems Pair Return by (auto split: prod.splits)
      from b have "subseq (map an_ID bs) (map bm_ID ms)" by (rule Cons.IH)
      then show ?thesis
        using as handle_message_answers(1) [of manager m s _ s1] Pair Return by (cases a) auto
    qed (use Cons.prems Pair in auto)
  qed
qed simp

end
