(* ===== verification/Rm_Stream.thy ===== *)
theory Rm_Stream
  imports Rm_Client Channels
begin

text \<open>
  \<open>branchCommunicate\<close> of \<open>pkg/client/rm/resource_manager.go\<close> at the grain of its goroutines: the
  loop that opens a stream, receives messages and handles them, and for every stream it has opened
  the goroutine that sends the answers. All of them share the channel \<open>branchMessages\<close>, which has no
  buffer. \<open>Rm_Client\<close> has the loop as a function of the messages that arrive.
\<close>

datatype loop_pc = Dialing | Receiving | Handling BranchMessage | Answering answer | Panicking

text \<open>\<open>cs_sent\<close>, \<open>lp_handled\<close> and \<open>lp_taken\<close> record the answers sent on a stream, the messages
  handled and the answers handed over; no action reads them.\<close>

record client_stream =
  cs_sender :: "answer sender"
  cs_closed :: bool
  cs_sent :: "answer list"

record 's loop =
  lp_pc :: loop_pc
  lp_streams :: "client_stream list"
  lp_world :: 's
  lp_handled :: "BranchMessage list"
  lp_taken :: "answer list"

definition new_loop :: "'s \<Rightarrow> 's loop" where
  "new_loop s = \<lparr>lp_pc = Dialing, lp_streams = [], lp_world = s, lp_handled = [], lp_taken = []\<rparr>"

definition set_client_stream :: "nat \<Rightarrow> (client_stream \<Rightarrow> client_stream) \<Rightarrow> 's loop \<Rightarrow> 's loop" where
  "set_client_stream i f l = l\<lparr>lp_streams := (lp_streams l)[i := f (lp_streams l ! i)]\<rparr>"

text \<open>When the stream is not opened, the loop sleeps and tries again.\<close>

definition dial :: "bool \<Rightarrow> 's loop \<Rightarrow> 's loop option" where
  "dial ok l =
     (if lp_pc l = Dialing
      then Some (if ok then l\<lparr>lp_pc := Receiving,
                   lp_streams := lp_streams l @ [\<lparr>cs_sender = Running, cs_closed = False, cs_sent = []\<rparr>]\<rparr>
                 else l)
      else None)"

definition loop_receive :: "BranchMessage \<Rightarrow> 's loop \<Rightarrow> 's loop option" where
  "loop_receive msg l = (if lp_pc l = Receiving then Some (l\<lparr>lp_pc := Handling msg\<rparr>) else None)"

text \<open>The stream that is read is the one opened last.\<close>

definition stream_broken :: "'s loop \<Rightarrow> 's loop option" where
  "stream_broken l =
     (if lp_pc l = Receiving
      then Some (set_client_stream (length (lp_streams l) - 1)
             (\<lambda>s. s\<lparr>cs_sender := on_close (cs_sender s), cs_closed := True\<rparr>) (l\<lparr>lp_pc := Dialing\<rparr>))
      else None)"

definition loop_handle :: "'s ResourceManager \<Rightarrow> 's loop \<Rightarrow> 's loop option" where
  "loop_handle manager l =
     (case lp_pc l of
        Handling msg \<Rightarrow>
          (case handle_message manager msg (lp_world l) of
             (out, s) \<Rightarrow>
               Some (l\<lparr>lp_world := s, lp_handled := lp_handled l @ [msg],
                 lp_pc := (case out of
                     Panicked \<Rightarrow> Panicking
                   | Return None \<Rightarrow> Receiving
                   | Return (Some a) \<Rightarrow> Answering a)\<rparr>))
      | _ \<Rightarrow> None)"

text \<open>Any goroutine that is at its \<open>select\<close> may take the answer, that of a closed stream as well if
  it was not waiting when \<open>done\<close> was closed.\<close>

definition take_answer :: "nat \<Rightarrow> 's loop \<Rightarrow> 's loop option" where
  "take_answer i l =
     (case lp_pc l of
        Answering a \<Rightarrow>
          (if i < length (lp_streams l) \<and> (cs_sender (lp_streams l ! i) = Running \<or> cs_sender (lp_streams l ! i) = Parked)
           then Some (set_client_stream i (\<lambda>s. s\<lparr>cs_sender := Sending a\<rparr>)
                  (l\<lparr>lp_pc := Receiving, lp_taken := lp_taken l @ [a]\<rparr>))
           else None)
      | _ \<Rightarrow> None)"

definition wait_answer :: "nat \<Rightarrow> 's loop \<Rightarrow> 's loop option" where
  "wait_answer i l =
     (if i < length (lp_streams l) \<and> cs_sender (lp_streams l ! i) = Running
      then Some (set_client_stream i (\<lambda>s. s\<lparr>cs_sender := park (cs_closed s)\<rparr>) l) else None)"

definition send_answer :: "nat \<Rightarrow> bool \<Rightarrow> 's loop \<Rightarrow> 's loop option" where
  "send_answer i ok l =
     (if i < length (lp_streams l)
      then (case cs_sender (lp_streams l ! i) of
              Sending a \<Rightarrow>
                Some (set_client_stream i
                  (\<lambda>s. if ok then s\<lparr>cs_sender := Running, cs_sent := cs_sent s @ [a]\<rparr>
                       else s\<lparr>cs_sender := Absent\<rparr>) l)
            | _ \<Rightarrow> None)
      else None)"

datatype loop_action =
    Dial bool
  | Loop_receive BranchMessage
  | Stream_broken
  | Loop_handle
  | Take_answer nat
  | Wait_answer nat
  | Send_answer nat bool

primrec loop_act :: "'s ResourceManager \<Rightarrow> loop_action \<Rightarrow> 's loop \<Rightarrow> 's loop option" where
  "loop_act manager (Dial ok) = dial ok"
| "loop_act manager (Loop_receive msg) = loop_receive msg"
| "loop_act manager Stream_broken = stream_broken"
| "loop_act manager Loop_handle = loop_handle manager"
| "loop_act manager (Take_answer i) = take_answer i"
| "loop_act manager (Wait_answer i) = wait_answer i"
| "loop_act manager (Send_answer i ok) = send_answer i ok"

lemmas loop_defs =
  dial_def loop_receive_def stream_broken_def loop_handle_def take_answer_def wait_answer_def send_answer_def
  set_client_stream_def

subsection \<open>The loop as a function of its messages\<close>

definition pending_answer :: "loop_pc \<Rightarrow> answer list" where
  "pending_answer pc = (case pc of Answering a \<Rightarrow> [a] | _ \<Rightarrow> [])"

text \<open>Whatever the interleaving, the streams and their failures, the messages handled had the effect
  and the answers that \<open>branchCommunicate\<close> has for them.\<close>

definition as_function :: "'s ResourceManager \<Rightarrow> 's \<Rightarrow> 's loop \<Rightarrow> bool" where
  "as_function manager s0 l \<longleftrightarrow>
     branchCommunicate manager (lp_handled l) s0 =
       ((lp_taken l @ pending_answer (lp_pc l), lp_pc l \<noteq> Panicking), lp_world l)"

lemma branchCommunicate_one:
  "branchCommunicate manager [msg] s =
     (case handle_message manager msg s of
        (Panicked, s1) \<Rightarrow> (([], False), s1)
      | (Return a, s1) \<Rightarrow> ((case a of Some x \<Rightarrow> [x] | None \<Rightarrow> [], True), s1))"
  by (auto split: prod.splits outcome.splits option.splits)

lemma loop_act_as_function:
  assumes "loop_act manager a l = Some l'" and "as_function manager s0 l"
  shows "as_function manager s0 l'"
proof (cases a)
  case Loop_handle
  with assms(1) obtain msg where h: "lp_pc l = Handling msg" by (auto simp: loop_defs split: loop_pc.splits)
  from assms(2) h have "branchCommunicate manager (lp_handled l) s0 = ((lp_taken l, True), lp_world l)"
    by (simp add: as_function_def pending_answer_def)
  with assms(1) Loop_handle h show ?thesis
    by (auto simp: as_function_def pending_answer_def loop_defs branchCommunicate_append branchCommunicate_one
        simp del: branchCommunicate.simps split: prod.splits outcome.splits option.splits)
qed (use assms in \<open>auto simp: as_function_def pending_answer_def loop_defs
    split: if_splits loop_pc.splits sender.splits\<close>)

lemma runs_as_function:
  assumes "runs (loop_act manager) as (new_loop s0) = Some l"
  shows "as_function manager s0 l"
  using assms
proof (rule runs_invariant)
  show "as_function manager s0 (new_loop s0)" by (simp add: as_function_def new_loop_def pending_answer_def)
qed (rule loop_act_as_function)

subsection \<open>The loop without a goroutine that sends\<close>

definition nobody_sends :: "'s loop \<Rightarrow> bool" where
  "nobody_sends l \<longleftrightarrow> list_all (\<lambda>s. cs_sender s = Absent) (lp_streams l)"

lemma loop_act_stuck:
  assumes "lp_pc l = Answering a" and "nobody_sends l"
  shows "loop_act manager b l = None"
  using assms by (cases b) (auto simp: nobody_sends_def list_all_length loop_defs split: sender.splits)

end
