(* ===== verification/Exchange_Runs.thy ===== *)
theory Exchange_Runs
  imports Exchange_Counts Rm_Stream Inmemory_System
begin

text \<open>
  What the exchange of branch messages guarantees and where it fails: the atomic calls of the
  other theories are what it amounts to; an answer may come too early or too late, the second of
  which ends the reception of the stream; a new stream may be counted off with the old one; and the
  loop of the resource manager may be left without anybody to send for it.
\<close>

subsection \<open>The calls are as the atomic model has them\<close>

text \<open>C8: in any interleaving of calls and streams, a call that has returned returned what the atomic
  \<open>branchCommit\<close> or \<open>branchRollback\<close> returns when the answer to its message is what the exchange came
  to; and an answer it returned was received on a stream under the number of its own message.\<close>

theorem exchange_refines_atomic_calls:
  assumes "runs act as new_exchange = Some x" and "length (requests x) \<le> 2 ^ 64"
    and "call_at t (Returned out) x" and "bs = bobj (wld s) b"
    and "rq_message (requests x ! t) = fst (send_message ty bs s)"
    and "MarshalAny conf ty (branch_request bs) = None" and "reply conf = exchange_reply x"
  shows "(ty = TypeBranchCommit \<longrightarrow> Some (fst (branchCommit conf b s)) = call_result ty bs out) \<and>
    (ty = TypeBranchRollback \<longrightarrow> map_option fst (branchRollback conf b s) = call_result ty bs out) \<and>
    (\<forall>r. out = Replied r \<longrightarrow> heard x (bm_ID (rq_message (requests x ! t))) r)"
proof -
  from reached_ok [OF assms(1)] have ok: "exchange_ok x" .
  then have "numbered x" by (simp add: exchange_ok_def)
  from exchange_reply_own [OF this assms(2,3)] have "reply conf (fst (send_message ty bs s)) = out"
    by (simp add: assms(5,7))
  moreover have "heard x (bm_ID (rq_message (requests x ! t))) r" if "out = Replied r" for r
    using ok assms(3) that by (auto simp: exchange_ok_def call_at_def call_ok_def rq_ID_def)
  ultimately show ?thesis
    using branchCommit_call_result [of conf s b] branchRollback_call_result [of conf s b] assms(4,6) by auto
qed

subsection \<open>An answer that comes too late\<close>

text \<open>C29: a stream that has set the response of a call and is about to signal it, when the timer of the
  call fires first, waits for the call for ever: whatever happens, nothing more is received on the
  stream, and it is not closed, so that its address stays counted as connected.\<close>

theorem late_answer_blocks_stream:
  assumes "runs act as new_exchange = Some x" and "stream_at i (Signalling n t) x" and "call_at t Waiting x"
    and "act (Expire t) x = Some y" and "runs act bs y = Some z"
  shows "stream_at i (Signalling n t) z \<and> st_received (streams z ! i) = st_received (streams x ! i) \<and>
    st_closed (streams z ! i) = st_closed (streams x ! i) \<and> act (Close_done i) z = None"
proof -
  have y: "stream_at i (Signalling n t) y" "abandoned y t" "streams y = streams x"
    using assms(2-4) by (auto simp: expire_def state_defs abandoned_def)
  from runs_stuck [OF assms(5) y(1,2)] y(3) show ?thesis
    by (simp add: close_done_def stream_at_def)
qed

subsection \<open>An answer that comes too early\<close>


subsection \<open>Counting streams\<close>

text \<open>C31: as long as the load and the store of a count are not interleaved with another action, the count
  of an address is the number of its open streams, so that the background passes ask for exactly
  the addresses that are connected.\<close>

theorem serial_counts_exact:
  assumes "runs act as new_exchange = Some x" and "serial as"
    and "distinct (map fst (activeApplications s))" and "map_of (activeApplications s) = active x"
  shows "(case active x a of None \<Rightarrow> 0 | Some k \<Rightarrow> k) = int (length (filter (open_for a) (streams x))) \<and>
    (a \<in> set (getAddressingIdentities s) \<longleftrightarrow> (\<exists>st \<in> set (streams x). open_for a st))"
proof -
  from exact_counts_serial [OF assms(1,2) new_counts]
  have e: "(case active x a of None \<Rightarrow> 0 | Some k \<Rightarrow> k) = int (length (filter (open_for a) (streams x)))"
    by (simp add: exact_counts_def counts_number)
  have "a \<in> set (getAddressingIdentities s) \<longleftrightarrow> (\<exists>k. active x a = Some k \<and> 0 < k)"
    using in_alist_iff_map_of [OF assms(3)] assms(4) by (force simp: getAddressingIdentities_def)
  also have "\<dots> \<longleftrightarrow> filter (open_for a) (streams x) \<noteq> []"
    using e by (auto split: option.splits simp flip: length_greater_0_conv)
  finally show ?thesis using e by (simp add: filter_empty_conv)
qed

text \<open>A resource manager that connects again while its broken stream is being closed may be counted
  off altogether: the new stream loads the count before the old one stores it, or the other way
  round, and the background passes, which ask for the counted addresses, pass over its branches
  although its stream is open.\<close>

theorem reconnection_uncounted:
  assumes "stream_at i Listening x" and "st_counted (streams x ! i)" and "stream_at j Entered x"
    and "st_addressing (streams x ! i) = a" and "st_addressing (streams x ! j) = a" and "active x a = Some 1"
    and "distinct (map fst (activeApplications s))"
  shows "\<exists>y. runs act [Close_done i, Load_last_count i, Load_count j, Store_count j, Store_last_count i] x = Some y \<and>
    stream_at j Listening y \<and> sender_at j Running y \<and> stream_at i Left y \<and> active y a = Some 0 \<and>
    (map_of (activeApplications s) = active y \<longrightarrow> a \<notin> set (getAddressingIdentities s))"
proof -
  have "i \<noteq> j" using assms(1,3) by (auto simp: stream_at_def)
  with assms(1-6) obtain y where
    y: "runs act [Close_done i, Load_last_count i, Load_count j, Store_count j, Store_last_count i] x = Some y"
      "stream_at j Listening y" "sender_at j Running y" "stream_at i Left y" "active y a = Some 0"
    by (auto simp: close_done_def load_last_count_def load_count_def store_count_def store_last_count_def state_defs
        nth_update)
  moreover have "a \<notin> set (getAddressingIdentities s)" if "map_of (activeApplications s) = active y"
    using that y(5) in_alist_iff_map_of [OF assms(7)] by (auto simp: getAddressingIdentities_def)
  ultimately show ?thesis by blast
qed

subsection \<open>The loop of the resource manager\<close>

text \<open>C32: however the goroutines of a resource manager interleave, and whatever streams are opened and
  break, the messages handled so far had the effect on the world, and the answers handed over and
  pending are the answers, that the function \<open>branchCommunicate\<close> has for them.\<close>

theorem loop_refines_function:
  assumes "runs (loop_act manager) as (new_loop s0) = Some l"
  shows "branchCommunicate manager (lp_handled l) s0 =
    ((lp_taken l @ (case lp_pc l of Answering a \<Rightarrow> [a] | _ \<Rightarrow> []), lp_pc l \<noteq> Panicking), lp_world l)"
  using runs_as_function [OF assms] by (simp add: as_function_def pending_answer_def)

text \<open>C33: when the stream breaks while a message is handled, so that sending the previous answer fails,
  the goroutine that sends has returned and nobody takes the next answer: the loop stops there for
  ever, and the resource manager never opens a stream again.\<close>

theorem failed_send_stops_loop:
  assumes "lp_pc l = Handling msg" and "i < length (lp_streams l)" and "cs_sender (lp_streams l ! i) = Sending a"
    and "\<And>j. j < length (lp_streams l) \<Longrightarrow> j \<noteq> i \<Longrightarrow> cs_sender (lp_streams l ! j) = Absent"
    and "handle_message manager msg (lp_world l) = (Return (Some a'), s)"
    and "runs (loop_act manager) [Send_answer i False, Loop_handle] l = Some l1"
  shows "lp_pc l1 = Answering a' \<and> (\<forall>b. loop_act manager b l1 = None)"
proof -
  from assms(1-3,5,6) have l1: "lp_pc l1 = Answering a'"
    "lp_streams l1 = (lp_streams l)[i := (lp_streams l ! i)\<lparr>cs_sender := Absent\<rparr>]"
    by (simp_all add: loop_defs) auto
  with assms(2,4) have "nobody_sends l1" by (auto simp: nobody_sends_def list_all_length nth_update)
  with l1(1) show ?thesis using loop_act_stuck by blast
qed

subsection \<open>Schedules\<close>

text \<open>A commit of a branch at the address \<open>a\<close>, whose resource manager has opened a stream.\<close>

definition demo_branch :: BranchSession where
  "demo_branch = zero_bs\<lparr>bs_Addressing := ''a'', bs_Status := PhaseOneDone\<rparr>"

definition demo_holding :: "inmem tc" where
  "demo_holding = (inmem_start demo_uuid)\<lparr>wld := (wld (inmem_start demo_uuid))\<lparr>bobj := \<lambda>b. demo_branch\<rparr>\<rparr>"

definition demo_opening :: "action list" where
  "demo_opening = [Enter (Some ''a''), Load_count 0, Store_count 0, Wait_message 0]"

definition demo_sending :: "action list" where
  "demo_sending = [Start TypeBranchCommit demo_branch, Hand_over 0 0, Send 0 True]"

definition demo_answer :: action where
  "demo_answer = Receive 0 (1, TypeBranchCommitResult, Some (demo_response PhaseTwoCommitted))"

definition demo_exchange :: "action list \<Rightarrow> exchange" where
  "demo_exchange as = the (runs act (demo_opening @ as) new_exchange)"

lemmas demo_defs = demo_exchange_def demo_opening_def demo_sending_def demo_answer_def new_exchange_def
  action_defs response_of_def

definition demo_answered :: exchange where
  "demo_answered = demo_exchange (demo_sending @
     [Store_future 0, demo_answer, Look_up 0, Set_response 0, Signal 0, Read_response 0])"

lemma demo_answered_runs:
  "runs act (demo_opening @ demo_sending @
     [Store_future 0, demo_answer, Look_up 0, Set_response 0, Signal 0, Read_response 0]) new_exchange = Some demo_answered"
  by (simp add: demo_answered_def demo_defs state_defs Let_def demo_branch_def park_def rq_ID_def)

lemma demo_answered_call:
  "call_at 0 (Returned (Replied (CommitReply (demo_response PhaseTwoCommitted)))) demo_answered"
  "length (requests demo_answered) = 1"
  "rq_message (requests demo_answered ! 0) = fst (send_message TypeBranchCommit demo_branch demo_holding)"
  by (simp_all add: demo_answered_def demo_defs state_defs Let_def demo_branch_def park_def rq_ID_def
      send_message_def demo_holding_def inmem_start_def tc_start_def)

theorem exchange_refines_atomic_calls_witness:
  "fst (branchCommit (demo_conf\<lparr>reply := exchange_reply demo_answered\<rparr>) 0 demo_holding) = (PhaseTwoCommitted, None) \<and>
   heard demo_answered 1 (CommitReply (demo_response PhaseTwoCommitted))"
proof -
  have b: "bobj (wld demo_holding) 0 = demo_branch" by (simp add: demo_holding_def)
  have i: "bm_ID (rq_message (requests demo_answered ! 0)) = 1"
    by (simp add: demo_answered_call(3) send_message_def demo_holding_def inmem_start_def tc_start_def Let_def)
  show ?thesis
    using exchange_refines_atomic_calls [OF demo_answered_runs _ demo_answered_call(1) b [symmetric] demo_answered_call(3),
        of "demo_conf\<lparr>reply := exchange_reply demo_answered\<rparr>"]
    by (simp add: demo_answered_call(2) i b call_result_def demo_response_def demo_conf_def Let_def)
qed

definition demo_signalling :: exchange where
  "demo_signalling = demo_exchange (demo_sending @ [Store_future 0, demo_answer, Look_up 0, Set_response 0])"

lemma demo_signalling_runs:
  "runs act (demo_opening @ demo_sending @ [Store_future 0, demo_answer, Look_up 0, Set_response 0]) new_exchange =
     Some demo_signalling"
  "stream_at 0 (Signalling 1 0) demo_signalling" "call_at 0 Waiting demo_signalling"
  by (simp_all add: demo_signalling_def demo_defs state_defs Let_def demo_branch_def park_def rq_ID_def)

theorem late_answer_blocks_stream_witness:
  "\<exists>y z. act (Expire 0) demo_signalling = Some y \<and> runs act [Give_up 0, Wait_message 0] y = Some z \<and>
     stream_at 0 (Signalling 1 0) z \<and> act (Close_done 0) z = None"
proof -
  have "runs act [Expire 0, Give_up 0, Wait_message 0] demo_signalling \<noteq> None"
    by (simp add: demo_signalling_def demo_defs state_defs Let_def demo_branch_def park_def rq_ID_def)
  then obtain y z where y: "act (Expire 0) demo_signalling = Some y" "runs act [Give_up 0, Wait_message 0] y = Some z"
    by (auto simp del: act.simps split: option.splits)
  with late_answer_blocks_stream [OF demo_signalling_runs y] show ?thesis by blast
qed

definition demo_early :: exchange where
  "demo_early = demo_exchange (demo_sending @ [demo_answer])"

lemma demo_early_runs:
  "runs act (demo_opening @ demo_sending @ [demo_answer]) new_exchange = Some demo_early"
  "length (requests demo_early) = 1" "call_at 0 Handed demo_early" "bm_ID (rq_message (requests demo_early ! 0)) = 1"
  "stream_at 0 (Got 1 (CommitReply (demo_response PhaseTwoCommitted))) demo_early" "length (streams demo_early) = 1"
  by (simp_all add: demo_early_def demo_defs state_defs Let_def demo_branch_def park_def rq_ID_def)


definition demo_reconnecting :: exchange where
  "demo_reconnecting = demo_exchange [Enter (Some ''a'')]"

theorem reconnection_uncounted_witness:
  "\<exists>y. runs act [Close_done 0, Load_last_count 0, Load_count 1, Store_count 1, Store_last_count 0] demo_reconnecting = Some y \<and>
     stream_at 1 Listening y \<and> active y ''a'' = Some 0 \<and>
     ''a'' \<notin> set (getAddressingIdentities (demo_holding\<lparr>activeApplications := [(''a'', 0)]\<rparr>))"
proof -
  let ?s = "demo_holding\<lparr>activeApplications := [(''a'', 0)]\<rparr>"
  have "stream_at 0 Listening demo_reconnecting" "st_counted (streams demo_reconnecting ! 0)"
    "stream_at 1 Entered demo_reconnecting" "st_addressing (streams demo_reconnecting ! 0) = ''a''"
    "st_addressing (streams demo_reconnecting ! 1) = ''a''" "active demo_reconnecting ''a'' = Some 1"
    by (simp_all add: demo_reconnecting_def demo_defs state_defs Let_def park_def)
  from reconnection_uncounted [OF this, of ?s] obtain y where
    y: "runs act [Close_done 0, Load_last_count 0, Load_count 1, Store_count 1, Store_last_count 0] demo_reconnecting = Some y"
      "stream_at 1 Listening y" "active y ''a'' = Some 0"
      "map_of (activeApplications ?s) = active y \<longrightarrow> ''a'' \<notin> set (getAddressingIdentities ?s)" by auto
  have "active y = [''a'' \<mapsto> 0]"
    using y(1) by (auto simp: demo_reconnecting_def demo_defs state_defs Let_def park_def)
  with y show ?thesis by auto
qed

definition demo_closed :: exchange where
  "demo_closed = demo_exchange [Close_done 0, Load_last_count 0, Store_last_count 0]"

theorem serial_counts_exact_witness:
  "active demo_closed ''a'' = Some 0 \<and> filter (open_for ''a'') (streams demo_closed) = [] \<and>
     ''a'' \<notin> set (getAddressingIdentities (demo_holding\<lparr>activeApplications := [(''a'', 0)]\<rparr>))"
proof -
  have r: "runs act (demo_opening @ [Close_done 0, Load_last_count 0, Store_last_count 0]) new_exchange = Some demo_closed"
    and a: "active demo_closed = [''a'' \<mapsto> 0]"
    by (simp_all add: demo_closed_def demo_defs state_defs Let_def park_def)
  from serial_counts_exact [OF r, of "demo_holding\<lparr>activeApplications := [(''a'', 0)]\<rparr>" "''a''"] show ?thesis
    by (simp add: a demo_opening_def filter_empty_conv)
qed

text \<open>A resource manager that knows no branch type: it answers every request, with a failure.\<close>

definition bare_rm :: "unit ResourceManager" where
  "bare_rm = InitResourceManager ''a''
     \<lparr>rpc_BranchRegister = \<lambda>rq s. (Inl (Errorf ''down''), s), rpc_BranchReport = \<lambda>rq s. (Inl (Errorf ''down''), s),
      rpc_LockQuery = \<lambda>rq s. (Inl (Errorf ''down''), s)\<rparr>"

definition bare_message :: "int64 \<Rightarrow> BranchMessage" where
  "bare_message n = \<lparr>bm_ID = n, bm_BranchMessageType = TypeBranchCommit, bm_Message = branch_request demo_branch\<rparr>"

definition bare_answer :: "int64 \<Rightarrow> answer" where
  "bare_answer n = \<lparr>an_ID = n, an_Type = TypeBranchCommitResult, an_Message = no_manager AT\<rparr>"

lemma bare_handle: "handle_message bare_rm (bare_message n) () = (Return (Some (bare_answer n)), ())"
  by (simp add: handle_message_def bare_message_def rm_BranchCommit_def bare_rm_def InitResourceManager_def
      answer_with_def bare_answer_def branch_request_def demo_branch_def zero_bs_def)

definition bare_loop :: "unit loop" where
  "bare_loop = the (runs (loop_act bare_rm)
     [Dial True, Loop_receive (bare_message 1), Loop_handle, Take_answer 0, Loop_receive (bare_message 2)] (new_loop ()))"

lemma bare_loop_runs:
  "runs (loop_act bare_rm)
     [Dial True, Loop_receive (bare_message 1), Loop_handle, Take_answer 0, Loop_receive (bare_message 2)] (new_loop ()) =
   Some bare_loop"
  by (simp add: bare_loop_def loop_defs new_loop_def bare_handle)

theorem loop_refines_function_witness:
  "branchCommunicate bare_rm [bare_message 1] () = (([bare_answer 1], True), ())"
  using loop_refines_function [OF bare_loop_runs]
  by (simp add: bare_loop_def loop_defs new_loop_def bare_handle)

theorem failed_send_stops_loop_witness:
  "\<exists>l1. runs (loop_act bare_rm) [Send_answer 0 False, Loop_handle] bare_loop = Some l1 \<and>
     lp_pc l1 = Answering (bare_answer 2) \<and> loop_act bare_rm (Dial True) l1 = None"
proof -
  have l: "lp_pc bare_loop = Handling (bare_message 2)" "length (lp_streams bare_loop) = 1"
    "cs_sender (lp_streams bare_loop ! 0) = Sending (bare_answer 1)" "lp_world bare_loop = ()"
    by (simp_all add: bare_loop_def loop_defs new_loop_def bare_handle)
  then obtain l1 where r: "runs (loop_act bare_rm) [Send_answer 0 False, Loop_handle] bare_loop = Some l1"
    by (simp add: loop_defs bare_handle)
  have "lp_pc l1 = Answering (bare_answer 2) \<and> (\<forall>b. loop_act bare_rm b l1 = None)"
    by (rule failed_send_stops_loop [OF l(1) _ l(3) _ _ r]) (simp_all add: l bare_handle)
  with r show ?thesis by blast
qed

end
