(* ===== verification/Deadlines.thy ===== *)
theory Deadlines
  imports Inmemory_System
begin

text \<open>
  The three time comparisons of the coordinator, on machine integers: the timeout of a session
  still in \<open>Begin\<close>, the limit on retries, and the age after which a rollback counts as dead.
\<close>

lemma isGlobalSessionTimeout_eq: "isGlobalSessionTimeout now s = session_timeout now s"
  by (simp add: isGlobalSessionTimeout_def session_timeout_def)

lemma future_begin_times_out:
  assumes "0 \<le> sint (gs_BeginTime s)" and "now < gs_BeginTime s" and "0 \<le> sint (gs_Timeout s)"
  shows "session_timeout now s"
proof -
  have b: "unat (gs_BeginTime s) < 2 ^ 63"
  proof -
    have lt: "sint (gs_BeginTime s) < 2 ^ 63" using sint_bounds64 by blast
    have "uint (gs_BeginTime s) = uint (word_of_int (sint (gs_BeginTime s)) :: int64)" by simp
    also have "... = take_bit LENGTH(64) (sint (gs_BeginTime s))" by (rule uint_word_of_int_eq)
    also have "... = sint (gs_BeginTime s)" using assms(1) lt by (simp add: take_bit_int_eq_self)
    finally show ?thesis using lt by (simp add: unat_eq_nat_uint nat_less_iff)
  qed
  have lt: "unat now < unat (gs_BeginTime s)" using assms(2) by (simp add: word_less_nat_alt)
  have "unat (now - gs_BeginTime s) = 2 ^ 64 + unat now - unat (gs_BeginTime s)"
    using lt by (simp add: unat_sub_if_size word_size)
  then have "2 ^ 63 < unat (now - gs_BeginTime s)" using b lt by simp
  moreover have "unat (scast (gs_Timeout s) :: uint64) < 2 ^ 31"
    using scast_nonneg [OF assms(3)] sint_less [of "gs_Timeout s"] by simp
  ultimately show ?thesis by (simp add: session_timeout_def word_less_nat_alt)
qed

text \<open>C21: for a non-negative timeout the check that rolls a session back is exact when the session
  began at or before the clock: it fires once strictly more milliseconds have passed than the
  timeout. When the begin time lies ahead of the clock, as with two servers whose clocks differ,
  the unsigned difference wraps round and the check fires at once.\<close>

theorem timeout_check_exact:
  assumes "0 \<le> sint (gs_BeginTime s)" and "0 \<le> sint (gs_Timeout s)"
  shows "isGlobalSessionTimeout now s \<longleftrightarrow>
    now < gs_BeginTime s \<or> nat (sint (gs_Timeout s)) < unat now - unat (gs_BeginTime s)"
proof (cases "now < gs_BeginTime s")
  case True
  with future_begin_times_out [OF assms(1) _ assms(2)] show ?thesis by (simp add: isGlobalSessionTimeout_eq)
next
  case False
  then have "gs_BeginTime s \<le> now" by simp
  from session_timeout_past [OF this assms(2)] False show ?thesis by (simp add: isGlobalSessionTimeout_eq)
qed

definition ahead_session :: GlobalSession where
  "ahead_session = zero_gs\<lparr>gs_BeginTime := 1001, gs_Timeout := 60000, gs_Status := Begin, gs_Active := True\<rparr>"

theorem timeout_check_exact_witness:
  "isGlobalSessionTimeout 1000 ahead_session \<and> \<not> isGlobalSessionTimeout 61001 ahead_session \<and>
   isGlobalSessionTimeout 61002 ahead_session"
  using timeout_check_exact [of ahead_session 1000] timeout_check_exact [of ahead_session 61001]
    timeout_check_exact [of ahead_session 61002]
  by (simp add: ahead_session_def)

text \<open>With a negative limit a retry never times out; with a limit of at least zero it does exactly
  when more milliseconds have passed since the session began than the limit, for clock and begin
  times that are non-negative as signed integers.\<close>

theorem retry_limit:
  assumes "0 \<le> sint now" and "0 \<le> sint beginTime"
  shows "isRetryTimeout now limit beginTime \<longleftrightarrow>
    0 \<le> sint limit \<and> sint limit < sint now - sint beginTime"
proof -
  have "sint (now - beginTime) = sint now - sint beginTime"
    using assms sint_bounds64 [of now] sint_bounds64 [of beginTime]
    by (simp add: sint_word_ariths signed_take_bit_int_eq_self)
  then show ?thesis by (simp add: isRetryTimeout_def AlwaysRetryBoundary_def)
qed

theorem retry_limit_witness:
  "\<not> isRetryTimeout 5000 (-1) 1000 \<and> \<not> isRetryTimeout 5000 4000 1000 \<and> isRetryTimeout 5000 3999 1000"
  using retry_limit [of 5000 1000 "-1"] retry_limit [of 5000 1000 4000] retry_limit [of 5000 1000 3999]
  by simp

text \<open>A rollback in progress counts as dead once more \<^emph>\<open>milliseconds\<close> have passed since the
  session began than the setting that is named, and documented, as a number of seconds.\<close>

theorem rolling_back_dead_in_milliseconds:
  assumes "gs_BeginTime (gt_session w gt) \<le> now"
  shows "IsRollingBackDead conf now w gt \<longleftrightarrow>
    unat (rollbackDeadSeconds conf) < unat now - unat (gs_BeginTime (gt_session w gt))"
  using assms by (simp add: IsRollingBackDead_def word_less_nat_alt unat_sub)

definition aged_world :: "inmem world" where
  "aged_world = \<lparr>gobj = \<lambda>_. zero_gs\<lparr>gs_BeginTime := 1000, gs_Status := RollingBack\<rparr>, bobj = \<lambda>_. zero_bs,
     gtop = 1, btop = 0, drv = inmem_Create\<rparr>"

theorem rolling_back_dead_witness:
  "IsRollingBackDead demo_conf 1131 aged_world \<lparr>gt_GlobalSession = 0, gt_BranchSessions = []\<rparr>"
  using rolling_back_dead_in_milliseconds [of aged_world "\<lparr>gt_GlobalSession = 0, gt_BranchSessions = []\<rparr>" 1131 demo_conf]
  by (simp add: aged_world_def demo_conf_def gt_session_def)

end
