(* ===== verification/Sql.thy ===== *)
theory Sql
  imports Go_Strings
begin

text \<open>
  The part of SQL the two database drivers use, as the meaning of the statement texts they send:
  \<open>Sprintf\<close> with \<open>%s\<close> and \<open>%d\<close> verbs, the words of a statement, a parser for the four
  kinds of statement and for \<open>CREATE TABLE\<close>, and what a statement does to the tables of a
  database with a given schema. A row is a map from columns to values; a table maps the value of
  its key column to the row. A statement that a server must refuse (a wrong number of values or
  arguments, a value that does not fit its column, a duplicate key) has no effect, which is
  \<open>None\<close>.
\<close>

subsection \<open>Statement texts\<close>

fun fill :: "string \<Rightarrow> string list \<Rightarrow> string" where
  "fill [] as = []"
| "fill [c] as = [c]"
| "fill (c # d # cs) as =
     (if c = CHR ''%'' \<and> (d = CHR ''s'' \<or> d = CHR ''d'') \<and> as \<noteq> [] then hd as @ fill cs (tl as)
      else c # fill (d # cs) as)"

declare fill.simps [simp del]

definition blank :: "char \<Rightarrow> bool" where
  "blank c \<longleftrightarrow> c = CHR '' '' \<or> c = CHR 0x09 \<or> c = CHR 0x0A"

definition punctuation :: "char \<Rightarrow> bool" where
  "punctuation c \<longleftrightarrow> c = CHR ''('' \<or> c = CHR '')'' \<or> c = CHR '','' \<or> c = CHR ''='' \<or> c = CHR '';''"

definition flush :: "string \<Rightarrow> string list" where
  "flush acc = (if acc = [] then [] else [rev acc])"

fun words :: "string \<Rightarrow> string \<Rightarrow> string list" where
  "words acc [] = flush acc"
| "words acc (c # cs) =
     (if blank c then flush acc @ words [] cs
      else if punctuation c then flush acc @ [c] # words [] cs
      else words (c # acc) cs)"

definition tokens :: "string \<Rightarrow> string list" where
  "tokens s = words [] s"

text \<open>A word of its own: a table name, a placeholder or a key word.\<close>

definition plain_word :: "string \<Rightarrow> bool" where
  "plain_word t \<longleftrightarrow> t \<noteq> [] \<and> (\<forall>c \<in> set t. \<not> blank c \<and> \<not> punctuation c)"

lemma words_plain:
  "\<forall>c \<in> set t. \<not> blank c \<and> \<not> punctuation c \<Longrightarrow> words acc (t @ s) = words (rev t @ acc) s"
  by (induction t arbitrary: acc) auto

lemma words_blank:
  "plain_word t \<Longrightarrow> words [] (t @ CHR '' '' # s) = t # words [] s"
  by (simp add: words_plain plain_word_def blank_def flush_def)

lemma words_punctuation:
  "plain_word t \<Longrightarrow> punctuation c \<Longrightarrow> words [] (t @ c # s) = t # [c] # words [] s"
  by (auto simp: words_plain plain_word_def blank_def punctuation_def flush_def)

lemma words_append:
  "s = [] \<or> blank (last s) \<or> punctuation (last s) \<Longrightarrow> words acc (s @ r) = words acc s @ words [] r
   \<or> s = []"
proof (induction s arbitrary: acc)
  case (Cons c s)
  show ?case
  proof (cases "s = []")
    case True
    with Cons.prems show ?thesis by (auto simp: flush_def)
  next
    case False
    with Cons.prems have "blank (last s) \<or> punctuation (last s)" by simp
    with Cons.IH False show ?thesis by simp
  qed
qed simp

lemma tokens_append:
  "blank (last s) \<or> punctuation (last s) \<Longrightarrow> s \<noteq> [] \<Longrightarrow> tokens (s @ r) = tokens s @ tokens r"
  using words_append [of s "[]" r] by (simp add: tokens_def)

subsection \<open>Expressions and statements\<close>

text \<open>\<open>Arg i\<close> is the \<open>i\<close>th argument of the statement, counted from 0.\<close>

datatype sqlexp = Arg nat | Now | Num int

text \<open>\<open>?\<close> placeholders are numbered from left to right.\<close>

fun number_marks :: "nat \<Rightarrow> string list \<Rightarrow> string list" where
  "number_marks n [] = []"
| "number_marks n (w # ws) =
     (if w = ''?'' then (CHR ''$'' # show_nat (Suc n)) # number_marks (Suc n) ws
      else w # number_marks n ws)"

definition read_nat :: "string \<Rightarrow> nat" where
  "read_nat ds = foldl (\<lambda>n c. 10 * n + digit_val c) 0 ds"

fun read_exp :: "string list \<Rightarrow> sqlexp option" where
  "read_exp [w] =
     (if w = ''CURRENT_TIMESTAMP'' then Some Now
      else if w \<noteq> [] \<and> hd w = CHR ''$'' then Some (Arg (read_nat (tl w) - 1))
      else if w \<noteq> [] \<and> list_all is_digit w then Some (Num (int (read_nat w)))
      else None)"
| "read_exp [w, p, q] = (if w = ''now'' \<and> p = ''('' \<and> q = '')'' then Some Now else None)"
| "read_exp _ = None"

text \<open>\<open>items d cur ws\<close> splits at the commas outside parentheses, up to the closing parenthesis of
  the level it started on, and returns the words after it.\<close>

fun items :: "nat \<Rightarrow> string list \<Rightarrow> string list \<Rightarrow> string list list \<times> string list" where
  "items d cur [] = ([rev cur], [])"
| "items d cur (w # ws) =
     (if w = ''('' then items (Suc d) (w # cur) ws
      else if w = '')'' then
        (case d of 0 \<Rightarrow> ([rev cur], ws) | Suc e \<Rightarrow> items e (w # cur) ws)
      else if w = '','' \<and> d = 0 then let (is, rest) = items 0 [] ws in (rev cur # is, rest)
      else items d (w # cur) ws)"

lemma items_shorter: "length (snd (items d cur ws)) \<le> length ws"
proof (induction d cur ws rule: items.induct)
  case (2 d cur w ws)
  then show ?case by (auto split: nat.splits prod.splits)
qed simp

text \<open>The parenthesised tuples of an \<open>insert\<close>, separated by commas.\<close>

function tuples :: "string list \<Rightarrow> string list list list option" where
  "tuples ws =
     (case ws of
        p # ws1 \<Rightarrow>
          (if p = ''('' then
             (case items 0 [] ws1 of
                (is, []) \<Rightarrow> Some [is]
              | (is, q # ws2) \<Rightarrow> if q = '','' then map_option ((#) is) (tuples ws2) else None)
           else None)
      | [] \<Rightarrow> None)"
  by pat_completeness auto
termination
proof (relation "measure length")
  fix ws p ws1 x "is" rest q ws2
  assume "ws = p # ws1" and "(is, rest) = items 0 [] ws1" and "rest = q # ws2"
  then have "length (q # ws2) \<le> length ws1" using items_shorter [of 0 "[]" ws1] by (metis snd_conv)
  with \<open>ws = p # ws1\<close> show "(ws2, ws) \<in> measure length" by simp
qed simp

declare tuples.simps [simp del]

datatype stmt =
    Insert string "string list" "sqlexp list list"
  | Update string "(string \<times> sqlexp) list" string sqlexp
  | Delete string string sqlexp
  | Select "string list" string string "sqlexp list"

fun single :: "string list \<Rightarrow> string option" where
  "single [w] = Some w" | "single _ = None"

fun assignment :: "string list \<Rightarrow> (string \<times> sqlexp) option" where
  "assignment (c # e # ws) = (if e = ''='' then map_option (Pair c) (read_exp ws) else None)"
| "assignment _ = None"

fun all_some :: "('a \<Rightarrow> 'b option) \<Rightarrow> 'a list \<Rightarrow> 'b list option" where
  "all_some f [] = Some []"
| "all_some f (x # xs) = (case f x of None \<Rightarrow> None | Some y \<Rightarrow> map_option ((#) y) (all_some f xs))"

definition before :: "string \<Rightarrow> string list \<Rightarrow> string list" where
  "before w ws = takeWhile ((\<noteq>) w) ws"

definition after :: "string \<Rightarrow> string list \<Rightarrow> string list" where
  "after w ws = tl (dropWhile ((\<noteq>) w) ws)"

definition comma_list :: "string list \<Rightarrow> string list list" where
  "comma_list ws = fst (items 0 [] (ws @ ['')'']))"

fun read_where :: "string list \<Rightarrow> (string \<times> sqlexp list) option" where
  "read_where (c # e # w # ws) =
     (if e = ''='' then map_option (\<lambda>x. (c, [x])) (read_exp [w])
      else if e = ''in'' \<and> w = ''('' then map_option (Pair c) (all_some read_exp (fst (items 0 [] ws)))
      else None)"
| "read_where _ = None"

definition parse_insert :: "string list \<Rightarrow> stmt option" where
  "parse_insert ws =
     (case ws of
        i # t # p # rest \<Rightarrow>
          (if i = ''into'' \<and> p = ''('' then
             (let (cs, more) = items 0 [] rest
              in case more of
                   v # vs \<Rightarrow>
                     (if v = ''values'' then
                        do { cols \<leftarrow> all_some single cs;
                             ts \<leftarrow> tuples vs;
                             es \<leftarrow> all_some (all_some read_exp) ts;
                             Some (Insert t cols es) }
                      else None)
                 | [] \<Rightarrow> None)
           else None)
      | _ \<Rightarrow> None)"

definition parse_update :: "string list \<Rightarrow> stmt option" where
  "parse_update ws =
     (case ws of
        t # s # rest \<Rightarrow>
          (if s = ''set'' then
             do { as \<leftarrow> all_some assignment (comma_list (before ''where'' rest));
                  (c, e) \<leftarrow> assignment (after ''where'' rest);
                  Some (Update t as c e) }
           else None)
      | _ \<Rightarrow> None)"

definition parse_delete :: "string list \<Rightarrow> stmt option" where
  "parse_delete ws =
     (case ws of
        f # t # w # rest \<Rightarrow>
          (if f = ''from'' \<and> w = ''where'' then
             do { (c, e) \<leftarrow> assignment rest; Some (Delete t c e) }
           else None)
      | _ \<Rightarrow> None)"

definition parse_select :: "string list \<Rightarrow> stmt option" where
  "parse_select ws =
     (case after ''from'' ws of
        t # w # rest \<Rightarrow>
          (if w = ''where'' then
             do { cols \<leftarrow> all_some single (comma_list (before ''from'' ws));
                  (c, es) \<leftarrow> read_where rest;
                  Some (Select cols t c es) }
           else None)
      | _ \<Rightarrow> None)"

definition parse_words :: "string list \<Rightarrow> stmt option" where
  "parse_words ws =
     (case number_marks 0 ws of
        k # rest \<Rightarrow>
          (if k = ''insert'' then parse_insert rest
           else if k = ''update'' then parse_update rest
           else if k = ''delete'' then parse_delete rest
           else if k = ''select'' then parse_select rest
           else None)
      | [] \<Rightarrow> None)"

definition parse :: "string \<Rightarrow> stmt option" where
  "parse sql = parse_words (tokens sql)"

subsection \<open>Table definitions\<close>

record column =
  col_name :: string
  col_type :: string
  col_not_null :: bool

record table_def =
  td_columns :: "column list"
  td_key :: string

fun not_null :: "string list \<Rightarrow> bool" where
  "not_null (a # b # ws) \<longleftrightarrow> a = ''NOT'' \<and> b = ''NULL'' \<or> not_null (b # ws)"
| "not_null _ \<longleftrightarrow> False"

text \<open>Key words and types are compared in upper case.\<close>

fun read_column :: "string list \<Rightarrow> column list" where
  "read_column (c # t # ws) =
     (if c = ''KEY'' \<or> c = ''PRIMARY'' then []
      else [\<lparr>col_name = c, col_type = ToUpper t, col_not_null = not_null ws\<rparr>])"
| "read_column _ = []"

fun read_key :: "string list \<Rightarrow> string list" where
  "read_key [a, b, p, c, q] = (if a = ''PRIMARY'' \<and> b = ''KEY'' then [c] else [])"
| "read_key _ = []"

definition parse_create :: "string \<Rightarrow> (string \<times> table_def) option" where
  "parse_create sql =
     (case tokens sql of
        c # t # i # n # e # name # p # ws \<Rightarrow>
          (if [c, t, i, n, e, p] = [''CREATE'', ''TABLE'', ''IF'', ''NOT'', ''EXISTS'', ''('']
           then let gs = fst (items 0 [] ws)
                in case concat (map read_key gs) of
                     [k] \<Rightarrow> Some (name, \<lparr>td_columns = concat (map read_column gs), td_key = k\<rparr>)
                   | _ \<Rightarrow> None
           else None)
      | _ \<Rightarrow> None)"

subsection \<open>What a statement does\<close>

datatype sqlval = VNull | VStr string | VInt int | VBool bool | VTime nat

type_synonym row = "string \<Rightarrow> sqlval option"
type_synonym tables = "string \<Rightarrow> sqlval \<Rightarrow> row option"
type_synonym schema = "string \<Rightarrow> table_def option"

definition find_column :: "table_def \<Rightarrow> string \<Rightarrow> column option" where
  "find_column td c = find (\<lambda>x. col_name x = c) (td_columns td)"

text \<open>\<open>fits\<close> is the server's rule for a value in a column of a type.\<close>

definition accepts :: "(string \<Rightarrow> sqlval \<Rightarrow> bool) \<Rightarrow> table_def \<Rightarrow> string \<times> sqlval \<Rightarrow> bool" where
  "accepts fits td cv =
     (case find_column td (fst cv) of
        None \<Rightarrow> False
      | Some x \<Rightarrow> if snd cv = VNull then \<not> col_not_null x else fits (col_type x) (snd cv))"

fun eval_exp :: "nat \<Rightarrow> sqlval list \<Rightarrow> sqlexp \<Rightarrow> sqlval option" where
  "eval_exp now args (Arg i) = (if i < length args then Some (args ! i) else None)"
| "eval_exp now args Now = Some (VTime now)"
| "eval_exp now args (Num n) = Some (VInt n)"

fun stmt_exps :: "stmt \<Rightarrow> sqlexp list" where
  "stmt_exps (Insert t cs es) = concat es"
| "stmt_exps (Update t as c e) = map snd as @ [e]"
| "stmt_exps (Delete t c e) = [e]"
| "stmt_exps (Select cs t c es) = es"

text \<open>The statement uses every argument it is given.\<close>

definition uses_all_args :: "stmt \<Rightarrow> sqlval list \<Rightarrow> bool" where
  "uses_all_args st args \<longleftrightarrow> list_all (\<lambda>i. Arg i \<in> set (stmt_exps st)) [0..<length args]"

definition build_row :: "nat \<Rightarrow> sqlval list \<Rightarrow> string list \<Rightarrow> sqlexp list \<Rightarrow> (string \<times> sqlval) list option" where
  "build_row now args cols es =
     (if length cols = length es then map_option (zip cols) (all_some (eval_exp now args) es) else None)"

fun insert_rows ::
    "(string \<Rightarrow> sqlval \<Rightarrow> bool) \<Rightarrow> table_def \<Rightarrow> (string \<times> sqlval) list list \<Rightarrow>
     (sqlval \<Rightarrow> row option) \<Rightarrow> (sqlval \<Rightarrow> row option) option" where
  "insert_rows fits td [] T = Some T"
| "insert_rows fits td (r # rs) T =
     (if list_all (accepts fits td) r then
        (case map_of r (td_key td) of
           None \<Rightarrow> None
         | Some k \<Rightarrow>
             (if T k = None then insert_rows fits td rs (T(k := Some (map_of r))) else None))
      else None)"

definition assign_rows :: "(string \<times> sqlval) list \<Rightarrow> string \<Rightarrow> sqlval \<Rightarrow> (sqlval \<Rightarrow> row option) \<Rightarrow> sqlval \<Rightarrow> row option" where
  "assign_rows as c v T =
     (\<lambda>k. case T k of None \<Rightarrow> None | Some r \<Rightarrow> Some (if r c = Some v then r ++ map_of as else r))"

definition delete_rows :: "(row \<Rightarrow> bool) \<Rightarrow> (sqlval \<Rightarrow> row option) \<Rightarrow> sqlval \<Rightarrow> row option" where
  "delete_rows P T = (\<lambda>k. case T k of None \<Rightarrow> None | Some r \<Rightarrow> if P r then None else Some r)"

text \<open>The effect of a statement that writes.\<close>

definition run_write ::
    "schema \<Rightarrow> (string \<Rightarrow> sqlval \<Rightarrow> bool) \<Rightarrow> nat \<Rightarrow> stmt \<Rightarrow> sqlval list \<Rightarrow> tables \<Rightarrow> tables option" where
  "run_write schema fits now st args T =
     (if \<not> uses_all_args st args then None else
      case st of
        Insert t cols es \<Rightarrow>
          do { td \<leftarrow> schema t;
               rs \<leftarrow> all_some (build_row now args cols) es;
               T' \<leftarrow> insert_rows fits td rs (T t);
               Some (T(t := T')) }
      | Update t as c e \<Rightarrow>
          do { td \<leftarrow> schema t;
               vs \<leftarrow> all_some (eval_exp now args) (map snd as);
               v \<leftarrow> eval_exp now args e;
               (if list_all (accepts fits td) (zip (map fst as) vs) \<and> td_key td \<notin> fst ` set as
                then Some (T(t := assign_rows (zip (map fst as) vs) c v (T t))) else None) }
      | Delete t c e \<Rightarrow>
          do { td \<leftarrow> schema t;
               v \<leftarrow> eval_exp now args e;
               Some (T(t := delete_rows (\<lambda>r. r c = Some v) (T t))) }
      | Select cs t c es \<Rightarrow> None)"

text \<open>A row of the table that satisfies the condition of a query.\<close>

definition row_in :: "(sqlval \<Rightarrow> row option) \<Rightarrow> (row \<Rightarrow> bool) \<Rightarrow> row \<Rightarrow> bool" where
  "row_in T P r \<longleftrightarrow> (\<exists>k. T k = Some r) \<and> P r"

definition column_in :: "string \<Rightarrow> sqlval list \<Rightarrow> row \<Rightarrow> bool" where
  "column_in c vs r \<longleftrightarrow> (\<exists>v \<in> set vs. r c = Some v)"

end
