(* ===== verification/Go_Time.thy ===== *)
theory Go_Time
  imports Go_Strings
begin

text \<open>
  \<open>time.Duration\<close> and \<open>time.ParseDuration\<close> of Go's library, which configuration values go
  through. A duration is an \<open>int64\<close> of nanoseconds. The fraction of a number is scaled exactly,
  where the library goes through a \<open>float64\<close>.
\<close>

definition Nanosecond :: nat where "Nanosecond = 1"
definition Microsecond :: nat where "Microsecond = 1000 * Nanosecond"
definition Millisecond :: nat where "Millisecond = 1000 * Microsecond"
definition Second :: nat where "Second = 1000 * Millisecond"
definition Minute :: nat where "Minute = 60 * Second"
definition Hour :: nat where "Hour = 60 * Minute"

lemmas time_units = Nanosecond_def Microsecond_def Millisecond_def Second_def Minute_def Hour_def

definition unitMap :: "string \<Rightarrow> nat option" where
  "unitMap = map_of [(''ns'', Nanosecond), (''us'', Microsecond),
     ([CHR 0xC2, CHR 0xB5, CHR ''s''], Microsecond), ([CHR 0xCE, CHR 0xBC, CHR ''s''], Microsecond),
     (''ms'', Millisecond), (''s'', Second), (''m'', Minute), (''h'', Hour)]"

text \<open>The digits at the head of a text; \<open>None\<close> is an overflow.\<close>

fun leadingInt :: "nat \<Rightarrow> string \<Rightarrow> (nat \<times> string) option" where
  "leadingInt x [] = Some (x, [])"
| "leadingInt x (c # cs) =
     (if \<not> is_digit c then Some (x, c # cs)
      else if x > 2 ^ 63 div 10 then None
      else if x * 10 + digit_val c > 2 ^ 63 then None
      else leadingInt (x * 10 + digit_val c) cs)"

text \<open>Digits behind the point: their value, the power of ten, and the rest. Digits past an
  overflow are skipped.\<close>

fun leadingFraction :: "nat \<Rightarrow> nat \<Rightarrow> bool \<Rightarrow> string \<Rightarrow> nat \<times> nat \<times> string" where
  "leadingFraction x scale overflow [] = (x, scale, [])"
| "leadingFraction x scale overflow (c # cs) =
     (if \<not> is_digit c then (x, scale, c # cs)
      else if overflow \<or> x > (2 ^ 63 - 1) div 10 \<or> x * 10 + digit_val c > 2 ^ 63
      then leadingFraction x scale True cs
      else leadingFraction (x * 10 + digit_val c) (scale * 10) False cs)"

lemma leadingInt_shorter: "leadingInt x s = Some (v, r) \<Longrightarrow> length r \<le> length s"
  by (induction x s rule: leadingInt.induct) (auto split: if_splits)

lemma leadingFraction_shorter: "length (snd (snd (leadingFraction x k b s))) \<le> length s"
  by (induction x k b s rule: leadingFraction.induct) auto

text \<open>One number with its unit: the nanoseconds and the rest of the text. \<open>None\<close> is an error.\<close>

definition duration_part :: "string \<Rightarrow> (nat \<times> string) option" where
  "duration_part s =
     (if s = [] \<or> \<not> (hd s = CHR ''.'' \<or> is_digit (hd s)) then None
      else case leadingInt 0 s of
        None \<Rightarrow> None
      | Some (v, s1) \<Rightarrow>
          (let pre = (length s \<noteq> length s1);
               point = (s1 \<noteq> [] \<and> hd s1 = CHR ''.'');
               (f, scale, s2) = (if point then leadingFraction 0 1 False (tl s1) else (0, 1, s1));
               post = (point \<and> length (tl s1) \<noteq> length s2);
               u = takeWhile (\<lambda>c. \<not> (c = CHR ''.'' \<or> is_digit c)) s2;
               rest = drop (length u) s2
           in if \<not> pre \<and> \<not> post \<or> u = [] then None
              else case unitMap u of
                None \<Rightarrow> None
              | Some unit \<Rightarrow>
                  (if v > 2 ^ 63 div unit then None
                   else let n = v * unit + f * unit div scale
                        in if f > 0 \<and> n > 2 ^ 63 then None else Some (n, rest))))"

lemma duration_part_shorter: "duration_part s = Some (n, r) \<Longrightarrow> length r < length s"
proof -
  assume a: "duration_part s = Some (n, r)"
  then obtain v s1 where l: "leadingInt 0 s = Some (v, s1)"
    by (auto simp: duration_part_def split: option.splits if_splits)
  obtain f k s2 where s2: "(if s1 \<noteq> [] \<and> hd s1 = CHR ''.'' then leadingFraction 0 1 False (tl s1) else (0, 1, s1)) = (f, k, s2)"
    by (metis prod_cases3)
  have "length s1 \<le> length s" using l by (rule leadingInt_shorter)
  moreover have "length s2 \<le> length s1"
    using s2 leadingFraction_shorter [of 0 1 False "tl s1"] by (auto split: if_splits)
  moreover have "takeWhile (\<lambda>c. \<not> (c = CHR ''.'' \<or> is_digit c)) s2 \<noteq> []" and
    "r = drop (length (takeWhile (\<lambda>c. \<not> (c = CHR ''.'' \<or> is_digit c)) s2)) s2"
    using a l s2 by (auto simp: duration_part_def Let_def split: if_splits option.splits)
  ultimately show ?thesis by (cases s2) auto
qed

function duration_sum :: "nat \<Rightarrow> string \<Rightarrow> nat option" where
  "duration_sum d s =
     (if s = [] then Some d
      else case duration_part s of
        None \<Rightarrow> None
      | Some (v, s') \<Rightarrow> if d + v > 2 ^ 63 then None else duration_sum (d + v) s')"
  by pat_completeness auto
termination
  by (relation "measure (\<lambda>(d, s). length s)") (auto dest: duration_part_shorter)

declare duration_sum.simps [simp del]

text \<open>The value, which is 0 with an error, and whether there was no error.\<close>

definition ParseDuration :: "string \<Rightarrow> int64 \<times> goerror option" where
  "ParseDuration orig =
     (let signed = (orig \<noteq> [] \<and> (hd orig = CHR ''-'' \<or> hd orig = CHR ''+''));
          neg = (signed \<and> hd orig = CHR ''-'');
          s = (if signed then tl orig else orig);
          err = (0, Some (Errorf (''time: invalid duration '' @ orig)))
      in if s = ''0'' then (0, None)
         else if s = [] then err
         else case duration_sum 0 s of
           None \<Rightarrow> err
         | Some d \<Rightarrow>
             (if neg then (- of_nat d, None)
              else if d > 2 ^ 63 - 1 then err
              else (of_nat d, None)))"

end
