(* ===== verification/Sql_Driver.thy ===== *)
theory Sql_Driver
  imports Storage Sql Go_Time
begin

text \<open>
  The drivers \<open>mysql.go\<close> and \<open>pgsql.go\<close> of \<open>pkg/tc/storage/driver\<close>. The two files agree but for
  their statement texts, their placeholders and the limit of one query, which the record
  \<open>dialect\<close> holds; the operations are stated once, over a dialect, and the theories \<open>Mysql\<close> and
  \<open>Pgsql\<close> supply the texts. The database behind xorm is the record \<open>engine\<close> of functions on
  its state: it answers with rows, which the struct tags of \<open>seata.pb.go\<close> turn into objects.
\<close>

subsection \<open>The database\<close>

datatype cond = CondIn string "sqlval list" | CondEq string sqlval

record builder_query =
  bq_table :: string
  bq_where :: "cond list"
  bq_order :: string
  bq_limit :: "int option"

record 'd engine =
  eng_Exec :: "string \<Rightarrow> sqlval list \<Rightarrow> 'd \<Rightarrow> goerror option \<times> 'd"
  eng_Get :: "string \<Rightarrow> sqlval list \<Rightarrow> 'd \<Rightarrow> (row option \<times> goerror option) \<times> 'd"
  eng_Find :: "string \<Rightarrow> sqlval list \<Rightarrow> 'd \<Rightarrow> (row list \<times> goerror option) \<times> 'd"
  eng_Query :: "builder_query \<Rightarrow> 'd \<Rightarrow> (row list \<times> goerror option) \<times> 'd"
  eng_Delete :: "string \<Rightarrow> cond list \<Rightarrow> 'd \<Rightarrow> goerror option \<times> 'd"

text \<open>Running an operation of the database inside the world.\<close>

definition on_db :: "('d \<Rightarrow> 'a \<times> 'd) \<Rightarrow> 'd world \<Rightarrow> 'a \<times> 'd world" where
  "on_db f w = (let (r, d) = f (drv w) in (r, w\<lparr>drv := d\<rparr>))"

subsection \<open>Rows and objects\<close>

fun BranchType_num :: "BranchType \<Rightarrow> nat" where
  "BranchType_num AT = 0" | "BranchType_num TCC = 1" | "BranchType_num SAGA = 2" | "BranchType_num XA = 3"

fun BranchStatus_num :: "BranchStatus \<Rightarrow> nat" where
  "BranchStatus_num UnknownBranchStatus = 0"
| "BranchStatus_num Registered = 1"
| "BranchStatus_num PhaseOneDone = 2"
| "BranchStatus_num PhaseOneFailed = 3"
| "BranchStatus_num PhaseOneTimeout = 4"
| "BranchStatus_num PhaseTwoCommitted = 5"
| "BranchStatus_num PhaseTwoCommitFailedRetryable = 6"
| "BranchStatus_num PhaseTwoCommitFailedCanNotRetry = 7"
| "BranchStatus_num PhaseTwoRolledBack = 8"
| "BranchStatus_num PhaseTwoRollbackFailedRetryable = 9"
| "BranchStatus_num PhaseTwoRollbackFailedCanNotRetry = 10"

text \<open>A number outside an enumeration, which no driver stores, reads as the zero constant.\<close>

definition by_num :: "('a \<Rightarrow> nat) \<Rightarrow> 'a list \<Rightarrow> 'a \<Rightarrow> int \<Rightarrow> 'a" where
  "by_num num all z n = (case find (\<lambda>x. int (num x) = n) all of Some x \<Rightarrow> x | None \<Rightarrow> z)"

definition GlobalStatus_of :: "int \<Rightarrow> GlobalStatus" where
  "GlobalStatus_of = by_num GlobalStatus_num
     [UnknownGlobalStatus, Begin, Committing, CommitRetrying, RollingBack, RollbackRetrying,
      TimeoutRollingBack, TimeoutRollbackRetrying, AsyncCommitting, Committed, CommitFailed,
      RolledBack, RollbackFailed, TimeoutRolledBack, TimeoutRollbackFailed, Finished] UnknownGlobalStatus"

definition BranchType_of :: "int \<Rightarrow> BranchType" where
  "BranchType_of = by_num BranchType_num [AT, TCC, SAGA, XA] AT"

definition BranchStatus_of :: "int \<Rightarrow> BranchStatus" where
  "BranchStatus_of = by_num BranchStatus_num
     [UnknownBranchStatus, Registered, PhaseOneDone, PhaseOneFailed, PhaseOneTimeout,
      PhaseTwoCommitted, PhaseTwoCommitFailedRetryable, PhaseTwoCommitFailedCanNotRetry,
      PhaseTwoRolledBack, PhaseTwoRollbackFailedRetryable, PhaseTwoRollbackFailedCanNotRetry]
     UnknownBranchStatus"

lemma of_num [simp]:
  "GlobalStatus_of (int (GlobalStatus_num s)) = s"
  "BranchType_of (int (BranchType_num t)) = t"
  "BranchStatus_of (int (BranchStatus_num b)) = b"
proof -
  show "GlobalStatus_of (int (GlobalStatus_num s)) = s"
    by (cases s) (simp_all add: GlobalStatus_of_def by_num_def)
  show "BranchType_of (int (BranchType_num t)) = t"
    by (cases t) (simp_all add: BranchType_of_def by_num_def)
  show "BranchStatus_of (int (BranchStatus_num b)) = b"
    by (cases b) (simp_all add: BranchStatus_of_def by_num_def)
qed

text \<open>A column as a field of a Go struct; a missing or NULL column leaves the zero value.\<close>

fun as_string :: "sqlval option \<Rightarrow> string" where
  "as_string (Some (VStr s)) = s" | "as_string _ = []"

fun as_int :: "sqlval option \<Rightarrow> int" where
  "as_int (Some (VInt n)) = n" | "as_int (Some (VBool b)) = (if b then 1 else 0)" | "as_int _ = 0"

fun as_bool :: "sqlval option \<Rightarrow> bool" where
  "as_bool (Some (VBool b)) = b" | "as_bool (Some (VInt n)) = (n \<noteq> 0)" | "as_bool _ = False"

fun as_bytes :: "sqlval option \<Rightarrow> string option" where
  "as_bytes (Some (VStr s)) = Some s" | "as_bytes _ = None"

definition bytes_val :: "string option \<Rightarrow> sqlval" where
  "bytes_val b = (case b of None \<Rightarrow> VNull | Some s \<Rightarrow> VStr s)"

lemma as_bytes_val [simp]: "as_bytes (Some (bytes_val b)) = b"
  by (cases b) (simp_all add: bytes_val_def)

definition scan_session :: "row \<Rightarrow> GlobalSession" where
  "scan_session r =
     \<lparr>gs_Addressing = as_string (r ''addressing''), gs_XID = as_string (r ''xid''),
      gs_TransactionID = word_of_int (as_int (r ''transaction_id'')),
      gs_TransactionName = as_string (r ''transaction_name''),
      gs_Timeout = word_of_int (as_int (r ''timeout'')),
      gs_BeginTime = word_of_int (as_int (r ''begin_time'')),
      gs_Status = GlobalStatus_of (as_int (r ''status'')), gs_Active = as_bool (r ''active'')\<rparr>"

definition scan_branch :: "row \<Rightarrow> BranchSession" where
  "scan_branch r =
     \<lparr>bs_Addressing = as_string (r ''addressing''), bs_XID = as_string (r ''xid''),
      bs_BranchID = word_of_int (as_int (r ''branch_id'')),
      bs_TransactionID = word_of_int (as_int (r ''transaction_id'')),
      bs_ResourceID = as_string (r ''resource_id''), bs_LockKey = as_string (r ''lock_key''),
      bs_Type = BranchType_of (as_int (r ''branch_type'')),
      bs_Status = BranchStatus_of (as_int (r ''status'')),
      bs_ApplicationData = as_bytes (r ''application_data''),
      bs_AsyncCommit = as_bool (r ''async_commit'')\<rparr>"

definition scan_lock :: "row \<Rightarrow> RowLock" where
  "scan_lock r =
     \<lparr>rl_XID = as_string (r ''xid''), rl_TransactionID = word_of_int (as_int (r ''transaction_id'')),
      rl_BranchID = word_of_int (as_int (r ''branch_id'')),
      rl_ResourceID = as_string (r ''resource_id''), rl_TableName = as_string (r ''table_name''),
      rl_PK = as_string (r ''pk''), rl_RowKey = as_string (r ''row_key'')\<rparr>"

text \<open>The objects a query allocates.\<close>

fun load_sessions :: "row list \<Rightarrow> 'd world \<Rightarrow> gref list \<times> 'd world" where
  "load_sessions [] w = ([], w)"
| "load_sessions (r # rs) w =
     (let (g, w1) = new_gs (scan_session r) w; (gs, w2) = load_sessions rs w1 in (g # gs, w2))"

fun load_branches :: "row list \<Rightarrow> 'd world \<Rightarrow> bref list \<times> 'd world" where
  "load_branches [] w = ([], w)"
| "load_branches (r # rs) w =
     (let (b, w1) = new_bs (scan_branch r) w; (bs, w2) = load_branches rs w1 in (b # bs, w2))"

subsection \<open>Dialects and the driver\<close>

record dialect =
  di_engine :: string
  di_InsertGlobalTransaction :: string
  di_QueryGlobalTransactionByXid :: string
  di_UpdateGlobalTransaction :: string
  di_InactiveGlobalTransaction :: string
  di_DeleteGlobalTransaction :: string
  di_InsertBranchTransaction :: string
  di_QueryBranchTransaction :: string
  di_QueryBranchTransactionByXid :: string
  di_UpdateBranchTransaction :: string
  di_DeleteBranchTransaction :: string
  di_InsertRowLock :: string
  di_QueryRowKey :: string
  di_CreateGlobalTable :: string
  di_CreateBranchTable :: string
  di_CreateLockTable :: string
  di_AppendInParam :: "nat \<Rightarrow> string"
  di_lock_values :: "nat \<Rightarrow> string"
  di_all_limited :: bool

record 'd sql_driver =
  dv_engine :: "'d engine"
  dv_globalTable :: string
  dv_branchTable :: string
  dv_lockTable :: string
  dv_queryLimit :: int64

text \<open>The session operations.\<close>

definition sql_AddGlobalSession ::
    "dialect \<Rightarrow> 'd sql_driver \<Rightarrow> gref \<Rightarrow> 'd world \<Rightarrow> goerror option \<times> 'd world" where
  "sql_AddGlobalSession dl dv g w =
     (let s = gobj w g
      in on_db (eng_Exec (dv_engine dv) (fill (di_InsertGlobalTransaction dl) [dv_globalTable dv])
           [VStr (gs_Addressing s), VStr (gs_XID s), VInt (sint (gs_TransactionID s)),
            VStr (gs_TransactionName s), VInt (sint (gs_Timeout s)), VInt (sint (gs_BeginTime s)),
            VInt (int (GlobalStatus_num (gs_Status s))), VBool (gs_Active s)]) w)"

definition sql_FindGlobalSession ::
    "dialect \<Rightarrow> 'd sql_driver \<Rightarrow> string \<Rightarrow> 'd world \<Rightarrow> gref option \<times> 'd world" where
  "sql_FindGlobalSession dl dv xid w =
     (let ((result, err), w1) = on_db (eng_Get (dv_engine dv)
            (fill (di_QueryGlobalTransactionByXid dl) [dv_globalTable dv]) [VStr xid]) w
      in case result of
           Some r \<Rightarrow> (let (g, w2) = new_gs (scan_session r) w1 in (Some g, w2))
         | None \<Rightarrow> (None, w1))"

definition session_query :: "'d sql_driver \<Rightarrow> cond list \<Rightarrow> int option \<Rightarrow> 'd world \<Rightarrow> gref list \<times> 'd world" where
  "session_query dv cs lim w =
     (let ((rows, err), w1) = on_db (eng_Query (dv_engine dv)
            \<lparr>bq_table = dv_globalTable dv, bq_where = cs, bq_order = ''gmt_modified'', bq_limit = lim\<rparr>) w
      in load_sessions rows w1)"

definition status_vals :: "GlobalStatus list \<Rightarrow> sqlval list" where
  "status_vals sts = map (\<lambda>st. VInt (int (GlobalStatus_num st))) sts"

definition sql_FindGlobalSessions ::
    "'d sql_driver \<Rightarrow> GlobalStatus list \<Rightarrow> 'd world \<Rightarrow> gref list \<times> 'd world" where
  "sql_FindGlobalSessions dv statuses w =
     session_query dv [CondIn ''status'' (status_vals statuses)] (Some (sint (dv_queryLimit dv))) w"

definition sql_FindGlobalSessionsWithAddressingIdentities ::
    "'d sql_driver \<Rightarrow> GlobalStatus list \<Rightarrow> string list \<Rightarrow> 'd world \<Rightarrow> gref list \<times> 'd world" where
  "sql_FindGlobalSessionsWithAddressingIdentities dv statuses addressingIdentities w =
     session_query dv [CondIn ''status'' (status_vals statuses),
       CondIn ''addressing'' (map VStr addressingIdentities)] (Some (sint (dv_queryLimit dv))) w"

definition sql_AllSessions :: "dialect \<Rightarrow> 'd sql_driver \<Rightarrow> 'd world \<Rightarrow> gref list \<times> 'd world" where
  "sql_AllSessions dl dv w =
     session_query dv [] (if di_all_limited dl then Some (sint (dv_queryLimit dv)) else None) w"

definition sql_UpdateGlobalSessionStatus ::
    "dialect \<Rightarrow> 'd sql_driver \<Rightarrow> gref \<Rightarrow> GlobalStatus \<Rightarrow> 'd world \<Rightarrow> goerror option \<times> 'd world" where
  "sql_UpdateGlobalSessionStatus dl dv g status w =
     on_db (eng_Exec (dv_engine dv) (fill (di_UpdateGlobalTransaction dl) [dv_globalTable dv])
       [VInt (int (GlobalStatus_num status)), VStr (gs_XID (gobj w g))]) w"

definition sql_InactiveGlobalSession ::
    "dialect \<Rightarrow> 'd sql_driver \<Rightarrow> gref \<Rightarrow> 'd world \<Rightarrow> goerror option \<times> 'd world" where
  "sql_InactiveGlobalSession dl dv g w =
     on_db (eng_Exec (dv_engine dv) (fill (di_InactiveGlobalTransaction dl) [dv_globalTable dv])
       [VStr (gs_XID (gobj w g))]) w"

definition sql_RemoveGlobalSession ::
    "dialect \<Rightarrow> 'd sql_driver \<Rightarrow> gref \<Rightarrow> 'd world \<Rightarrow> goerror option \<times> 'd world" where
  "sql_RemoveGlobalSession dl dv g w =
     on_db (eng_Exec (dv_engine dv) (fill (di_DeleteGlobalTransaction dl) [dv_globalTable dv])
       [VStr (gs_XID (gobj w g))]) w"

definition sql_AddBranchSession ::
    "dialect \<Rightarrow> 'd sql_driver \<Rightarrow> gref \<Rightarrow> bref \<Rightarrow> 'd world \<Rightarrow> goerror option \<times> 'd world" where
  "sql_AddBranchSession dl dv g b w =
     (let s = bobj w b
      in on_db (eng_Exec (dv_engine dv) (fill (di_InsertBranchTransaction dl) [dv_branchTable dv])
           [VStr (bs_Addressing s), VStr (bs_XID s), VInt (sint (bs_BranchID s)),
            VInt (sint (bs_TransactionID s)), VStr (bs_ResourceID s), VStr (bs_LockKey s),
            VInt (int (BranchType_num (bs_Type s))), VInt (int (BranchStatus_num (bs_Status s))),
            bytes_val (bs_ApplicationData s), VBool (bs_AsyncCommit s)]) w)"

definition sql_FindBranchSessions ::
    "dialect \<Rightarrow> 'd sql_driver \<Rightarrow> string \<Rightarrow> 'd world \<Rightarrow> bref list \<times> 'd world" where
  "sql_FindBranchSessions dl dv xid w =
     (let ((rows, err), w1) = on_db (eng_Find (dv_engine dv)
            (fill (di_QueryBranchTransactionByXid dl) [dv_branchTable dv]) [VStr xid]) w
      in load_branches rows w1)"

definition sql_FindBatchBranchSessions ::
    "dialect \<Rightarrow> 'd sql_driver \<Rightarrow> string list \<Rightarrow> 'd world \<Rightarrow> bref list \<times> 'd world" where
  "sql_FindBatchBranchSessions dl dv xids w =
     (let whereCond = fill ''xid in %s'' [di_AppendInParam dl (length xids)];
          ((rows, err), w1) = on_db (eng_Find (dv_engine dv)
            (fill (di_QueryBranchTransaction dl) [dv_branchTable dv, whereCond]) (map VStr xids)) w
      in load_branches rows w1)"

definition sql_UpdateBranchSessionStatus ::
    "dialect \<Rightarrow> 'd sql_driver \<Rightarrow> bref \<Rightarrow> BranchStatus \<Rightarrow> 'd world \<Rightarrow> goerror option \<times> 'd world" where
  "sql_UpdateBranchSessionStatus dl dv b status w =
     on_db (eng_Exec (dv_engine dv) (fill (di_UpdateBranchTransaction dl) [dv_branchTable dv])
       [VInt (int (BranchStatus_num status)), VInt (sint (bs_BranchID (bobj w b)))]) w"

definition sql_RemoveBranchSession ::
    "dialect \<Rightarrow> 'd sql_driver \<Rightarrow> gref \<Rightarrow> bref \<Rightarrow> 'd world \<Rightarrow> goerror option \<times> 'd world" where
  "sql_RemoveBranchSession dl dv g b w =
     on_db (eng_Exec (dv_engine dv) (fill (di_DeleteBranchTransaction dl) [dv_branchTable dv])
       [VInt (sint (bs_BranchID (bobj w b)))]) w"

subsection \<open>Row locks\<close>

text \<open>The first lock of each row key, with the keys; \<open>lockMap\<close> holds the keys seen.\<close>

fun distinctByKey :: "string list \<Rightarrow> RowLock list \<Rightarrow> RowLock list \<times> string list" where
  "distinctByKey lockMap [] = ([], [])"
| "distinctByKey lockMap (l # ls) =
     (if rl_RowKey l \<in> set lockMap then distinctByKey lockMap ls
      else let (result, rowKeys) = distinctByKey (rl_RowKey l # lockMap) ls
           in (l # result, rl_RowKey l # rowKeys))"

fun sql_contains :: "string list \<Rightarrow> string \<Rightarrow> bool" where
  "sql_contains [] e = False"
| "sql_contains (a # s) e = (if a = e then True else sql_contains s e)"

text \<open>The loop over the existing locks: their keys, or \<open>None\<close> at a lock of another transaction.\<close>

fun existed_keys :: "string \<Rightarrow> RowLock list \<Rightarrow> string list option" where
  "existed_keys currentXID [] = Some []"
| "existed_keys currentXID (l # ls) =
     (if rl_XID l \<noteq> currentXID then None else map_option ((#) (rl_RowKey l)) (existed_keys currentXID ls))"

fun lock_args :: "RowLock list \<Rightarrow> sqlval list" where
  "lock_args [] = []"
| "lock_args (l # ls) =
     [VStr (rl_XID l), VInt (sint (rl_TransactionID l)), VInt (sint (rl_BranchID l)),
      VStr (rl_ResourceID l), VStr (rl_TableName l), VStr (rl_PK l), VStr (rl_RowKey l)] @ lock_args ls"

text \<open>The insertion; slicing the last character off an empty text panics.\<close>

definition insert_locks :: "dialect \<Rightarrow> 'd sql_driver \<Rightarrow> RowLock list \<Rightarrow> 'd world \<Rightarrow> (bool \<times> 'd world) option" where
  "insert_locks dl dv ls w =
     (let values = concat (map (di_lock_values dl) [0..<length ls])
      in if values = [] then None
         else let (err, w1) = on_db (eng_Exec (dv_engine dv)
                (fill (di_InsertRowLock dl) [dv_lockTable dv, butlast values]) (lock_args ls)) w
              in Some (err = None, w1))"

definition find_locks :: "dialect \<Rightarrow> 'd sql_driver \<Rightarrow> string list \<Rightarrow> 'd world \<Rightarrow> RowLock list \<times> 'd world" where
  "find_locks dl dv rowKeys w =
     (let whereCond = fill ''row_key in %s'' [di_AppendInParam dl (length rowKeys)];
          ((rows, err), w1) = on_db (eng_Find (dv_engine dv)
            (fill (di_QueryRowKey dl) [dv_lockTable dv, whereCond]) (map VStr rowKeys)) w
      in (map scan_lock rows, w1))"

definition sql_AcquireLock ::
    "dialect \<Rightarrow> 'd sql_driver \<Rightarrow> RowLock slice \<Rightarrow> bool \<Rightarrow> 'd world \<Rightarrow> (bool \<times> 'd world) option" where
  "sql_AcquireLock dl dv rowLocks skipCheckLock w =
     (let (locks, rowKeys) = distinctByKey [] (elems rowLocks);
          (existedRowLocks, w1) = find_locks dl dv rowKeys w
      in if skipCheckLock then insert_locks dl dv (elems rowLocks) w1
         else case locks of
           [] \<Rightarrow> None
         | l0 # _ \<Rightarrow>
             (case existed_keys (rl_XID l0) existedRowLocks of
                None \<Rightarrow> Some (False, w1)
              | Some existedRowKeys \<Rightarrow>
                  (let unrepeatedLocks =
                         (if existedRowKeys \<noteq> []
                          then filter (\<lambda>l. \<not> sql_contains existedRowKeys (rl_RowKey l)) locks else locks)
                   in if unrepeatedLocks = [] then Some (True, w1)
                      else insert_locks dl dv unrepeatedLocks w1)))"

definition sql_ReleaseLock :: "'d sql_driver \<Rightarrow> RowLock slice \<Rightarrow> 'd world \<Rightarrow> (bool \<times> 'd world) option" where
  "sql_ReleaseLock dv rowLocks w =
     (if rowLocks = Some [] then Some (True, w)
      else case elems rowLocks of
        [] \<Rightarrow> None
      | l0 # _ \<Rightarrow>
          (let rowKeys = map rl_RowKey (elems rowLocks);
               (err, w1) = on_db (eng_Delete (dv_engine dv) (dv_lockTable dv)
                 [CondIn ''row_key'' (map VStr rowKeys), CondEq ''xid'' (VStr (rl_XID l0))]) w
           in Some (err = None, w1)))"

fun all_of_xid :: "string \<Rightarrow> RowLock list \<Rightarrow> bool" where
  "all_of_xid currentXID [] = True"
| "all_of_xid currentXID (l # ls) = (if rl_XID l \<noteq> currentXID then False else all_of_xid currentXID ls)"

definition sql_IsLockable ::
    "dialect \<Rightarrow> 'd sql_driver \<Rightarrow> string \<Rightarrow> string \<Rightarrow> string \<Rightarrow> 'd world \<Rightarrow> (bool \<times> 'd world) option" where
  "sql_IsLockable dl dv xid resourceID lockKey w =
     (let locks = elems (CollectRowLocks lockKey resourceID xid);
          (existedRowLocks, w1) = find_locks dl dv (map rl_RowKey locks) w
      in case locks of
           [] \<Rightarrow> None
         | l0 # _ \<Rightarrow> Some (all_of_xid (rl_XID l0) existedRowLocks, w1))"

subsection \<open>Parameters and construction\<close>

text \<open>A value of the configuration map; \<open>POther\<close> carries the text \<open>fmt.Sprint\<close> gives.\<close>

datatype param = PString string | PInt int64 | PDuration int64 string | POther string

fun Sprint :: "param \<Rightarrow> string" where
  "Sprint (PString s) = s" | "Sprint (PInt n) = show_int64 n"
| "Sprint (PDuration d s) = s" | "Sprint (POther s) = s"

record DriverParameters =
  dp_DSN :: string
  dp_GlobalTable :: string
  dp_BranchTable :: string
  dp_LockTable :: string
  dp_QueryLimit :: int64
  dp_MaxOpenConnections :: int64
  dp_MaxIdleConnections :: int64
  dp_MaxLifeTime :: int64

definition string_param :: "(string \<Rightarrow> param option) \<Rightarrow> string \<Rightarrow> string \<Rightarrow> string" where
  "string_param ps k dflt = (case ps k of None \<Rightarrow> dflt | Some p \<Rightarrow> Sprint p)"

text \<open>\<open>strconv.Atoi\<close> assigns its value also when it reports an error, which is only logged.\<close>

definition int_param :: "(string \<Rightarrow> param option) \<Rightarrow> string \<Rightarrow> int64 \<Rightarrow> int64" where
  "int_param ps k dflt =
     (case ps k of Some (PString s) \<Rightarrow> fst (ParseInt s) | Some (PInt n) \<Rightarrow> n | _ \<Rightarrow> dflt)"

definition duration_param :: "(string \<Rightarrow> param option) \<Rightarrow> string \<Rightarrow> int64 \<Rightarrow> int64" where
  "duration_param ps k dflt =
     (case ps k of Some (PString s) \<Rightarrow> fst (ParseDuration s) | Some (PDuration d t) \<Rightarrow> d | _ \<Rightarrow> dflt)"

definition sql_FromParameters :: "(string \<Rightarrow> param option) \<Rightarrow> DriverParameters" where
  "sql_FromParameters parameters =
     \<lparr>dp_DSN = string_param parameters ''dsn'' [],
      dp_GlobalTable = string_param parameters ''globaltable'' ''global_table'',
      dp_BranchTable = string_param parameters ''branchtable'' ''branch_table'',
      dp_LockTable = string_param parameters ''locktable'' ''lock_table'',
      dp_QueryLimit = int_param parameters ''querylimit'' 100,
      dp_MaxOpenConnections = int_param parameters ''maxopenconnections'' 100,
      dp_MaxIdleConnections = int_param parameters ''maxidleconnections'' 20,
      dp_MaxLifeTime = duration_param parameters ''maxlifetime'' (of_nat (4 * Hour))\<rparr>"

text \<open>\<open>NewEngine\<close> opens the database; the pool settings are passed on to it.\<close>

definition sql_New ::
    "dialect \<Rightarrow> (string \<Rightarrow> DriverParameters \<Rightarrow> goerror + 'd engine) \<Rightarrow> DriverParameters \<Rightarrow> 'd \<Rightarrow>
     (goerror + 'd sql_driver) \<times> 'd" where
  "sql_New dl NewEngine params d =
     (if dp_DSN params = [] then (Inl (Errorf ''the dsn parameter should not be empty''), d)
      else case NewEngine (di_engine dl) params of
        Inl e \<Rightarrow> (Inl e, d)
      | Inr eng \<Rightarrow>
          (let gt = dp_GlobalTable params; bt = dp_BranchTable params; lt = dp_LockTable params;
               (e1, d1) = eng_Exec eng (fill (di_CreateGlobalTable dl) [gt, gt, gt]) [] d
           in case e1 of Some e \<Rightarrow> (Inl e, d1) | None \<Rightarrow>
             (let (e2, d2) = eng_Exec eng (fill (di_CreateBranchTable dl) [bt, bt]) [] d1
              in case e2 of Some e \<Rightarrow> (Inl e, d2) | None \<Rightarrow>
                (let (e3, d3) = eng_Exec eng (fill (di_CreateLockTable dl) [lt, lt]) [] d2
                 in case e3 of Some e \<Rightarrow> (Inl e, d3) | None \<Rightarrow>
                   (Inr \<lparr>dv_engine = eng, dv_globalTable = gt, dv_branchTable = bt,
                      dv_lockTable = lt, dv_queryLimit = dp_QueryLimit params\<rparr>, d3)))))"

subsection \<open>The driver as interface values\<close>

definition sql_sm :: "dialect \<Rightarrow> 'd sql_driver \<Rightarrow> 'd SessionManager" where
  "sql_sm dl dv =
     \<lparr>sm_AddGlobalSession = sql_AddGlobalSession dl dv,
      sm_FindGlobalSession = sql_FindGlobalSession dl dv,
      sm_FindGlobalSessions = sql_FindGlobalSessions dv,
      sm_FindGlobalSessionsWithAddressingIdentities = sql_FindGlobalSessionsWithAddressingIdentities dv,
      sm_AllSessions = sql_AllSessions dl dv,
      sm_UpdateGlobalSessionStatus = sql_UpdateGlobalSessionStatus dl dv,
      sm_InactiveGlobalSession = sql_InactiveGlobalSession dl dv,
      sm_RemoveGlobalSession = sql_RemoveGlobalSession dl dv,
      sm_AddBranchSession = sql_AddBranchSession dl dv,
      sm_FindBranchSessions = sql_FindBranchSessions dl dv,
      sm_FindBatchBranchSessions = sql_FindBatchBranchSessions dl dv,
      sm_UpdateBranchSessionStatus = sql_UpdateBranchSessionStatus dl dv,
      sm_RemoveBranchSession = sql_RemoveBranchSession dl dv\<rparr>"

definition sql_lm :: "dialect \<Rightarrow> 'd sql_driver \<Rightarrow> 'd StorageLockManager" where
  "sql_lm dl dv =
     \<lparr>lm_AcquireLock = sql_AcquireLock dl dv, lm_ReleaseLock = sql_ReleaseLock dv,
      lm_IsLockable = sql_IsLockable dl dv\<rparr>"

definition sql_Driver :: "dialect \<Rightarrow> 'd sql_driver \<Rightarrow> 'd Driver" where
  "sql_Driver dl dv = \<lparr>dr_SessionManager = sql_sm dl dv, dr_LockManager = sql_lm dl dv\<rparr>"

lemma sql_sm_simps [simp]:
  "sm_AddGlobalSession (sql_sm dl dv) = sql_AddGlobalSession dl dv"
  "sm_FindGlobalSession (sql_sm dl dv) = sql_FindGlobalSession dl dv"
  "sm_FindGlobalSessions (sql_sm dl dv) = sql_FindGlobalSessions dv"
  "sm_FindGlobalSessionsWithAddressingIdentities (sql_sm dl dv) = sql_FindGlobalSessionsWithAddressingIdentities dv"
  "sm_AllSessions (sql_sm dl dv) = sql_AllSessions dl dv"
  "sm_UpdateGlobalSessionStatus (sql_sm dl dv) = sql_UpdateGlobalSessionStatus dl dv"
  "sm_InactiveGlobalSession (sql_sm dl dv) = sql_InactiveGlobalSession dl dv"
  "sm_RemoveGlobalSession (sql_sm dl dv) = sql_RemoveGlobalSession dl dv"
  "sm_AddBranchSession (sql_sm dl dv) = sql_AddBranchSession dl dv"
  "sm_FindBranchSessions (sql_sm dl dv) = sql_FindBranchSessions dl dv"
  "sm_FindBatchBranchSessions (sql_sm dl dv) = sql_FindBatchBranchSessions dl dv"
  "sm_UpdateBranchSessionStatus (sql_sm dl dv) = sql_UpdateBranchSessionStatus dl dv"
  "sm_RemoveBranchSession (sql_sm dl dv) = sql_RemoveBranchSession dl dv"
  "lm_AcquireLock (sql_lm dl dv) = sql_AcquireLock dl dv"
  "lm_ReleaseLock (sql_lm dl dv) = sql_ReleaseLock dv"
  "lm_IsLockable (sql_lm dl dv) = sql_IsLockable dl dv"
  by (simp_all add: sql_sm_def sql_lm_def)

end
