(* ===== verification/Sql_Engine.thy ===== *)
theory Sql_Engine
  imports Sql_Driver
begin

text \<open>
  What the drivers rely on of the database behind xorm, as the locale \<open>sql_engine\<close>: a statement
  does what SQL says or fails without effect; it may also report an error after it took effect,
  as when the connection breaks before the answer. Queries answer with rows that satisfy their
  condition, all of them when there is no error. Values are compared exactly, as under a binary
  collation. The concrete engine \<open>db\<close>, a list of keys per table and a schedule of faults, shows
  that the contract can be met.
\<close>

definition holds :: "cond list \<Rightarrow> row \<Rightarrow> bool" where
  "holds cs r \<longleftrightarrow> list_all (\<lambda>c. case c of CondIn col vs \<Rightarrow> column_in col vs r | CondEq col v \<Rightarrow> r col = Some v) cs"

text \<open>The rows a \<open>select\<close> asks for, cut down to its columns.\<close>

definition answers :: "tables \<Rightarrow> string \<Rightarrow> sqlval list \<Rightarrow> row \<Rightarrow> bool" where
  "answers T sql args row \<longleftrightarrow>
     (\<exists>cs t c es vs r. parse sql = Some (Select cs t c es) \<and> all_some (eval_exp 0 args) es = Some vs \<and>
        row_in (T t) (column_in c vs) r \<and> row = r |` set cs)"

locale sql_engine =
  fixes eng :: "'d engine"
    and tab :: "'d \<Rightarrow> tables"
    and wf :: "'d \<Rightarrow> bool"
    and schema :: schema
    and fits :: "string \<Rightarrow> sqlval \<Rightarrow> bool"
  assumes exec: "wf d \<Longrightarrow> eng_Exec eng sql args d = (e, d') \<Longrightarrow>
      wf d' \<and> (tab d' = tab d \<and> (e \<noteq> None \<or> parse_create sql \<noteq> None) \<or>
        (\<exists>st now. parse sql = Some st \<and> run_write schema fits now st args (tab d) = Some (tab d')))"
    and get: "wf d \<Longrightarrow> eng_Get eng sql args d = ((found, e), d') \<Longrightarrow>
      wf d' \<and> tab d' = tab d \<and> (\<forall>row. found = Some row \<longrightarrow> answers (tab d) sql args row)"
    and find_rows: "wf d \<Longrightarrow> eng_Find eng sql args d = ((rs, e), d') \<Longrightarrow>
      wf d' \<and> tab d' = tab d \<and> (\<forall>row \<in> set rs. answers (tab d) sql args row) \<and>
      (e = None \<longrightarrow> (\<forall>row. answers (tab d) sql args row \<longrightarrow> row \<in> set rs))"
    and query: "wf d \<Longrightarrow> eng_Query eng q d = ((rs, e), d') \<Longrightarrow>
      wf d' \<and> tab d' = tab d \<and> distinct rs \<and> (\<forall>r \<in> set rs. row_in (tab d (bq_table q)) (holds (bq_where q)) r)"
    and delete_where: "wf d \<Longrightarrow> eng_Delete eng t cs d = (e, d') \<Longrightarrow>
      wf d' \<and> (e \<noteq> None \<and> tab d' = tab d \<or> tab d' = (tab d)(t := delete_rows (holds cs) (tab d t)))"
    and keyed: "wf d \<Longrightarrow> schema t = Some td \<Longrightarrow> tab d t k = Some r \<Longrightarrow> r (td_key td) = Some k"
begin

text \<open>A statement whose text is understood takes effect or leaves the tables alone, with an error.\<close>

lemma exec_stmt:
  assumes "wf d" and "eng_Exec eng sql args d = (e, d')" and "parse sql = Some st" and "parse_create sql = None"
  shows "wf d'"
    and "e \<noteq> None \<and> tab d' = tab d \<or> (\<exists>now. run_write schema fits now st args (tab d) = Some (tab d'))"
  using exec [OF assms(1,2)] assms(3,4) by auto

end

text \<open>No text is both a statement and a table definition.\<close>

lemma parse_not_create:
  assumes "parse sql = Some st" shows "parse_create sql = None"
proof (rule ccontr)
  assume "parse_create sql \<noteq> None"
  then obtain ws where "tokens sql = ''CREATE'' # ws"
    by (auto simp: parse_create_def split: list.splits if_splits)
  with assms show False by (simp add: parse_def parse_words_def)
qed

subsection \<open>What a statement leaves alone\<close>

fun stmt_table :: "stmt \<Rightarrow> string" where
  "stmt_table (Insert t cs es) = t"
| "stmt_table (Update t as c e) = t"
| "stmt_table (Delete t c e) = t"
| "stmt_table (Select cs t c es) = t"

lemma run_write_other:
  "run_write schema fits now st args T = Some T' \<Longrightarrow> t \<noteq> stmt_table st \<Longrightarrow> T' t = T t"
  by (cases st) (auto simp: run_write_def split: if_splits Option.bind_splits)

lemma insert_rows_old:
  "insert_rows fits td rs T = Some T' \<Longrightarrow> T k = Some r \<Longrightarrow> T' k = Some r"
proof (induction rs arbitrary: T)
  case (Cons x xs)
  then obtain k' where k: "map_of x (td_key td) = Some k'" "T k' = None"
    "insert_rows fits td xs (T(k' := Some (map_of x))) = Some T'"
    by (auto split: if_splits option.splits)
  with Cons.IH [OF k(3)] Cons.prems(2) show ?case by (cases "k = k'") auto
qed simp

lemma insert_rows_new:
  "insert_rows fits td rs T = Some T' \<Longrightarrow> T' k = Some r \<Longrightarrow>
   T k = Some r \<or> (\<exists>x \<in> set rs. r = map_of x \<and> map_of x (td_key td) = Some k)"
proof (induction rs arbitrary: T)
  case (Cons x xs)
  then obtain k' where k: "map_of x (td_key td) = Some k'" "T k' = None"
    "insert_rows fits td xs (T(k' := Some (map_of x))) = Some T'"
    by (auto split: if_splits option.splits)
  from Cons.IH [OF k(3) Cons.prems(2)] k(1,2) show ?case by (auto split: if_splits)
qed simp

lemma insert_rows_all:
  "insert_rows fits td rs T = Some T' \<Longrightarrow> x \<in> set rs \<Longrightarrow>
   \<exists>k. map_of x (td_key td) = Some k \<and> T k = None \<and> T' k = Some (map_of x)"
proof (induction rs arbitrary: T)
  case (Cons y ys)
  then obtain k' where k: "map_of y (td_key td) = Some k'" "T k' = None"
    "insert_rows fits td ys (T(k' := Some (map_of y))) = Some T'"
    by (auto split: if_splits option.splits)
  show ?case
  proof (cases "x = y")
    case True
    with k insert_rows_old [OF k(3), of k'] show ?thesis by auto
  next
    case False
    with Cons.prems(2) Cons.IH [OF k(3)] obtain k2 where "map_of x (td_key td) = Some k2"
      "(T(k' := Some (map_of y))) k2 = None" "T' k2 = Some (map_of x)" by auto
    then show ?thesis by (auto split: if_splits)
  qed
qed simp

lemma insert_rows_keyed:
  assumes "insert_rows fits td rs T = Some T'" and "\<forall>k r. T k = Some r \<longrightarrow> r (td_key td) = Some k"
    and "T' k = Some r"
  shows "r (td_key td) = Some k"
  using insert_rows_new [OF assms(1,3)] assms(2) by auto

lemma assign_rows_keyed:
  assumes "\<forall>k r. T k = Some r \<longrightarrow> r key = Some k" and "key \<notin> fst ` set as"
    and "assign_rows as c v T k = Some r"
  shows "r key = Some k"
proof -
  have "map_of as key = None" using assms(2) by (simp add: map_of_eq_None_iff)
  with assms(1,3) show ?thesis
    by (auto simp: assign_rows_def map_add_def split: option.splits if_splits)
qed

lemma run_write_keyed:
  assumes "run_write schema fits now st args T = Some T'"
    and "\<forall>t td k r. schema t = Some td \<longrightarrow> T t k = Some r \<longrightarrow> r (td_key td) = Some k"
    and "schema t = Some td" and "T' t k = Some r"
  shows "r (td_key td) = Some k"
proof (cases "t = stmt_table st")
  case False
  with run_write_other [OF assms(1)] assms(2-4) show ?thesis by metis
next
  case True
  have T: "\<forall>k r. T t k = Some r \<longrightarrow> r (td_key td) = Some k" using assms(2,3) by blast
  show ?thesis
  proof (cases st)
    case (Insert t' cs es)
    with assms(1,3) True obtain rs T2 where "insert_rows fits td rs (T t) = Some T2" "T' t = T2"
      by (auto simp: run_write_def split: if_splits Option.bind_splits)
    with insert_rows_keyed T assms(4) show ?thesis by blast
  next
    case (Update t' as c e)
    with assms(1,3) True obtain vs v where u: "T' t = assign_rows (zip (map fst as) vs) c v (T t)"
      "td_key td \<notin> fst ` set as"
      by (auto simp: run_write_def split: if_splits Option.bind_splits)
    have "fst ` set (zip (map fst as) vs) \<subseteq> fst ` set as" by (auto dest!: set_zip_leftD)
    with u(2) have "td_key td \<notin> fst ` set (zip (map fst as) vs)" by blast
    with assign_rows_keyed [OF T] u(1) assms(4) show ?thesis by metis
  next
    case (Delete t' c e)
    with assms(1,3,4) True T show ?thesis
      by (auto simp: run_write_def delete_rows_def split: if_splits Option.bind_splits option.splits)
  next
    case (Select cs t' c es)
    with assms(1) show ?thesis by (simp add: run_write_def split: if_splits)
  qed
qed

subsection \<open>A concrete engine\<close>

text \<open>\<open>db_keys\<close> lists every key a table has or had; the schedule says which operations fail.\<close>

record db =
  db_tables :: tables
  db_keys :: "string \<Rightarrow> sqlval list"
  db_clock :: nat
  db_faults :: "bool list"

definition db_empty :: "bool list \<Rightarrow> db" where
  "db_empty fs = \<lparr>db_tables = \<lambda>t k. None, db_keys = \<lambda>t. [], db_clock = 0, db_faults = fs\<rparr>"

definition tick :: "db \<Rightarrow> bool \<times> db" where
  "tick d = (case db_faults d of [] \<Rightarrow> (False, d\<lparr>db_clock := Suc (db_clock d)\<rparr>)
     | f # fs \<Rightarrow> (f, d\<lparr>db_clock := Suc (db_clock d), db_faults := fs\<rparr>))"

definition lost :: goerror where "lost = DriverError ''invalid connection''"

definition rejected :: goerror where "rejected = DriverError ''statement rejected''"

definition stmt_vals :: "nat \<Rightarrow> sqlval list \<Rightarrow> stmt \<Rightarrow> sqlval list" where
  "stmt_vals now args st = map (\<lambda>e. the (eval_exp now args e)) (stmt_exps st)"

definition db_rows :: "db \<Rightarrow> string \<Rightarrow> (row \<Rightarrow> bool) \<Rightarrow> row list" where
  "db_rows d t P = filter P (concat (map (\<lambda>k. case db_tables d t k of None \<Rightarrow> [] | Some r \<Rightarrow> [r]) (db_keys d t)))"

definition db_select :: "string \<Rightarrow> sqlval list \<Rightarrow> db \<Rightarrow> row list option" where
  "db_select sql args d =
     (case parse sql of
        Some (Select cs t c es) \<Rightarrow>
          map_option (\<lambda>vs. map (\<lambda>r. r |` set cs) (db_rows d t (column_in c vs))) (all_some (eval_exp 0 args) es)
      | _ \<Rightarrow> None)"

definition known_types :: "string list \<Rightarrow> table_def \<Rightarrow> bool" where
  "known_types tys td = list_all (\<lambda>c. col_type c \<in> set tys) (td_columns td)"

definition db_engine :: "string list \<Rightarrow> schema \<Rightarrow> (string \<Rightarrow> sqlval \<Rightarrow> bool) \<Rightarrow> db engine" where
  "db_engine tys schema fits =
     \<lparr>eng_Exec = (\<lambda>sql args d.
        let (f, d1) = tick d
        in if f then (Some lost, d1)
           else case parse_create sql of
             Some (t, td) \<Rightarrow> (if known_types tys td then None else Some rejected, d1)
           | None \<Rightarrow>
               (case Option.bind (parse sql) (\<lambda>st. map_option (Pair st)
                   (run_write schema fits (db_clock d1) st args (db_tables d1))) of
                  None \<Rightarrow> (Some rejected, d1)
                | Some (st, T) \<Rightarrow>
                    (None, d1\<lparr>db_tables := T, db_keys := (db_keys d1)(stmt_table st :=
                       remdups (db_keys d1 (stmt_table st) @ stmt_vals (db_clock d1) args st))\<rparr>))),
      eng_Get = (\<lambda>sql args d.
        let (f, d1) = tick d
        in if f then ((None, Some lost), d1)
           else case db_select sql args d1 of
             None \<Rightarrow> ((None, Some rejected), d1)
           | Some rs \<Rightarrow> ((case rs of [] \<Rightarrow> None | r # _ \<Rightarrow> Some r, None), d1)),
      eng_Find = (\<lambda>sql args d.
        let (f, d1) = tick d
        in if f then (([], Some lost), d1)
           else case db_select sql args d1 of
             None \<Rightarrow> (([], Some rejected), d1) | Some rs \<Rightarrow> ((rs, None), d1)),
      eng_Query = (\<lambda>q d.
        let (f, d1) = tick d; rs = db_rows d1 (bq_table q) (holds (bq_where q))
        in if f then (([], Some lost), d1)
           else ((case bq_limit q of None \<Rightarrow> rs | Some n \<Rightarrow> if n > 0 then take (nat n) rs else rs, None), d1)),
      eng_Delete = (\<lambda>t cs d.
        let (f, d1) = tick d
        in if f then (Some lost, d1)
           else (None, d1\<lparr>db_tables := (db_tables d1)(t := delete_rows (holds cs) (db_tables d1 t))\<rparr>))\<rparr>"

definition db_wf :: "schema \<Rightarrow> db \<Rightarrow> bool" where
  "db_wf schema d \<longleftrightarrow>
     (\<forall>t td k r. schema t = Some td \<longrightarrow> db_tables d t k = Some r \<longrightarrow> r (td_key td) = Some k) \<and>
     (\<forall>t. schema t = None \<longrightarrow> (\<forall>k. db_tables d t k = None)) \<and>
     (\<forall>t k. db_tables d t k \<noteq> None \<longrightarrow> k \<in> set (db_keys d t)) \<and> (\<forall>t. distinct (db_keys d t))"

lemma tick_simps [simp]:
  "db_tables (snd (tick d)) = db_tables d" "db_keys (snd (tick d)) = db_keys d"
  by (simp_all add: tick_def split: list.splits)

lemma db_wf_tick [simp]: "db_wf schema (snd (tick d)) = db_wf schema d"
  by (simp add: db_wf_def)

lemma db_rows_iff:
  assumes "db_wf schema d"
  shows "r \<in> set (db_rows d t P) \<longleftrightarrow> row_in (db_tables d t) P r"
proof -
  have "r \<in> set (db_rows d t P) \<longleftrightarrow> P r \<and> (\<exists>k \<in> set (db_keys d t). db_tables d t k = Some r)"
    by (auto simp: db_rows_def split: option.splits) (metis option.inject)
  moreover have "k \<in> set (db_keys d t)" if "db_tables d t k = Some r" for k
    using assms that unfolding db_wf_def by blast
  ultimately show ?thesis by (auto simp: row_in_def)
qed

lemma db_rows_distinct:
  assumes "db_wf schema d" shows "distinct (db_rows d t P)"
proof (cases "schema t")
  case None
  with assms have "db_tables d t k = None" for k by (simp add: db_wf_def)
  then have "db_rows d t P = []" by (auto simp: db_rows_def filter_empty_conv)
  then show ?thesis by simp
next
  case (Some td)
  have key: "r (td_key td) = Some k" if "db_tables d t k = Some r" for k r
    using assms Some that by (auto simp: db_wf_def)
  have "distinct (concat (map (\<lambda>k. case db_tables d t k of None \<Rightarrow> [] | Some r \<Rightarrow> [r]) ks))" if "distinct ks" for ks
    using that
  proof (induction ks)
    case (Cons k ks)
    show ?case
    proof (cases "db_tables d t k")
      case None
      with Cons show ?thesis by simp
    next
      case (Some r)
      have "k' = k" if "db_tables d t k' = Some r" for k'
        using key [OF Some] key [OF that] by simp
      with Cons.prems have "r \<notin> set (concat (map (\<lambda>k. case db_tables d t k of None \<Rightarrow> [] | Some r \<Rightarrow> [r]) ks))"
        by (auto split: option.splits)
      with Cons Some show ?thesis by simp
    qed
  qed simp
  with assms show ?thesis by (simp add: db_rows_def db_wf_def)
qed

lemma db_select_iff:
  assumes "db_wf schema d" and "db_select sql args d = Some rs"
  shows "row \<in> set rs \<longleftrightarrow> answers (db_tables d) sql args row"
proof -
  from assms(2) obtain cs t c es vs where p: "parse sql = Some (Select cs t c es)"
    and v: "all_some (eval_exp 0 args) es = Some vs"
    and rs: "rs = map (\<lambda>r. r |` set cs) (db_rows d t (column_in c vs))"
    by (auto simp: db_select_def split: option.splits stmt.splits)
  have "row \<in> set rs \<longleftrightarrow> (\<exists>r. row_in (db_tables d t) (column_in c vs) r \<and> row = r |` set cs)"
    using db_rows_iff [OF assms(1)] by (auto simp: rs)
  with p v show ?thesis by (simp add: answers_def)
qed

lemma all_some_SomeI: "all_some f xs = Some ys \<Longrightarrow> x \<in> set xs \<Longrightarrow> \<exists>y. f x = Some y"
  by (induction xs arbitrary: ys) (auto split: option.splits)

lemma all_some_set: "all_some f xs = Some ys \<Longrightarrow> y \<in> set ys \<Longrightarrow> \<exists>x \<in> set xs. f x = Some y"
  by (induction xs arbitrary: ys) (auto split: option.splits)

lemma build_row_vals:
  assumes "build_row now args cs es = Some r" and "map_of r c = Some v"
  shows "\<exists>e \<in> set es. eval_exp now args e = Some v"
  using assms by (auto simp: build_row_def split: if_splits dest!: map_of_SomeD set_zip_rightD all_some_set)

lemma run_write_keys:
  assumes "run_write schema fits now st args T = Some T'" and "T' t k \<noteq> None" and "T t k = None"
  shows "t = stmt_table st \<and> k \<in> set (stmt_vals now args st)"
proof -
  have t: "t = stmt_table st" using run_write_other [OF assms(1)] assms(2,3) by metis
  show ?thesis
  proof (cases st)
    case (Insert t' cs es)
    with assms(1) t obtain td rs T2 where r: "all_some (build_row now args cs) es = Some rs"
      "insert_rows fits td rs (T t) = Some T2" "T' t = T2"
      by (auto simp: run_write_def split: if_splits Option.bind_splits)
    from assms(2,3) r(3) insert_rows_new [OF r(2), of k] obtain x where x: "x \<in> set rs" "map_of x (td_key td) = Some k"
      by fastforce
    from all_some_set [OF r(1) x(1)] build_row_vals x(2) obtain es' e where "es' \<in> set es" "e \<in> set es'"
      "eval_exp now args e = Some k" by metis
    then have "k \<in> set (stmt_vals now args st)" unfolding stmt_vals_def Insert by force
    with t show ?thesis by blast
  next
    case (Update t' as c e)
    with assms t show ?thesis
      by (auto simp: run_write_def assign_rows_def split: if_splits Option.bind_splits option.splits)
  next
    case (Delete t' c e)
    with assms t show ?thesis
      by (auto simp: run_write_def delete_rows_def split: if_splits Option.bind_splits option.splits)
  next
    case (Select cs t' c es)
    with assms(1) show ?thesis by (simp add: run_write_def split: if_splits)
  qed
qed

lemma run_write_schema:
  "run_write schema fits now st args T = Some T' \<Longrightarrow> schema t = None \<Longrightarrow> T' t = T t"
  by (cases st) (auto simp: run_write_def split: if_splits Option.bind_splits)

lemma db_wf_write:
  assumes d: "db_wf schema d" and w: "run_write schema fits now st args (db_tables d) = Some T"
  shows "db_wf schema (d\<lparr>db_tables := T, db_keys := (db_keys d)(stmt_table st :=
           remdups (db_keys d (stmt_table st) @ stmt_vals now args st))\<rparr>)"
proof -
  have k0: "\<forall>t td k r. schema t = Some td \<longrightarrow> db_tables d t k = Some r \<longrightarrow> r (td_key td) = Some k"
    and s0: "\<forall>t. schema t = None \<longrightarrow> (\<forall>k. db_tables d t k = None)"
    and m0: "\<And>t k. db_tables d t k \<noteq> None \<Longrightarrow> k \<in> set (db_keys d t)"
    using d by (simp_all add: db_wf_def)
  have "\<forall>t td k r. schema t = Some td \<longrightarrow> T t k = Some r \<longrightarrow> r (td_key td) = Some k"
    by (intro allI impI) (rule run_write_keyed [OF w k0])
  moreover have "\<forall>t. schema t = None \<longrightarrow> (\<forall>k. T t k = None)"
    using run_write_schema [OF w] s0 by simp
  moreover have "\<forall>t k. T t k \<noteq> None \<longrightarrow> k \<in> set (((db_keys d)(stmt_table st :=
      remdups (db_keys d (stmt_table st) @ stmt_vals now args st))) t)"
  proof (intro allI impI)
    fix t k assume k: "T t k \<noteq> None"
    have "k \<in> set (db_keys d t) \<or> t = stmt_table st \<and> k \<in> set (stmt_vals now args st)"
      using run_write_keys [OF w k] m0 [of t k] by blast
    then show "k \<in> set (((db_keys d)(stmt_table st :=
      remdups (db_keys d (stmt_table st) @ stmt_vals now args st))) t)" by auto
  qed
  moreover have "\<forall>t. distinct (((db_keys d)(stmt_table st :=
      remdups (db_keys d (stmt_table st) @ stmt_vals now args st))) t)"
    using d by (simp add: db_wf_def)
  ultimately show ?thesis unfolding db_wf_def by simp
qed

interpretation db_sql: sql_engine "db_engine tys schema fits" db_tables "db_wf schema" schema fits
  for tys schema fits
proof unfold_locales
  fix d sql args e d'
  assume d: "db_wf schema d" and e: "eng_Exec (db_engine tys schema fits) sql args d = (e, d')"
  obtain f d1 where t: "tick d = (f, d1)" by fastforce
  have d1: "db_wf schema d1" "db_tables d1 = db_tables d"
    using d db_wf_tick [of schema d] tick_simps [of d] by (simp_all add: t)
  show "db_wf schema d' \<and> (db_tables d' = db_tables d \<and> (e \<noteq> None \<or> parse_create sql \<noteq> None) \<or>
      (\<exists>st now. parse sql = Some st \<and> run_write schema fits now st args (db_tables d) = Some (db_tables d')))"
  proof (cases "f \<or> parse_create sql \<noteq> None")
    case True
    with e d1 show ?thesis by (auto simp: db_engine_def t split: option.splits if_splits)
  next
    case False
    then have nf: "\<not> f" and nc: "parse_create sql = None" by blast+
    show ?thesis
    proof (cases "Option.bind (parse sql) (\<lambda>st. map_option (Pair st)
        (run_write schema fits (db_clock d1) st args (db_tables d1)))")
      case None
      with nf nc e d1 show ?thesis by (auto simp: db_engine_def t)
    next
      case (Some p)
      then obtain st T where p: "p = (st, T)" "parse sql = Some st"
        "run_write schema fits (db_clock d1) st args (db_tables d1) = Some T"
        by (auto split: Option.bind_splits)
      with nf nc Some e have d': "d' = d1\<lparr>db_tables := T, db_keys := (db_keys d1)(stmt_table st :=
           remdups (db_keys d1 (stmt_table st) @ stmt_vals (db_clock d1) args st))\<rparr>"
        by (simp add: db_engine_def t)
      have "db_wf schema d'" unfolding d' using d1(1) p(3) by (rule db_wf_write)
      moreover have "run_write schema fits (db_clock d1) st args (db_tables d) = Some (db_tables d')"
        using p(3) d1(2) by (simp add: d')
      ultimately show ?thesis using p(2) by blast
    qed
  qed
next
  fix d sql args r e d'
  assume d: "db_wf schema d" and g: "eng_Get (db_engine tys schema fits) sql args d = ((r, e), d')"
  obtain f d1 where t: "tick d = (f, d1)" by fastforce
  have d1: "db_wf schema d1" "db_tables d1 = db_tables d"
    using d db_wf_tick [of schema d] tick_simps [of d] by (simp_all add: t)
  with g db_select_iff [OF d1(1), of sql args]
  show "db_wf schema d' \<and> db_tables d' = db_tables d \<and> (\<forall>row. r = Some row \<longrightarrow> answers (db_tables d) sql args row)"
    by (auto simp: db_engine_def t split: if_splits option.splits list.splits) (metis list.set_intros(1))
next
  fix d sql args rs e d'
  assume d: "db_wf schema d" and g: "eng_Find (db_engine tys schema fits) sql args d = ((rs, e), d')"
  obtain f d1 where t: "tick d = (f, d1)" by fastforce
  have d1: "db_wf schema d1" "db_tables d1 = db_tables d"
    using d db_wf_tick [of schema d] tick_simps [of d] by (simp_all add: t)
  with g db_select_iff [OF d1(1), of sql args]
  show "db_wf schema d' \<and> db_tables d' = db_tables d \<and> (\<forall>row \<in> set rs. answers (db_tables d) sql args row) \<and>
      (e = None \<longrightarrow> (\<forall>row. answers (db_tables d) sql args row \<longrightarrow> row \<in> set rs))"
    by (auto simp: db_engine_def t split: if_splits option.splits)
next
  fix d q rs e d'
  assume d: "db_wf schema d" and g: "eng_Query (db_engine tys schema fits) q d = ((rs, e), d')"
  obtain f d1 where t: "tick d = (f, d1)" by fastforce
  have d1: "db_wf schema d1" "db_tables d1 = db_tables d"
    using d db_wf_tick [of schema d] tick_simps [of d] by (simp_all add: t)
  let ?all = "db_rows d1 (bq_table q) (holds (bq_where q))"
  have "rs = [] \<or> rs = ?all \<or> (\<exists>n. rs = take n ?all)"
    using g by (auto simp: db_engine_def t Let_def split: if_splits option.splits)
  then have "distinct rs \<and> set rs \<subseteq> set ?all"
    using db_rows_distinct [OF d1(1), of "bq_table q" "holds (bq_where q)"] by (auto dest: in_set_takeD)
  moreover have "d' = d1" using g by (auto simp: db_engine_def t Let_def split: if_splits)
  ultimately show "db_wf schema d' \<and> db_tables d' = db_tables d \<and> distinct rs \<and>
      (\<forall>r \<in> set rs. row_in (db_tables d (bq_table q)) (holds (bq_where q)) r)"
    using d1 db_rows_iff [OF d1(1)] by auto
next
  fix d t cs e d'
  assume d: "db_wf schema d" and g: "eng_Delete (db_engine tys schema fits) t cs d = (e, d')"
  obtain f d1 where t: "tick d = (f, d1)" by fastforce
  have d1: "db_wf schema d1" "db_tables d1 = db_tables d"
    using d db_wf_tick [of schema d] tick_simps [of d] by (simp_all add: t)
  have "db_wf schema (d1\<lparr>db_tables := (db_tables d1)(t := delete_rows (holds cs) (db_tables d1 t))\<rparr>)"
    using d1(1) unfolding db_wf_def by (auto simp: delete_rows_def split: if_splits option.splits)
  with g d1 show "db_wf schema d' \<and> (e \<noteq> None \<and> db_tables d' = db_tables d \<or>
      db_tables d' = (db_tables d)(t := delete_rows (holds cs) (db_tables d t)))"
    by (auto simp: db_engine_def t split: if_splits)
next
  fix d t td k r
  assume "db_wf schema d" and "schema t = Some td" and "db_tables d t k = Some r"
  then show "r (td_key td) = Some k" unfolding db_wf_def by blast
qed

end
