(* ===== verification/Sql_Text.thy ===== *)
theory Sql_Text
  imports Sql
begin

text \<open>
  How the words of a filled statement template follow from the words of the template, so that a
  statement is parsed for every table name and every number of placeholders. A template is cut
  at its first verb; the pieces are closed texts, whose words are computed.
\<close>

lemma fill_Nil_args [simp]: "fill s [] = s"
  by (induction s "[] :: string list" rule: fill.induct) (auto simp: fill.simps)

lemma fill_slot: "CHR ''%'' \<notin> set p \<Longrightarrow> fill (p @ CHR ''%'' # CHR ''s'' # q) (s # as) = p @ s @ fill q as"
proof (induction p)
  case (Cons c p)
  then show ?case by (cases p) (auto simp: fill.simps)
qed (simp add: fill.simps)

definition template_ok :: "string \<Rightarrow> bool" where
  "template_ok s \<longleftrightarrow>
     (let pre = takeWhile ((\<noteq>) CHR ''%'') s
      in pre \<noteq> [] \<and> blank (last pre) \<and> take 2 (dropWhile ((\<noteq>) CHR ''%'') s) = ''%s'')"

definition head_words :: "string \<Rightarrow> string list" where
  "head_words s = tokens (takeWhile ((\<noteq>) CHR ''%'') s)"

definition tail_text :: "string \<Rightarrow> string" where
  "tail_text s = drop 2 (dropWhile ((\<noteq>) CHR ''%'') s)"

definition separated :: "string \<Rightarrow> bool" where
  "separated s \<longleftrightarrow> s = [] \<or> ((blank (hd s) \<or> punctuation (hd s)) \<and> hd s \<noteq> CHR ''%'')"

lemma tokens_fill:
  assumes "template_ok f"
  shows "tokens (fill f (s # as)) = head_words f @ tokens (s @ fill (tail_text f) as)"
proof -
  let ?p = "takeWhile ((\<noteq>) CHR ''%'') f" and ?d = "dropWhile ((\<noteq>) CHR ''%'') f"
  have p: "?p \<noteq> []" "blank (last ?p)" and d: "take 2 ?d = ''%s''"
    using assms by (auto simp: template_ok_def Let_def)
  have "f = ?p @ take 2 ?d @ drop 2 ?d" by simp
  then have f: "f = ?p @ CHR ''%'' # CHR ''s'' # tail_text f" unfolding d tail_text_def by simp
  have "CHR ''%'' \<notin> set ?p" by (auto dest: set_takeWhileD)
  from fill_slot [OF this, of "tail_text f" s as] f
  have "fill f (s # as) = ?p @ s @ fill (tail_text f) as" by simp
  with p show ?thesis by (simp add: tokens_append head_words_def)
qed

lemma tokens_Cons:
  "blank c \<Longrightarrow> tokens (c # r) = tokens r"
  "punctuation c \<Longrightarrow> tokens (c # r) = [c] # tokens r"
  by (auto simp: tokens_def flush_def blank_def punctuation_def)

lemma tokens_plain:
  assumes "plain_word t" and "r = [] \<or> blank (hd r) \<or> punctuation (hd r)"
  shows "tokens (t @ r) = t # tokens r"
  using assms words_plain [of t "[]" r]
  by (cases r) (auto simp: tokens_def plain_word_def flush_def)

lemma separated_fill: "separated s \<Longrightarrow> fill s as = [] \<or> blank (hd (fill s as)) \<or> punctuation (hd (fill s as))"
  by (cases "(s, as)" rule: fill.cases) (auto simp: separated_def fill.simps)

lemma tokens_slot:
  "template_ok f \<Longrightarrow> separated (tail_text f) \<Longrightarrow> plain_word t \<Longrightarrow>
   tokens (fill f (t # as)) = head_words f @ t # tokens (fill (tail_text f) as)"
  by (simp add: tokens_fill tokens_plain separated_fill)

text \<open>A template with one slot, for a table, and one with a second slot, for a list in parentheses.\<close>

definition template1 :: "string \<Rightarrow> string list \<Rightarrow> string list \<Rightarrow> bool" where
  "template1 f A B \<longleftrightarrow> template_ok f \<and> separated (tail_text f) \<and> head_words f = A \<and> tokens (tail_text f) = B"

definition template2 :: "string \<Rightarrow> string list \<Rightarrow> string list \<Rightarrow> string list \<Rightarrow> bool" where
  "template2 f A B C \<longleftrightarrow> template_ok f \<and> separated (tail_text f) \<and> head_words f = A \<and>
     template_ok (tail_text f) \<and> head_words (tail_text f) = B \<and> tokens (tail_text (tail_text f)) = C"

lemma parse_template1:
  "template1 f A B \<Longrightarrow> plain_word t \<Longrightarrow> parse (fill f [t]) = parse_words (A @ t # B)"
  by (simp add: parse_def tokens_slot template1_def)

lemma parse_template2:
  assumes "template2 f A B C" and "plain_word t" and "s \<noteq> []" and "punctuation (last s)"
  shows "parse (fill f [t, s]) = parse_words (A @ t # B @ tokens s @ C)"
  using assms by (simp add: parse_def tokens_slot tokens_fill template2_def tokens_append)

subsection \<open>Numbers and placeholders\<close>

lemma digit_val_digit_char: "d < 10 \<Longrightarrow> digit_val (digit_char d) = d"
  by (simp add: digit_val_def)

lemma read_nat_show [simp]: "read_nat (show_nat n) = n"
proof (induction n rule: show_nat.induct)
  case (1 n)
  then show ?case using show_nat.simps [of n] by (simp add: read_nat_def digit_val_digit_char)
qed

lemma read_exp_mark [simp]: "read_exp [CHR ''$'' # show_nat n] = Some (Arg (n - 1))"
  by simp

lemma plain_mark: "plain_word (CHR ''$'' # show_nat n)"
proof -
  have "\<not> blank c \<and> \<not> punctuation c" if "is_digit c" for c
    using that by (auto simp: is_digit_def blank_def punctuation_def)
  with show_nat_digits [of _ n] show ?thesis
    by (auto simp: plain_word_def blank_def punctuation_def)
qed

lemma number_marks_append:
  "number_marks n (xs @ ys) = number_marks n xs @ number_marks (n + count_list xs ''?'') ys"
  by (induction xs arbitrary: n) auto

lemma number_marks_none: "''?'' \<notin> set xs \<Longrightarrow> number_marks n xs = xs"
  by (induction xs arbitrary: n) auto

text \<open>The table a statement is about can be any word that is not a placeholder.\<close>

definition table_name :: "string \<Rightarrow> bool" where
  "table_name t \<longleftrightarrow> plain_word t \<and> t \<noteq> ''?''"

lemma table_name_simps: "table_name t \<Longrightarrow> plain_word t" "table_name t \<Longrightarrow> t \<noteq> ''?''"
  by (simp_all add: table_name_def)

subsection \<open>Lists of single words\<close>

fun commas :: "string list list \<Rightarrow> string list" where
  "commas [] = []" | "commas [x] = x" | "commas (x # y # xs) = x @ '','' # commas (y # xs)"

definition flat :: "string list \<Rightarrow> bool" where
  "flat x \<longleftrightarrow> ''('' \<notin> set x \<and> '')'' \<notin> set x \<and> '','' \<notin> set x"

lemma items_flat: "flat x \<Longrightarrow> items 0 cur (x @ ws) = items 0 (rev x @ cur) ws"
  by (induction x arbitrary: cur) (auto simp: flat_def)

lemma items_commas:
  "xs \<noteq> [] \<Longrightarrow> \<forall>x \<in> set xs. flat x \<Longrightarrow> items 0 [] (commas xs @ '')'' # rest) = (xs, rest)"
  by (induction xs rule: commas.induct) (auto simp: items_flat)

lemma all_some_map: "(\<And>x. x \<in> set xs \<Longrightarrow> f x = Some (g x)) \<Longrightarrow> all_some f xs = Some (map g xs)"
  by (induction xs) auto

lemma all_some_SomeD: "all_some f xs = Some ys \<Longrightarrow> length ys = length xs \<and> (\<forall>i < length xs. f (xs ! i) = Some (ys ! i))"
proof (induction xs arbitrary: ys)
  case (Cons x xs)
  then show ?case by (auto split: option.splits simp: nth_Cons split: nat.splits)
qed simp

definition mark :: "nat \<Rightarrow> string" where
  "mark n = CHR ''$'' # show_nat (Suc n)"

lemma mark_simps [simp]:
  "read_exp [mark i] = Some (Arg i)" "flat [mark i]" "mark i \<noteq> ''?''" "mark i \<noteq> '',''" "mark i \<noteq> ''(''" "mark i \<noteq> '')''"
  using read_exp_mark [of "Suc i"] by (auto simp: mark_def flat_def)

lemma number_marks_Mark: "number_marks n (''?'' # ws) = mark n # number_marks (Suc n) ws"
  by (simp add: mark_def)

text \<open>What \<open>c in (\<dots>)\<close> becomes with \<open>n\<close> placeholders.\<close>

lemma all_some_marks: "all_some read_exp (map (\<lambda>i. [mark i]) xs) = Some (map Arg xs)"
  by (induction xs) (simp_all del: read_exp.simps(1))

lemma read_where_in:
  "n > 0 \<Longrightarrow> read_where (c # ''in'' # ''('' # commas (map (\<lambda>i. [mark i]) [0..<n]) @ '')'' # rest) =
     Some (c, map Arg [0..<n])"
  by (simp add: items_commas all_some_marks del: read_exp.simps(1))

lemma number_marks_commas:
  "number_marks k (commas (map (\<lambda>i. [''?'']) [0..<n]) @ ws) =
   commas (map (\<lambda>i. [mark (k + i)]) [0..<n]) @ number_marks (k + n) ws"
proof (induction n arbitrary: k)
  case (Suc n)
  have u: "[0..<Suc m] = 0 # map Suc [0..<m]" for m by (simp add: map_Suc_upt upt_conv_Cons del: upt_Suc)
  show ?case
  proof (cases n)
    case 0
    then show ?thesis by (simp add: mark_def)
  next
    case (Suc m)
    with Suc.IH [of "Suc k"] show ?thesis
      by (simp add: u mark_def comp_def del: upt_Suc)
  qed
qed simp

end
