(* ===== verification/Sql_Dialect.thy ===== *)
theory Sql_Dialect
  imports Sql_Driver Sql_Text
begin

text \<open>
  What the statement texts of a dialect mean, for every table name and number of rows, as the
  locale \<open>sql_texts\<close>: the contract between a dialect and the lemmas about the drivers. The
  lemmas before it compute the words of the two texts that grow with their arguments.
\<close>

subsection \<open>Lists of placeholders\<close>

definition in_list :: "(nat \<Rightarrow> string) \<Rightarrow> nat \<Rightarrow> string" where
  "in_list w n = ''('' @ concat (map (\<lambda>i. w i @ (if i < n - 1 then '','' else [])) [0..<n]) @ '')''"

lemma commas_snoc: "commas (xs @ [y]) = concat (map (\<lambda>x. x @ ['','']) xs) @ y"
proof (induction xs rule: commas.induct)
  case (2 x)
  then show ?case by simp
next
  case (3 x z xs)
  then show ?case by simp
qed simp

lemma tokens_comma_words:
  assumes "\<forall>i \<in> set xs. plain_word (w i)"
  shows "tokens (concat (map (\<lambda>i. w i @ '','') xs) @ r) = concat (map (\<lambda>i. [w i, '','']) xs) @ tokens r"
  using assms
proof (induction xs)
  case (Cons x xs)
  then show ?case by (simp add: tokens_plain punctuation_def tokens_Cons)
qed simp

lemma tokens_in_list:
  assumes "n > 0" and "\<forall>i. plain_word (w i)"
  shows "tokens (in_list w n) = ''('' # commas (map (\<lambda>i. [w i]) [0..<n]) @ ['')'']"
proof -
  obtain m where n: "n = Suc m" using assms(1) by (cases n) auto
  have "concat (map (\<lambda>i. w i @ (if i < m then '','' else [])) [0..<m]) = concat (map (\<lambda>i. w i @ '','') [0..<m])"
    by (rule arg_cong [of _ _ concat], rule map_cong) simp_all
  then have "in_list w n = CHR ''('' # (concat (map (\<lambda>i. w i @ '','') [0..<m]) @ w m @ '')'')"
    by (simp add: in_list_def n)
  then show ?thesis
    using assms(2) tokens_comma_words [of "[0..<m]" w "w m @ '')''"]
    by (simp add: n tokens_Cons punctuation_def tokens_plain commas_snoc comp_def)
      (simp add: tokens_def flush_def)
qed

lemma last_in_list: "in_list w n \<noteq> []" "last (in_list w n) = CHR '')''"
  by (simp_all add: in_list_def)

lemma in_words:
  "tokens (fill ''row_key in %s'' [s]) = ''row_key'' # ''in'' # tokens s"
  "tokens (fill ''xid in %s'' [s]) = ''xid'' # ''in'' # tokens s"
proof -
  have "template_ok ''row_key in %s''" "head_words ''row_key in %s'' = [''row_key'', ''in'']"
    "tail_text ''row_key in %s'' = []" by code_simp+
  then show "tokens (fill ''row_key in %s'' [s]) = ''row_key'' # ''in'' # tokens s" by (simp add: tokens_fill)
  have "template_ok ''xid in %s''" "head_words ''xid in %s'' = [''xid'', ''in'']"
    "tail_text ''xid in %s'' = []" by code_simp+
  then show "tokens (fill ''xid in %s'' [s]) = ''xid'' # ''in'' # tokens s" by (simp add: tokens_fill)
qed

lemma fill_in_last:
  "fill ''row_key in %s'' [s] = ''row_key in '' @ s" "fill ''xid in %s'' [s] = ''xid in '' @ s"
  by (simp_all add: fill.simps)

subsection \<open>Lists of tuples\<close>

text \<open>The words of the seven numbered values of a row lock and its two time stamps.\<close>

definition tuple_items :: "nat \<Rightarrow> string list list" where
  "tuple_items k = [[mark k], [mark (k + 1)], [mark (k + 2)], [mark (k + 3)], [mark (k + 4)],
     [mark (k + 5)], [mark (k + 6)], [''now'', ''('', '')''], [''now'', ''('', '')'']]"

definition tuple_words :: "nat \<Rightarrow> string list" where
  "tuple_words k = ''('' # commas (tuple_items k) @ ['')'']"

definition tuple_exps :: "nat \<Rightarrow> sqlexp list" where
  "tuple_exps k = map (\<lambda>j. Arg (k + j)) [0..<7] @ [Now, Now]"

lemma tokens_values:
  assumes "n > 0" and "\<forall>i. f i = body i @ '',''" and "\<forall>i. body i \<noteq> [] \<and> last (body i) = CHR '')''"
  shows "tokens (butlast (concat (map f [0..<n]))) = commas (map (\<lambda>i. tokens (body i)) [0..<n])"
    and "butlast (concat (map f [0..<n])) \<noteq> []" and "last (butlast (concat (map f [0..<n]))) = CHR '')''"
    and "concat (map f [0..<n]) \<noteq> []"
proof -
  obtain m where n: "n = Suc m" using assms(1) by (cases n) auto
  have f: "f = (\<lambda>i. body i @ '','')" using assms(2) by auto
  have b: "butlast (concat (map f [0..<n])) = concat (map (\<lambda>i. body i @ '','') [0..<m]) @ body m"
    by (simp add: n f butlast_append)
  have t: "tokens (concat (map (\<lambda>i. body i @ '','') xs) @ r) =
      concat (map (\<lambda>i. tokens (body i) @ ['','']) xs) @ tokens r" for xs r
  proof (induction xs)
    case (Cons x xs)
    then show ?case using assms(3) by (simp add: tokens_append punctuation_def tokens_Cons)
  qed simp
  have "map (\<lambda>i. tokens (body i)) [0..<n] = map (\<lambda>i. tokens (body i)) [0..<m] @ [tokens (body m)]" by (simp add: n)
  then show "tokens (butlast (concat (map f [0..<n]))) = commas (map (\<lambda>i. tokens (body i)) [0..<n])"
    by (simp only: b t commas_snoc) (simp add: comp_def)
  show "butlast (concat (map f [0..<n])) \<noteq> []" and "last (butlast (concat (map f [0..<n]))) = CHR '')''"
    using assms(3) by (simp_all add: b)
  show "concat (map f [0..<n]) \<noteq> []" using assms(2,3) by (simp add: n)
qed

lemma tuples_commas:
  assumes "xs \<noteq> []" and "\<forall>x \<in> set xs. \<exists>u. x = ''('' # u \<and> (\<forall>rest. items 0 [] (u @ rest) = (g x, rest))"
  shows "tuples (commas xs) = Some (map g xs)"
  using assms
proof (induction xs rule: commas.induct)
  case (2 x)
  then obtain u where u: "x = ''('' # u" "\<forall>rest. items 0 [] (u @ rest) = (g x, rest)" by auto
  from u(2) have "items 0 [] u = (g x, [])" by (metis append_Nil2)
  with u(1) show ?case by (simp add: tuples.simps)
next
  case (3 x y xs)
  then obtain u where u: "x = ''('' # u" "\<And>rest. items 0 [] (u @ rest) = (g x, rest)" by auto
  have IH: "tuples (commas (y # xs)) = Some (map g (y # xs))" using 3 by simp
  have "tuples (commas (x # y # xs)) = map_option ((#) (g x)) (tuples (commas (y # xs)))"
    by (simp add: tuples.simps [of "''('' # _"] u)
  with IH show ?case by simp
qed simp

lemma items_tuple: "items 0 [] (commas (tuple_items k) @ '')'' # rest) = (tuple_items k, rest)"
  by (simp add: tuple_items_def)

lemma read_tuple: "all_some read_exp (tuple_items k) = Some (tuple_exps k)"
proof -
  have "read_exp [''now'', ''('', '')''] = Some Now" by simp
  then show ?thesis by (simp add: tuple_items_def tuple_exps_def upt_rec del: read_exp.simps)
qed

lemma tuples_words:
  assumes "n > 0"
  shows "Option.bind (tuples (commas (map (\<lambda>i. tuple_words (7 * i)) [0..<n]))) (all_some (all_some read_exp)) =
    Some (map (\<lambda>i. tuple_exps (7 * i)) [0..<n])"
proof -
  let ?g = "\<lambda>x. fst (items 0 [] (tl x))"
  have g: "?g (tuple_words k) = tuple_items k" for k
    using items_tuple [of k "[]"] by (simp add: tuple_words_def)
  have "tuples (commas (map (\<lambda>i. tuple_words (7 * i)) [0..<n])) = Some (map ?g (map (\<lambda>i. tuple_words (7 * i)) [0..<n]))"
  proof (rule tuples_commas)
    show "\<forall>x \<in> set (map (\<lambda>i. tuple_words (7 * i)) [0..<n]).
        \<exists>u. x = ''('' # u \<and> (\<forall>rest. items 0 [] (u @ rest) = (?g x, rest))"
    proof
      fix x assume "x \<in> set (map (\<lambda>i. tuple_words (7 * i)) [0..<n])"
      then obtain k where x: "x = tuple_words k" by auto
      show "\<exists>u. x = ''('' # u \<and> (\<forall>rest. items 0 [] (u @ rest) = (?g x, rest))"
        unfolding x g by (rule exI [of _ "commas (tuple_items k) @ ['')'']"]) (simp add: tuple_words_def items_tuple)
    qed
  qed (use assms in simp)
  then have t: "tuples (commas (map (\<lambda>i. tuple_words (7 * i)) [0..<n])) = Some (map (\<lambda>i. tuple_items (7 * i)) [0..<n])"
    by (simp add: g comp_def)
  have "all_some (all_some read_exp) (map (\<lambda>i. tuple_items (7 * i)) xs) = Some (map (\<lambda>i. tuple_exps (7 * i)) xs)" for xs
    by (induction xs) (simp_all add: read_tuple)
  with t show ?thesis by simp
qed

lemma number_tuples:
  "number_marks k (commas (map (\<lambda>i. [''('', ''?'', '','', ''?'', '','', ''?'', '','', ''?'', '','', ''?'', '','',
      ''?'', '','', ''?'', '','', ''now'', ''('', '')'', '','', ''now'', ''('', '')'', '')'']) [0..<n])) =
   commas (map (\<lambda>i. tuple_words (k + 7 * i)) [0..<n])"
proof (induction n arbitrary: k)
  case (Suc n)
  have u: "[0..<Suc m] = 0 # map Suc [0..<m]" for m by (simp add: map_Suc_upt upt_conv_Cons del: upt_Suc)
  show ?case
  proof (cases n)
    case 0
    then show ?thesis by (simp add: mark_def tuple_words_def tuple_items_def eval_nat_numeral)
  next
    case (Suc m)
    with Suc.IH [of "7 + k"] show ?thesis
      by (simp add: u mark_def tuple_words_def tuple_items_def comp_def eval_nat_numeral del: upt_Suc)
  qed
qed simp

lemma tuple_words_unmarked: "''?'' \<notin> set (commas (map (\<lambda>i. tuple_words (7 * i)) [0..<n]))"
proof -
  have "set (commas xs) \<subseteq> insert '','' (\<Union>(set ` set xs))" for xs
    by (induction xs rule: commas.induct) auto
  moreover have "''?'' \<notin> set (tuple_words k)" for k
    by (simp add: tuple_words_def tuple_items_def mark_simps(3) [symmetric])
  ultimately show ?thesis by fastforce
qed

subsection \<open>The contract of a dialect\<close>

definition session_columns :: "string list" where
  "session_columns = [''addressing'', ''xid'', ''transaction_id'', ''transaction_name'', ''timeout'',
     ''begin_time'', ''status'', ''active'']"

definition branch_columns :: "string list" where
  "branch_columns = [''addressing'', ''xid'', ''branch_id'', ''transaction_id'', ''resource_id'',
     ''lock_key'', ''branch_type'', ''status'', ''application_data'', ''async_commit'']"

definition lock_columns :: "string list" where
  "lock_columns = [''xid'', ''transaction_id'', ''branch_id'', ''resource_id'', ''table_name'', ''pk'', ''row_key'']"

definition stamps :: "string list" where
  "stamps = [''gmt_create'', ''gmt_modified'']"

lemmas column_lists = session_columns_def branch_columns_def lock_columns_def stamps_def

locale sql_texts =
  fixes dl :: dialect
  assumes insert_session_text: "table_name t \<Longrightarrow> parse (fill (di_InsertGlobalTransaction dl) [t]) =
      Some (Insert t (session_columns @ stamps) [map Arg [0..<8] @ [Now, Now]])"
    and query_session_text: "table_name t \<Longrightarrow> parse (fill (di_QueryGlobalTransactionByXid dl) [t]) =
      Some (Select (session_columns @ stamps) t ''xid'' [Arg 0])"
    and update_status_text: "table_name t \<Longrightarrow> parse (fill (di_UpdateGlobalTransaction dl) [t]) =
      Some (Update t [(''status'', Arg 0), (''gmt_modified'', Now)] ''xid'' (Arg 1))"
    and inactive_text: "table_name t \<Longrightarrow> parse (fill (di_InactiveGlobalTransaction dl) [t]) =
      Some (Update t [(''active'', Num 0), (''gmt_modified'', Now)] ''xid'' (Arg 0))"
    and delete_session_text: "table_name t \<Longrightarrow> parse (fill (di_DeleteGlobalTransaction dl) [t]) =
      Some (Delete t ''xid'' (Arg 0))"
    and insert_branch_text: "table_name t \<Longrightarrow> \<exists>es. parse (fill (di_InsertBranchTransaction dl) [t]) =
      Some (Insert t (branch_columns @ stamps) [es])"
    and query_branches_text: "table_name t \<Longrightarrow> parse (fill (di_QueryBranchTransactionByXid dl) [t]) =
      Some (Select (branch_columns @ stamps) t ''xid'' [Arg 0])"
    and query_batch_text: "table_name t \<Longrightarrow> n > 0 \<Longrightarrow>
      parse (fill (di_QueryBranchTransaction dl) [t, fill ''xid in %s'' [di_AppendInParam dl n]]) =
      Some (Select (branch_columns @ stamps) t ''xid'' (map Arg [0..<n]))"
    and update_branch_text: "table_name t \<Longrightarrow> parse (fill (di_UpdateBranchTransaction dl) [t]) =
      Some (Update t [(''status'', Arg 0), (''gmt_modified'', Now)] ''branch_id'' (Arg 1))"
    and delete_branch_text: "table_name t \<Longrightarrow> parse (fill (di_DeleteBranchTransaction dl) [t]) =
      Some (Delete t ''branch_id'' (Arg 0))"
    and lock_values_text: "n > 0 \<Longrightarrow> concat (map (di_lock_values dl) [0..<n]) \<noteq> []"
    and insert_locks_text: "table_name t \<Longrightarrow> n > 0 \<Longrightarrow>
      parse (fill (di_InsertRowLock dl) [t, butlast (concat (map (di_lock_values dl) [0..<n]))]) =
      Some (Insert t (lock_columns @ stamps) (map (\<lambda>i. tuple_exps (7 * i)) [0..<n]))"
    and query_locks_text: "table_name t \<Longrightarrow> n > 0 \<Longrightarrow>
      parse (fill (di_QueryRowKey dl) [t, fill ''row_key in %s'' [di_AppendInParam dl n]]) =
      Some (Select (lock_columns @ stamps) t ''row_key'' (map Arg [0..<n]))"

text \<open>The two statements with a growing list, once their fixed words are known.\<close>

lemma split_at_word:
  "w \<notin> set xs \<Longrightarrow> takeWhile ((\<noteq>) w) (xs @ w # r) = xs"
  "w \<notin> set xs \<Longrightarrow> dropWhile ((\<noteq>) w) (xs @ w # r) = w # r"
  by (induction xs) auto

lemma parse_select_in:
  assumes f: "template2 f A [''where''] C" and t: "table_name t" and n: "n > 0"
    and s: "tokens s = c # ''in'' # ''('' # P @ ['')'']" "s \<noteq> []" "punctuation (last s)" "c \<noteq> ''?''"
    and m: "number_marks 0 (P @ '')'' # C) = commas (map (\<lambda>i. [mark i]) [0..<n]) @ '')'' # C"
    and A: "A = ''select'' # butlast (tl A) @ [''from'']" "''?'' \<notin> set A" "''from'' \<notin> set (butlast (tl A))"
    and cols: "all_some single (comma_list (butlast (tl A))) = Some cols"
  shows "parse (fill f [t, s]) = Some (Select cols t c (map Arg [0..<n]))"
proof -
  let ?cs = "butlast (tl A)" and ?in = "''('' # commas (map (\<lambda>i. [mark i]) [0..<n]) @ '')'' # C"
  have q: "number_marks 0 A = A" using A(2) by (rule number_marks_none)
  have z: "count_list A ''?'' = 0" using A(2) by (simp add: count_list_0_iff)
  have "parse (fill f [t, s]) = parse_words (A @ t # ''where'' # c # ''in'' # ''('' # P @ '')'' # C)"
    using parse_template2 [OF f table_name_simps(1) [OF t] s(2,3)] by (simp add: s(1))
  moreover have "number_marks 0 (A @ t # ''where'' # c # ''in'' # ''('' # P @ '')'' # C) =
      A @ t # ''where'' # c # ''in'' # ?in"
    using table_name_simps(2) [OF t] s(4) by (simp add: number_marks_append [of _ A] q z m)
  moreover have "A @ X = ''select'' # ?cs @ ''from'' # X" for X
    using A(1) by (metis append_Cons append_assoc append_Nil)
  ultimately show ?thesis
    using n by (simp add: parse_words_def parse_select_def after_def before_def split_at_word A(3) cols read_where_in
        del: read_where.simps)
qed

lemma parse_insert_tuples:
  assumes f: "template2 f A B []" and t: "table_name t" and n: "n > 0"
    and s: "s \<noteq> []" "punctuation (last s)"
    and m: "number_marks 0 (A @ t # B @ tokens s) =
      ''insert'' # ''into'' # t # ''('' # commas (map (\<lambda>c. [c]) cols) @ '')'' # ''values'' #
        commas (map (\<lambda>i. tuple_words (7 * i)) [0..<n])"
    and cs: "cols \<noteq> []" "\<forall>c \<in> set cols. flat [c]"
  shows "parse (fill f [t, s]) = Some (Insert t cols (map (\<lambda>i. tuple_exps (7 * i)) [0..<n]))"
proof -
  have it: "items 0 [] (commas (map (\<lambda>c. [c]) cols) @ '')'' # R) = (map (\<lambda>c. [c]) cols, R)" for R
    using cs by (intro items_commas) auto
  have si: "all_some single (map (\<lambda>c. [c]) cols) = Some cols" by (induction cols) simp_all
  from tuples_words [OF n] obtain ts where ts: "tuples (commas (map (\<lambda>i. tuple_words (7 * i)) [0..<n])) = Some ts"
    "all_some (all_some read_exp) ts = Some (map (\<lambda>i. tuple_exps (7 * i)) [0..<n])"
    by (cases "tuples (commas (map (\<lambda>i. tuple_words (7 * i)) [0..<n]))") auto
  show ?thesis
    using parse_template2 [OF f table_name_simps(1) [OF t] s]
    by (simp add: parse_words_def m parse_insert_def it si ts)
qed

lemmas parse_fixed = parse_words_def parse_insert_def parse_update_def parse_delete_def parse_select_def
  before_def after_def comma_list_def tuples.simps table_name_def upt_rec is_digit_def

end
