(* ===== verification/Sql_Store.thy ===== *)
theory Sql_Store
  imports Sql_Engine Sql_Dialect Session_Store Lock_Manager
begin

text \<open>
  For every dialect that keeps \<open>sql_texts\<close> and every database that keeps \<open>sql_engine\<close>, the SQL
  driver keeps the session contracts \<open>session_store\<close> and \<open>tx_store\<close> and the lock contract
  \<open>row_lock_store\<close>, the owner of a row being the XID. The stored session of an XID is what its
  row reads as; the invariant is that the keys of the session table, and the keys and owners of
  the lock table, are texts.
\<close>

lemma scan_session_restrict: "scan_session (r |` (set session_columns \<union> C)) = scan_session r"
  by (simp add: scan_session_def session_columns_def)

lemma scan_lock_restrict: "scan_lock (r |` (set lock_columns \<union> C)) = scan_lock r"
  by (simp add: scan_lock_def lock_columns_def)

lemma all_some_append:
  "all_some f (xs @ ys) = Option.bind (all_some f xs) (\<lambda>us. map_option ((@) us) (all_some f ys))"
  by (induction xs) (auto split: option.splits simp: Option.map_conv_bind_option option.map_comp comp_def
      intro: option.map_ident)

lemma eval_args:
  "all_some (eval_exp now args) (map Arg [0..<length args]) = Some args"
proof -
  have "all_some (eval_exp now args) (map Arg is) = Some (map ((!) args) is)" if "set is \<subseteq> {0..<length args}" for "is"
    using that by (induction "is") auto
  then show ?thesis by (simp add: map_nth)
qed

lemma eval_args_stamps:
  "n = length args \<Longrightarrow> all_some (eval_exp now args) (map Arg [0..<n] @ [Now, Now]) = Some (args @ [VTime now, VTime now])"
  by (simp add: all_some_append eval_args)

text \<open>The effect of an insertion of one row, an update and a deletion.\<close>

lemma run_insert1:
  assumes "run_write schema fits now (Insert t cs [es]) args T = Some T'" and "schema t = Some td"
    and "length cs = length es" and "all_some (eval_exp now args) es = Some vs"
  shows "insert_rows fits td [zip cs vs] (T t) = Some (T' t)"
  using assms by (auto simp: run_write_def build_row_def split: if_splits Option.bind_splits)

lemma run_insert:
  assumes "run_write schema fits now (Insert t cs ess) args T = Some T'" and "schema t = Some td"
    and "all_some (build_row now args cs) ess = Some rs"
  shows "insert_rows fits td rs (T t) = Some (T' t)"
  using assms by (auto simp: run_write_def split: if_splits Option.bind_splits)

lemma run_update2:
  assumes "run_write schema fits now (Update t as c e) args T = Some T'"
    and "all_some (eval_exp now args) (map snd as) = Some vs" and "eval_exp now args e = Some v"
  shows "T' t = assign_rows (zip (map fst as) vs) c v (T t)"
  using assms by (auto simp: run_write_def split: if_splits Option.bind_splits)

lemma run_delete1:
  assumes "run_write schema fits now (Delete t c e) args T = Some T'" and "eval_exp now args e = Some v"
  shows "T' t = delete_rows (\<lambda>r. r c = Some v) (T t)"
  using assms by (auto simp: run_write_def split: if_splits Option.bind_splits)

lemma on_db_simps:
  "on_db f w = (r, w') \<longleftrightarrow> (\<exists>d. f (drv w) = (r, d) \<and> w' = w\<lparr>drv := d\<rparr>)"
  by (auto simp: on_db_def split: prod.splits)

text \<open>Loading rows allocates objects beyond the present ones.\<close>

lemma load_sessions_spec:
  "load_sessions rs w = (gs, w') \<Longrightarrow>
   drv w' = drv w \<and> bobj w' = bobj w \<and> gtop w' = gtop w + length rs \<and> gs = [gtop w..<gtop w + length rs] \<and>
   (\<forall>h < gtop w. gobj w' h = gobj w h) \<and> (\<forall>i < length rs. gobj w' (gtop w + i) = scan_session (rs ! i))"
proof (induction rs arbitrary: w gs w')
  case (Cons r rs)
  obtain g w1 where n: "new_gs (scan_session r) w = (g, w1)" by fastforce
  obtain gs2 w2 where l: "load_sessions rs w1 = (gs2, w2)" by fastforce
  have g: "g = gtop w" "gtop w1 = Suc (gtop w)" "drv w1 = drv w" "bobj w1 = bobj w"
    "gobj w1 = (gobj w)(gtop w := scan_session r)" using n by (auto simp: new_gs_def)
  have w': "gs = g # gs2" "w' = w2" using Cons.prems by (simp_all add: n l)
  note IH = Cons.IH [OF l]
  have "gs = [gtop w..<gtop w + length (r # rs)]"
    using IH g(1,2) w'(1) by (simp add: upt_conv_Cons del: upt_Suc)
  moreover have "gobj w2 (gtop w + i) = scan_session ((r # rs) ! i)" if "i < Suc (length rs)" for i
    using IH that g by (cases i) auto
  ultimately show ?case using IH g w' by (simp del: upt_Suc)
qed simp

lemma load_branches_spec:
  "load_branches rs w = (bs, w') \<Longrightarrow> drv w' = drv w \<and> gobj w' = gobj w \<and> gtop w' = gtop w"
proof (induction rs arbitrary: w bs w')
  case (Cons r rs)
  obtain b w1 where n: "new_bs (scan_branch r) w = (b, w1)" by fastforce
  obtain bs2 w2 where l: "load_branches rs w1 = (bs2, w2)" by fastforce
  from Cons.IH [OF l] Cons.prems n l show ?case by (auto simp: new_bs_def)
qed simp

subsection \<open>Row locks as rows\<close>

definition lock_vals :: "RowLock \<Rightarrow> sqlval list" where
  "lock_vals l = [VStr (rl_XID l), VInt (sint (rl_TransactionID l)), VInt (sint (rl_BranchID l)),
     VStr (rl_ResourceID l), VStr (rl_TableName l), VStr (rl_PK l), VStr (rl_RowKey l)]"

definition lock_cells :: "nat \<Rightarrow> RowLock \<Rightarrow> (string \<times> sqlval) list" where
  "lock_cells now l = zip (lock_columns @ stamps) (lock_vals l @ [VTime now, VTime now])"

lemma lock_args_concat: "lock_args ls = concat (map lock_vals ls)"
  by (induction ls) (simp_all add: lock_vals_def)

lemma length_lock_args [simp]: "length (lock_args ls) = 7 * length ls"
  by (induction ls) simp_all

lemma lock_args_nth: "i < length ls \<Longrightarrow> j < 7 \<Longrightarrow> lock_args ls ! (7 * i + j) = lock_vals (ls ! i) ! j"
proof (induction ls arbitrary: i)
  case (Cons l ls)
  have l: "length (lock_vals l) = 7" by (simp add: lock_vals_def)
  show ?case
  proof (cases i)
    case 0
    with Cons.prems(2) l show ?thesis by (simp add: lock_args_concat nth_append)
  next
    case (Suc m)
    with Cons.IH [of m] Cons.prems l show ?thesis by (simp add: lock_args_concat nth_append)
  qed
qed simp

lemma eval_tuple:
  assumes "i < length ls"
  shows "all_some (eval_exp now (lock_args ls)) (tuple_exps (7 * i)) = Some (lock_vals (ls ! i) @ [VTime now, VTime now])"
proof -
  have "all_some (eval_exp now (lock_args ls)) (map (\<lambda>j. Arg (7 * i + j)) js) = Some (map ((!) (lock_vals (ls ! i))) js)"
    if "set js \<subseteq> {0..<7}" for js
    using that assms by (induction js) (auto simp: lock_args_nth)
  moreover have "length (lock_vals (ls ! i)) = 7" by (simp add: lock_vals_def)
  then have "map ((!) (lock_vals (ls ! i))) [0..<7] = lock_vals (ls ! i)" by (metis map_nth)
  ultimately show ?thesis by (simp add: tuple_exps_def all_some_append)
qed

lemma build_lock_rows:
  "all_some (build_row now (lock_args ls) (lock_columns @ stamps)) (map (\<lambda>i. tuple_exps (7 * i)) [0..<length ls]) =
   Some (map (lock_cells now) ls)"
proof -
  have "build_row now (lock_args ls) (lock_columns @ stamps) (tuple_exps (7 * i)) = Some (lock_cells now (ls ! i))"
    if "i < length ls" for i
    using eval_tuple [OF that]
    by (simp add: build_row_def lock_cells_def tuple_exps_def lock_columns_def stamps_def)
  then have "all_some (build_row now (lock_args ls) (lock_columns @ stamps)) (map (\<lambda>i. tuple_exps (7 * i)) is) =
      Some (map (\<lambda>i. lock_cells now (ls ! i)) is)" if "set is \<subseteq> {0..<length ls}" for "is"
    using that by (induction "is") auto
  then have "all_some (build_row now (lock_args ls) (lock_columns @ stamps)) (map (\<lambda>i. tuple_exps (7 * i)) [0..<length ls]) =
      Some (map (\<lambda>i. lock_cells now (ls ! i)) [0..<length ls])" by simp
  moreover have "map (\<lambda>i. lock_cells now (ls ! i)) [0..<length ls] = map (lock_cells now) ls"
    by (rule nth_equalityI) simp_all
  ultimately show ?thesis by simp
qed

lemma lock_cells_simps [simp]:
  "map_of (lock_cells now l) ''row_key'' = Some (VStr (rl_RowKey l))"
  "map_of (lock_cells now l) ''xid'' = Some (VStr (rl_XID l))"
  by (simp_all add: lock_cells_def lock_columns_def lock_vals_def)

subsection \<open>The helpers of the lock operations\<close>

lemma distinctByKey_spec:
  "distinctByKey seen ls = (result, ks) \<Longrightarrow>
   ks = map rl_RowKey result \<and> set result \<subseteq> set ls \<and> set ks = row_keys ls - set seen"
proof (induction ls arbitrary: seen result ks)
  case (Cons l ls)
  show ?case
  proof (cases "rl_RowKey l \<in> set seen")
    case True
    with Cons.IH [of seen result ks] Cons.prems show ?thesis by auto
  next
    case False
    obtain r k where d: "distinctByKey (rl_RowKey l # seen) ls = (r, k)" by fastforce
    with Cons.IH [OF d] Cons.prems False show ?thesis by auto
  qed
qed simp

lemma sql_contains_iff [simp]: "sql_contains s e \<longleftrightarrow> e \<in> set s"
  by (induction s) auto

lemma existed_keys_Some:
  "existed_keys x ls = Some ks \<longleftrightarrow> (\<forall>l \<in> set ls. rl_XID l = x) \<and> ks = map rl_RowKey ls"
  by (induction ls arbitrary: ks) auto

lemma existed_keys_None: "existed_keys x ls = None \<longleftrightarrow> (\<exists>l \<in> set ls. rl_XID l \<noteq> x)"
  by (induction ls) auto

lemma all_of_xid_iff [simp]: "all_of_xid x ls \<longleftrightarrow> (\<forall>l \<in> set ls. rl_XID l = x)"
  by (induction ls) auto

subsection \<open>What the tables say\<close>

definition sql_gv :: "('d \<Rightarrow> tables) \<Rightarrow> 'd sql_driver \<Rightarrow> 'd world \<Rightarrow> string \<Rightarrow> GlobalSession option" where
  "sql_gv tab dv w x = map_option scan_session (tab (drv w) (dv_globalTable dv) (VStr x))"

definition sql_held :: "('d \<Rightarrow> tables) \<Rightarrow> 'd sql_driver \<Rightarrow> 'd world \<Rightarrow> string \<Rightarrow> string option" where
  "sql_held tab dv w k = map_option (\<lambda>r. as_string (r ''xid'')) (tab (drv w) (dv_lockTable dv) (VStr k))"

definition text_keys :: "(sqlval \<Rightarrow> row option) \<Rightarrow> bool" where
  "text_keys T \<longleftrightarrow> (\<forall>k. T k \<noteq> None \<longrightarrow> (\<exists>s. k = VStr s))"

definition lock_rows :: "(sqlval \<Rightarrow> row option) \<Rightarrow> bool" where
  "lock_rows T \<longleftrightarrow> (\<forall>k r. T k = Some r \<longrightarrow> (\<exists>s x. k = VStr s \<and> r ''xid'' = Some (VStr x)))"

definition sql_ok :: "('d \<Rightarrow> tables) \<Rightarrow> ('d \<Rightarrow> bool) \<Rightarrow> 'd sql_driver \<Rightarrow> 'd world \<Rightarrow> bool" where
  "sql_ok tab dok dv w \<longleftrightarrow> dok (drv w) \<and> text_keys (tab (drv w) (dv_globalTable dv)) \<and>
     lock_rows (tab (drv w) (dv_lockTable dv))"

locale sql_store = sql_engine eng tab wf schema fits + sql_texts dl
  for eng :: "'d engine" and tab :: "'d \<Rightarrow> tables" and wf :: "'d \<Rightarrow> bool" and schema :: schema
    and fits :: "string \<Rightarrow> sqlval \<Rightarrow> bool" and dl :: dialect +
  fixes dv :: "'d sql_driver" and gdef bdef ldef :: table_def
  assumes dv_eng: "dv_engine dv = eng"
    and names: "table_name (dv_globalTable dv)" "table_name (dv_branchTable dv)" "table_name (dv_lockTable dv)"
    and distinct_tables: "distinct [dv_globalTable dv, dv_branchTable dv, dv_lockTable dv]"
    and tables: "schema (dv_globalTable dv) = Some gdef" "schema (dv_branchTable dv) = Some bdef"
      "schema (dv_lockTable dv) = Some ldef"
    and keys: "td_key gdef = ''xid''" "td_key ldef = ''row_key''"
begin

abbreviation "gt \<equiv> dv_globalTable dv"
abbreviation "bt \<equiv> dv_branchTable dv"
abbreviation "lt \<equiv> dv_lockTable dv"

abbreviation "gv \<equiv> sql_gv tab dv"
abbreviation "held \<equiv> sql_held tab dv"
abbreviation "ok \<equiv> sql_ok tab wf dv"

lemma table_neq: "gt \<noteq> bt" "gt \<noteq> lt" "bt \<noteq> lt"
  using distinct_tables by auto

lemma gt_key: "ok w \<Longrightarrow> tab (drv w) gt (VStr x) = Some r \<Longrightarrow> r ''xid'' = Some (VStr x)"
  using keyed [of "drv w" gt gdef "VStr x" r] tables(1) keys(1) by (simp add: sql_ok_def)

lemma lt_key: "ok w \<Longrightarrow> tab (drv w) lt (VStr x) = Some r \<Longrightarrow> r ''row_key'' = Some (VStr x)"
  using keyed [of "drv w" lt ldef "VStr x" r] tables(3) keys(2) by (simp add: sql_ok_def)

text \<open>A row of the session table found by its XID is the one stored under it.\<close>

lemma gt_row:
  assumes "ok w" and "tab (drv w) gt k = Some r"
  obtains x where "k = VStr x" and "r ''xid'' = Some (VStr x)" and "tab (drv w) gt (VStr x) = Some r"
  using assms gt_key by (auto simp: sql_ok_def text_keys_def)

lemma gv_xid: "ok w \<Longrightarrow> gv w x = Some s \<Longrightarrow> gs_XID s = x"
  by (auto simp: sql_gv_def scan_session_def gt_key)

text \<open>Steps that change neither the session table nor the objects.\<close>

lemma quiet_db:
  assumes "ok w" and "wf d" and "tab d gt = tab (drv w) gt" and "lock_rows (tab d lt)"
  shows "quiet gv ok w (w\<lparr>drv := d\<rparr>)"
proof -
  have "gv (w\<lparr>drv := d\<rparr>) = gv w" by (rule ext) (simp add: sql_gv_def assms(3))
  with assms show ?thesis by (simp add: quiet_def sql_ok_def)
qed

lemma quiet_alloc:
  assumes "ok w" and "drv w' = drv w" and "gtop w \<le> gtop w'" and "\<forall>h < gtop w. gobj w' h = gobj w h"
  shows "quiet gv ok w w'"
proof -
  have "gv w' = gv w" by (rule ext) (simp add: sql_gv_def assms(2))
  with assms show ?thesis by (simp add: quiet_def sql_ok_def)
qed

lemma exec_quiet:
  assumes w: "ok w" and e: "on_db (eng_Exec eng sql args) w = (e, w')" and p: "parse sql = Some st"
    and b: "stmt_table st = bt"
  shows "quiet gv ok w w'"
proof -
  from e obtain d where d: "eng_Exec eng sql args (drv w) = (e, d)" "w' = w\<lparr>drv := d\<rparr>" by (auto simp: on_db_simps)
  have wfw: "wf (drv w)" using w by (simp add: sql_ok_def)
  note x = exec_stmt [OF wfw d(1) p parse_not_create [OF p]]
  have "tab d gt = tab (drv w) gt" and "tab d lt = tab (drv w) lt"
    using x(2) run_write_other [of schema fits _ st args "tab (drv w)" "tab d"] table_neq b by metis+
  with quiet_db [OF w x(1)] w show ?thesis by (simp add: d(2) sql_ok_def)
qed

text \<open>A statement on the session table that touches one XID only.\<close>

lemma exec_near:
  assumes w: "ok w" and e: "on_db (eng_Exec eng sql args) w = (e, w')" and p: "parse sql = Some st"
    and g: "stmt_table st = gt"
    and only: "\<forall>now T k. run_write schema fits now st args (tab (drv w)) = Some T \<longrightarrow> k \<noteq> VStr x \<longrightarrow>
        T gt k = tab (drv w) gt k"
  shows "near gv ok x w w'" and "gobj w' = gobj w" and "gtop w' = gtop w"
    and "e \<noteq> None \<and> gv w' x = gv w x \<or>
      (\<exists>now T. run_write schema fits now st args (tab (drv w)) = Some T \<and>
         gv w' x = map_option scan_session (T gt (VStr x)))"
proof -
  from e obtain d where d: "eng_Exec eng sql args (drv w) = (e, d)" "w' = w\<lparr>drv := d\<rparr>" by (auto simp: on_db_simps)
  have wfw: "wf (drv w)" using w by (simp add: sql_ok_def)
  note ex = exec_stmt [OF wfw d(1) p parse_not_create [OF p]]
  have o: "tab d gt k = tab (drv w) gt k" if "k \<noteq> VStr x" for k
    using ex(2) only that by metis
  have l: "tab d lt = tab (drv w) lt"
    using ex(2) run_write_other [of schema fits _ st args "tab (drv w)" "tab d"] table_neq g by metis
  have "\<exists>s. k = VStr s" if "tab d gt k \<noteq> None" for k
    using w o [of k] that by (cases "k = VStr x") (auto simp: sql_ok_def text_keys_def)
  then have tk: "text_keys (tab d gt)" by (simp add: text_keys_def)
  have "gv w' y = gv w y" if "y \<noteq> x" for y using o [of "VStr y"] that by (simp add: sql_gv_def d(2))
  moreover have "ok w'" using w ex(1) l tk by (simp add: sql_ok_def d(2))
  ultimately show "near gv ok x w w'" by (simp add: near_def d(2))
  show "gobj w' = gobj w" "gtop w' = gtop w" by (simp_all add: d(2))
  show "e \<noteq> None \<and> gv w' x = gv w x \<or>
      (\<exists>now T. run_write schema fits now st args (tab (drv w)) = Some T \<and>
         gv w' x = map_option scan_session (T gt (VStr x)))"
    using ex(2) by (auto simp: sql_gv_def d(2))
qed

subsection \<open>Sessions\<close>

lemma find_session_law:
  assumes w: "ok w" and f: "sql_FindGlobalSession dl dv x w = (r, w')"
  shows "quiet gv ok w w' \<and> (\<forall>g. r = Some g \<longrightarrow> synced gv w' g \<and> gs_XID (gobj w' g) = x)"
proof -
  obtain res err w1 where g: "on_db (eng_Get eng (fill (di_QueryGlobalTransactionByXid dl) [gt]) [VStr x]) w = ((res, err), w1)"
    by (metis prod.exhaust)
  then obtain d where d: "eng_Get eng (fill (di_QueryGlobalTransactionByXid dl) [gt]) [VStr x] (drv w) = ((res, err), d)"
    "w1 = w\<lparr>drv := d\<rparr>" by (auto simp: on_db_simps)
  have wfw: "wf (drv w)" using w by (simp add: sql_ok_def)
  note t = get [OF wfw d(1)]
  have q: "quiet gv ok w w1" using quiet_db [OF w] t w by (simp add: d(2) sql_ok_def)
  show ?thesis
  proof (cases res)
    case None
    with f g q dv_eng show ?thesis by (simp add: sql_FindGlobalSession_def)
  next
    case (Some row)
    then have res: "r = Some (gtop w1)" "w' = snd (new_gs (scan_session row) w1)"
      using f g dv_eng by (simp_all add: sql_FindGlobalSession_def new_gs_def)
    from t Some have "answers (tab (drv w)) (fill (di_QueryGlobalTransactionByXid dl) [gt]) [VStr x] row" by simp
    then obtain r0 where r0: "row_in (tab (drv w) gt) (column_in ''xid'' [VStr x]) r0"
      "row = r0 |` set (session_columns @ stamps)"
      by (auto simp: answers_def query_session_text [OF names(1)])
    then obtain k where k: "tab (drv w) gt k = Some r0" "r0 ''xid'' = Some (VStr x)"
      by (auto simp: row_in_def column_in_def)
    from gt_row [OF w k(1)] k have "tab (drv w) gt (VStr x) = Some r0" by fastforce
    then have s: "gv w x = Some (scan_session row)" by (simp add: sql_gv_def r0(2) scan_session_restrict)
    have x: "gs_XID (scan_session row) = x" using gv_xid [OF w s] .
    have q2: "quiet gv ok w1 w'" using quiet_alloc [OF quiet_ok [OF q]] by (simp add: res(2) new_gs_def)
    have "gv w' x = Some (scan_session row)" using q q2 s by (simp add: quiet_def)
    then have "synced gv w' (gtop w1) \<and> gs_XID (gobj w' (gtop w1)) = x"
      using x by (simp add: synced_def res(2) new_gs_def)
    with quiet_trans [OF q q2] res(1) show ?thesis by simp
  qed
qed

lemma session_query_law:
  assumes w: "ok w" and f: "session_query dv cs lim w = (gs, w')"
  shows "quiet gv ok w w'" and "handles gv w' gs"
    and "\<forall>g \<in> set gs. \<exists>r. holds cs r \<and> gobj w' g = scan_session r"
proof -
  let ?q = "\<lparr>bq_table = gt, bq_where = cs, bq_order = ''gmt_modified'', bq_limit = lim\<rparr>"
  obtain rs err w1 where g: "on_db (eng_Query eng ?q) w = ((rs, err), w1)" by (metis prod.exhaust)
  then obtain d where d: "eng_Query eng ?q (drv w) = ((rs, err), d)" "w1 = w\<lparr>drv := d\<rparr>"
    by (auto simp: on_db_simps)
  have wfw: "wf (drv w)" using w by (simp add: sql_ok_def)
  have t: "wf d" "tab d = tab (drv w)" "distinct rs" "\<forall>r \<in> set rs. row_in (tab (drv w) gt) (holds cs) r"
    using query [OF wfw d(1)] by auto
  have q: "quiet gv ok w w1" using quiet_db [OF w t(1)] t(2) w by (simp add: d(2) sql_ok_def)
  have l: "load_sessions rs w1 = (gs, w')" using f g dv_eng by (simp add: session_query_def)
  note ls = load_sessions_spec [OF l]
  have q2: "quiet gv ok w1 w'" using quiet_alloc [OF quiet_ok [OF q]] ls by simp
  show "quiet gv ok w w'" by (rule quiet_trans [OF q q2])
  have row: "\<exists>x. r ''xid'' = Some (VStr x) \<and> tab (drv w) gt (VStr x) = Some r" if "r \<in> set rs" for r
    using t(4) that gt_row [OF w] unfolding row_in_def by metis
  have gw: "gv w' = gv w" using q q2 by (simp add: quiet_def)
  have obj: "gobj w' g = scan_session (rs ! (g - gtop w1)) \<and> rs ! (g - gtop w1) \<in> set rs \<and> g < gtop w'"
    if "g \<in> set gs" for g
  proof -
    have i: "gtop w1 \<le> g" "g - gtop w1 < length rs" using that ls by auto
    then have "gobj w' (gtop w1 + (g - gtop w1)) = scan_session (rs ! (g - gtop w1))" using ls by blast
    with i ls show ?thesis by simp
  qed
  have sy: "synced gv w' g" if "g \<in> set gs" for g
  proof -
    from obj [OF that] row obtain x where x: "rs ! (g - gtop w1) = r \<Longrightarrow> r ''xid'' = Some (VStr x)"
      "tab (drv w) gt (VStr x) = Some (rs ! (g - gtop w1))" for r by metis
    have "gs_XID (gobj w' g) = x" using obj [OF that] x(1) by (simp add: scan_session_def)
    moreover have "gv w' x = Some (gobj w' g)" using x(2) obj [OF that] by (simp add: gw sql_gv_def)
    ultimately show ?thesis using obj [OF that] by (simp add: synced_def)
  qed
  have "map (gobj w') gs = map scan_session rs"
    by (rule nth_equalityI) (use ls in auto)
  then have "map (\<lambda>g. gs_XID (gobj w' g)) gs = map (\<lambda>r. gs_XID (scan_session r)) rs"
    by (metis (no_types, lifting) list.map_comp map_eq_conv comp_apply)
  moreover have "inj_on (\<lambda>r. gs_XID (scan_session r)) (set rs)"
  proof (rule inj_onI)
    fix r r' assume r: "r \<in> set rs" "r' \<in> set rs" "gs_XID (scan_session r) = gs_XID (scan_session r')"
    from row [OF r(1)] row [OF r(2)] obtain x x' where "r ''xid'' = Some (VStr x)" "r' ''xid'' = Some (VStr x')"
      "tab (drv w) gt (VStr x) = Some r" "tab (drv w) gt (VStr x') = Some r'" by blast
    with r(3) show "r = r'" by (simp add: scan_session_def)
  qed
  ultimately show "handles gv w' gs" using t(3) sy by (simp add: handles_def distinct_map)
  show "\<forall>g \<in> set gs. \<exists>r. holds cs r \<and> gobj w' g = scan_session r"
    using obj t(4) unfolding row_in_def by metis
qed

lemma status_holds:
  "column_in ''status'' (status_vals sts) r \<Longrightarrow> gs_Status (scan_session r) \<in> set sts"
  by (auto simp: column_in_def status_vals_def scan_session_def)

lemma addressing_holds:
  "column_in ''addressing'' (map VStr ads) r \<Longrightarrow> gs_Addressing (scan_session r) \<in> set ads"
  by (auto simp: column_in_def scan_session_def)

text \<open>What is written is what is read back.\<close>

lemma session_roundtrip:
  "scan_session (map_of (zip (session_columns @ stamps)
     [VStr (gs_Addressing s), VStr (gs_XID s), VInt (sint (gs_TransactionID s)), VStr (gs_TransactionName s),
      VInt (sint (gs_Timeout s)), VInt (sint (gs_BeginTime s)), VInt (int (GlobalStatus_num (gs_Status s))),
      VBool (gs_Active s), t, t'])) = s"
  by (cases s) (simp add: scan_session_def session_columns_def stamps_def)

lemma add_session_law:
  assumes w: "ok w" and f: "sql_AddGlobalSession dl dv g w = (e, w')"
  shows "modifies gv ok g (\<lambda>s. s) w e w'"
proof -
  let ?s = "gobj w g"
  let ?args = "[VStr (gs_Addressing ?s), VStr (gs_XID ?s), VInt (sint (gs_TransactionID ?s)), VStr (gs_TransactionName ?s),
      VInt (sint (gs_Timeout ?s)), VInt (sint (gs_BeginTime ?s)), VInt (int (GlobalStatus_num (gs_Status ?s))),
      VBool (gs_Active ?s)]"
  let ?row = "\<lambda>now. zip (session_columns @ stamps) (?args @ [VTime now, VTime now])"
  have e: "on_db (eng_Exec eng (fill (di_InsertGlobalTransaction dl) [gt]) ?args) w = (e, w')"
    using f dv_eng by (simp add: sql_AddGlobalSession_def Let_def)
  note p = insert_session_text [OF names(1)]
  have run: "insert_rows fits gdef [?row now] (tab (drv w) gt) = Some (T gt)"
    if "run_write schema fits now (Insert gt (session_columns @ stamps) [map Arg [0..<8] @ [Now, Now]]) ?args (tab (drv w)) = Some T"
    for now T
    by (rule run_insert1 [OF that tables(1) _ eval_args_stamps]) (simp_all add: session_columns_def stamps_def)
  have key: "map_of (?row now) ''xid'' = Some (VStr (gs_XID ?s))" for now
    by (simp add: session_columns_def)
  have only: "T gt k = tab (drv w) gt k"
    if r: "run_write schema fits now (Insert gt (session_columns @ stamps) [map Arg [0..<8] @ [Now, Now]]) ?args (tab (drv w)) = Some T"
      and k: "k \<noteq> VStr (gs_XID ?s)" for now T k
  proof -
    note i = run [OF r]
    show ?thesis
    proof (cases "T gt k")
      case None
      with insert_rows_old [OF i, of k] show ?thesis by (cases "tab (drv w) gt k") auto
    next
      case (Some r0)
      from insert_rows_new [OF i Some] key k keys(1) show ?thesis using Some by auto
    qed
  qed
  have only': "\<forall>now T k. run_write schema fits now (Insert gt (session_columns @ stamps) [map Arg [0..<8] @ [Now, Now]]) ?args (tab (drv w)) = Some T \<longrightarrow> k \<noteq> VStr (gs_XID ?s) \<longrightarrow>
      T gt k = tab (drv w) gt k"
    using only by blast
  note n = exec_near [OF w e p stmt_table.simps(1) only']
  have "gv w' (gs_XID ?s) = Some ?s \<or> e \<noteq> None \<and> gv w' (gs_XID ?s) = gv w (gs_XID ?s)"
  proof -
    have "T gt (VStr (gs_XID ?s)) = Some (map_of (?row now))"
      if "run_write schema fits now (Insert gt (session_columns @ stamps) [map Arg [0..<8] @ [Now, Now]]) ?args (tab (drv w)) = Some T"
      for now T
      using run [OF that] insert_rows_all [of fits gdef "[?row now]" "tab (drv w) gt" "T gt" "?row now"] key keys(1) by auto
    with n(4) session_roundtrip [of ?s] show ?thesis by fastforce
  qed
  with n(1,2) show ?thesis by (simp add: modifies_def)
qed

lemma gt_row_key: "ok w \<Longrightarrow> tab (drv w) gt k = Some r \<Longrightarrow> r ''xid'' = Some (VStr y) \<Longrightarrow> k = VStr y"
  by (metis gt_row option.inject sqlval.inject(1))

lemma assign_xid:
  assumes "ok w"
  shows "k \<noteq> VStr x \<Longrightarrow> assign_rows as ''xid'' (VStr x) (tab (drv w) gt) k = tab (drv w) gt k"
    and "assign_rows as ''xid'' (VStr x) (tab (drv w) gt) (VStr x) =
      map_option (\<lambda>r. r ++ map_of as) (tab (drv w) gt (VStr x))"
  using gt_key [OF assms] gt_row_key [OF assms, of k]
  by (auto simp: assign_rows_def split: option.splits)

lemma delete_xid:
  assumes "ok w"
  shows "k \<noteq> VStr x \<Longrightarrow> delete_rows (\<lambda>r. r ''xid'' = Some (VStr x)) (tab (drv w) gt) k = tab (drv w) gt k"
    and "delete_rows (\<lambda>r. r ''xid'' = Some (VStr x)) (tab (drv w) gt) (VStr x) = None"
  using gt_key [OF assms] gt_row_key [OF assms, of k]
  by (auto simp: delete_rows_def split: option.splits)

text \<open>Both updates of a session: first its object, then its row.\<close>

lemma update_law:
  assumes w: "ok w" and g: "synced gv w g" and p: "parse sql = Some (Update gt as ''xid'' e0)"
    and e: "on_db (eng_Exec eng sql args) (set_gs g f w) = (e, w')"
    and v: "\<And>now. all_some (eval_exp now args) (map snd as) = Some (vs now)"
      "\<And>now. eval_exp now args e0 = Some (VStr (gs_XID (gobj w g)))"
    and f: "\<And>s. gs_XID (f s) = gs_XID s"
    and s: "\<And>now r. scan_session (r ++ map_of (zip (map fst as) (vs now))) = f (scan_session r)"
  shows "modifies gv ok g f w e w'"
proof -
  let ?x = "gs_XID (gobj w g)" and ?w = "set_gs g f w"
  have w1: "ok ?w" using w by (simp add: sql_ok_def)
  have gw: "gv ?w = gv w" by (rule ext) (simp add: sql_gv_def)
  note run = run_update2 [OF _ v]
  have only: "T gt k = tab (drv ?w) gt k"
    if "run_write schema fits now (Update gt as ''xid'' e0) args (tab (drv ?w)) = Some T" and "k \<noteq> VStr ?x" for now T k
    using run [OF that(1)] assign_xid(1) [OF w1 that(2)] by simp
  have only': "\<forall>now T k. run_write schema fits now (Update gt as ''xid'' e0) args (tab (drv ?w)) = Some T \<longrightarrow> k \<noteq> VStr ?x \<longrightarrow>
      T gt k = tab (drv ?w) gt k"
    using only by blast
  note n = exec_near [OF w1 e p stmt_table.simps(2) only']
  have "gv w' ?x = Some (f (gobj w g)) \<or> e \<noteq> None \<and> gv w' ?x = gv w ?x"
  proof -
    have "map_option scan_session (T gt (VStr ?x)) = Some (f (gobj w g))"
      if "run_write schema fits now (Update gt as ''xid'' e0) args (tab (drv ?w)) = Some T" for now T
      using run [OF that] assign_xid(2) [OF w1, of _ ?x] g s by (auto simp: synced_def sql_gv_def)
    with n(4) gw show ?thesis by metis
  qed
  moreover have "near gv ok ?x w w'" using n(1,2) gw by (auto simp: near_def)
  ultimately show ?thesis using n(2) by (simp add: modifies_def)
qed

lemma update_status_law:
  assumes w: "ok w" and g: "synced gv w g" and u: "UpdateGlobalSessionStatus (sql_sm dl dv) g st w = (e, w')"
  shows "modifies gv ok g (\<lambda>s. s\<lparr>gs_Status := st\<rparr>) w e w'"
proof (rule update_law [OF w g update_status_text [OF names(1)]])
  show "on_db (eng_Exec eng (fill (di_UpdateGlobalTransaction dl) [gt])
      [VInt (int (GlobalStatus_num st)), VStr (gs_XID (gobj w g))]) (set_gs g (\<lambda>s. s\<lparr>gs_Status := st\<rparr>) w) = (e, w')"
    using u dv_eng by (simp add: UpdateGlobalSessionStatus_def sql_UpdateGlobalSessionStatus_def)
  show "all_some (eval_exp now [VInt (int (GlobalStatus_num st)), VStr (gs_XID (gobj w g))])
      (map snd [(''status'', Arg 0), (''gmt_modified'', Now)]) = Some [VInt (int (GlobalStatus_num st)), VTime now]" for now
    by simp
qed (simp_all add: scan_session_def)

lemma inactive_law:
  assumes w: "ok w" and g: "synced gv w g" and u: "InactiveGlobalSession (sql_sm dl dv) g w = (e, w')"
  shows "modifies gv ok g (\<lambda>s. s\<lparr>gs_Active := False\<rparr>) w e w'"
proof (rule update_law [OF w g inactive_text [OF names(1)]])
  show "on_db (eng_Exec eng (fill (di_InactiveGlobalTransaction dl) [gt]) [VStr (gs_XID (gobj w g))])
      (set_gs g (\<lambda>s. s\<lparr>gs_Active := False\<rparr>) w) = (e, w')"
    using u dv_eng by (simp add: InactiveGlobalSession_def sql_InactiveGlobalSession_def)
  show "all_some (eval_exp now [VStr (gs_XID (gobj w g))]) (map snd [(''active'', Num 0), (''gmt_modified'', Now)]) =
      Some [VInt 0, VTime now]" for now by simp
qed (simp_all add: scan_session_def)

lemma remove_session_law:
  assumes w: "ok w" and f: "sql_RemoveGlobalSession dl dv g w = (e, w')"
  shows "near gv ok (gs_XID (gobj w g)) w w' \<and> gobj w' g = gobj w g \<and>
    (gv w' (gs_XID (gobj w g)) = None \<or> e \<noteq> None \<and> gv w' (gs_XID (gobj w g)) = gv w (gs_XID (gobj w g)))"
proof -
  let ?x = "gs_XID (gobj w g)"
  have e: "on_db (eng_Exec eng (fill (di_DeleteGlobalTransaction dl) [gt]) [VStr ?x]) w = (e, w')"
    using f dv_eng by (simp add: sql_RemoveGlobalSession_def)
  have run: "T gt = delete_rows (\<lambda>r. r ''xid'' = Some (VStr ?x)) (tab (drv w) gt)"
    if "run_write schema fits now (Delete gt ''xid'' (Arg 0)) [VStr ?x] (tab (drv w)) = Some T" for now T
    using run_delete1 [OF that, of "VStr ?x"] by simp
  have only: "T gt k = tab (drv w) gt k"
    if "run_write schema fits now (Delete gt ''xid'' (Arg 0)) [VStr ?x] (tab (drv w)) = Some T" and "k \<noteq> VStr ?x" for now T k
    using run [OF that(1)] delete_xid(1) [OF w that(2)] by simp
  have only': "\<forall>now T k. run_write schema fits now (Delete gt ''xid'' (Arg 0)) [VStr ?x] (tab (drv w)) = Some T \<longrightarrow> k \<noteq> VStr ?x \<longrightarrow>
      T gt k = tab (drv w) gt k"
    using only by blast
  note n = exec_near [OF w e delete_session_text [OF names(1)] stmt_table.simps(3) only']
  have "gv w' ?x = None \<or> e \<noteq> None \<and> gv w' ?x = gv w ?x"
    using n(4) run delete_xid(2) [OF w] by auto
  with n(1,2) show ?thesis by simp
qed

subsection \<open>Branches\<close>

lemma find_rows_quiet:
  assumes w: "ok w" and f: "on_db (eng_Find eng sql args) w = (p, w')"
  shows "quiet gv ok w w'" and "\<forall>row \<in> set (fst p). answers (tab (drv w)) sql args row"
    and "snd p = None \<Longrightarrow> answers (tab (drv w)) sql args row \<Longrightarrow> row \<in> set (fst p)"
    and "tab (drv w') = tab (drv w)" and "gobj w' = gobj w \<and> bobj w' = bobj w \<and> gtop w' = gtop w"
proof -
  from f obtain d where d: "eng_Find eng sql args (drv w) = ((fst p, snd p), d)" "w' = w\<lparr>drv := d\<rparr>"
    by (auto simp: on_db_simps)
  have wfw: "wf (drv w)" using w by (simp add: sql_ok_def)
  note t = find_rows [OF wfw d(1)]
  show "quiet gv ok w w'" using quiet_db [OF w] t w by (simp add: d(2) sql_ok_def)
  show "\<forall>row \<in> set (fst p). answers (tab (drv w)) sql args row"
    and "snd p = None \<Longrightarrow> answers (tab (drv w)) sql args row \<Longrightarrow> row \<in> set (fst p)"
    using t by blast+
  show "tab (drv w') = tab (drv w)" and "gobj w' = gobj w \<and> bobj w' = bobj w \<and> gtop w' = gtop w"
    using t by (simp_all add: d(2))
qed

lemma load_quiet:
  assumes "ok w" and "load_branches rs w = (bs, w')" shows "quiet gv ok w w'"
  using quiet_alloc [OF assms(1)] load_branches_spec [OF assms(2)] by simp

lemma find_branches_law:
  assumes w: "ok w" and f: "sql_FindBranchSessions dl dv x w = (bs, w')" shows "quiet gv ok w w'"
proof -
  obtain rs err w1 where g: "on_db (eng_Find eng (fill (di_QueryBranchTransactionByXid dl) [bt]) [VStr x]) w = ((rs, err), w1)"
    by (metis prod.exhaust)
  with f dv_eng have "load_branches rs w1 = (bs, w')" by (simp add: sql_FindBranchSessions_def)
  with find_rows_quiet(1) [OF w g] show ?thesis by (meson load_quiet quiet_ok quiet_trans)
qed

lemma find_batch_law:
  assumes w: "ok w" and f: "sql_FindBatchBranchSessions dl dv xs w = (bs, w')" shows "quiet gv ok w w'"
proof -
  obtain rs err w1 where g: "on_db (eng_Find eng (fill (di_QueryBranchTransaction dl)
      [bt, fill ''xid in %s'' [di_AppendInParam dl (length xs)]]) (map VStr xs)) w = ((rs, err), w1)"
    by (metis prod.exhaust)
  with f dv_eng have "load_branches rs w1 = (bs, w')" by (simp add: sql_FindBatchBranchSessions_def)
  with find_rows_quiet(1) [OF w g] show ?thesis by (meson load_quiet quiet_ok quiet_trans)
qed

lemma add_branch_law:
  assumes w: "ok w" and f: "sql_AddBranchSession dl dv g b w = (e, w')" shows "quiet gv ok w w'"
proof -
  from insert_branch_text [OF names(2)] obtain es where
    "parse (fill (di_InsertBranchTransaction dl) [bt]) = Some (Insert bt (branch_columns @ stamps) [es])" by blast
  with f dv_eng show ?thesis by (auto simp: sql_AddBranchSession_def Let_def intro: exec_quiet [OF w])
qed

lemma update_branch_law:
  assumes w: "ok w" and f: "sql_UpdateBranchSessionStatus dl dv b st w = (e, w')" shows "quiet gv ok w w'"
  using f dv_eng exec_quiet [OF w _ update_branch_text [OF names(2)]]
  by (simp add: sql_UpdateBranchSessionStatus_def)

lemma remove_branch_law:
  assumes w: "ok w" and f: "sql_RemoveBranchSession dl dv g b w = (e, w')" shows "quiet gv ok w w'"
  using f dv_eng exec_quiet [OF w _ delete_branch_text [OF names(2)]]
  by (simp add: sql_RemoveBranchSession_def)

subsection \<open>Row locks\<close>

lemma lt_row_key: "ok w \<Longrightarrow> tab (drv w) lt k = Some r \<Longrightarrow> r ''row_key'' = Some k"
  using keyed [of "drv w" lt ldef k r] tables(3) keys(2) by (simp add: sql_ok_def)

lemma held_cong: "tab (drv w') = tab (drv w) \<Longrightarrow> held w' = held w"
  by (rule ext) (simp add: sql_held_def)

text \<open>A statement on the lock table.\<close>

lemma lock_write:
  assumes w: "ok w" and d: "wf d" and g: "tab d gt = tab (drv w) gt" and l: "lock_rows (tab d lt)"
  shows "quiet gv ok w (w\<lparr>drv := d\<rparr>)" and "ok (w\<lparr>drv := d\<rparr>)"
  using quiet_db [OF w d g l] by (auto dest: quiet_ok)

lemma insert_locks_spec:
  assumes w: "ok w" and ne: "ls \<noteq> []"
  shows "\<exists>r w'. insert_locks dl dv ls w = Some (r, w') \<and> quiet gv ok w w' \<and>
    (\<not> r \<and> held w' = held w \<or>
     (\<forall>l \<in> set ls. held w (rl_RowKey l) = None \<and> held w' (rl_RowKey l) = Some (rl_XID l)) \<and>
     (\<forall>k. k \<notin> row_keys ls \<longrightarrow> held w' k = held w k))"
proof -
  let ?sql = "fill (di_InsertRowLock dl) [lt, butlast (concat (map (di_lock_values dl) [0..<length ls]))]"
  let ?st = "Insert lt (lock_columns @ stamps) (map (\<lambda>i. tuple_exps (7 * i)) [0..<length ls])"
  have n: "length ls > 0" using ne by simp
  obtain e w' where e: "on_db (eng_Exec eng ?sql (lock_args ls)) w = (e, w')" by fastforce
  then obtain d where d: "eng_Exec eng ?sql (lock_args ls) (drv w) = (e, d)" "w' = w\<lparr>drv := d\<rparr>"
    by (auto simp: on_db_simps)
  have r: "insert_locks dl dv ls w = Some (e = None, w')"
    using e lock_values_text [OF n] dv_eng by (simp add: insert_locks_def Let_def)
  have wfw: "wf (drv w)" using w by (simp add: sql_ok_def)
  note p = insert_locks_text [OF names(3) n]
  note x = exec_stmt [OF wfw d(1) p parse_not_create [OF p]]
  have "tab d gt = tab (drv w) gt"
    using x(2) run_write_other [of schema fits _ ?st _ "tab (drv w)" "tab d" gt] table_neq by auto
  moreover have ins: "insert_rows fits ldef (map (lock_cells now) ls) (tab (drv w) lt) = Some (tab d lt)"
    if "run_write schema fits now ?st (lock_args ls) (tab (drv w)) = Some (tab d)" for now
    by (rule run_insert [OF that tables(3) build_lock_rows])
  have new: "tab (drv w) lt k = Some r \<or> (\<exists>l \<in> set ls. k = VStr (rl_RowKey l) \<and> r ''xid'' = Some (VStr (rl_XID l)))"
    if "run_write schema fits now ?st (lock_args ls) (tab (drv w)) = Some (tab d)" and "tab d lt k = Some r" for now k r
    using insert_rows_new [OF ins [OF that(1)] that(2)] keys(2) by auto
  have "lock_rows (tab d lt)"
    using x(2) new w unfolding sql_ok_def lock_rows_def by metis
  ultimately have q: "quiet gv ok w w'" using lock_write(1) [OF w x(1)] d(2) by simp
  have "\<not> (e = None) \<and> held w' = held w \<or>
     (\<forall>l \<in> set ls. held w (rl_RowKey l) = None \<and> held w' (rl_RowKey l) = Some (rl_XID l)) \<and>
     (\<forall>k. k \<notin> row_keys ls \<longrightarrow> held w' k = held w k)"
    using x(2)
  proof
    assume "e \<noteq> None \<and> tab d = tab (drv w)"
    with held_cong [of w' w] d(2) show ?thesis by simp
  next
    assume "\<exists>now. run_write schema fits now ?st (lock_args ls) (tab (drv w)) = Some (tab d)"
    then obtain now where run: "run_write schema fits now ?st (lock_args ls) (tab (drv w)) = Some (tab d)" by blast
    note i = ins [OF run]
    have "held w (rl_RowKey l) = None \<and> held w' (rl_RowKey l) = Some (rl_XID l)" if "l \<in> set ls" for l
      using insert_rows_all [OF i, of "lock_cells now l"] that keys(2) d(2) by (auto simp: sql_held_def)
    moreover have "held w' k = held w k" if "k \<notin> row_keys ls" for k
    proof -
      have "tab d lt (VStr k) = tab (drv w) lt (VStr k)"
      proof (cases "tab d lt (VStr k)")
        case None
        with insert_rows_old [OF i, of "VStr k"] show ?thesis by (cases "tab (drv w) lt (VStr k)") auto
      next
        case (Some r)
        with new [OF run Some] that show ?thesis by (auto simp: row_keys_def)
      qed
      then show ?thesis by (simp add: sql_held_def d(2))
    qed
    ultimately show ?thesis by blast
  qed
  with r q show ?thesis by blast
qed

lemma find_locks_spec:
  assumes w: "ok w" and f: "find_locks dl dv ks w = (ls, w')"
  shows "quiet gv ok w w'" and "held w' = held w"
    and "ks \<noteq> [] \<Longrightarrow> l \<in> set ls \<Longrightarrow> rl_RowKey l \<in> set ks \<and> held w (rl_RowKey l) = Some (rl_XID l)"
proof -
  let ?sql = "fill (di_QueryRowKey dl) [lt, fill ''row_key in %s'' [di_AppendInParam dl (length ks)]]"
  obtain rows err where e: "on_db (eng_Find eng ?sql (map VStr ks)) w = ((rows, err), w')" and ls: "ls = map scan_lock rows"
    using f dv_eng by (auto simp: find_locks_def Let_def split: prod.splits)
  note q = find_rows_quiet [OF w e]
  show "quiet gv ok w w'" by (rule q(1))
  show "held w' = held w" by (rule held_cong) (rule q(4))
  assume ne: "ks \<noteq> []" and l: "l \<in> set ls"
  then have n: "length ks > 0" by simp
  from l ls obtain row where row: "row \<in> set rows" "l = scan_lock row" by auto
  have "all_some (eval_exp 0 (map VStr ks)) (map Arg [0..<length ks]) = Some (map VStr ks)"
    using eval_args [of 0 "map VStr ks"] by simp
  with q(2) row(1) query_locks_text [OF names(3) n] obtain r where
    r: "row_in (tab (drv w) lt) (column_in ''row_key'' (map VStr ks)) r" "row = r |` set (lock_columns @ stamps)"
    by (fastforce simp: answers_def)
  then obtain key k where k: "tab (drv w) lt key = Some r" "k \<in> set ks" "r ''row_key'' = Some (VStr k)"
    by (auto simp: row_in_def column_in_def)
  have "key = VStr k" using lt_row_key [OF w k(1)] k(3) by simp
  moreover have "rl_RowKey l = k" using row(2) r(2) k(3) by (simp add: scan_lock_restrict) (simp add: scan_lock_def)
  moreover have "rl_XID l = as_string (r ''xid'')" using row(2) r(2) by (simp add: scan_lock_restrict) (simp add: scan_lock_def)
  ultimately show "rl_RowKey l \<in> set ks \<and> held w (rl_RowKey l) = Some (rl_XID l)"
    using k by (simp add: sql_held_def)
qed

lemma acquire_spec:
  assumes w: "ok w" and ne: "ls \<noteq> []"
  shows "\<exists>r w'. sql_AcquireLock dl dv (Some ls) skip w = Some (r, w') \<and> quiet gv ok w w' \<and>
    (\<forall>k. held w k \<noteq> None \<longrightarrow> held w' k = held w k) \<and> (\<forall>k. k \<notin> row_keys ls \<longrightarrow> held w' k = held w k) \<and>
    (\<forall>k y. held w' k = Some y \<longrightarrow> held w k = Some y \<or> (\<exists>l \<in> set ls. rl_RowKey l = k \<and> rl_XID l = y)) \<and>
    (\<forall>x. r \<or> held w' \<noteq> held w \<longrightarrow> one_owner rl_XID x ls \<longrightarrow> (\<forall>k \<in> row_keys ls. held w' k = Some x))"
proof -
  obtain locks ks where dk: "distinctByKey [] ls = (locks, ks)" by fastforce
  note ds = distinctByKey_spec [OF dk]
  have ks: "ks \<noteq> []" "locks \<noteq> []" "row_keys locks = row_keys ls" "set locks \<subseteq> set ls"
    using ds ne by (auto simp: row_keys_def)
  obtain ex w1 where fl: "find_locks dl dv ks w = (ex, w1)" by fastforce
  note f = find_locks_spec [OF w fl]
  have w1: "ok w1" using f(1) by (rule quiet_ok)
  have ins: "\<exists>r w'. insert_locks dl dv us w1 = Some (r, w') \<and> quiet gv ok w w' \<and>
      (\<forall>k. held w k \<noteq> None \<longrightarrow> held w' k = held w k) \<and> (\<forall>k. k \<notin> row_keys ls \<longrightarrow> held w' k = held w k) \<and>
      (\<forall>k y. held w' k = Some y \<longrightarrow> held w k = Some y \<or> (\<exists>l \<in> set ls. rl_RowKey l = k \<and> rl_XID l = y)) \<and>
      (\<forall>x. r \<or> held w' \<noteq> held w \<longrightarrow> one_owner rl_XID x ls \<longrightarrow> (\<forall>k \<in> row_keys ls. held w' k = Some x))"
    if us: "us \<noteq> []" "set us \<subseteq> set ls"
      and rest: "\<And>x k. one_owner rl_XID x ls \<Longrightarrow> k \<in> row_keys ls \<Longrightarrow> k \<notin> row_keys us \<Longrightarrow> held w k = Some x" for us
  proof -
    from insert_locks_spec [OF w1 us(1)] obtain r w' where i: "insert_locks dl dv us w1 = Some (r, w')"
      "quiet gv ok w1 w'" and c: "\<not> r \<and> held w' = held w1 \<or>
        (\<forall>l \<in> set us. held w1 (rl_RowKey l) = None \<and> held w' (rl_RowKey l) = Some (rl_XID l)) \<and>
        (\<forall>k. k \<notin> row_keys us \<longrightarrow> held w' k = held w1 k)" by blast
    have k: "k \<in> row_keys us \<longleftrightarrow> (\<exists>l \<in> set us. rl_RowKey l = k)" for k by (auto simp: row_keys_def)
    have sub: "row_keys us \<subseteq> row_keys ls" using us(2) by (auto simp: row_keys_def)
    have "(\<forall>k. held w k \<noteq> None \<longrightarrow> held w' k = held w k) \<and> (\<forall>k. k \<notin> row_keys ls \<longrightarrow> held w' k = held w k) \<and>
      (\<forall>k y. held w' k = Some y \<longrightarrow> held w k = Some y \<or> (\<exists>l \<in> set ls. rl_RowKey l = k \<and> rl_XID l = y)) \<and>
      (\<forall>x. r \<or> held w' \<noteq> held w \<longrightarrow> one_owner rl_XID x ls \<longrightarrow> (\<forall>k \<in> row_keys ls. held w' k = Some x))"
      using c
    proof
      assume "\<not> r \<and> held w' = held w1"
      with f(2) show ?thesis by simp
    next
      assume n: "(\<forall>l \<in> set us. held w1 (rl_RowKey l) = None \<and> held w' (rl_RowKey l) = Some (rl_XID l)) \<and>
        (\<forall>k. k \<notin> row_keys us \<longrightarrow> held w' k = held w1 k)"
      have new: "held w k = None \<and> (\<exists>l \<in> set us. rl_RowKey l = k \<and> held w' k = Some (rl_XID l))" if "k \<in> row_keys us" for k
        using n that f(2) by (auto simp: k)
      have old: "held w' k = held w k" if "k \<notin> row_keys us" for k using n that f(2) by simp
      show ?thesis
      proof (intro conjI allI impI ballI)
        fix k assume "held w k \<noteq> None" then show "held w' k = held w k" using new [of k] old [of k] by (cases "k \<in> row_keys us") auto
      next
        fix k assume "k \<notin> row_keys ls" then show "held w' k = held w k" using sub old [of k] by auto
      next
        fix k y assume "held w' k = Some y"
        then show "held w k = Some y \<or> (\<exists>l \<in> set ls. rl_RowKey l = k \<and> rl_XID l = y)"
          using new [of k] old [of k] us(2) by (cases "k \<in> row_keys us") auto
      next
        fix x k assume "one_owner rl_XID x ls" and "k \<in> row_keys ls"
        then show "held w' k = Some x"
          using new [of k] old [of k] rest [of x k] us(2) by (cases "k \<in> row_keys us") (auto simp: one_owner_def)
      qed
    qed
    with i quiet_trans [OF f(1) i(2)] show ?thesis by blast
  qed
  show ?thesis
  proof (cases skip)
    case True
    with ins [of ls] ne fl dk show ?thesis by (simp add: sql_AcquireLock_def)
  next
    case False
    obtain l0 ls0 where l0: "locks = l0 # ls0" using ks(2) by (cases locks) auto
    show ?thesis
    proof (cases "existed_keys (rl_XID l0) ex")
      case None
      with False l0 fl dk f(1,2) show ?thesis by (auto simp: sql_AcquireLock_def)
    next
      case (Some eks)
      then have ex: "\<forall>l \<in> set ex. rl_XID l = rl_XID l0" "eks = map rl_RowKey ex"
        by (simp_all add: existed_keys_Some)
      have here: "held w k = Some (rl_XID l0)" if "k \<in> set eks" for k
        using that ex f(3) [OF ks(1)] by auto
      let ?us = "if eks \<noteq> [] then filter (\<lambda>l. \<not> sql_contains eks (rl_RowKey l)) locks else locks"
      have rest: "held w k = Some x" if "one_owner rl_XID x ls" "k \<in> row_keys ls" "k \<notin> row_keys ?us" for x k
      proof -
        have "rl_XID l0 = x" using that(1) ks(4) l0 by (auto simp: one_owner_def)
        moreover have "k \<in> set eks"
        proof (rule ccontr)
          assume k: "k \<notin> set eks"
          have "k \<in> row_keys locks" using that(2) ks(3) by simp
          then obtain l where "l \<in> set locks" "rl_RowKey l = k" by (auto simp: row_keys_def)
          with k have "l \<in> set ?us" by simp
          with \<open>rl_RowKey l = k\<close> that(3) show False unfolding row_keys_def by blast
        qed
        ultimately show ?thesis using here by simp
      qed
      define us where "us = ?us"
      have ev: "sql_AcquireLock dl dv (Some ls) skip w =
          (if us = [] then Some (True, w1) else insert_locks dl dv us w1)"
        by (simp add: sql_AcquireLock_def Let_def dk fl False l0 Some us_def)
      have us: "set us \<subseteq> set ls" using ks(4) by (auto simp: us_def)
      show ?thesis
      proof (cases "us = []")
        case True
        with rest have "\<forall>x. one_owner rl_XID x ls \<longrightarrow> (\<forall>k \<in> row_keys ls. held w k = Some x)"
          unfolding us_def by simp
        with True f(1,2) show ?thesis by (simp add: ev) (rule exI [of _ True], simp)
      next
        case nonempty: False
        from ins [OF nonempty us] rest nonempty show ?thesis unfolding us_def [symmetric] by (simp add: ev)
      qed
    qed
  qed
qed

lemma acquire_nonempty: "sql_AcquireLock dl dv (Some ls) skip w = Some (r, w') \<Longrightarrow> ls \<noteq> []"
  by (auto simp: sql_AcquireLock_def insert_locks_def split: prod.splits if_splits)

lemma delete_locks_spec:
  assumes w: "ok w" and e: "on_db (eng_Delete eng lt [CondIn ''row_key'' (map VStr ks), CondEq ''xid'' (VStr x)]) w = (e, w')"
  shows "quiet gv ok w w'"
    and "held w' k = held w k \<or> k \<in> set ks \<and> held w k = Some x \<and> held w' k = None"
    and "e = None \<Longrightarrow> k \<in> set ks \<Longrightarrow> held w' k \<noteq> Some x"
proof -
  let ?cs = "[CondIn ''row_key'' (map VStr ks), CondEq ''xid'' (VStr x)]"
  from e obtain d where d: "eng_Delete eng lt ?cs (drv w) = (e, d)" "w' = w\<lparr>drv := d\<rparr>" by (auto simp: on_db_simps)
  have wfw: "wf (drv w)" using w by (simp add: sql_ok_def)
  note t = delete_where [OF wfw d(1)]
  have "lock_rows (delete_rows P (tab (drv w) lt))" for P
    using w by (auto simp: sql_ok_def lock_rows_def delete_rows_def split: option.splits if_splits)
  with t have l: "lock_rows (tab d lt)" using w by (auto simp: sql_ok_def)
  have "tab d gt = tab (drv w) gt" using t table_neq by auto
  with lock_write(1) [OF w] t l d(2) show "quiet gv ok w w'" by simp
  have del: "delete_rows (holds ?cs) (tab (drv w) lt) (VStr k) =
      (if k \<in> set ks \<and> held w k = Some x then None else tab (drv w) lt (VStr k))"
  proof (cases "tab (drv w) lt (VStr k)")
    case None then show ?thesis by (simp add: delete_rows_def)
  next
    case (Some r)
    moreover obtain y where "r ''xid'' = Some (VStr y)" using w Some by (fastforce simp: sql_ok_def lock_rows_def)
    moreover have "r ''row_key'' = Some (VStr k)" using lt_row_key [OF w Some] .
    ultimately show ?thesis by (auto simp: delete_rows_def holds_def column_in_def sql_held_def)
  qed
  show "held w' k = held w k \<or> k \<in> set ks \<and> held w k = Some x \<and> held w' k = None"
    using t del by (auto simp: sql_held_def d(2) split: if_splits)
  show "e = None \<Longrightarrow> k \<in> set ks \<Longrightarrow> held w' k \<noteq> Some x"
    using t del by (auto simp: sql_held_def d(2) split: if_splits)
qed

lemma release_spec:
  assumes w: "ok w" and r: "sql_ReleaseLock dv (Some ls) w = Some (r, w')"
  shows "quiet gv ok w w'"
    and "one_owner rl_XID x ls \<Longrightarrow> held w' k = held w k \<or> k \<in> row_keys ls \<and> held w k = Some x \<and> held w' k = None"
    and "one_owner rl_XID x ls \<Longrightarrow> r \<Longrightarrow> k \<in> row_keys ls \<Longrightarrow> held w' k \<noteq> Some x"
proof -
  have "quiet gv ok w w' \<and> (one_owner rl_XID x ls \<longrightarrow> (held w' k = held w k \<or> k \<in> row_keys ls \<and> held w k = Some x \<and> held w' k = None) \<and>
    (r \<longrightarrow> k \<in> row_keys ls \<longrightarrow> held w' k \<noteq> Some x))"
  proof (cases ls)
    case Nil
    with r w show ?thesis by (simp add: sql_ReleaseLock_def quiet_refl)
  next
    case (Cons l0 ls0)
    then obtain e where e: "on_db (eng_Delete eng lt [CondIn ''row_key'' (map VStr (map rl_RowKey ls)),
        CondEq ''xid'' (VStr (rl_XID l0))]) w = (e, w')" "r = (e = None)"
      using r dv_eng by (auto simp: sql_ReleaseLock_def Let_def split: prod.splits)
    note s = delete_locks_spec [OF w e(1)]
    have k: "set (map rl_RowKey ls) = row_keys ls" by (simp add: row_keys_def)
    show ?thesis using s(1) s(2,3) [of k] e(2) Cons unfolding k by auto
  qed
  then show "quiet gv ok w w'"
    and "one_owner rl_XID x ls \<Longrightarrow> held w' k = held w k \<or> k \<in> row_keys ls \<and> held w k = Some x \<and> held w' k = None"
    and "one_owner rl_XID x ls \<Longrightarrow> r \<Longrightarrow> k \<in> row_keys ls \<Longrightarrow> held w' k \<noteq> Some x"
    by blast+
qed

lemma release_returns: "\<exists>r w'. sql_ReleaseLock dv (Some ls) w = Some (r, w')"
  by (cases ls) (auto simp: sql_ReleaseLock_def Let_def split: prod.splits)

lemma lockable_quiet_law:
  assumes w: "ok w" and f: "sql_IsLockable dl dv x res key w = Some (r, w')" shows "quiet gv ok w w'"
proof -
  obtain ex w1 where fl: "find_locks dl dv (map rl_RowKey (elems (CollectRowLocks key res x))) w = (ex, w1)" by fastforce
  with f find_locks_spec(1) [OF w fl] show ?thesis
    by (auto simp: sql_IsLockable_def Let_def split: list.splits)
qed

end

subsection \<open>The contracts\<close>

sublocale sql_store \<subseteq> store: tx_store "sql_sm dl dv" "sql_gv tab dv" "sql_ok tab wf dv" "sql_lm dl dv"
proof unfold_locales
  fix w s assume "ok w" then show "quiet gv ok w (snd (new_gs s w))"
    by (rule quiet_alloc) (simp_all add: new_gs_def)
next
  fix w c assume "ok w" then show "quiet gv ok w (snd (new_bs c w))"
    by (rule quiet_alloc) (simp_all add: new_bs_def)
next
  fix w sts gs w' assume w: "ok w" and f: "sm_FindGlobalSessions (sql_sm dl dv) sts w = (gs, w')"
  then have f: "session_query dv [CondIn ''status'' (status_vals sts)] (Some (sint (dv_queryLimit dv))) w = (gs, w')"
    by (simp add: sql_FindGlobalSessions_def)
  show "quiet gv ok w w' \<and> handles gv w' gs \<and> (\<forall>g \<in> set gs. gs_Status (gobj w' g) \<in> set sts)"
    using session_query_law [OF w f] status_holds by (fastforce simp: holds_def)
next
  fix w sts ads gs w'
  assume w: "ok w" and f: "sm_FindGlobalSessionsWithAddressingIdentities (sql_sm dl dv) sts ads w = (gs, w')"
  then have f: "session_query dv [CondIn ''status'' (status_vals sts), CondIn ''addressing'' (map VStr ads)]
      (Some (sint (dv_queryLimit dv))) w = (gs, w')"
    by (simp add: sql_FindGlobalSessionsWithAddressingIdentities_def)
  show "quiet gv ok w w' \<and> handles gv w' gs \<and>
      (\<forall>g \<in> set gs. gs_Status (gobj w' g) \<in> set sts \<and> gs_Addressing (gobj w' g) \<in> set ads)"
    using session_query_law [OF w f] status_holds addressing_holds by (fastforce simp: holds_def)
next
  fix w ls skip r w' assume w: "ok w" and a: "lm_AcquireLock (sql_lm dl dv) ls skip w = Some (r, w')"
  show "quiet gv ok w w'"
  proof (cases "elems ls")
    case Nil
    then have "sql_AcquireLock dl dv ls skip w = None"
      by (auto simp: sql_AcquireLock_def insert_locks_def split: prod.splits)
    with a show ?thesis by simp
  next
    case (Cons l rest)
    then have "ls = Some (l # rest)" by (cases ls) simp_all
    with a acquire_spec [OF w, of "l # rest" skip] show ?thesis by auto
  qed
next
  fix w ls r w' assume w: "ok w" and a: "lm_ReleaseLock (sql_lm dl dv) ls w = Some (r, w')"
  show "quiet gv ok w w'"
  proof (cases ls)
    case None
    with a show ?thesis by (simp add: sql_ReleaseLock_def)
  next
    case (Some xs)
    with a release_spec(1) [OF w, of xs r w'] show ?thesis by simp
  qed
qed (use find_session_law find_branches_law find_batch_law add_session_law update_status_law inactive_law
    remove_session_law add_branch_law update_branch_law remove_branch_law lockable_quiet_law in simp_all)

sublocale sql_store \<subseteq> locks: lock_manager "sql_lm dl dv" "sql_held tab dv" rl_XID "sql_ok tab wf dv" bs_XID
proof unfold_locales
  fix w skip and ls :: "RowLock list" assume "ok w" and "ls \<noteq> []"
  then show "\<exists>r w'. lm_AcquireLock (sql_lm dl dv) (Some ls) skip w = Some (r, w')"
    using acquire_spec [of w ls skip] by auto
next
  fix w ls skip r w' assume w: "ok w" and a: "lm_AcquireLock (sql_lm dl dv) (Some ls) skip w = Some (r, w')"
  then show "ok w'" using store.acquire_quiet quiet_ok by blast
next
  fix w x ls skip r w' x' k
  assume w: "ok w" and o: "one_owner rl_XID x ls" and ne: "x' \<noteq> x"
    and a: "lm_AcquireLock (sql_lm dl dv) (Some ls) skip w = Some (r, w')"
  from a have "ls \<noteq> []" using acquire_nonempty by simp
  from acquire_spec [OF w this, of skip] a have s: "\<forall>k. held w k \<noteq> None \<longrightarrow> held w' k = held w k"
    "\<forall>k y. held w' k = Some y \<longrightarrow> held w k = Some y \<or> (\<exists>l \<in> set ls. rl_RowKey l = k \<and> rl_XID l = y)" by auto
  then show "held w' k = Some x' \<longleftrightarrow> held w k = Some x'" using o ne unfolding one_owner_def by (metis option.distinct(1))
next
  fix w x ls skip w' k
  assume w: "ok w" and o: "one_owner rl_XID x ls" and k: "k \<in> row_keys ls"
    and a: "lm_AcquireLock (sql_lm dl dv) (Some ls) skip w = Some (True, w')"
  from a have "ls \<noteq> []" using acquire_nonempty by simp
  from acquire_spec [OF w this, of skip] a o k show "held w' k = Some x" by auto
next
  fix w ls skip r w' k
  assume w: "ok w" and k: "k \<notin> row_keys ls"
    and a: "lm_AcquireLock (sql_lm dl dv) (Some ls) skip w = Some (r, w')"
  from a have "ls \<noteq> []" using acquire_nonempty by simp
  from acquire_spec [OF w this, of skip] a k show "held w' k = held w k" by auto
next
  fix w and ls :: "RowLock list" assume "ok w" show "\<exists>r w'. lm_ReleaseLock (sql_lm dl dv) (Some ls) w = Some (r, w')"
    using release_returns by simp
next
  fix w ls r w' assume "ok w" and "lm_ReleaseLock (sql_lm dl dv) (Some ls) w = Some (r, w')"
  then show "ok w'" using store.release_quiet quiet_ok by blast
next
  fix w x ls r w' k
  assume w: "ok w" and o: "one_owner rl_XID x ls" and a: "lm_ReleaseLock (sql_lm dl dv) (Some ls) w = Some (r, w')"
  then show "held w' k = held w k \<or> k \<in> row_keys ls \<and> held w k = Some x \<and> held w' k = None"
    using release_spec(2) [OF w] by simp
next
  fix w x ls w' k
  assume w: "ok w" and o: "one_owner rl_XID x ls" and k: "k \<in> row_keys ls"
    and a: "lm_ReleaseLock (sql_lm dl dv) (Some ls) w = Some (True, w')"
  then show "held w' k \<noteq> Some x" using release_spec(3) [OF w] by simp
qed (rule branch_locks_one_owner(2))

end
