(* ===== verification/Mysql.thy ===== *)
theory Mysql
  imports Sql_Dialect
begin

text \<open>
  \<open>pkg/tc/storage/driver/mysql/mysql.go\<close>: the statement texts, with each run of white space
  written as one blank, the operations, and the proof that the texts keep the contract
  \<open>sql_texts\<close>.
\<close>

definition mysql_InsertGlobalTransaction :: string where
  "mysql_InsertGlobalTransaction =
     ''insert into %s (addressing, xid, transaction_id, transaction_name, timeout, '' @
     ''begin_time, status, active, gmt_create, gmt_modified) values(?, ?, ?, ?, ?, ?, ?, '' @
     ''?, now(), now())''"

definition mysql_QueryGlobalTransactionByXid :: string where
  "mysql_QueryGlobalTransactionByXid =
     ''select addressing, xid, transaction_id, transaction_name, timeout, begin_time, '' @
     ''status, active, gmt_create, gmt_modified from %s where xid = ?''"

definition mysql_UpdateGlobalTransaction :: string where
  "mysql_UpdateGlobalTransaction =
     ''update %s set status = ?, gmt_modified = now() where xid = ?''"

definition mysql_InactiveGlobalTransaction :: string where
  "mysql_InactiveGlobalTransaction =
     ''update %s set active = 0, gmt_modified = now() where xid = ?''"

definition mysql_DeleteGlobalTransaction :: string where
  "mysql_DeleteGlobalTransaction =
     ''delete from %s where xid = ?''"

definition mysql_InsertBranchTransaction :: string where
  "mysql_InsertBranchTransaction =
     ''insert into %s (addressing, xid, branch_id, transaction_id, resource_id, lock_key, '' @
     ''branch_type, status, application_data, async_commit, gmt_create, gmt_modified) '' @
     ''values(?, ?, ?, ?, ?, ?, ?, ?, ?, ?, now(), now())''"

definition mysql_QueryBranchTransaction :: string where
  "mysql_QueryBranchTransaction =
     ''select addressing, xid, branch_id, transaction_id, resource_id, lock_key, '' @
     ''branch_type, status, application_data, async_commit, gmt_create, gmt_modified from '' @
     ''%s where %s order by gmt_create asc''"

definition mysql_QueryBranchTransactionByXid :: string where
  "mysql_QueryBranchTransactionByXid =
     ''select addressing, xid, branch_id, transaction_id, resource_id, lock_key, '' @
     ''branch_type, status, application_data, async_commit, gmt_create, gmt_modified from '' @
     ''%s where xid = ? order by gmt_create asc''"

definition mysql_UpdateBranchTransaction :: string where
  "mysql_UpdateBranchTransaction =
     ''update %s set status = ?, gmt_modified = now() where branch_id = ?''"

definition mysql_DeleteBranchTransaction :: string where
  "mysql_DeleteBranchTransaction =
     ''delete from %s where branch_id = ?''"

definition mysql_InsertRowLock :: string where
  "mysql_InsertRowLock =
     ''insert into %s (xid, transaction_id, branch_id, resource_id, table_name, pk, '' @
     ''row_key, gmt_create, gmt_modified) values %s''"

definition mysql_QueryRowKey :: string where
  "mysql_QueryRowKey =
     ''select xid, transaction_id, branch_id, resource_id, table_name, pk, row_key, '' @
     ''gmt_create, gmt_modified from %s where %s order by gmt_create asc''"

definition mysql_CreateGlobalTable :: string where
  "mysql_CreateGlobalTable =
     ''CREATE TABLE IF NOT EXISTS %s ( addressing varchar(128) NOT NULL, xid varchar(128) '' @
     ''NOT NULL, transaction_id bigint DEFAULT NULL, transaction_name varchar(128) DEFAULT '' @
     ''NULL, timeout int DEFAULT NULL, begin_time bigint DEFAULT NULL, status tinyint NOT '' @
     ''NULL, active bit(1) NOT NULL, gmt_create datetime DEFAULT NULL, gmt_modified '' @
     ''datetime DEFAULT NULL, PRIMARY KEY (xid), KEY idx_gmt_modified_status '' @
     ''(gmt_modified, status), KEY idx_transaction_id (transaction_id) ) ENGINE = InnoDB '' @
     ''DEFAULT CHARSET = utf8;''"

definition mysql_CreateBranchTable :: string where
  "mysql_CreateBranchTable =
     ''CREATE TABLE IF NOT EXISTS %s ( addressing varchar(128) NOT NULL, xid varchar(128) '' @
     ''NOT NULL, branch_id bigint NOT NULL, transaction_id bigint DEFAULT NULL, '' @
     ''resource_id varchar(256) DEFAULT NULL, lock_key VARCHAR(1000), branch_type '' @
     ''varchar(8) DEFAULT NULL, status tinyint DEFAULT NULL, application_data '' @
     ''varchar(2000) DEFAULT NULL, async_commit tinyint NOT NULL DEFAULT 0, gmt_create '' @
     ''datetime(6) DEFAULT NULL, gmt_modified datetime(6) DEFAULT NULL, PRIMARY KEY '' @
     ''(branch_id), KEY idx_xid (xid) ) ENGINE = InnoDB DEFAULT CHARSET = utf8;''"

definition mysql_CreateLockTable :: string where
  "mysql_CreateLockTable =
     ''CREATE TABLE IF NOT EXISTS %s ( row_key VARCHAR(256) NOT NULL, xid VARCHAR(128) NOT '' @
     ''NULL, transaction_id BIGINT, branch_id BIGINT NOT NULL, resource_id VARCHAR(256), '' @
     ''table_name VARCHAR(64), pk VARCHAR(36), gmt_create DATETIME, gmt_modified DATETIME, '' @
     ''PRIMARY KEY (row_key), KEY idx_branch_id (branch_id) ) ENGINE = InnoDB DEFAULT '' @
     ''CHARSET = utf8;''"

text \<open>\<open>MysqlAppendInParam\<close> of \<open>pkg/util/sql/sql_utils.go\<close>, and one tuple of a batch insertion.\<close>

definition MysqlAppendInParam :: "nat \<Rightarrow> string" where
  "MysqlAppendInParam n = in_list (\<lambda>i. ''?'') n"

definition mysql_lock_values :: "nat \<Rightarrow> string" where
  "mysql_lock_values i = ''(?, ?, ?, ?, ?, ?, ?, now(), now()),''"

definition mysql_dialect :: dialect where
  "mysql_dialect =
     \<lparr>di_engine = ''mysql'',
      di_InsertGlobalTransaction = mysql_InsertGlobalTransaction,
      di_QueryGlobalTransactionByXid = mysql_QueryGlobalTransactionByXid,
      di_UpdateGlobalTransaction = mysql_UpdateGlobalTransaction,
      di_InactiveGlobalTransaction = mysql_InactiveGlobalTransaction,
      di_DeleteGlobalTransaction = mysql_DeleteGlobalTransaction,
      di_InsertBranchTransaction = mysql_InsertBranchTransaction,
      di_QueryBranchTransaction = mysql_QueryBranchTransaction,
      di_QueryBranchTransactionByXid = mysql_QueryBranchTransactionByXid,
      di_UpdateBranchTransaction = mysql_UpdateBranchTransaction,
      di_DeleteBranchTransaction = mysql_DeleteBranchTransaction,
      di_InsertRowLock = mysql_InsertRowLock,
      di_QueryRowKey = mysql_QueryRowKey,
      di_CreateGlobalTable = mysql_CreateGlobalTable,
      di_CreateBranchTable = mysql_CreateBranchTable,
      di_CreateLockTable = mysql_CreateLockTable,
      di_AppendInParam = MysqlAppendInParam,
      di_lock_values = mysql_lock_values,
      di_all_limited = True\<rparr>"

lemma mysql_dialect_simps [simp]:
  "di_engine mysql_dialect = ''mysql''"
  "di_InsertGlobalTransaction mysql_dialect = mysql_InsertGlobalTransaction"
  "di_QueryGlobalTransactionByXid mysql_dialect = mysql_QueryGlobalTransactionByXid"
  "di_UpdateGlobalTransaction mysql_dialect = mysql_UpdateGlobalTransaction"
  "di_InactiveGlobalTransaction mysql_dialect = mysql_InactiveGlobalTransaction"
  "di_DeleteGlobalTransaction mysql_dialect = mysql_DeleteGlobalTransaction"
  "di_InsertBranchTransaction mysql_dialect = mysql_InsertBranchTransaction"
  "di_QueryBranchTransaction mysql_dialect = mysql_QueryBranchTransaction"
  "di_QueryBranchTransactionByXid mysql_dialect = mysql_QueryBranchTransactionByXid"
  "di_UpdateBranchTransaction mysql_dialect = mysql_UpdateBranchTransaction"
  "di_DeleteBranchTransaction mysql_dialect = mysql_DeleteBranchTransaction"
  "di_InsertRowLock mysql_dialect = mysql_InsertRowLock"
  "di_QueryRowKey mysql_dialect = mysql_QueryRowKey"
  "di_CreateGlobalTable mysql_dialect = mysql_CreateGlobalTable"
  "di_CreateBranchTable mysql_dialect = mysql_CreateBranchTable"
  "di_CreateLockTable mysql_dialect = mysql_CreateLockTable"
  "di_AppendInParam mysql_dialect = MysqlAppendInParam"
  "di_lock_values mysql_dialect = mysql_lock_values"
  "di_all_limited mysql_dialect = True"
  by (simp_all add: mysql_dialect_def)

definition mysql_AddGlobalSession ::
    "'d sql_driver \<Rightarrow> gref \<Rightarrow> 'd world \<Rightarrow> goerror option \<times> 'd world" where
  "mysql_AddGlobalSession = sql_AddGlobalSession mysql_dialect"

definition mysql_FindGlobalSession ::
    "'d sql_driver \<Rightarrow> string \<Rightarrow> 'd world \<Rightarrow> gref option \<times> 'd world" where
  "mysql_FindGlobalSession = sql_FindGlobalSession mysql_dialect"

definition mysql_FindGlobalSessions ::
    "'d sql_driver \<Rightarrow> GlobalStatus list \<Rightarrow> 'd world \<Rightarrow> gref list \<times> 'd world" where
  "mysql_FindGlobalSessions = sql_FindGlobalSessions"

definition mysql_FindGlobalSessionsWithAddressingIdentities ::
    "'d sql_driver \<Rightarrow> GlobalStatus list \<Rightarrow> string list \<Rightarrow> 'd world \<Rightarrow> gref list \<times> 'd world" where
  "mysql_FindGlobalSessionsWithAddressingIdentities = sql_FindGlobalSessionsWithAddressingIdentities"

definition mysql_AllSessions ::
    "'d sql_driver \<Rightarrow> 'd world \<Rightarrow> gref list \<times> 'd world" where
  "mysql_AllSessions = sql_AllSessions mysql_dialect"

definition mysql_UpdateGlobalSessionStatus ::
    "'d sql_driver \<Rightarrow> gref \<Rightarrow> GlobalStatus \<Rightarrow> 'd world \<Rightarrow> goerror option \<times> 'd world" where
  "mysql_UpdateGlobalSessionStatus = sql_UpdateGlobalSessionStatus mysql_dialect"

definition mysql_InactiveGlobalSession ::
    "'d sql_driver \<Rightarrow> gref \<Rightarrow> 'd world \<Rightarrow> goerror option \<times> 'd world" where
  "mysql_InactiveGlobalSession = sql_InactiveGlobalSession mysql_dialect"

definition mysql_RemoveGlobalSession ::
    "'d sql_driver \<Rightarrow> gref \<Rightarrow> 'd world \<Rightarrow> goerror option \<times> 'd world" where
  "mysql_RemoveGlobalSession = sql_RemoveGlobalSession mysql_dialect"

definition mysql_AddBranchSession ::
    "'d sql_driver \<Rightarrow> gref \<Rightarrow> bref \<Rightarrow> 'd world \<Rightarrow> goerror option \<times> 'd world" where
  "mysql_AddBranchSession = sql_AddBranchSession mysql_dialect"

definition mysql_FindBranchSessions ::
    "'d sql_driver \<Rightarrow> string \<Rightarrow> 'd world \<Rightarrow> bref list \<times> 'd world" where
  "mysql_FindBranchSessions = sql_FindBranchSessions mysql_dialect"

definition mysql_FindBatchBranchSessions ::
    "'d sql_driver \<Rightarrow> string list \<Rightarrow> 'd world \<Rightarrow> bref list \<times> 'd world" where
  "mysql_FindBatchBranchSessions = sql_FindBatchBranchSessions mysql_dialect"

definition mysql_UpdateBranchSessionStatus ::
    "'d sql_driver \<Rightarrow> bref \<Rightarrow> BranchStatus \<Rightarrow> 'd world \<Rightarrow> goerror option \<times> 'd world" where
  "mysql_UpdateBranchSessionStatus = sql_UpdateBranchSessionStatus mysql_dialect"

definition mysql_RemoveBranchSession ::
    "'d sql_driver \<Rightarrow> gref \<Rightarrow> bref \<Rightarrow> 'd world \<Rightarrow> goerror option \<times> 'd world" where
  "mysql_RemoveBranchSession = sql_RemoveBranchSession mysql_dialect"

definition mysql_AcquireLock ::
    "'d sql_driver \<Rightarrow> RowLock slice \<Rightarrow> bool \<Rightarrow> 'd world \<Rightarrow> (bool \<times> 'd world) option" where
  "mysql_AcquireLock = sql_AcquireLock mysql_dialect"

definition mysql_ReleaseLock ::
    "'d sql_driver \<Rightarrow> RowLock slice \<Rightarrow> 'd world \<Rightarrow> (bool \<times> 'd world) option" where
  "mysql_ReleaseLock = sql_ReleaseLock"

definition mysql_IsLockable ::
    "'d sql_driver \<Rightarrow> string \<Rightarrow> string \<Rightarrow> string \<Rightarrow> 'd world \<Rightarrow> (bool \<times> 'd world) option" where
  "mysql_IsLockable = sql_IsLockable mysql_dialect"

definition mysql_sm :: "'d sql_driver \<Rightarrow> 'd SessionManager" where
  "mysql_sm dv =
     \<lparr>sm_AddGlobalSession = mysql_AddGlobalSession dv,
      sm_FindGlobalSession = mysql_FindGlobalSession dv,
      sm_FindGlobalSessions = mysql_FindGlobalSessions dv,
      sm_FindGlobalSessionsWithAddressingIdentities = mysql_FindGlobalSessionsWithAddressingIdentities dv,
      sm_AllSessions = mysql_AllSessions dv,
      sm_UpdateGlobalSessionStatus = mysql_UpdateGlobalSessionStatus dv,
      sm_InactiveGlobalSession = mysql_InactiveGlobalSession dv,
      sm_RemoveGlobalSession = mysql_RemoveGlobalSession dv,
      sm_AddBranchSession = mysql_AddBranchSession dv,
      sm_FindBranchSessions = mysql_FindBranchSessions dv,
      sm_FindBatchBranchSessions = mysql_FindBatchBranchSessions dv,
      sm_UpdateBranchSessionStatus = mysql_UpdateBranchSessionStatus dv,
      sm_RemoveBranchSession = mysql_RemoveBranchSession dv\<rparr>"

definition mysql_lm :: "'d sql_driver \<Rightarrow> 'd StorageLockManager" where
  "mysql_lm dv =
     \<lparr>lm_AcquireLock = mysql_AcquireLock dv,
      lm_ReleaseLock = mysql_ReleaseLock dv,
      lm_IsLockable = mysql_IsLockable dv\<rparr>"

definition mysql_New ::
    "(string \<Rightarrow> DriverParameters \<Rightarrow> goerror + 'd engine) \<Rightarrow> DriverParameters \<Rightarrow> 'd \<Rightarrow> (goerror + 'd sql_driver) \<times> 'd" where
  "mysql_New = sql_New mysql_dialect"

definition mysql_FromParameters ::
    "(string \<Rightarrow> DriverParameters \<Rightarrow> goerror + 'd engine) \<Rightarrow> (string \<Rightarrow> param option) \<Rightarrow> 'd \<Rightarrow> (goerror + 'd sql_driver) \<times> 'd" where
  "mysql_FromParameters NewEngine parameters = mysql_New NewEngine (sql_FromParameters parameters)"

lemma mysql_driver_eq:
  "mysql_sm = sql_sm mysql_dialect" "mysql_lm = sql_lm mysql_dialect"
  by (simp_all add: fun_eq_iff mysql_sm_def mysql_lm_def sql_sm_def sql_lm_def mysql_AddGlobalSession_def mysql_FindGlobalSession_def mysql_FindGlobalSessions_def mysql_FindGlobalSessionsWithAddressingIdentities_def mysql_AllSessions_def mysql_UpdateGlobalSessionStatus_def mysql_InactiveGlobalSession_def mysql_RemoveGlobalSession_def mysql_AddBranchSession_def mysql_FindBranchSessions_def mysql_FindBatchBranchSessions_def mysql_UpdateBranchSessionStatus_def mysql_RemoveBranchSession_def mysql_AcquireLock_def mysql_ReleaseLock_def mysql_IsLockable_def)

subsection \<open>The words of the statements\<close>

lemma mysql_InsertGlobalTransaction_words:
  "template1 mysql_InsertGlobalTransaction [''insert'', ''into'']
    [''('', ''addressing'', '','', ''xid'', '','', ''transaction_id'', '','',
      ''transaction_name'', '','', ''timeout'', '','', ''begin_time'', '','', ''status'',
      '','', ''active'', '','', ''gmt_create'', '','', ''gmt_modified'', '')'', ''values'',
      ''('', ''?'', '','', ''?'', '','', ''?'', '','', ''?'', '','', ''?'', '','', ''?'',
      '','', ''?'', '','', ''?'', '','', ''now'', ''('', '')'', '','', ''now'', ''('', '')'',
      '')'']"
  by code_simp

lemma mysql_QueryGlobalTransactionByXid_words:
  "template1 mysql_QueryGlobalTransactionByXid [''select'', ''addressing'', '','', ''xid'', '','', ''transaction_id'', '','',
      ''transaction_name'', '','', ''timeout'', '','', ''begin_time'', '','', ''status'',
      '','', ''active'', '','', ''gmt_create'', '','', ''gmt_modified'', ''from'']
    [''where'', ''xid'', ''='', ''?'']"
  by code_simp

lemma mysql_UpdateGlobalTransaction_words:
  "template1 mysql_UpdateGlobalTransaction [''update'']
    [''set'', ''status'', ''='', ''?'', '','', ''gmt_modified'', ''='', ''now'', ''('', '')'',
      ''where'', ''xid'', ''='', ''?'']"
  by code_simp

lemma mysql_InactiveGlobalTransaction_words:
  "template1 mysql_InactiveGlobalTransaction [''update'']
    [''set'', ''active'', ''='', ''0'', '','', ''gmt_modified'', ''='', ''now'', ''('', '')'',
      ''where'', ''xid'', ''='', ''?'']"
  by code_simp

lemma mysql_DeleteGlobalTransaction_words:
  "template1 mysql_DeleteGlobalTransaction [''delete'', ''from'']
    [''where'', ''xid'', ''='', ''?'']"
  by code_simp

lemma mysql_InsertBranchTransaction_words:
  "template1 mysql_InsertBranchTransaction [''insert'', ''into'']
    [''('', ''addressing'', '','', ''xid'', '','', ''branch_id'', '','', ''transaction_id'',
      '','', ''resource_id'', '','', ''lock_key'', '','', ''branch_type'', '','', ''status'',
      '','', ''application_data'', '','', ''async_commit'', '','', ''gmt_create'', '','',
      ''gmt_modified'', '')'', ''values'', ''('', ''?'', '','', ''?'', '','', ''?'', '','',
      ''?'', '','', ''?'', '','', ''?'', '','', ''?'', '','', ''?'', '','', ''?'', '','',
      ''?'', '','', ''now'', ''('', '')'', '','', ''now'', ''('', '')'', '')'']"
  by code_simp

lemma mysql_QueryBranchTransaction_words:
  "template2 mysql_QueryBranchTransaction [''select'', ''addressing'', '','', ''xid'', '','', ''branch_id'', '','',
      ''transaction_id'', '','', ''resource_id'', '','', ''lock_key'', '','', ''branch_type'',
      '','', ''status'', '','', ''application_data'', '','', ''async_commit'', '','',
      ''gmt_create'', '','', ''gmt_modified'', ''from'']
    [''where'']
    [''order'', ''by'', ''gmt_create'', ''asc'']"
  by code_simp

lemma mysql_QueryBranchTransactionByXid_words:
  "template1 mysql_QueryBranchTransactionByXid [''select'', ''addressing'', '','', ''xid'', '','', ''branch_id'', '','',
      ''transaction_id'', '','', ''resource_id'', '','', ''lock_key'', '','', ''branch_type'',
      '','', ''status'', '','', ''application_data'', '','', ''async_commit'', '','',
      ''gmt_create'', '','', ''gmt_modified'', ''from'']
    [''where'', ''xid'', ''='', ''?'', ''order'', ''by'', ''gmt_create'', ''asc'']"
  by code_simp

lemma mysql_UpdateBranchTransaction_words:
  "template1 mysql_UpdateBranchTransaction [''update'']
    [''set'', ''status'', ''='', ''?'', '','', ''gmt_modified'', ''='', ''now'', ''('', '')'',
      ''where'', ''branch_id'', ''='', ''?'']"
  by code_simp

lemma mysql_DeleteBranchTransaction_words:
  "template1 mysql_DeleteBranchTransaction [''delete'', ''from'']
    [''where'', ''branch_id'', ''='', ''?'']"
  by code_simp

lemma mysql_InsertRowLock_words:
  "template2 mysql_InsertRowLock [''insert'', ''into'']
    [''('', ''xid'', '','', ''transaction_id'', '','', ''branch_id'', '','', ''resource_id'',
      '','', ''table_name'', '','', ''pk'', '','', ''row_key'', '','', ''gmt_create'', '','',
      ''gmt_modified'', '')'', ''values'']
    []"
  by code_simp

lemma mysql_QueryRowKey_words:
  "template2 mysql_QueryRowKey [''select'', ''xid'', '','', ''transaction_id'', '','', ''branch_id'', '','',
      ''resource_id'', '','', ''table_name'', '','', ''pk'', '','', ''row_key'', '','',
      ''gmt_create'', '','', ''gmt_modified'', ''from'']
    [''where'']
    [''order'', ''by'', ''gmt_create'', ''asc'']"
  by code_simp

lemma read_nat_0: "read_nat ''0'' = 0"
  by (simp add: read_nat_def digit_val_def)

lemma mysql_InsertGlobalTransaction_parse:
  "table_name t \<Longrightarrow> parse (fill mysql_InsertGlobalTransaction [t]) = Some (Insert t (session_columns @ stamps) [map Arg [0..<8] @ [Now, Now]])"
  by (simp add: parse_template1 [OF mysql_InsertGlobalTransaction_words] parse_fixed column_lists read_nat_0)

lemma mysql_QueryGlobalTransactionByXid_parse:
  "table_name t \<Longrightarrow> parse (fill mysql_QueryGlobalTransactionByXid [t]) = Some (Select (session_columns @ stamps) t ''xid'' [Arg 0])"
  by (simp add: parse_template1 [OF mysql_QueryGlobalTransactionByXid_words] parse_fixed column_lists read_nat_0)

lemma mysql_UpdateGlobalTransaction_parse:
  "table_name t \<Longrightarrow> parse (fill mysql_UpdateGlobalTransaction [t]) = Some (Update t [(''status'', Arg 0), (''gmt_modified'', Now)] ''xid'' (Arg 1))"
  by (simp add: parse_template1 [OF mysql_UpdateGlobalTransaction_words] parse_fixed column_lists read_nat_0)

lemma mysql_InactiveGlobalTransaction_parse:
  "table_name t \<Longrightarrow> parse (fill mysql_InactiveGlobalTransaction [t]) = Some (Update t [(''active'', Num 0), (''gmt_modified'', Now)] ''xid'' (Arg 0))"
  by (simp add: parse_template1 [OF mysql_InactiveGlobalTransaction_words] parse_fixed column_lists read_nat_0)

lemma mysql_DeleteGlobalTransaction_parse:
  "table_name t \<Longrightarrow> parse (fill mysql_DeleteGlobalTransaction [t]) = Some (Delete t ''xid'' (Arg 0))"
  by (simp add: parse_template1 [OF mysql_DeleteGlobalTransaction_words] parse_fixed column_lists read_nat_0)

lemma mysql_InsertBranchTransaction_parse:
  "table_name t \<Longrightarrow> parse (fill mysql_InsertBranchTransaction [t]) = Some (Insert t (branch_columns @ stamps) [map Arg [0..<10] @ [Now, Now]])"
  by (simp add: parse_template1 [OF mysql_InsertBranchTransaction_words] parse_fixed column_lists read_nat_0)

lemma mysql_QueryBranchTransactionByXid_parse:
  "table_name t \<Longrightarrow> parse (fill mysql_QueryBranchTransactionByXid [t]) = Some (Select (branch_columns @ stamps) t ''xid'' [Arg 0])"
  by (simp add: parse_template1 [OF mysql_QueryBranchTransactionByXid_words] parse_fixed column_lists read_nat_0)

lemma mysql_UpdateBranchTransaction_parse:
  "table_name t \<Longrightarrow> parse (fill mysql_UpdateBranchTransaction [t]) = Some (Update t [(''status'', Arg 0), (''gmt_modified'', Now)] ''branch_id'' (Arg 1))"
  by (simp add: parse_template1 [OF mysql_UpdateBranchTransaction_words] parse_fixed column_lists read_nat_0)

lemma mysql_DeleteBranchTransaction_parse:
  "table_name t \<Longrightarrow> parse (fill mysql_DeleteBranchTransaction [t]) = Some (Delete t ''branch_id'' (Arg 0))"
  by (simp add: parse_template1 [OF mysql_DeleteBranchTransaction_words] parse_fixed column_lists read_nat_0)

subsection \<open>The statements with growing lists\<close>

lemma mysql_in_words:
  assumes "n > 0"
  shows "tokens (fill ''row_key in %s'' [MysqlAppendInParam n]) =
      ''row_key'' # ''in'' # ''('' # commas (map (\<lambda>i. [''?'']) [0..<n]) @ ['')'']"
    and "tokens (fill ''xid in %s'' [MysqlAppendInParam n]) =
      ''xid'' # ''in'' # ''('' # commas (map (\<lambda>i. [''?'']) [0..<n]) @ ['')'']"
  using assms tokens_in_list [of n "\<lambda>i. ''?''"]
  by (simp_all add: in_words MysqlAppendInParam_def plain_word_def blank_def punctuation_def)

lemma mysql_QueryRowKey_parse:
  "table_name t \<Longrightarrow> n > 0 \<Longrightarrow>
   parse (fill mysql_QueryRowKey [t, fill ''row_key in %s'' [MysqlAppendInParam n]]) =
     Some (Select (lock_columns @ stamps) t ''row_key'' (map Arg [0..<n]))"
  by (rule parse_select_in [OF mysql_QueryRowKey_words _ _ mysql_in_words(1)])
    (simp_all add: fill_in_last MysqlAppendInParam_def last_in_list comma_list_def column_lists
      punctuation_def number_marks_commas)

lemma mysql_QueryBranchTransaction_parse:
  "table_name t \<Longrightarrow> n > 0 \<Longrightarrow>
   parse (fill mysql_QueryBranchTransaction [t, fill ''xid in %s'' [MysqlAppendInParam n]]) =
     Some (Select (branch_columns @ stamps) t ''xid'' (map Arg [0..<n]))"
  by (rule parse_select_in [OF mysql_QueryBranchTransaction_words _ _ mysql_in_words(2)])
    (simp_all add: fill_in_last MysqlAppendInParam_def last_in_list comma_list_def column_lists
      punctuation_def number_marks_commas)

lemma mysql_values_words:
  assumes "n > 0"
  shows "tokens (butlast (concat (map mysql_lock_values [0..<n]))) =
      commas (map (\<lambda>i. [''('', ''?'', '','', ''?'', '','', ''?'', '','', ''?'', '','', ''?'', '','',
        ''?'', '','', ''?'', '','', ''now'', ''('', '')'', '','', ''now'', ''('', '')'', '')'']) [0..<n])"
    and "butlast (concat (map mysql_lock_values [0..<n])) \<noteq> []"
    and "last (butlast (concat (map mysql_lock_values [0..<n]))) = CHR '')''"
    and "concat (map mysql_lock_values [0..<n]) \<noteq> []"
proof -
  let ?body = "\<lambda>i :: nat. ''(?, ?, ?, ?, ?, ?, ?, now(), now())''"
  have f: "\<forall>i. mysql_lock_values i = ?body i @ '',''" by (simp add: mysql_lock_values_def)
  have b: "\<forall>i. ?body i \<noteq> [] \<and> last (?body i) = CHR '')''" by simp
  have w: "tokens (?body 0) = [''('', ''?'', '','', ''?'', '','', ''?'', '','', ''?'', '','', ''?'', '','',
      ''?'', '','', ''?'', '','', ''now'', ''('', '')'', '','', ''now'', ''('', '')'', '')'']" by code_simp
  note v = tokens_values [OF assms f b]
  show "tokens (butlast (concat (map mysql_lock_values [0..<n]))) =
      commas (map (\<lambda>i. [''('', ''?'', '','', ''?'', '','', ''?'', '','', ''?'', '','', ''?'', '','',
        ''?'', '','', ''?'', '','', ''now'', ''('', '')'', '','', ''now'', ''('', '')'', '')'']) [0..<n])"
    using v(1) by (simp only: w)
  show "butlast (concat (map mysql_lock_values [0..<n])) \<noteq> []"
    and "last (butlast (concat (map mysql_lock_values [0..<n]))) = CHR '')''"
    and "concat (map mysql_lock_values [0..<n]) \<noteq> []" by (rule v)+
qed

lemma mysql_InsertRowLock_parse:
  "table_name t \<Longrightarrow> n > 0 \<Longrightarrow>
   parse (fill mysql_InsertRowLock [t, butlast (concat (map mysql_lock_values [0..<n]))]) =
     Some (Insert t (lock_columns @ stamps) (map (\<lambda>i. tuple_exps (7 * i)) [0..<n]))"
  by (rule parse_insert_tuples [OF mysql_InsertRowLock_words])
    (simp_all add: mysql_values_words number_tuples [of 0, simplified] table_name_def column_lists
      flat_def punctuation_def)

interpretation mysql_texts: sql_texts mysql_dialect
proof unfold_locales
  fix t assume "table_name t"
  then show "\<exists>es. parse (fill (di_InsertBranchTransaction mysql_dialect) [t]) =
      Some (Insert t (branch_columns @ stamps) [es])"
    by (simp add: mysql_InsertBranchTransaction_parse)
next
  fix n :: nat assume "n > 0"
  then show "concat (map (di_lock_values mysql_dialect) [0..<n]) \<noteq> []"
    unfolding mysql_dialect_simps by (rule mysql_values_words(4))
qed (simp_all add: mysql_InsertGlobalTransaction_parse mysql_QueryGlobalTransactionByXid_parse
    mysql_UpdateGlobalTransaction_parse mysql_InactiveGlobalTransaction_parse
    mysql_DeleteGlobalTransaction_parse mysql_QueryBranchTransactionByXid_parse
    mysql_QueryBranchTransaction_parse mysql_UpdateBranchTransaction_parse
    mysql_DeleteBranchTransaction_parse mysql_InsertRowLock_parse
    mysql_QueryRowKey_parse)

end
