(* ===== verification/Pgsql.thy ===== *)
theory Pgsql
  imports Sql_Dialect
begin

text \<open>
  \<open>pkg/tc/storage/driver/pgsql/pgsql.go\<close>: the statement texts, with each run of white space
  written as one blank, the operations, and the proof that the texts keep the contract
  \<open>sql_texts\<close>.
\<close>

definition pgsql_InsertGlobalTransaction :: string where
  "pgsql_InsertGlobalTransaction =
     ''insert into %s (addressing, xid, transaction_id, transaction_name, timeout, '' @
     ''begin_time, status, active, gmt_create, gmt_modified) values($1, $2, $3, $4, $5, '' @
     ''$6, $7, $8, CURRENT_TIMESTAMP, CURRENT_TIMESTAMP)''"

definition pgsql_QueryGlobalTransactionByXid :: string where
  "pgsql_QueryGlobalTransactionByXid =
     ''select addressing, xid, transaction_id, transaction_name, timeout, begin_time, '' @
     ''status, active, gmt_create, gmt_modified from %s where xid = $1''"

definition pgsql_UpdateGlobalTransaction :: string where
  "pgsql_UpdateGlobalTransaction =
     ''update %s set status = $1, gmt_modified = CURRENT_TIMESTAMP where xid = $2''"

definition pgsql_InactiveGlobalTransaction :: string where
  "pgsql_InactiveGlobalTransaction =
     ''update %s set active = 0, gmt_modified = CURRENT_TIMESTAMP where xid = $1''"

definition pgsql_DeleteGlobalTransaction :: string where
  "pgsql_DeleteGlobalTransaction =
     ''delete from %s where xid = $1''"

definition pgsql_InsertBranchTransaction :: string where
  "pgsql_InsertBranchTransaction =
     ''insert into %s (addressing, xid, branch_id, transaction_id, resource_id, lock_key, '' @
     ''branch_type, status, application_data, async_commit, gmt_create, gmt_modified) '' @
     ''values($1, $2, $3, $4, $5, $6, $7, $8, $9, CURRENT_TIMESTAMP, CURRENT_TIMESTAMP)''"

definition pgsql_QueryBranchTransaction :: string where
  "pgsql_QueryBranchTransaction =
     ''select addressing, xid, branch_id, transaction_id, resource_id, lock_key, '' @
     ''branch_type, status, application_data, async_commit, gmt_create, gmt_modified from '' @
     ''%s where %s order by gmt_create asc''"

definition pgsql_QueryBranchTransactionByXid :: string where
  "pgsql_QueryBranchTransactionByXid =
     ''select addressing, xid, branch_id, transaction_id, resource_id, lock_key, '' @
     ''branch_type, status, application_data, async_commit, gmt_create, gmt_modified from '' @
     ''%s where xid = $1 order by gmt_create asc''"

definition pgsql_UpdateBranchTransaction :: string where
  "pgsql_UpdateBranchTransaction =
     ''update %s set status = $1, gmt_modified = CURRENT_TIMESTAMP where branch_id = $2''"

definition pgsql_DeleteBranchTransaction :: string where
  "pgsql_DeleteBranchTransaction =
     ''delete from %s where branch_id = $1''"

definition pgsql_InsertRowLock :: string where
  "pgsql_InsertRowLock =
     ''insert into %s (xid, transaction_id, branch_id, resource_id, table_name, pk, '' @
     ''row_key, gmt_create, gmt_modified) values %s''"

definition pgsql_QueryRowKey :: string where
  "pgsql_QueryRowKey =
     ''select xid, transaction_id, branch_id, resource_id, table_name, pk, row_key, '' @
     ''gmt_create, gmt_modified from %s where %s order by gmt_create asc''"

definition pgsql_CreateGlobalTable :: string where
  "pgsql_CreateGlobalTable =
     ''CREATE TABLE IF NOT EXISTS %s ( addressing varchar(128) NOT NULL, xid varchar(128) '' @
     ''NOT NULL, transaction_id bigint DEFAULT NULL, transaction_name varchar(128) DEFAULT '' @
     ''NULL, timeout int DEFAULT NULL, begin_time bigint DEFAULT NULL, status int NOT '' @
     ''NULL, active bool NOT NULL, gmt_create timestamp DEFAULT NULL, gmt_modified '' @
     ''timestamp DEFAULT NULL, PRIMARY KEY (xid) ); CREATE INDEX IF NOT EXISTS '' @
     ''idx_gmt_modified_status ON %s(gmt_modified, status); CREATE INDEX IF NOT EXISTS '' @
     ''idx_transaction_id ON %s(transaction_id);''"

definition pgsql_CreateBranchTable :: string where
  "pgsql_CreateBranchTable =
     ''CREATE TABLE IF NOT EXISTS %s ( addressing varchar(128) NOT NULL, xid varchar(128) '' @
     ''NOT NULL, branch_id bigint NOT NULL, transaction_id bigint DEFAULT NULL, '' @
     ''resource_id varchar(256) DEFAULT NULL, lock_key VARCHAR(1000), branch_type '' @
     ''varchar(8) DEFAULT NULL, status int DEFAULT NULL, application_data varchar(2000) '' @
     ''DEFAULT NULL, async_commit tinyint NOT NULL DEFAULT 0, gmt_create timestamp DEFAULT '' @
     ''NULL, gmt_modified timestamp DEFAULT NULL, PRIMARY KEY (branch_id) ); CREATE INDEX '' @
     ''IF NOT EXISTS idx_xid ON %s(xid);''"

definition pgsql_CreateLockTable :: string where
  "pgsql_CreateLockTable =
     ''CREATE TABLE IF NOT EXISTS %s ( row_key VARCHAR(256) NOT NULL, xid VARCHAR(96), '' @
     ''transaction_id BIGINT, branch_id BIGINT NOT NULL, resource_id VARCHAR(256), '' @
     ''table_name VARCHAR(64), pk VARCHAR(36), gmt_create TIMESTAMP, gmt_modified '' @
     ''TIMESTAMP, PRIMARY KEY (row_key) ); CREATE INDEX IF NOT EXISTS idx_branch_id ON '' @
     ''%s(branch_id);''"

text \<open>\<open>PgsqlAppendInParam\<close> of \<open>pkg/util/sql/sql_utils.go\<close>, and one tuple of a batch insertion.\<close>

definition PgsqlAppendInParam :: "nat \<Rightarrow> string" where
  "PgsqlAppendInParam n = in_list (\<lambda>i. CHR ''$'' # show_nat (i + 1)) n"

definition pgsql_lock_values :: "nat \<Rightarrow> string" where
  "pgsql_lock_values i =
     fill ''($%d, $%d, $%d, $%d, $%d, $%d, $%d, now(), now()),''
       [show_nat (7 * i + 1), show_nat (7 * i + 2), show_nat (7 * i + 3), show_nat (7 * i + 4),
        show_nat (7 * i + 5), show_nat (7 * i + 6), show_nat (7 * i + 7)]"

definition pgsql_dialect :: dialect where
  "pgsql_dialect =
     \<lparr>di_engine = ''postgres'',
      di_InsertGlobalTransaction = pgsql_InsertGlobalTransaction,
      di_QueryGlobalTransactionByXid = pgsql_QueryGlobalTransactionByXid,
      di_UpdateGlobalTransaction = pgsql_UpdateGlobalTransaction,
      di_InactiveGlobalTransaction = pgsql_InactiveGlobalTransaction,
      di_DeleteGlobalTransaction = pgsql_DeleteGlobalTransaction,
      di_InsertBranchTransaction = pgsql_InsertBranchTransaction,
      di_QueryBranchTransaction = pgsql_QueryBranchTransaction,
      di_QueryBranchTransactionByXid = pgsql_QueryBranchTransactionByXid,
      di_UpdateBranchTransaction = pgsql_UpdateBranchTransaction,
      di_DeleteBranchTransaction = pgsql_DeleteBranchTransaction,
      di_InsertRowLock = pgsql_InsertRowLock,
      di_QueryRowKey = pgsql_QueryRowKey,
      di_CreateGlobalTable = pgsql_CreateGlobalTable,
      di_CreateBranchTable = pgsql_CreateBranchTable,
      di_CreateLockTable = pgsql_CreateLockTable,
      di_AppendInParam = PgsqlAppendInParam,
      di_lock_values = pgsql_lock_values,
      di_all_limited = False\<rparr>"

lemma pgsql_dialect_simps [simp]:
  "di_engine pgsql_dialect = ''postgres''"
  "di_InsertGlobalTransaction pgsql_dialect = pgsql_InsertGlobalTransaction"
  "di_QueryGlobalTransactionByXid pgsql_dialect = pgsql_QueryGlobalTransactionByXid"
  "di_UpdateGlobalTransaction pgsql_dialect = pgsql_UpdateGlobalTransaction"
  "di_InactiveGlobalTransaction pgsql_dialect = pgsql_InactiveGlobalTransaction"
  "di_DeleteGlobalTransaction pgsql_dialect = pgsql_DeleteGlobalTransaction"
  "di_InsertBranchTransaction pgsql_dialect = pgsql_InsertBranchTransaction"
  "di_QueryBranchTransaction pgsql_dialect = pgsql_QueryBranchTransaction"
  "di_QueryBranchTransactionByXid pgsql_dialect = pgsql_QueryBranchTransactionByXid"
  "di_UpdateBranchTransaction pgsql_dialect = pgsql_UpdateBranchTransaction"
  "di_DeleteBranchTransaction pgsql_dialect = pgsql_DeleteBranchTransaction"
  "di_InsertRowLock pgsql_dialect = pgsql_InsertRowLock"
  "di_QueryRowKey pgsql_dialect = pgsql_QueryRowKey"
  "di_CreateGlobalTable pgsql_dialect = pgsql_CreateGlobalTable"
  "di_CreateBranchTable pgsql_dialect = pgsql_CreateBranchTable"
  "di_CreateLockTable pgsql_dialect = pgsql_CreateLockTable"
  "di_AppendInParam pgsql_dialect = PgsqlAppendInParam"
  "di_lock_values pgsql_dialect = pgsql_lock_values"
  "di_all_limited pgsql_dialect = False"
  by (simp_all add: pgsql_dialect_def)

definition pgsql_AddGlobalSession ::
    "'d sql_driver \<Rightarrow> gref \<Rightarrow> 'd world \<Rightarrow> goerror option \<times> 'd world" where
  "pgsql_AddGlobalSession = sql_AddGlobalSession pgsql_dialect"

definition pgsql_FindGlobalSession ::
    "'d sql_driver \<Rightarrow> string \<Rightarrow> 'd world \<Rightarrow> gref option \<times> 'd world" where
  "pgsql_FindGlobalSession = sql_FindGlobalSession pgsql_dialect"

definition pgsql_FindGlobalSessions ::
    "'d sql_driver \<Rightarrow> GlobalStatus list \<Rightarrow> 'd world \<Rightarrow> gref list \<times> 'd world" where
  "pgsql_FindGlobalSessions = sql_FindGlobalSessions"

definition pgsql_FindGlobalSessionsWithAddressingIdentities ::
    "'d sql_driver \<Rightarrow> GlobalStatus list \<Rightarrow> string list \<Rightarrow> 'd world \<Rightarrow> gref list \<times> 'd world" where
  "pgsql_FindGlobalSessionsWithAddressingIdentities = sql_FindGlobalSessionsWithAddressingIdentities"

definition pgsql_AllSessions ::
    "'d sql_driver \<Rightarrow> 'd world \<Rightarrow> gref list \<times> 'd world" where
  "pgsql_AllSessions = sql_AllSessions pgsql_dialect"

definition pgsql_UpdateGlobalSessionStatus ::
    "'d sql_driver \<Rightarrow> gref \<Rightarrow> GlobalStatus \<Rightarrow> 'd world \<Rightarrow> goerror option \<times> 'd world" where
  "pgsql_UpdateGlobalSessionStatus = sql_UpdateGlobalSessionStatus pgsql_dialect"

definition pgsql_InactiveGlobalSession ::
    "'d sql_driver \<Rightarrow> gref \<Rightarrow> 'd world \<Rightarrow> goerror option \<times> 'd world" where
  "pgsql_InactiveGlobalSession = sql_InactiveGlobalSession pgsql_dialect"

definition pgsql_RemoveGlobalSession ::
    "'d sql_driver \<Rightarrow> gref \<Rightarrow> 'd world \<Rightarrow> goerror option \<times> 'd world" where
  "pgsql_RemoveGlobalSession = sql_RemoveGlobalSession pgsql_dialect"

definition pgsql_AddBranchSession ::
    "'d sql_driver \<Rightarrow> gref \<Rightarrow> bref \<Rightarrow> 'd world \<Rightarrow> goerror option \<times> 'd world" where
  "pgsql_AddBranchSession = sql_AddBranchSession pgsql_dialect"

definition pgsql_FindBranchSessions ::
    "'d sql_driver \<Rightarrow> string \<Rightarrow> 'd world \<Rightarrow> bref list \<times> 'd world" where
  "pgsql_FindBranchSessions = sql_FindBranchSessions pgsql_dialect"

definition pgsql_FindBatchBranchSessions ::
    "'d sql_driver \<Rightarrow> string list \<Rightarrow> 'd world \<Rightarrow> bref list \<times> 'd world" where
  "pgsql_FindBatchBranchSessions = sql_FindBatchBranchSessions pgsql_dialect"

definition pgsql_UpdateBranchSessionStatus ::
    "'d sql_driver \<Rightarrow> bref \<Rightarrow> BranchStatus \<Rightarrow> 'd world \<Rightarrow> goerror option \<times> 'd world" where
  "pgsql_UpdateBranchSessionStatus = sql_UpdateBranchSessionStatus pgsql_dialect"

definition pgsql_RemoveBranchSession ::
    "'d sql_driver \<Rightarrow> gref \<Rightarrow> bref \<Rightarrow> 'd world \<Rightarrow> goerror option \<times> 'd world" where
  "pgsql_RemoveBranchSession = sql_RemoveBranchSession pgsql_dialect"

definition pgsql_AcquireLock ::
    "'d sql_driver \<Rightarrow> RowLock slice \<Rightarrow> bool \<Rightarrow> 'd world \<Rightarrow> (bool \<times> 'd world) option" where
  "pgsql_AcquireLock = sql_AcquireLock pgsql_dialect"

definition pgsql_ReleaseLock ::
    "'d sql_driver \<Rightarrow> RowLock slice \<Rightarrow> 'd world \<Rightarrow> (bool \<times> 'd world) option" where
  "pgsql_ReleaseLock = sql_ReleaseLock"

definition pgsql_IsLockable ::
    "'d sql_driver \<Rightarrow> string \<Rightarrow> string \<Rightarrow> string \<Rightarrow> 'd world \<Rightarrow> (bool \<times> 'd world) option" where
  "pgsql_IsLockable = sql_IsLockable pgsql_dialect"

definition pgsql_sm :: "'d sql_driver \<Rightarrow> 'd SessionManager" where
  "pgsql_sm dv =
     \<lparr>sm_AddGlobalSession = pgsql_AddGlobalSession dv,
      sm_FindGlobalSession = pgsql_FindGlobalSession dv,
      sm_FindGlobalSessions = pgsql_FindGlobalSessions dv,
      sm_FindGlobalSessionsWithAddressingIdentities = pgsql_FindGlobalSessionsWithAddressingIdentities dv,
      sm_AllSessions = pgsql_AllSessions dv,
      sm_UpdateGlobalSessionStatus = pgsql_UpdateGlobalSessionStatus dv,
      sm_InactiveGlobalSession = pgsql_InactiveGlobalSession dv,
      sm_RemoveGlobalSession = pgsql_RemoveGlobalSession dv,
      sm_AddBranchSession = pgsql_AddBranchSession dv,
      sm_FindBranchSessions = pgsql_FindBranchSessions dv,
      sm_FindBatchBranchSessions = pgsql_FindBatchBranchSessions dv,
      sm_UpdateBranchSessionStatus = pgsql_UpdateBranchSessionStatus dv,
      sm_RemoveBranchSession = pgsql_RemoveBranchSession dv\<rparr>"

definition pgsql_lm :: "'d sql_driver \<Rightarrow> 'd StorageLockManager" where
  "pgsql_lm dv =
     \<lparr>lm_AcquireLock = pgsql_AcquireLock dv,
      lm_ReleaseLock = pgsql_ReleaseLock dv,
      lm_IsLockable = pgsql_IsLockable dv\<rparr>"

definition pgsql_New ::
    "(string \<Rightarrow> DriverParameters \<Rightarrow> goerror + 'd engine) \<Rightarrow> DriverParameters \<Rightarrow> 'd \<Rightarrow> (goerror + 'd sql_driver) \<times> 'd" where
  "pgsql_New = sql_New pgsql_dialect"

definition pgsql_FromParameters ::
    "(string \<Rightarrow> DriverParameters \<Rightarrow> goerror + 'd engine) \<Rightarrow> (string \<Rightarrow> param option) \<Rightarrow> 'd \<Rightarrow> (goerror + 'd sql_driver) \<times> 'd" where
  "pgsql_FromParameters NewEngine parameters = pgsql_New NewEngine (sql_FromParameters parameters)"

lemma pgsql_driver_eq:
  "pgsql_sm = sql_sm pgsql_dialect" "pgsql_lm = sql_lm pgsql_dialect"
  by (simp_all add: fun_eq_iff pgsql_sm_def pgsql_lm_def sql_sm_def sql_lm_def pgsql_AddGlobalSession_def pgsql_FindGlobalSession_def pgsql_FindGlobalSessions_def pgsql_FindGlobalSessionsWithAddressingIdentities_def pgsql_AllSessions_def pgsql_UpdateGlobalSessionStatus_def pgsql_InactiveGlobalSession_def pgsql_RemoveGlobalSession_def pgsql_AddBranchSession_def pgsql_FindBranchSessions_def pgsql_FindBatchBranchSessions_def pgsql_UpdateBranchSessionStatus_def pgsql_RemoveBranchSession_def pgsql_AcquireLock_def pgsql_ReleaseLock_def pgsql_IsLockable_def)

subsection \<open>The words of the statements\<close>

lemma pgsql_InsertGlobalTransaction_words:
  "template1 pgsql_InsertGlobalTransaction [''insert'', ''into'']
    [''('', ''addressing'', '','', ''xid'', '','', ''transaction_id'', '','',
      ''transaction_name'', '','', ''timeout'', '','', ''begin_time'', '','', ''status'',
      '','', ''active'', '','', ''gmt_create'', '','', ''gmt_modified'', '')'', ''values'',
      ''('', ''$1'', '','', ''$2'', '','', ''$3'', '','', ''$4'', '','', ''$5'', '','', ''$6'',
      '','', ''$7'', '','', ''$8'', '','', ''CURRENT_TIMESTAMP'', '','', ''CURRENT_TIMESTAMP'',
      '')'']"
  by code_simp

lemma pgsql_QueryGlobalTransactionByXid_words:
  "template1 pgsql_QueryGlobalTransactionByXid [''select'', ''addressing'', '','', ''xid'', '','', ''transaction_id'', '','',
      ''transaction_name'', '','', ''timeout'', '','', ''begin_time'', '','', ''status'',
      '','', ''active'', '','', ''gmt_create'', '','', ''gmt_modified'', ''from'']
    [''where'', ''xid'', ''='', ''$1'']"
  by code_simp

lemma pgsql_UpdateGlobalTransaction_words:
  "template1 pgsql_UpdateGlobalTransaction [''update'']
    [''set'', ''status'', ''='', ''$1'', '','', ''gmt_modified'', ''='',
      ''CURRENT_TIMESTAMP'', ''where'', ''xid'', ''='', ''$2'']"
  by code_simp

lemma pgsql_InactiveGlobalTransaction_words:
  "template1 pgsql_InactiveGlobalTransaction [''update'']
    [''set'', ''active'', ''='', ''0'', '','', ''gmt_modified'', ''='', ''CURRENT_TIMESTAMP'',
      ''where'', ''xid'', ''='', ''$1'']"
  by code_simp

lemma pgsql_DeleteGlobalTransaction_words:
  "template1 pgsql_DeleteGlobalTransaction [''delete'', ''from'']
    [''where'', ''xid'', ''='', ''$1'']"
  by code_simp

lemma pgsql_InsertBranchTransaction_words:
  "template1 pgsql_InsertBranchTransaction [''insert'', ''into'']
    [''('', ''addressing'', '','', ''xid'', '','', ''branch_id'', '','', ''transaction_id'',
      '','', ''resource_id'', '','', ''lock_key'', '','', ''branch_type'', '','', ''status'',
      '','', ''application_data'', '','', ''async_commit'', '','', ''gmt_create'', '','',
      ''gmt_modified'', '')'', ''values'', ''('', ''$1'', '','', ''$2'', '','', ''$3'', '','',
      ''$4'', '','', ''$5'', '','', ''$6'', '','', ''$7'', '','', ''$8'', '','', ''$9'', '','',
      ''CURRENT_TIMESTAMP'', '','', ''CURRENT_TIMESTAMP'', '')'']"
  by code_simp

lemma pgsql_QueryBranchTransaction_words:
  "template2 pgsql_QueryBranchTransaction [''select'', ''addressing'', '','', ''xid'', '','', ''branch_id'', '','',
      ''transaction_id'', '','', ''resource_id'', '','', ''lock_key'', '','', ''branch_type'',
      '','', ''status'', '','', ''application_data'', '','', ''async_commit'', '','',
      ''gmt_create'', '','', ''gmt_modified'', ''from'']
    [''where'']
    [''order'', ''by'', ''gmt_create'', ''asc'']"
  by code_simp

lemma pgsql_QueryBranchTransactionByXid_words:
  "template1 pgsql_QueryBranchTransactionByXid [''select'', ''addressing'', '','', ''xid'', '','', ''branch_id'', '','',
      ''transaction_id'', '','', ''resource_id'', '','', ''lock_key'', '','', ''branch_type'',
      '','', ''status'', '','', ''application_data'', '','', ''async_commit'', '','',
      ''gmt_create'', '','', ''gmt_modified'', ''from'']
    [''where'', ''xid'', ''='', ''$1'', ''order'', ''by'', ''gmt_create'', ''asc'']"
  by code_simp

lemma pgsql_UpdateBranchTransaction_words:
  "template1 pgsql_UpdateBranchTransaction [''update'']
    [''set'', ''status'', ''='', ''$1'', '','', ''gmt_modified'', ''='',
      ''CURRENT_TIMESTAMP'', ''where'', ''branch_id'', ''='', ''$2'']"
  by code_simp

lemma pgsql_DeleteBranchTransaction_words:
  "template1 pgsql_DeleteBranchTransaction [''delete'', ''from'']
    [''where'', ''branch_id'', ''='', ''$1'']"
  by code_simp

lemma pgsql_InsertRowLock_words:
  "template2 pgsql_InsertRowLock [''insert'', ''into'']
    [''('', ''xid'', '','', ''transaction_id'', '','', ''branch_id'', '','', ''resource_id'',
      '','', ''table_name'', '','', ''pk'', '','', ''row_key'', '','', ''gmt_create'', '','',
      ''gmt_modified'', '')'', ''values'']
    []"
  by code_simp

lemma pgsql_QueryRowKey_words:
  "template2 pgsql_QueryRowKey [''select'', ''xid'', '','', ''transaction_id'', '','', ''branch_id'', '','',
      ''resource_id'', '','', ''table_name'', '','', ''pk'', '','', ''row_key'', '','',
      ''gmt_create'', '','', ''gmt_modified'', ''from'']
    [''where'']
    [''order'', ''by'', ''gmt_create'', ''asc'']"
  by code_simp

lemma pgsql_InsertGlobalTransaction_parse:
  "table_name t \<Longrightarrow> parse (fill pgsql_InsertGlobalTransaction [t]) = Some (Insert t (session_columns @ stamps) [map Arg [0..<8] @ [Now, Now]])"
  by (simp add: parse_template1 [OF pgsql_InsertGlobalTransaction_words] parse_fixed column_lists read_nat_def digit_val_def)

lemma pgsql_QueryGlobalTransactionByXid_parse:
  "table_name t \<Longrightarrow> parse (fill pgsql_QueryGlobalTransactionByXid [t]) = Some (Select (session_columns @ stamps) t ''xid'' [Arg 0])"
  by (simp add: parse_template1 [OF pgsql_QueryGlobalTransactionByXid_words] parse_fixed column_lists read_nat_def digit_val_def)

lemma pgsql_UpdateGlobalTransaction_parse:
  "table_name t \<Longrightarrow> parse (fill pgsql_UpdateGlobalTransaction [t]) = Some (Update t [(''status'', Arg 0), (''gmt_modified'', Now)] ''xid'' (Arg 1))"
  by (simp add: parse_template1 [OF pgsql_UpdateGlobalTransaction_words] parse_fixed column_lists read_nat_def digit_val_def)

lemma pgsql_InactiveGlobalTransaction_parse:
  "table_name t \<Longrightarrow> parse (fill pgsql_InactiveGlobalTransaction [t]) = Some (Update t [(''active'', Num 0), (''gmt_modified'', Now)] ''xid'' (Arg 0))"
  by (simp add: parse_template1 [OF pgsql_InactiveGlobalTransaction_words] parse_fixed column_lists read_nat_def digit_val_def)

lemma pgsql_DeleteGlobalTransaction_parse:
  "table_name t \<Longrightarrow> parse (fill pgsql_DeleteGlobalTransaction [t]) = Some (Delete t ''xid'' (Arg 0))"
  by (simp add: parse_template1 [OF pgsql_DeleteGlobalTransaction_words] parse_fixed column_lists read_nat_def digit_val_def)

lemma pgsql_InsertBranchTransaction_parse:
  "table_name t \<Longrightarrow> parse (fill pgsql_InsertBranchTransaction [t]) = Some (Insert t (branch_columns @ stamps) [map Arg [0..<9] @ [Now, Now]])"
  by (simp add: parse_template1 [OF pgsql_InsertBranchTransaction_words] parse_fixed column_lists read_nat_def digit_val_def)

lemma pgsql_QueryBranchTransactionByXid_parse:
  "table_name t \<Longrightarrow> parse (fill pgsql_QueryBranchTransactionByXid [t]) = Some (Select (branch_columns @ stamps) t ''xid'' [Arg 0])"
  by (simp add: parse_template1 [OF pgsql_QueryBranchTransactionByXid_words] parse_fixed column_lists read_nat_def digit_val_def)

lemma pgsql_UpdateBranchTransaction_parse:
  "table_name t \<Longrightarrow> parse (fill pgsql_UpdateBranchTransaction [t]) = Some (Update t [(''status'', Arg 0), (''gmt_modified'', Now)] ''branch_id'' (Arg 1))"
  by (simp add: parse_template1 [OF pgsql_UpdateBranchTransaction_words] parse_fixed column_lists read_nat_def digit_val_def)

lemma pgsql_DeleteBranchTransaction_parse:
  "table_name t \<Longrightarrow> parse (fill pgsql_DeleteBranchTransaction [t]) = Some (Delete t ''branch_id'' (Arg 0))"
  by (simp add: parse_template1 [OF pgsql_DeleteBranchTransaction_words] parse_fixed column_lists read_nat_def digit_val_def)

subsection \<open>The statements with growing lists\<close>

lemma pgsql_in_words:
  assumes "n > 0"
  shows "tokens (fill ''row_key in %s'' [PgsqlAppendInParam n]) =
      ''row_key'' # ''in'' # ''('' # commas (map (\<lambda>i. [mark i]) [0..<n]) @ ['')'']"
    and "tokens (fill ''xid in %s'' [PgsqlAppendInParam n]) =
      ''xid'' # ''in'' # ''('' # commas (map (\<lambda>i. [mark i]) [0..<n]) @ ['')'']"
  using assms tokens_in_list [of n "\<lambda>i. CHR ''$'' # show_nat (i + 1)"] plain_mark
  by (simp_all add: in_words PgsqlAppendInParam_def mark_def)

lemma marks_unmarked: "''?'' \<notin> set (commas (map (\<lambda>i. [mark i]) xs))"
proof -
  have "set (commas ys) \<subseteq> insert '','' (\<Union>(set ` set ys))" for ys
    by (induction ys rule: commas.induct) auto
  from this [of "map (\<lambda>i. [mark i]) xs"] show ?thesis
    by (auto simp: mark_simps(3) [symmetric] simp del: mark_simps(3))
qed

lemma pgsql_QueryRowKey_parse:
  "table_name t \<Longrightarrow> n > 0 \<Longrightarrow>
   parse (fill pgsql_QueryRowKey [t, fill ''row_key in %s'' [PgsqlAppendInParam n]]) =
     Some (Select (lock_columns @ stamps) t ''row_key'' (map Arg [0..<n]))"
  by (rule parse_select_in [OF pgsql_QueryRowKey_words _ _ pgsql_in_words(1)])
    (simp_all add: fill_in_last PgsqlAppendInParam_def last_in_list comma_list_def column_lists
      punctuation_def number_marks_none marks_unmarked number_marks_append)

lemma pgsql_QueryBranchTransaction_parse:
  "table_name t \<Longrightarrow> n > 0 \<Longrightarrow>
   parse (fill pgsql_QueryBranchTransaction [t, fill ''xid in %s'' [PgsqlAppendInParam n]]) =
     Some (Select (branch_columns @ stamps) t ''xid'' (map Arg [0..<n]))"
  by (rule parse_select_in [OF pgsql_QueryBranchTransaction_words _ _ pgsql_in_words(2)])
    (simp_all add: fill_in_last PgsqlAppendInParam_def last_in_list comma_list_def column_lists
      punctuation_def number_marks_none marks_unmarked number_marks_append)

definition pgsql_tuple_text :: "nat \<Rightarrow> string" where
  "pgsql_tuple_text i =
     CHR ''('' # mark (7 * i) @ CHR '','' # CHR '' '' # mark (7 * i + 1) @ CHR '','' # CHR '' '' # mark (7 * i + 2) @
     CHR '','' # CHR '' '' # mark (7 * i + 3) @ CHR '','' # CHR '' '' # mark (7 * i + 4) @
     CHR '','' # CHR '' '' # mark (7 * i + 5) @ CHR '','' # CHR '' '' # mark (7 * i + 6) @ '', now(), now())''"

lemma pgsql_lock_values_eq: "pgsql_lock_values i = pgsql_tuple_text i @ '',''"
  by (simp add: pgsql_lock_values_def pgsql_tuple_text_def mark_def fill.simps eval_nat_numeral)

lemma tokens_pgsql_tuple: "tokens (pgsql_tuple_text i) = tuple_words (7 * i)"
proof -
  have m: "tokens (mark k @ CHR '','' # r) = mark k # '','' # tokens r" for k r
    using plain_mark [of "Suc k"] tokens_plain [of "mark k" "CHR '','' # r"]
    by (simp add: mark_def punctuation_def tokens_Cons)
  have e: "tokens (mark k @ '', now(), now())'') =
      mark k # [ '','', ''now'', ''('', '')'', '','', ''now'', ''('', '')'', '')'']" for k
  proof -
    have "tokens '', now(), now())'' = ['','', ''now'', ''('', '')'', '','', ''now'', ''('', '')'', '')'']" by code_simp
    with plain_mark [of "Suc k"] tokens_plain [of "mark k" "'', now(), now())''"] show ?thesis
      by (simp add: mark_def punctuation_def)
  qed
  have "tokens ''now(), now())'' = [''now'', ''('', '')'', '','', ''now'', ''('', '')'', '')'']" by code_simp
  then show ?thesis
    by (simp add: pgsql_tuple_text_def m e tokens_Cons punctuation_def blank_def tuple_words_def tuple_items_def)
qed

lemma pgsql_values_words:
  assumes "n > 0"
  shows "tokens (butlast (concat (map pgsql_lock_values [0..<n]))) = commas (map (\<lambda>i. tuple_words (7 * i)) [0..<n])"
    and "butlast (concat (map pgsql_lock_values [0..<n])) \<noteq> []"
    and "last (butlast (concat (map pgsql_lock_values [0..<n]))) = CHR '')''"
    and "concat (map pgsql_lock_values [0..<n]) \<noteq> []"
proof -
  have f: "\<forall>i. pgsql_lock_values i = pgsql_tuple_text i @ '',''" by (simp add: pgsql_lock_values_eq)
  have b: "\<forall>i. pgsql_tuple_text i \<noteq> [] \<and> last (pgsql_tuple_text i) = CHR '')''"
    by (simp add: pgsql_tuple_text_def)
  note v = tokens_values [OF assms f b]
  show "tokens (butlast (concat (map pgsql_lock_values [0..<n]))) = commas (map (\<lambda>i. tuple_words (7 * i)) [0..<n])"
    using v(1) by (simp only: tokens_pgsql_tuple)
  show "butlast (concat (map pgsql_lock_values [0..<n])) \<noteq> []"
    and "last (butlast (concat (map pgsql_lock_values [0..<n]))) = CHR '')''"
    and "concat (map pgsql_lock_values [0..<n]) \<noteq> []" by (rule v)+
qed

lemma pgsql_InsertRowLock_parse:
  "table_name t \<Longrightarrow> n > 0 \<Longrightarrow>
   parse (fill pgsql_InsertRowLock [t, butlast (concat (map pgsql_lock_values [0..<n]))]) =
     Some (Insert t (lock_columns @ stamps) (map (\<lambda>i. tuple_exps (7 * i)) [0..<n]))"
  by (rule parse_insert_tuples [OF pgsql_InsertRowLock_words])
    (simp_all add: pgsql_values_words number_marks_none tuple_words_unmarked table_name_def column_lists
      flat_def punctuation_def)

interpretation pgsql_texts: sql_texts pgsql_dialect
proof unfold_locales
  fix t assume "table_name t"
  then show "\<exists>es. parse (fill (di_InsertBranchTransaction pgsql_dialect) [t]) =
      Some (Insert t (branch_columns @ stamps) [es])"
    by (simp add: pgsql_InsertBranchTransaction_parse)
next
  fix n :: nat assume "n > 0"
  then show "concat (map (di_lock_values pgsql_dialect) [0..<n]) \<noteq> []"
    unfolding pgsql_dialect_simps by (rule pgsql_values_words(4))
qed (simp_all add: pgsql_InsertGlobalTransaction_parse pgsql_QueryGlobalTransactionByXid_parse
    pgsql_UpdateGlobalTransaction_parse pgsql_InactiveGlobalTransaction_parse
    pgsql_DeleteGlobalTransaction_parse pgsql_QueryBranchTransactionByXid_parse
    pgsql_QueryBranchTransaction_parse pgsql_UpdateBranchTransaction_parse
    pgsql_DeleteBranchTransaction_parse pgsql_InsertRowLock_parse
    pgsql_QueryRowKey_parse)

end
