(* ===== verification/Sql_Server.thy ===== *)
theory Sql_Server
  imports Sql_Store Mysql Pgsql Inmemory_System
begin

text \<open>
  The two database servers as far as the drivers meet them: the tables of \<open>mysql.go\<close> and
  \<open>pgsql.go\<close> as their \<open>CREATE TABLE\<close> texts define them, the column types each server knows and
  the values that fit a column. \<open>database\<close> collects what a driver needs of its server; the
  contracts of \<open>Sql_Store\<close> follow from it for both dialects.
\<close>

subsection \<open>The tables of a driver\<close>

text \<open>The texts name the table only by \<open>%s\<close>, so that its columns do not depend on the name.\<close>

definition table_of :: "string \<Rightarrow> table_def" where
  "table_of ddl = (case parse_create ddl of Some (t, td) \<Rightarrow> td | None \<Rightarrow> \<lparr>td_columns = [], td_key = []\<rparr>)"

definition table_schema :: "dialect \<Rightarrow> string \<Rightarrow> string \<Rightarrow> string \<Rightarrow> schema" where
  "table_schema dl gt bt lt =
     [gt \<mapsto> table_of (di_CreateGlobalTable dl), bt \<mapsto> table_of (di_CreateBranchTable dl),
      lt \<mapsto> table_of (di_CreateLockTable dl)]"

definition driver_schema :: "dialect \<Rightarrow> 'd sql_driver \<Rightarrow> schema" where
  "driver_schema dl dv = table_schema dl (dv_globalTable dv) (dv_branchTable dv) (dv_lockTable dv)"

definition col :: "string \<Rightarrow> string \<Rightarrow> bool \<Rightarrow> column" where
  "col n t nn = \<lparr>col_name = n, col_type = t, col_not_null = nn\<rparr>"

lemma col_simps [simp]: "col_name (col n t b) = n" "col_type (col n t b) = t" "col_not_null (col n t b) = b"
  by (simp_all add: col_def)

text \<open>The tables the six texts define.\<close>

lemma mysql_global_table:
  "table_of mysql_CreateGlobalTable = \<lparr>td_columns =
    [col ''addressing'' ''VARCHAR'' True, col ''xid'' ''VARCHAR'' True,
     col ''transaction_id'' ''BIGINT'' False, col ''transaction_name'' ''VARCHAR'' False,
     col ''timeout'' ''INT'' False, col ''begin_time'' ''BIGINT'' False,
     col ''status'' ''TINYINT'' True, col ''active'' ''BIT'' True,
     col ''gmt_create'' ''DATETIME'' False, col ''gmt_modified'' ''DATETIME'' False], td_key = ''xid''\<rparr>"
  by code_simp

lemma mysql_branch_table:
  "table_of mysql_CreateBranchTable = \<lparr>td_columns =
    [col ''addressing'' ''VARCHAR'' True, col ''xid'' ''VARCHAR'' True,
     col ''branch_id'' ''BIGINT'' True, col ''transaction_id'' ''BIGINT'' False,
     col ''resource_id'' ''VARCHAR'' False, col ''lock_key'' ''VARCHAR'' False,
     col ''branch_type'' ''VARCHAR'' False, col ''status'' ''TINYINT'' False,
     col ''application_data'' ''VARCHAR'' False, col ''async_commit'' ''TINYINT'' True,
     col ''gmt_create'' ''DATETIME'' False, col ''gmt_modified'' ''DATETIME'' False], td_key = ''branch_id''\<rparr>"
  by code_simp

lemma mysql_lock_table:
  "table_of mysql_CreateLockTable = \<lparr>td_columns =
    [col ''row_key'' ''VARCHAR'' True, col ''xid'' ''VARCHAR'' True,
     col ''transaction_id'' ''BIGINT'' False, col ''branch_id'' ''BIGINT'' True,
     col ''resource_id'' ''VARCHAR'' False, col ''table_name'' ''VARCHAR'' False,
     col ''pk'' ''VARCHAR'' False, col ''gmt_create'' ''DATETIME'' False,
     col ''gmt_modified'' ''DATETIME'' False], td_key = ''row_key''\<rparr>"
  by code_simp

lemma pgsql_global_table:
  "table_of pgsql_CreateGlobalTable = \<lparr>td_columns =
    [col ''addressing'' ''VARCHAR'' True, col ''xid'' ''VARCHAR'' True,
     col ''transaction_id'' ''BIGINT'' False, col ''transaction_name'' ''VARCHAR'' False,
     col ''timeout'' ''INT'' False, col ''begin_time'' ''BIGINT'' False,
     col ''status'' ''INT'' True, col ''active'' ''BOOL'' True,
     col ''gmt_create'' ''TIMESTAMP'' False, col ''gmt_modified'' ''TIMESTAMP'' False], td_key = ''xid''\<rparr>"
  by code_simp

lemma pgsql_branch_table:
  "table_of pgsql_CreateBranchTable = \<lparr>td_columns =
    [col ''addressing'' ''VARCHAR'' True, col ''xid'' ''VARCHAR'' True,
     col ''branch_id'' ''BIGINT'' True, col ''transaction_id'' ''BIGINT'' False,
     col ''resource_id'' ''VARCHAR'' False, col ''lock_key'' ''VARCHAR'' False,
     col ''branch_type'' ''VARCHAR'' False, col ''status'' ''INT'' False,
     col ''application_data'' ''VARCHAR'' False, col ''async_commit'' ''TINYINT'' True,
     col ''gmt_create'' ''TIMESTAMP'' False, col ''gmt_modified'' ''TIMESTAMP'' False], td_key = ''branch_id''\<rparr>"
  by code_simp

lemma pgsql_lock_table:
  "table_of pgsql_CreateLockTable = \<lparr>td_columns =
    [col ''row_key'' ''VARCHAR'' True, col ''xid'' ''VARCHAR'' False,
     col ''transaction_id'' ''BIGINT'' False, col ''branch_id'' ''BIGINT'' True,
     col ''resource_id'' ''VARCHAR'' False, col ''table_name'' ''VARCHAR'' False,
     col ''pk'' ''VARCHAR'' False, col ''gmt_create'' ''TIMESTAMP'' False,
     col ''gmt_modified'' ''TIMESTAMP'' False], td_key = ''row_key''\<rparr>"
  by code_simp

lemmas table_texts = mysql_global_table mysql_branch_table mysql_lock_table
  pgsql_global_table pgsql_branch_table pgsql_lock_table

lemma table_keys:
  "td_key (table_of mysql_CreateGlobalTable) = ''xid''" "td_key (table_of mysql_CreateLockTable) = ''row_key''"
  "td_key (table_of pgsql_CreateGlobalTable) = ''xid''" "td_key (table_of pgsql_CreateLockTable) = ''row_key''"
  by (simp_all add: table_texts)

subsection \<open>Types and values\<close>

definition mysql_types :: "string list" where
  "mysql_types = [''VARCHAR'', ''BIGINT'', ''INT'', ''TINYINT'', ''BIT'', ''DATETIME'']"

definition pgsql_types :: "string list" where
  "pgsql_types = [''VARCHAR'', ''BIGINT'', ''INT'', ''BOOL'', ''TIMESTAMP'']"

text \<open>MySQL takes a boolean for a number; PostgreSQL has no number for a boolean column.\<close>

fun mysql_fits :: "string \<Rightarrow> sqlval \<Rightarrow> bool" where
  "mysql_fits ty (VStr s) \<longleftrightarrow> ty = ''VARCHAR''"
| "mysql_fits ty (VInt n) \<longleftrightarrow> ty \<in> {''VARCHAR'', ''BIGINT'', ''INT'', ''TINYINT'', ''BIT''}"
| "mysql_fits ty (VBool b) \<longleftrightarrow> ty \<in> {''TINYINT'', ''BIT''}"
| "mysql_fits ty (VTime t) \<longleftrightarrow> ty = ''DATETIME''"
| "mysql_fits ty VNull \<longleftrightarrow> False"

fun pgsql_fits :: "string \<Rightarrow> sqlval \<Rightarrow> bool" where
  "pgsql_fits ty (VStr s) \<longleftrightarrow> ty = ''VARCHAR''"
| "pgsql_fits ty (VInt n) \<longleftrightarrow> ty \<in> {''VARCHAR'', ''BIGINT'', ''INT''}"
| "pgsql_fits ty (VBool b) \<longleftrightarrow> ty = ''BOOL''"
| "pgsql_fits ty (VTime t) \<longleftrightarrow> ty = ''TIMESTAMP''"
| "pgsql_fits ty VNull \<longleftrightarrow> False"

definition table_names :: "'d sql_driver \<Rightarrow> bool" where
  "table_names dv \<longleftrightarrow> table_name (dv_globalTable dv) \<and> table_name (dv_branchTable dv) \<and> table_name (dv_lockTable dv) \<and>
     distinct [dv_globalTable dv, dv_branchTable dv, dv_lockTable dv]"

definition database ::
    "dialect \<Rightarrow> (string \<Rightarrow> sqlval \<Rightarrow> bool) \<Rightarrow> 'd sql_driver \<Rightarrow> ('d \<Rightarrow> tables) \<Rightarrow> ('d \<Rightarrow> bool) \<Rightarrow> bool" where
  "database dl fits dv tab dok \<longleftrightarrow> table_names dv \<and>
     sql_engine (dv_engine dv) tab dok (driver_schema dl dv) fits"

definition mysql_database :: "'d sql_driver \<Rightarrow> ('d \<Rightarrow> tables) \<Rightarrow> ('d \<Rightarrow> bool) \<Rightarrow> bool" where
  "mysql_database = database mysql_dialect mysql_fits"

definition pgsql_database :: "'d sql_driver \<Rightarrow> ('d \<Rightarrow> tables) \<Rightarrow> ('d \<Rightarrow> bool) \<Rightarrow> bool" where
  "pgsql_database = database pgsql_dialect pgsql_fits"

lemma database_store:
  assumes "database dl fits dv tab dok" and "sql_texts dl"
    and "td_key (table_of (di_CreateGlobalTable dl)) = ''xid''"
    and "td_key (table_of (di_CreateLockTable dl)) = ''row_key''"
  shows "sql_store (dv_engine dv) tab dok (driver_schema dl dv) fits dl dv (table_of (di_CreateGlobalTable dl))
    (table_of (di_CreateBranchTable dl)) (table_of (di_CreateLockTable dl))"
proof (rule sql_store.intro)
  show "sql_engine (dv_engine dv) tab dok (driver_schema dl dv) fits" using assms(1) by (simp add: database_def)
  show "sql_store_axioms (dv_engine dv) (driver_schema dl dv) dv (table_of (di_CreateGlobalTable dl))
      (table_of (di_CreateBranchTable dl)) (table_of (di_CreateLockTable dl))"
    by (rule sql_store_axioms.intro)
      (use assms in \<open>auto simp: database_def table_names_def driver_schema_def table_schema_def\<close>)
qed (rule assms)

lemma mysql_database_store:
  "mysql_database dv tab dok \<Longrightarrow>
   sql_store (dv_engine dv) tab dok (driver_schema mysql_dialect dv) mysql_fits mysql_dialect dv
     (table_of mysql_CreateGlobalTable) (table_of mysql_CreateBranchTable) (table_of mysql_CreateLockTable)"
  using database_store [OF _ mysql_texts.sql_texts_axioms] table_keys by (simp add: mysql_database_def)

lemma pgsql_database_store:
  "pgsql_database dv tab dok \<Longrightarrow>
   sql_store (dv_engine dv) tab dok (driver_schema pgsql_dialect dv) pgsql_fits pgsql_dialect dv
     (table_of pgsql_CreateGlobalTable) (table_of pgsql_CreateBranchTable) (table_of pgsql_CreateLockTable)"
  using database_store [OF _ pgsql_texts.sql_texts_axioms] table_keys by (simp add: pgsql_database_def)

subsection \<open>Two servers\<close>

text \<open>The engine of \<open>Sql_Engine\<close> as a MySQL and as a PostgreSQL server.\<close>

definition default_schema :: "dialect \<Rightarrow> schema" where
  "default_schema dl = table_schema dl ''global_table'' ''branch_table'' ''lock_table''"

definition default_driver :: "'d engine \<Rightarrow> 'd sql_driver" where
  "default_driver eng = \<lparr>dv_engine = eng, dv_globalTable = ''global_table'', dv_branchTable = ''branch_table'',
     dv_lockTable = ''lock_table'', dv_queryLimit = 100\<rparr>"

definition mysql_server :: "db engine" where
  "mysql_server = db_engine mysql_types (default_schema mysql_dialect) mysql_fits"

definition pgsql_server :: "db engine" where
  "pgsql_server = db_engine pgsql_types (default_schema pgsql_dialect) pgsql_fits"

lemma default_driver_simps [simp]:
  "dv_engine (default_driver eng) = eng" "dv_globalTable (default_driver eng) = ''global_table''"
  "dv_branchTable (default_driver eng) = ''branch_table''" "dv_lockTable (default_driver eng) = ''lock_table''"
  "driver_schema dl (default_driver eng) = default_schema dl"
  by (simp_all add: driver_schema_def default_driver_def default_schema_def)

lemma default_names: "table_names (default_driver eng)"
  unfolding table_names_def default_driver_simps by (simp add: table_name_def) code_simp

lemma mysql_server_database:
  "mysql_database (default_driver mysql_server) db_tables (db_wf (default_schema mysql_dialect))"
  using db_sql.sql_engine_axioms by (simp add: mysql_database_def database_def default_names mysql_server_def)

lemma pgsql_server_database:
  "pgsql_database (default_driver pgsql_server) db_tables (db_wf (default_schema pgsql_dialect))"
  using db_sql.sql_engine_axioms by (simp add: pgsql_database_def database_def default_names pgsql_server_def)

interpretation my: sql_store mysql_server db_tables "db_wf (default_schema mysql_dialect)"
    "default_schema mysql_dialect" mysql_fits mysql_dialect "default_driver mysql_server"
    "table_of mysql_CreateGlobalTable" "table_of mysql_CreateBranchTable" "table_of mysql_CreateLockTable"
  using mysql_database_store [OF mysql_server_database] by simp

interpretation pg: sql_store pgsql_server db_tables "db_wf (default_schema pgsql_dialect)"
    "default_schema pgsql_dialect" pgsql_fits pgsql_dialect "default_driver pgsql_server"
    "table_of pgsql_CreateGlobalTable" "table_of pgsql_CreateBranchTable" "table_of pgsql_CreateLockTable"
  using pgsql_database_store [OF pgsql_server_database] by simp

end
