(* ===== verification/Sql_System.thy ===== *)
theory Sql_System
  imports Sql_Server
begin

text \<open>
  The coordinator over the SQL drivers. The database may fail any statement, before or after its
  effect, and may be read through another connection in another row order between two steps; the
  history of sessions and the row locks obey the same laws as over the in-memory driver.
\<close>

definition mysql_Driver :: "'d sql_driver \<Rightarrow> 'd Driver" where
  "mysql_Driver dv = \<lparr>dr_SessionManager = mysql_sm dv, dr_LockManager = mysql_lm dv\<rparr>"

definition pgsql_Driver :: "'d sql_driver \<Rightarrow> 'd Driver" where
  "pgsql_Driver dv = \<lparr>dr_SessionManager = pgsql_sm dv, dr_LockManager = pgsql_lm dv\<rparr>"

lemma sql_Drivers: "mysql_Driver dv = sql_Driver mysql_dialect dv" "pgsql_Driver dv = sql_Driver pgsql_dialect dv"
  by (simp_all add: mysql_Driver_def pgsql_Driver_def sql_Driver_def mysql_driver_eq pgsql_driver_eq)

definition sql_reorder :: "('d \<Rightarrow> tables) \<Rightarrow> ('d \<Rightarrow> bool) \<Rightarrow> 'd \<Rightarrow> 'd \<Rightarrow> bool" where
  "sql_reorder tab dok d d' \<longleftrightarrow> dok d' \<and> tab d' = tab d"

definition sql_tc :: "dialect \<Rightarrow> 'd sql_driver \<Rightarrow> 'd tc_conf \<Rightarrow> 'd tc_conf" where
  "sql_tc dl dv conf = NewTransactionCoordinator (sql_Driver dl dv) conf"

lemma sql_tc_simps [simp]:
  "holder (sql_tc dl dv conf) = sql_sm dl dv" "resourceDataLocker (sql_tc dl dv conf) = sql_lm dl dv"
  "locker (sql_tc dl dv conf) = UnimplementedGlobalSessionLocker"
  by (simp_all add: sql_tc_def NewTransactionCoordinator_def sql_Driver_def)

sublocale sql_store \<subseteq> sys: coordinator_system "sql_sm dl dv" "sql_gv tab dv" "sql_ok tab wf dv" "sql_lm dl dv"
    "sql_tc dl dv conf" "sql_reorder tab wf" for conf
proof unfold_locales
  fix w d assume "ok w" and "sql_reorder tab wf (drv w) d"
  then show "quiet gv ok w (w\<lparr>drv := d\<rparr>)"
    by (intro quiet_db) (auto simp: sql_reorder_def sql_ok_def)
qed simp_all

context sql_store
begin

lemmas system = sys.coordinator_system_axioms
lemmas system_history = sys.run_history and system_ok = sys.run_ok and system_closed = sys.no_branch_after_close
  and system_status = sys.GetStatus_spec

end

text \<open>Either dialect, on a server of its kind.\<close>

definition sql_database :: "dialect \<Rightarrow> 'd sql_driver \<Rightarrow> ('d \<Rightarrow> tables) \<Rightarrow> ('d \<Rightarrow> bool) \<Rightarrow> bool" where
  "sql_database dl dv tab dok \<longleftrightarrow>
     dl = mysql_dialect \<and> mysql_database dv tab dok \<or> dl = pgsql_dialect \<and> pgsql_database dv tab dok"

lemma sql_database_store:
  assumes "sql_database dl dv tab dok"
  obtains fits gdef bdef ldef where
    "sql_store (dv_engine dv) tab dok (driver_schema dl dv) fits dl dv gdef bdef ldef"
  using assms mysql_database_store [of dv tab dok] pgsql_database_store [of dv tab dok]
  unfolding sql_database_def by blast

definition sql_run ::
    "dialect \<Rightarrow> 'd sql_driver \<Rightarrow> ('d \<Rightarrow> tables) \<Rightarrow> ('d \<Rightarrow> bool) \<Rightarrow> 'd tc_conf \<Rightarrow> 'd tc \<Rightarrow> nat \<Rightarrow> 'd tc \<Rightarrow> bool" where
  "sql_run dl dv tab dok conf = tc_run (sql_reorder tab dok) (sql_tc dl dv conf)"

text \<open>A coordinator that starts on a database without sessions and locks.\<close>

definition sql_start :: "('d \<Rightarrow> tables) \<Rightarrow> ('d \<Rightarrow> bool) \<Rightarrow> 'd sql_driver \<Rightarrow> 'd tc \<Rightarrow> bool" where
  "sql_start tab dok dv s \<longleftrightarrow> wf_uuid (uuid s) \<and> dok (drv (wld s)) \<and>
     (\<forall>k. tab (drv (wld s)) (dv_globalTable dv) k = None) \<and> (\<forall>k. tab (drv (wld s)) (dv_lockTable dv) k = None)"

lemma sql_start_simps:
  "sql_start tab dok dv s \<Longrightarrow> sql_ok tab dok dv (wld s)" "sql_start tab dok dv s \<Longrightarrow> sql_gv tab dv (wld s) x = None"
  "sql_start tab dok dv s \<Longrightarrow> wf_uuid (uuid s)"
  by (simp_all add: sql_start_def sql_ok_def sql_gv_def text_keys_def lock_rows_def)

lemma sql_history:
  assumes "sql_database dl dv tab dok" and "sql_start tab dok dv s0"
    and "sql_run dl dv tab dok conf s0 n s" and "sql_run dl dv tab dok conf s m s'"
    and "n + m \<le> 2 ^ 53" and "sql_gv tab dv (wld s) x = Some a"
  shows "stored_le (Some a) (sql_gv tab dv (wld s') x)" and "closed_session a"
proof -
  obtain fits gdef bdef ldef where
    st: "sql_store (dv_engine dv) tab dok (driver_schema dl dv) fits dl dv gdef bdef ldef"
    using sql_database_store [OF assms(1)] by blast
  note h = sql_store.system_history [OF st sql_start_simps(1) [OF assms(2)] _ sql_start_simps(3) [OF assms(2)]
      assms(3,4) [unfolded sql_run_def] assms(5,6)]
  show "stored_le (Some a) (sql_gv tab dv (wld s') x)" and "closed_session a"
    by (rule h, simp add: sql_start_simps [OF assms(2)])+
qed

lemma sql_run_ok:
  assumes "sql_database dl dv tab dok" and "sql_start tab dok dv s0"
    and "sql_run dl dv tab dok conf s0 n s" and "n \<le> 2 ^ 53"
  shows "sql_ok tab dok dv (wld s)"
proof -
  obtain fits gdef bdef ldef where
    st: "sql_store (dv_engine dv) tab dok (driver_schema dl dv) fits dl dv gdef bdef ldef"
    using sql_database_store [OF assms(1)] by blast
  show ?thesis
    by (rule sql_store.system_ok [OF st sql_start_simps(1) [OF assms(2)] _ sql_start_simps(3) [OF assms(2)]
      assms(3) [unfolded sql_run_def] assms(4)]) (simp add: sql_start_simps [OF assms(2)])
qed

end
