(* ===== verification/Sql_Typing.thy ===== *)
theory Sql_Typing
  imports Sql_System
begin

text \<open>
  The statements of the drivers against the tables of the drivers. On a server that works, the
  MySQL driver's statements are accepted but for duplicate keys. On PostgreSQL a branch is never
  stored and a session never closed, whatever the server does: the texts do not fit the tables.
\<close>

subsection \<open>What the concrete engine does with a statement it can read\<close>

definition run_stmt ::
    "schema \<Rightarrow> (string \<Rightarrow> sqlval \<Rightarrow> bool) \<Rightarrow> stmt \<Rightarrow> sqlval list \<Rightarrow> db \<Rightarrow> goerror option \<times> db" where
  "run_stmt schema fits st args d =
     (let (f, d1) = tick d
      in if f then (Some lost, d1)
         else case run_write schema fits (db_clock d1) st args (db_tables d1) of
           None \<Rightarrow> (Some rejected, d1)
         | Some T \<Rightarrow> (None, d1\<lparr>db_tables := T, db_keys := (db_keys d1)(stmt_table st :=
             remdups (db_keys d1 (stmt_table st) @ stmt_vals (db_clock d1) args st))\<rparr>))"

lemma exec_text:
  assumes "parse sql = Some st"
  shows "eng_Exec (db_engine tys schema fits) sql args = run_stmt schema fits st args"
  using assms parse_not_create [OF assms]
  by (simp add: fun_eq_iff db_engine_def run_stmt_def split: prod.splits option.splits)

definition select_rows :: "string list \<Rightarrow> string \<Rightarrow> string \<Rightarrow> sqlval list \<Rightarrow> db \<Rightarrow> row list" where
  "select_rows cs t c vs d = map (\<lambda>r. r |` set cs) (db_rows d t (column_in c vs))"

lemma select_text:
  assumes "parse sql = Some (Select cs t c (map Arg [0..<length args]))"
  shows "db_select sql args d = Some (select_rows cs t c args d)"
proof -
  have "all_some (eval_exp 0 args) (map Arg [0..<length args]) = Some args"
    by (rule eval_args)
  with assms show ?thesis by (simp add: db_select_def select_rows_def)
qed

text \<open>A statement is accepted by a server that works exactly when SQL gives it an effect.\<close>

lemma run_stmt_ok:
  assumes "db_faults d = []"
  shows "fst (run_stmt schema fits st args d) = None \<longleftrightarrow>
    run_write schema fits (Suc (db_clock d)) st args (db_tables d) \<noteq> None"
  using assms by (simp add: run_stmt_def tick_def split: option.splits)

lemma insert_one_ok:
  assumes "list_all (accepts fits td) r" and "map_of r (td_key td) = Some k"
  shows "insert_rows fits td [r] T \<noteq> None \<longleftrightarrow> T k = None"
  using assms by simp

subsection \<open>The MySQL driver\<close>

lemma default_tables [simp]:
  "default_schema dl ''global_table'' = Some (table_of (di_CreateGlobalTable dl))"
  "default_schema dl ''branch_table'' = Some (table_of (di_CreateBranchTable dl))"
  "default_schema dl ''lock_table'' = Some (table_of (di_CreateLockTable dl))"
  by (simp_all add: default_schema_def table_schema_def)

lemmas typing = run_write_def uses_all_args_def build_row_def accepts_def find_column_def table_texts
  column_lists upt_rec assign_rows_def

lemma mysql_insert_session_ok:
  "run_write (default_schema mysql_dialect) mysql_fits now
     (Insert ''global_table'' (session_columns @ stamps) [map Arg [0..<8] @ [Now, Now]])
     [VStr a, VStr x, VInt i, VStr n, VInt t, VInt bt, VInt st, VBool act] T \<noteq> None \<longleftrightarrow>
   T ''global_table'' (VStr x) = None"
  by (simp add: typing)

lemma mysql_insert_branch_ok:
  "run_write (default_schema mysql_dialect) mysql_fits now
     (Insert ''branch_table'' (branch_columns @ stamps) [map Arg [0..<10] @ [Now, Now]])
     [VStr a, VStr x, VInt b, VInt i, VStr r, VStr lk, VInt bt, VInt st, bytes_val ad, VBool asy] T \<noteq> None \<longleftrightarrow>
   T ''branch_table'' (VInt b) = None"
  by (cases ad) (simp_all add: typing bytes_val_def)

lemma mysql_update_ok:
  "run_write (default_schema mysql_dialect) mysql_fits now
     (Update ''global_table'' [(''status'', Arg 0), (''gmt_modified'', Now)] ''xid'' (Arg 1)) [VInt n, VStr x] T \<noteq> None"
  "run_write (default_schema mysql_dialect) mysql_fits now
     (Update ''global_table'' [(''active'', Num 0), (''gmt_modified'', Now)] ''xid'' (Arg 0)) [VStr x] T \<noteq> None"
  "run_write (default_schema mysql_dialect) mysql_fits now
     (Update ''branch_table'' [(''status'', Arg 0), (''gmt_modified'', Now)] ''branch_id'' (Arg 1)) [VInt n, VInt b] T \<noteq> None"
  by (simp_all add: typing)

lemma delete_ok:
  "run_write (default_schema dl) fits now (Delete ''global_table'' c (Arg 0)) [v] T \<noteq> None"
  "run_write (default_schema dl) fits now (Delete ''branch_table'' c (Arg 0)) [v] T \<noteq> None"
  by (simp_all add: typing)

lemma on_db_run:
  "db_faults (drv w) = [] \<Longrightarrow> fst (on_db (run_stmt schema fits st args) w) = None \<longleftrightarrow>
    run_write schema fits (Suc (db_clock (drv w))) st args (db_tables (drv w)) \<noteq> None"
  by (simp add: on_db_def split_beta run_stmt_ok)

lemma default_table_names [simp]:
  "table_name ''global_table''" "table_name ''branch_table''" "table_name ''lock_table''"
  using default_names [of undefined] by (simp_all add: table_names_def)

lemma bytes_in_column: "bytes_val b = VNull \<or> (\<exists>s. bytes_val b = VStr s)"
  by (cases b) (simp_all add: bytes_val_def)



subsection \<open>The PostgreSQL driver\<close>

text \<open>Eleven values for twelve columns, and a number for a boolean column.\<close>

lemma pgsql_insert_branch_refused:
  "run_write schema fits now (Insert t (branch_columns @ stamps) [map Arg [0..<9] @ [Now, Now]]) args T = None"
  by (simp add: run_write_def build_row_def column_lists split: Option.bind_splits)

lemma pgsql_inactive_refused:
  assumes "schema t = Some (table_of pgsql_CreateGlobalTable)"
  shows "run_write schema pgsql_fits now (Update t [(''active'', Num 0), (''gmt_modified'', Now)] ''xid'' (Arg 0)) args T = None"
  using assms by (simp add: run_write_def accepts_def find_column_def table_texts split: Option.bind_splits)

lemma pgsql_database_simps:
  assumes "pgsql_database dv tab dok"
  shows "sql_engine (dv_engine dv) tab dok (driver_schema pgsql_dialect dv) pgsql_fits"
    and "table_name (dv_globalTable dv)" "table_name (dv_branchTable dv)"
    and "driver_schema pgsql_dialect dv (dv_globalTable dv) = Some (table_of pgsql_CreateGlobalTable)"
  using assms by (auto simp: pgsql_database_def database_def table_names_def driver_schema_def table_schema_def)

lemma pgsql_AddBranchSession_fails:
  assumes "pgsql_database dv tab dok" and "dok (drv w)"
    and "pgsql_AddBranchSession dv g b w = (e, w')"
  shows "e \<noteq> None" and "tab (drv w') = tab (drv w)"
proof -
  note p = pgsql_database_simps [OF assms(1)]
  note t = pgsql_InsertBranchTransaction_parse [OF p(3)]
  obtain args d' where "eng_Exec (dv_engine dv) (fill pgsql_InsertBranchTransaction [dv_branchTable dv]) args (drv w) = (e, d')"
    and w': "w' = w\<lparr>drv := d'\<rparr>"
    using assms(3) by (auto simp: pgsql_AddBranchSession_def sql_AddBranchSession_def on_db_def Let_def split: prod.splits)
  from sql_engine.exec_stmt(2) [OF p(1) assms(2) this(1) t parse_not_create [OF t]] w'
  show "e \<noteq> None" and "tab (drv w') = tab (drv w)" by (simp_all add: pgsql_insert_branch_refused)
qed

lemma pgsql_InactiveGlobalSession_fails:
  assumes "pgsql_database dv tab dok" and "dok (drv w)"
    and "pgsql_InactiveGlobalSession dv g w = (e, w')"
  shows "e \<noteq> None" and "tab (drv w') = tab (drv w)"
proof -
  note p = pgsql_database_simps [OF assms(1)]
  note t = pgsql_InactiveGlobalTransaction_parse [OF p(2)]
  obtain args d' where "eng_Exec (dv_engine dv) (fill pgsql_InactiveGlobalTransaction [dv_globalTable dv]) args (drv w) = (e, d')"
    and w': "w' = w\<lparr>drv := d'\<rparr>"
    using assms(3) by (auto simp: pgsql_InactiveGlobalSession_def sql_InactiveGlobalSession_def on_db_def Let_def split: prod.splits)
  from sql_engine.exec_stmt(2) [OF p(1) assms(2) this(1) t parse_not_create [OF t]] w'
  show "e \<noteq> None" and "tab (drv w') = tab (drv w)" by (simp_all add: pgsql_inactive_refused [where schema = "driver_schema pgsql_dialect dv", OF p(4)])
qed

end
