(* ===== verification/Sql_Demo.thy ===== *)
theory Sql_Demo
  imports Sql_Typing
begin

text \<open>
  A concrete transaction over the MySQL driver and a server that works: begun, one asynchronous
  TCC branch registered, committed. The statement texts are parsed once, by the lemmas of
  \<open>Mysql\<close>; the equations below run the parsed statements.
\<close>

definition my_holder :: "db SessionManager" where
  "my_holder = sql_sm mysql_dialect (default_driver mysql_server)"

definition my_locks :: "db StorageLockManager" where
  "my_locks = sql_lm mysql_dialect (default_driver mysql_server)"

definition my_schema :: schema where
  "my_schema = default_schema mysql_dialect"

lemma my_schema_code [code]:
  "my_schema = (\<lambda>t.
     if t = ''lock_table'' then Some \<lparr>td_columns = [col ''row_key'' ''VARCHAR'' True, col ''xid'' ''VARCHAR'' True,
      col ''transaction_id'' ''BIGINT'' False, col ''branch_id'' ''BIGINT'' True,
      col ''resource_id'' ''VARCHAR'' False, col ''table_name'' ''VARCHAR'' False,
      col ''pk'' ''VARCHAR'' False, col ''gmt_create'' ''DATETIME'' False,
      col ''gmt_modified'' ''DATETIME'' False], td_key = ''row_key''\<rparr>
     else if t = ''branch_table'' then Some \<lparr>td_columns = [col ''addressing'' ''VARCHAR'' True, col ''xid'' ''VARCHAR'' True,
      col ''branch_id'' ''BIGINT'' True, col ''transaction_id'' ''BIGINT'' False,
      col ''resource_id'' ''VARCHAR'' False, col ''lock_key'' ''VARCHAR'' False,
      col ''branch_type'' ''VARCHAR'' False, col ''status'' ''TINYINT'' False,
      col ''application_data'' ''VARCHAR'' False, col ''async_commit'' ''TINYINT'' True,
      col ''gmt_create'' ''DATETIME'' False, col ''gmt_modified'' ''DATETIME'' False], td_key = ''branch_id''\<rparr>
     else if t = ''global_table'' then Some \<lparr>td_columns = [col ''addressing'' ''VARCHAR'' True, col ''xid'' ''VARCHAR'' True,
      col ''transaction_id'' ''BIGINT'' False, col ''transaction_name'' ''VARCHAR'' False,
      col ''timeout'' ''INT'' False, col ''begin_time'' ''BIGINT'' False,
      col ''status'' ''TINYINT'' True, col ''active'' ''BIT'' True,
      col ''gmt_create'' ''DATETIME'' False, col ''gmt_modified'' ''DATETIME'' False], td_key = ''xid''\<rparr>
     else None)"
  by (simp add: my_schema_def fun_eq_iff default_schema_def table_schema_def table_texts)

text \<open>A statement and a query of the MySQL server, by what their texts parse to.\<close>

definition my_write :: "stmt \<Rightarrow> sqlval list \<Rightarrow> db world \<Rightarrow> goerror option \<times> db world" where
  "my_write st args w = on_db (run_stmt my_schema mysql_fits st args) w"

definition my_rows :: "string list \<Rightarrow> string \<Rightarrow> string \<Rightarrow> sqlval list \<Rightarrow> db world \<Rightarrow> row list \<times> db world" where
  "my_rows cs t c vs w =
     on_db (\<lambda>d. let (f, d1) = tick d in (if f then [] else select_rows cs t c vs d1, d1)) w"

lemma my_write_text:
  "parse sql = Some st \<Longrightarrow> on_db (eng_Exec mysql_server sql args) w = my_write st args w"
  by (simp add: my_write_def mysql_server_def my_schema_def exec_text)

lemma my_find_text:
  assumes "parse sql = Some (Select cs t c [Arg 0])"
  shows "on_db (eng_Find mysql_server sql [v]) w = (let (rs, w1) = my_rows cs t c [v] w
     in ((rs, if fst (tick (drv w)) then Some lost else None), w1))"
  using select_text [of sql cs t c "[v]"] assms
  by (simp add: my_rows_def on_db_def mysql_server_def db_engine_def split_beta)

lemma my_get_text:
  assumes "parse sql = Some (Select cs t c [Arg 0])"
  shows "on_db (eng_Get mysql_server sql [v]) w = (let (rs, w1) = my_rows cs t c [v] w
     in ((case rs of [] \<Rightarrow> None | r # _ \<Rightarrow> Some r, if fst (tick (drv w)) then Some lost else None), w1))"
  using select_text [of sql cs t c "[v]"] assms
  by (simp add: my_rows_def on_db_def mysql_server_def db_engine_def split_beta)

definition my_AddGlobalSession where "my_AddGlobalSession = sql_AddGlobalSession mysql_dialect (default_driver mysql_server)"
definition my_FindGlobalSession where "my_FindGlobalSession = sql_FindGlobalSession mysql_dialect (default_driver mysql_server)"
definition my_UpdateGlobalSessionStatus where "my_UpdateGlobalSessionStatus = sql_UpdateGlobalSessionStatus mysql_dialect (default_driver mysql_server)"
definition my_InactiveGlobalSession where "my_InactiveGlobalSession = sql_InactiveGlobalSession mysql_dialect (default_driver mysql_server)"
definition my_AddBranchSession where "my_AddBranchSession = sql_AddBranchSession mysql_dialect (default_driver mysql_server)"
definition my_FindBranchSessions where "my_FindBranchSessions = sql_FindBranchSessions mysql_dialect (default_driver mysql_server)"
definition my_ReleaseLock where "my_ReleaseLock = sql_ReleaseLock (default_driver mysql_server)"

lemma my_AddGlobalSession_code [code]:
  "my_AddGlobalSession g w =
     (let s = gobj w g
      in my_write (Insert ''global_table'' (session_columns @ stamps)
             [map Arg [0..<8] @ [Now, Now]])
           [VStr (gs_Addressing s), VStr (gs_XID s), VInt (sint (gs_TransactionID s)),
            VStr (gs_TransactionName s), VInt (sint (gs_Timeout s)), VInt (sint (gs_BeginTime s)),
            VInt (int (GlobalStatus_num (gs_Status s))), VBool (gs_Active s)] w)"
  using mysql_InsertGlobalTransaction_parse [OF default_table_names(1)]
  by (simp add: my_AddGlobalSession_def sql_AddGlobalSession_def my_write_text Let_def)

lemma my_FindGlobalSession_code [code]:
  "my_FindGlobalSession xid w =
     (let (rs, w1) = my_rows (session_columns @ stamps) ''global_table'' ''xid'' [VStr xid] w
      in case rs of r # _ \<Rightarrow> (let (g, w2) = new_gs (scan_session r) w1 in (Some g, w2)) | [] \<Rightarrow> (None, w1))"
  using my_get_text [OF mysql_QueryGlobalTransactionByXid_parse [OF default_table_names(1)]]
  by (simp add: my_FindGlobalSession_def sql_FindGlobalSession_def Let_def split_beta split: list.split)

lemma my_UpdateGlobalSessionStatus_code [code]:
  "my_UpdateGlobalSessionStatus g st w =
     my_write (Update ''global_table'' [(''status'', Arg 0), (''gmt_modified'', Now)] ''xid'' (Arg 1))
       [VInt (int (GlobalStatus_num st)), VStr (gs_XID (gobj w g))] w"
  using mysql_UpdateGlobalTransaction_parse [OF default_table_names(1)]
  by (simp add: my_UpdateGlobalSessionStatus_def sql_UpdateGlobalSessionStatus_def my_write_text)

lemma my_InactiveGlobalSession_code [code]:
  "my_InactiveGlobalSession g w =
     my_write (Update ''global_table'' [(''active'', Num 0), (''gmt_modified'', Now)] ''xid'' (Arg 0))
       [VStr (gs_XID (gobj w g))] w"
  using mysql_InactiveGlobalTransaction_parse [OF default_table_names(1)]
  by (simp add: my_InactiveGlobalSession_def sql_InactiveGlobalSession_def my_write_text)

lemma my_AddBranchSession_code [code]:
  "my_AddBranchSession g b w =
     (let s = bobj w b
      in my_write (Insert ''branch_table'' (branch_columns @ stamps)
             [map Arg [0..<10] @ [Now, Now]])
           [VStr (bs_Addressing s), VStr (bs_XID s), VInt (sint (bs_BranchID s)),
            VInt (sint (bs_TransactionID s)), VStr (bs_ResourceID s), VStr (bs_LockKey s),
            VInt (int (BranchType_num (bs_Type s))), VInt (int (BranchStatus_num (bs_Status s))),
            bytes_val (bs_ApplicationData s), VBool (bs_AsyncCommit s)] w)"
  using mysql_InsertBranchTransaction_parse [OF default_table_names(2)]
  by (simp add: my_AddBranchSession_def sql_AddBranchSession_def my_write_text Let_def)

lemma my_FindBranchSessions_code [code]:
  "my_FindBranchSessions xid w =
     (let (rs, w1) = my_rows (branch_columns @ stamps) ''branch_table'' ''xid'' [VStr xid] w in load_branches rs w1)"
  using my_find_text [OF mysql_QueryBranchTransactionByXid_parse [OF default_table_names(2)]]
  by (simp add: my_FindBranchSessions_def sql_FindBranchSessions_def Let_def split_beta)

lemma my_ReleaseLock_code [code]:
  "my_ReleaseLock rowLocks w =
     (if rowLocks = Some [] then Some (True, w)
      else case elems rowLocks of
        [] \<Rightarrow> None
      | l0 # rest \<Rightarrow>
          (let (err, w1) = on_db (\<lambda>d. let (f, d1) = tick d
                in if f then (Some lost, d1)
                   else (None, d1\<lparr>db_tables := (db_tables d1)(''lock_table'' := delete_rows
                     (holds [CondIn ''row_key'' (map VStr (rl_RowKey l0 # map rl_RowKey rest)), CondEq ''xid'' (VStr (rl_XID l0))])
                     (db_tables d1 ''lock_table''))\<rparr>)) w
           in Some (err = None, w1)))"
  by (simp add: my_ReleaseLock_def sql_ReleaseLock_def mysql_server_def db_engine_def Let_def split: list.split)

text \<open>The operations the scenario does not reach.\<close>

definition my_FindGlobalSessions where "my_FindGlobalSessions = sql_FindGlobalSessions (default_driver mysql_server)"
definition my_FindGlobalSessionsWithAddressingIdentities where "my_FindGlobalSessionsWithAddressingIdentities = sql_FindGlobalSessionsWithAddressingIdentities (default_driver mysql_server)"
definition my_AllSessions where "my_AllSessions = sql_AllSessions mysql_dialect (default_driver mysql_server)"
definition my_RemoveGlobalSession where "my_RemoveGlobalSession = sql_RemoveGlobalSession mysql_dialect (default_driver mysql_server)"
definition my_FindBatchBranchSessions where "my_FindBatchBranchSessions = sql_FindBatchBranchSessions mysql_dialect (default_driver mysql_server)"
definition my_UpdateBranchSessionStatus where "my_UpdateBranchSessionStatus = sql_UpdateBranchSessionStatus mysql_dialect (default_driver mysql_server)"
definition my_RemoveBranchSession where "my_RemoveBranchSession = sql_RemoveBranchSession mysql_dialect (default_driver mysql_server)"
definition my_AcquireLock where "my_AcquireLock = sql_AcquireLock mysql_dialect (default_driver mysql_server)"
definition my_IsLockable where "my_IsLockable = sql_IsLockable mysql_dialect (default_driver mysql_server)"

lemma my_rest_code [code]:
  "my_FindGlobalSessions a1 w = sql_FindGlobalSessions (default_driver mysql_server) a1 w"
  "my_FindGlobalSessionsWithAddressingIdentities a2 b2 w = sql_FindGlobalSessionsWithAddressingIdentities (default_driver mysql_server) a2 b2 w"
  "my_AllSessions w = sql_AllSessions mysql_dialect (default_driver mysql_server) w"
  "my_RemoveGlobalSession a4 w = sql_RemoveGlobalSession mysql_dialect (default_driver mysql_server) a4 w"
  "my_FindBatchBranchSessions a5 w = sql_FindBatchBranchSessions mysql_dialect (default_driver mysql_server) a5 w"
  "my_UpdateBranchSessionStatus a6 b6 w = sql_UpdateBranchSessionStatus mysql_dialect (default_driver mysql_server) a6 b6 w"
  "my_RemoveBranchSession a7 b7 w = sql_RemoveBranchSession mysql_dialect (default_driver mysql_server) a7 b7 w"
  "my_AcquireLock a8 b8 w = sql_AcquireLock mysql_dialect (default_driver mysql_server) a8 b8 w"
  "my_IsLockable a9 b9 c9 w = sql_IsLockable mysql_dialect (default_driver mysql_server) a9 b9 c9 w"
  by (simp_all add: my_FindGlobalSessions_def my_FindGlobalSessionsWithAddressingIdentities_def my_AllSessions_def my_RemoveGlobalSession_def my_FindBatchBranchSessions_def my_UpdateBranchSessionStatus_def my_RemoveBranchSession_def my_AcquireLock_def my_IsLockable_def)

lemma my_holder_code [code]:
  "my_holder =
     \<lparr>sm_AddGlobalSession = my_AddGlobalSession,
      sm_FindGlobalSession = my_FindGlobalSession,
      sm_FindGlobalSessions = my_FindGlobalSessions,
      sm_FindGlobalSessionsWithAddressingIdentities = my_FindGlobalSessionsWithAddressingIdentities,
      sm_AllSessions = my_AllSessions,
      sm_UpdateGlobalSessionStatus = my_UpdateGlobalSessionStatus,
      sm_InactiveGlobalSession = my_InactiveGlobalSession,
      sm_RemoveGlobalSession = my_RemoveGlobalSession,
      sm_AddBranchSession = my_AddBranchSession,
      sm_FindBranchSessions = my_FindBranchSessions,
      sm_FindBatchBranchSessions = my_FindBatchBranchSessions,
      sm_UpdateBranchSessionStatus = my_UpdateBranchSessionStatus,
      sm_RemoveBranchSession = my_RemoveBranchSession\<rparr>"
  by (simp add: my_holder_def sql_sm_def my_AddGlobalSession_def my_FindGlobalSession_def my_FindGlobalSessions_def my_FindGlobalSessionsWithAddressingIdentities_def my_AllSessions_def my_UpdateGlobalSessionStatus_def my_InactiveGlobalSession_def my_RemoveGlobalSession_def my_AddBranchSession_def my_FindBranchSessions_def my_FindBatchBranchSessions_def my_UpdateBranchSessionStatus_def my_RemoveBranchSession_def)

lemma my_locks_code [code]:
  "my_locks = \<lparr>lm_AcquireLock = my_AcquireLock, lm_ReleaseLock = my_ReleaseLock, lm_IsLockable = my_IsLockable\<rparr>"
  by (simp add: my_locks_def sql_lm_def my_AcquireLock_def my_ReleaseLock_def my_IsLockable_def)

definition my_conf :: "db tc_conf" where
  "my_conf = \<lparr>maxCommitRetryTimeout = -1, maxRollbackRetryTimeout = -1, rollbackDeadSeconds = 130,
     rollbackRetryTimeoutUnlockEnable = False, holder = my_holder, resourceDataLocker = my_locks,
     locker = UnimplementedGlobalSessionLocker,
     reply = (\<lambda>m. Replied (if bm_BranchMessageType m = TypeBranchCommit
                         then CommitReply (demo_response PhaseTwoCommitted)
                         else RollbackReply (demo_response PhaseTwoRolledBack))),
     MarshalAny = (\<lambda>t r. None), decode = (\<lambda>d. None), errText = (\<lambda>e. ''error'')\<rparr>"

lemma my_conf_tc: "sql_tc mysql_dialect (default_driver mysql_server) my_conf = my_conf"
  by (simp add: sql_tc_def NewTransactionCoordinator_def my_conf_def my_holder_def my_locks_def sql_Driver_def)

definition my_start :: "db tc" where
  "my_start = tc_start (db_empty []) demo_uuid"

definition my_register :: BranchRegisterRequest where
  "my_register = (demo_register TCC)\<lparr>brq_AsyncCommit := True\<rparr>"

definition my_begun :: "db tc" where
  "my_begun = snd (tc_Begin my_conf 1000 demo_begin my_start)"

definition my_registered :: "db tc" where
  "my_registered = snd (the (tc_BranchRegister my_conf my_register my_begun))"

definition my_committed :: "db tc" where
  "my_committed = snd (the (tc_Commit my_conf 2000 ''tm:1'' my_registered))"

definition my_session :: "db tc \<Rightarrow> (GlobalStatus \<times> bool) option" where
  "my_session s = map_option (\<lambda>r. (gs_Status (scan_session r), gs_Active (scan_session r)))
     (db_tables (drv (wld s)) ''global_table'' (VStr ''tm:1''))"

lemma my_begun_session: "my_session my_begun = Some (Begin, True)"
  by code_simp
lemma my_registered_session: "my_session my_registered = Some (Begin, True)"
  by code_simp
lemma my_committed_session: "my_session my_committed = Some (AsyncCommitting, False)"
  by code_simp

end
