(* ===== verification/Pgsql_System.thy ===== *)
theory Pgsql_System
  imports Sql_Typing
begin

text \<open>
  The coordinator over the PostgreSQL driver. The text that closes a session does not fit the
  session table and the text that stores a branch does not fit the branch table, so that no
  transaction ever gets past its beginning: \<open>never_closes\<close> is a coordinator whose store cannot
  close sessions, and \<open>pgsql_system\<close> shows that this is one.
\<close>

context coordinator
begin

text \<open>A registration succeeds only if the store took the branch.\<close>

lemma register_branch_stores:
  assumes ok: "ok (wld s)" and r: "register_branch conf rq gt s = Some (p, s')"
    and p: "brp_ResultCode p = ResultCodeSuccess"
  shows "\<exists>w g b. ok w \<and> fst (sm_AddBranchSession sm g b w) = None"
proof -
  obtain i s1 where 1: "next_id s = (i, s1)" by fastforce
  obtain b s2 where 2: "on_wld (new_bs (branch_of_request rq (gs_TransactionID (gt_session (wld s1) gt)) i)) s1 = (b, s2)"
    by fastforce
  have q2: "quiet gv ok (wld s) (wld s2)"
    using new_branch [OF ok] on_wldD [OF 2] next_id_wld [OF 1] by (metis snd_conv)
  from r 1 2 p obtain res s3 where 3: "(if bs_Type (bobj (wld s2) b) = AT
        then on_wld_opt (AcquireLock (decode conf) lm (Some b)) s2 else Some (True, s2)) = Some (res, s3)"
    and 4: "on_wld (AddBranchSession sm (gt_GlobalSession gt) b) s3 = (None, s')"
    by (auto simp: register_branch_def register_failed_def Let_def elim!: bind_eq_Some_pairE
        split: prod.splits if_splits option.splits)
  have "quiet gv ok (wld s2) (wld s3)"
    using 3 q2 by (auto simp: quiet_refl quiet_ok split: if_splits dest!: on_wld_optD intro: AcquireLock_quiet)
  then have "ok (wld s3)" by (rule quiet_ok)
  with on_wldD [OF 4] show ?thesis by (metis AddBranchSession_def fst_conv)
qed

lemma BranchRegister_stores:
  assumes ok: "ok (wld s)" and c: "tc_BranchRegister conf rq s = Some (r, s')"
    and r: "brp_ResultCode r = ResultCodeSuccess"
  shows "\<exists>w g b. ok w \<and> fst (sm_AddBranchSession sm g b w) = None"
proof -
  obtain t s1 where f: "on_wld (FindGlobalTransaction sm (brq_XID rq)) s = (t, s1)" by fastforce
  have q: "quiet gv ok (wld s) (wld s1)" by (rule find_transaction(1) [OF ok on_wldD [OF f]])
  from c f r obtain gt r1 where "register_branch conf rq gt s1 = Some (r1, s')" "r1 = r"
    by (auto simp: tc_BranchRegister_def on_wld_def [of "gl_TryLock _ _ _"] Let_def gt_session_def
        register_failed_def split: option.splits if_splits)
  with register_branch_stores [OF quiet_ok [OF q]] r show ?thesis by blast
qed

end

locale never_closes = coordinator_system sm gv ok lm conf reorder
  for sm :: "'d SessionManager" and gv :: "'d world \<Rightarrow> string \<Rightarrow> GlobalSession option"
    and ok :: "'d world \<Rightarrow> bool" and lm :: "'d StorageLockManager" and conf :: "'d tc_conf"
    and reorder :: "'d \<Rightarrow> 'd \<Rightarrow> bool" +
  assumes close_fails: "ok w \<Longrightarrow> InactiveGlobalSession sm g w = (e, w') \<Longrightarrow> e \<noteq> None \<and> gv w' = gv w"
begin

definition only_open :: "'d world \<Rightarrow> bool" where
  "only_open w \<longleftrightarrow> ok w \<and> (\<forall>x a. gv w x = Some a \<longrightarrow> gs_Status a = Begin \<and> gs_Active a)"

lemma only_open_quiet: "quiet gv ok w w' \<Longrightarrow> only_open w \<Longrightarrow> only_open w'"
  by (simp add: only_open_def quiet_def)

lemma only_open_obj: "only_open w \<Longrightarrow> synced gv w g \<Longrightarrow> gs_Status (gobj w g) = Begin \<and> gs_Active (gobj w g)"
  by (auto simp: only_open_def synced_def)

lemma close_open:
  assumes "only_open (wld s)" and "synced gv (wld s) g"
    and "(if gs_Active (gobj (wld s) g) then on_wld (InactiveGlobalSession sm g) s else (None, s)) = (e, s')"
  shows "e \<noteq> None" and "only_open (wld s')"
proof -
  have "ok (wld s)" using assms(1) by (simp add: only_open_def)
  moreover have i: "InactiveGlobalSession sm g (wld s) = (e, wld s')"
    using assms(3) only_open_obj [OF assms(1,2)] by (auto dest: on_wldD)
  ultimately show "e \<noteq> None" using close_fails by blast
  show "only_open (wld s')"
    using close_fails [OF \<open>ok (wld s)\<close> i] inactive [OF \<open>ok (wld s)\<close> assms(2) i] assms(1)
    by (auto simp: only_open_def modifies_def dest: near_ok)
qed

lemma Commit_open:
  assumes o: "only_open (wld s)" and c: "tc_Commit conf now x s = Some (r, s')"
  shows "only_open (wld s')"
    and "r = Inr (success Finished) \<or>
      (\<exists>err st. r = Inr (failed FailedLockGlobalTransaction (errText conf err) st))"
proof -
  have ok: "ok (wld s)" using o by (simp add: only_open_def)
  obtain t s1 where f: "on_wld (FindGlobalTransaction sm x) s = (t, s1)" by fastforce
  have o1: "only_open (wld s1)" by (rule only_open_quiet [OF find_transaction(1) [OF ok on_wldD [OF f]] o])
  have "only_open (wld s') \<and> (r = Inr (success Finished) \<or>
      (\<exists>err st. r = Inr (failed FailedLockGlobalTransaction (errText conf err) st)))"
  proof (cases t)
    case None
    with c f o1 show ?thesis by (simp add: tc_Commit_def)
  next
    case (Some gt)
    let ?g = "gt_GlobalSession gt"
    have g: "synced gv (wld s1) ?g" using find_transaction(2) [OF ok on_wldD [OF f] Some] by simp
    obtain e s2 where 1: "(if gs_Active (gobj (wld s1) ?g) then on_wld (InactiveGlobalSession sm ?g) s1 else (None, s1)) = (e, s2)"
      by fastforce
    note d = commit_decision_eq [of conf s1 gt e s2 x, unfolded conf_holder, OF conf_locker 1]
    note co = close_open [OF o1 g 1]
    then obtain err where e: "e = Some err" by blast
    with d have "commit_decision conf x gt s1 = Some ((False, Some err), s2)" by simp
    with c f Some have "r = Inr (failed FailedLockGlobalTransaction (errText conf err) (gs_Status (gt_session (wld s2) gt)))"
      "s' = s2" by (auto simp: tc_Commit_def)
    with co(2) show ?thesis by blast
  qed
  then show "only_open (wld s')" and "r = Inr (success Finished) \<or>
      (\<exists>err st. r = Inr (failed FailedLockGlobalTransaction (errText conf err) st))" by blast+
qed

lemma Rollback_open:
  assumes o: "only_open (wld s)" and c: "tc_Rollback conf now x s = Some (r, s')"
  shows "only_open (wld s')"
    and "r = Inr (success Finished) \<or>
      (\<exists>err st. r = Inr (failed FailedLockGlobalTransaction (errText conf err) st))"
proof -
  have ok: "ok (wld s)" using o by (simp add: only_open_def)
  obtain t s1 where f: "on_wld (FindGlobalTransaction sm x) s = (t, s1)" by fastforce
  have o1: "only_open (wld s1)" by (rule only_open_quiet [OF find_transaction(1) [OF ok on_wldD [OF f]] o])
  have "only_open (wld s') \<and> (r = Inr (success Finished) \<or>
      (\<exists>err st. r = Inr (failed FailedLockGlobalTransaction (errText conf err) st)))"
  proof (cases t)
    case None
    with c f o1 show ?thesis by (simp add: tc_Rollback_def)
  next
    case (Some gt)
    let ?g = "gt_GlobalSession gt"
    have g: "synced gv (wld s1) ?g" using find_transaction(2) [OF ok on_wldD [OF f] Some] by simp
    obtain e s2 where 1: "(if gs_Active (gobj (wld s1) ?g) then on_wld (InactiveGlobalSession sm ?g) s1 else (None, s1)) = (e, s2)"
      by fastforce
    note d = rollback_decision_eq [of conf s1 gt e s2 x, unfolded conf_holder, OF conf_locker 1]
    note co = close_open [OF o1 g 1]
    then obtain err where e: "e = Some err" by blast
    with d have "rollback_decision conf x gt s1 = ((False, Some err), s2)" by simp
    with c f Some have "r = Inr (failed FailedLockGlobalTransaction (errText conf err) (gs_Status (gt_session (wld s2) gt)))"
      "s' = s2" by (auto simp: tc_Rollback_def)
    with co(2) show ?thesis by blast
  qed
  then show "only_open (wld s')" and "r = Inr (success Finished) \<or>
      (\<exists>err st. r = Inr (failed FailedLockGlobalTransaction (errText conf err) st))" by blast+
qed

lemma timeoutCheck_open:
  assumes o: "only_open (wld s)"
  shows "only_open (wld (timeoutCheck conf now s))"
proof -
  have t: "only_open (wld (timeout_sessions conf now gs s))" if "only_open (wld s)" "\<forall>g \<in> set gs. synced gv (wld s) g" for gs s
    using that
  proof (induction gs)
    case (Cons g gs)
    show ?case
    proof (cases "isGlobalSessionTimeout now (gobj (wld s) g)")
      case False
      with Cons show ?thesis by simp
    next
      case True
      obtain e s2 where 1: "(if gs_Active (gobj (wld s) g) then on_wld (InactiveGlobalSession sm g) s else (None, s)) = (e, s2)"
        by fastforce
      from close_open [OF _ _ 1] Cons.prems
        timeout_sessions_eq [of conf, unfolded conf_holder, OF conf_locker True 1, of gs] show ?thesis by auto
    qed
  qed simp
  obtain gs s1 where f: "on_wld (FindGlobalSessions sm [Begin]) s = (gs, s1)" by fastforce
  have "ok (wld s)" using o by (simp add: only_open_def)
  from find_sessions [OF this on_wldD [OF f, unfolded FindGlobalSessions_def]] f t [of s1 gs] o show ?thesis
    by (auto simp: timeoutCheck_def handles_def intro: only_open_quiet)
qed

text \<open>A query for sessions in another status than \<open>Begin\<close> finds none.\<close>

lemma find_none:
  assumes o: "only_open (wld s)" and f: "on_wld (findGlobalTransactionsWithAddressingIdentities sm sts ads) s = (ts, s')"
    and "Begin \<notin> set sts"
  shows "ts = []" and "only_open (wld s')"
proof -
  have ok: "ok (wld s)" using o by (simp add: only_open_def)
  note q = find_transactions [OF ok on_wldD [OF f]]
  show o': "only_open (wld s')" by (rule only_open_quiet [OF q(1) o])
  have "gs_Status (gt_session (wld s') t) = Begin" if "t \<in> set ts" for t
    using only_open_obj [OF o'] q(2) that by (auto simp: handles_def gt_session_def)
  with q(3) assms(3) show "ts = []" by (metis list.set_intros(1) neq_Nil_conv)
qed

lemma passes_open:
  assumes "only_open (wld s)"
  shows "handleRetryRollingBack conf now s = Some s' \<Longrightarrow> only_open (wld s')"
    and "handleRetryCommitting conf now s = Some s' \<Longrightarrow> only_open (wld s')"
    and "handleAsyncCommitting conf now s = Some s' \<Longrightarrow> only_open (wld s')"
  using assms find_none [OF assms]
  by (auto simp: handleRetryRollingBack_def handleRetryCommitting_def handleAsyncCommitting_def Let_def
      FindRetryRollbackGlobalTransactions_def [abs_def] FindRetryCommittingGlobalTransactions_def [abs_def]
      FindAsyncCommittingGlobalTransactions_def [abs_def] retry_rollback_statuses_def
      split: if_splits prod.splits)

lemma step_open:
  assumes o: "only_open (wld s)" and st: "tc_step reorder conf s s'"
  shows "only_open (wld s')"
proof -
  have ok: "ok (wld s)" using o by (simp add: only_open_def)
  have qu: "only_open (wld s')" if "quiet gv ok (wld s) (wld s')" by (rule only_open_quiet [OF that o])
  from st show ?thesis
  proof cases
    case (begin_step now brq r)
    let ?x = "GenerateXID (gbq_Addressing brq) (fst (NextID (uuid s)))"
    note b = Begin_spec [OF ok begin_step refl refl]
    have "gs_Status a = Begin \<and> gs_Active a" if "gv (wld s') y = Some a" for y a
      using b(1,2) o that by (cases "y = ?x") (auto simp: near_def only_open_def)
    with near_ok [OF b(1)] show ?thesis by (simp add: only_open_def)
  next
    case (get_status x r)
    show ?thesis by (rule qu [OF GetStatus_spec(1) [OF ok get_status]])
  next
    case (branch_register rrq p)
    show ?thesis by (rule qu [OF BranchRegister_spec(1) [OF ok branch_register]])
  next
    case (branch_report trq q)
    show ?thesis by (rule qu [OF BranchReport_quiet [OF ok branch_report]])
  next
    case (lock_query lrq l)
    show ?thesis by (rule qu [OF LockQuery_quiet [OF ok lock_query]])
  next
    case (connect md st)
    from stream_uuid(1) [OF this] o show ?thesis by simp
  next
    case (disconnect st)
    from stream_uuid(2) [OF this] o show ?thesis by simp
  next
    case (driver_order d)
    then show ?thesis by (intro qu) (simp_all add: reorder_quiet [OF ok])
  next
    case (commit now x r)
    show ?thesis by (rule Commit_open(1) [OF o commit])
  next
    case (rollback now x r)
    show ?thesis by (rule Rollback_open(1) [OF o rollback])
  next
    case (timeout_check now)
    then show ?thesis using timeoutCheck_open [OF o] by simp
  next
    case (retry_rolling_back now)
    show ?thesis by (rule passes_open(1) [OF o retry_rolling_back])
  next
    case (retry_committing now)
    show ?thesis by (rule passes_open(2) [OF o retry_committing])
  next
    case (async_committing now)
    show ?thesis by (rule passes_open(3) [OF o async_committing])
  next
    case (event_goroutine ts t us)
    with o show ?thesis by simp
  next
    case (application_order apps)
    with o show ?thesis by simp
  qed
qed

lemma run_open:
  assumes "tc_run reorder conf s n s'" and "only_open (wld s)"
  shows "only_open (wld s')"
  using assms by (induction rule: tc_run.induct) (auto intro: step_open)

end

subsection \<open>PostgreSQL\<close>

lemma pgsql_never_closes:
  assumes db: "pgsql_database dv tab dok"
  shows "never_closes (sql_sm pgsql_dialect dv) (sql_gv tab dv) (sql_ok tab dok dv) (sql_lm pgsql_dialect dv)
    (sql_tc pgsql_dialect dv conf) (sql_reorder tab dok)"
proof (rule never_closes.intro)
  show "coordinator_system (sql_sm pgsql_dialect dv) (sql_gv tab dv) (sql_ok tab dok dv) (sql_lm pgsql_dialect dv)
    (sql_tc pgsql_dialect dv conf) (sql_reorder tab dok)"
    by (rule sql_store.system [OF pgsql_database_store [OF db]])
  show "never_closes_axioms (sql_sm pgsql_dialect dv) (sql_gv tab dv) (sql_ok tab dok dv)"
  proof
    fix w g e w' assume ok: "sql_ok tab dok dv w" and i: "InactiveGlobalSession (sql_sm pgsql_dialect dv) g w = (e, w')"
    let ?w = "set_gs g (\<lambda>s. s\<lparr>gs_Active := False\<rparr>) w"
    have d: "drv ?w = drv w" by (simp add: set_gs_def)
    have k: "dok (drv ?w)" using ok d by (simp add: sql_ok_def)
    have f: "pgsql_InactiveGlobalSession dv g ?w = (e, w')"
      using i by (simp add: InactiveGlobalSession_def pgsql_InactiveGlobalSession_def)
    from pgsql_InactiveGlobalSession_fails [OF db k f] show "e \<noteq> None \<and> sql_gv tab dv w' = sql_gv tab dv w"
      by (simp add: sql_gv_def fun_eq_iff d)
  qed
qed

interpretation pg_stuck: never_closes "sql_sm pgsql_dialect (default_driver pgsql_server)"
    "sql_gv db_tables (default_driver pgsql_server)"
    "sql_ok db_tables (db_wf (default_schema pgsql_dialect)) (default_driver pgsql_server)"
    "sql_lm pgsql_dialect (default_driver pgsql_server)"
    "sql_tc pgsql_dialect (default_driver pgsql_server) conf"
    "sql_reorder db_tables (db_wf (default_schema pgsql_dialect))" for conf
  by (rule pgsql_never_closes [OF pgsql_server_database])

text \<open>C27: over the PostgreSQL driver no session ever leaves the status \<open>Begin\<close> or is closed, however
  long the coordinator runs and whatever it is asked: the update that closes a session assigns
  the number 0 to a boolean column, which the server refuses.\<close>

theorem pgsql_sessions_stay_open:
  assumes "pgsql_database dv tab dok" and "sql_start tab dok dv s0"
    and "sql_run pgsql_dialect dv tab dok conf s0 n s" and "sql_gv tab dv (wld s) x = Some a"
  shows "gs_Status a = Begin \<and> gs_Active a"
proof -
  note n = pgsql_never_closes [OF assms(1)]
  have "never_closes.only_open (sql_gv tab dv) (sql_ok tab dok dv) (wld s0)"
    using sql_start_simps [OF assms(2)] by (simp add: never_closes.only_open_def [OF n])
  from never_closes.run_open [OF n assms(3) [unfolded sql_run_def] this] assms(4) show ?thesis
    by (simp add: never_closes.only_open_def [OF n])
qed

text \<open>Over the PostgreSQL driver no branch ever registers: the insertion of a branch lists twelve
  columns and eleven values, which the server refuses.\<close>

theorem pgsql_no_branch_registers:
  assumes db: "pgsql_database dv tab dok" and ok: "sql_ok tab dok dv (wld s)"
    and r: "tc_BranchRegister (sql_tc pgsql_dialect dv conf) rq s = Some (p, s')"
  shows "brp_ResultCode p = ResultCodeFailed"
proof (rule ccontr)
  assume "brp_ResultCode p \<noteq> ResultCodeFailed"
  then have "brp_ResultCode p = ResultCodeSuccess" by (cases "brp_ResultCode p") auto
  with coordinator.BranchRegister_stores [OF coordinator_system.axioms(1) [OF
      sql_store.system [OF pgsql_database_store [OF db], where conf = conf]] ok r]
  obtain w g b where w: "sql_ok tab dok dv w" "fst (sql_AddBranchSession pgsql_dialect dv g b w) = None" by auto
  then have "pgsql_AddBranchSession dv g b w = (None, snd (sql_AddBranchSession pgsql_dialect dv g b w))"
    by (simp add: pgsql_AddBranchSession_def prod_eq_iff)
  from pgsql_AddBranchSession_fails(1) [OF db _ this] w(1) show False by (simp add: sql_ok_def)
qed

end
