(* ===== verification/Sql_Runs.thy ===== *)
theory Sql_Runs
  imports Sql_Demo Pgsql_System
begin

text \<open>
  Runs of the coordinator over the SQL drivers, with the scenario of \<open>Sql_Demo\<close> as the concrete
  input, and what the drivers' lock operations do to the lock table.
\<close>

subsection \<open>The scenario as a run\<close>

abbreviation my_ok :: "db \<Rightarrow> bool" where
  "my_ok \<equiv> db_wf (default_schema mysql_dialect)"

definition my_run :: "db tc \<Rightarrow> nat \<Rightarrow> db tc \<Rightarrow> bool" where
  "my_run = sql_run mysql_dialect (default_driver mysql_server) db_tables my_ok my_conf"

lemma my_database: "sql_database mysql_dialect (default_driver mysql_server) db_tables my_ok"
  by (simp add: sql_database_def mysql_server_database)

lemma my_start_ok: "sql_start db_tables my_ok (default_driver mysql_server) my_start"
  using demo_wf by (simp add: sql_start_def my_start_def tc_start_def db_empty_def db_wf_def)

text \<open>Only a panicking lock request can keep a registration from returning.\<close>

lemma register_returns:
  assumes "brq_BranchType rq \<noteq> AT"
  shows "tc_BranchRegister conf rq s \<noteq> None"
proof -
  have "register_branch conf rq gt s1 \<noteq> None" for gt s1
    using assms by (auto simp: register_branch_def next_id_def on_wld_def new_bs_def branch_of_request_def Let_def
        split: prod.splits option.splits)
  then show ?thesis
    by (auto simp: tc_BranchRegister_def Let_def split: prod.splits option.splits)
qed

lemma my_registers: "tc_BranchRegister conf my_register s \<noteq> None"
  by (rule register_returns) (simp add: my_register_def demo_register_def)

lemma my_commits: "\<not> Option.is_none (tc_Commit my_conf 2000 ''tm:1'' my_registered)"
  by code_simp

lemma my_begun_run: "my_run my_start 1 my_begun"
proof -
  obtain r s where "tc_Begin my_conf 1000 demo_begin my_start = (r, s)" by fastforce
  then show ?thesis
    unfolding my_run_def sql_run_def my_begun_def One_nat_def my_conf_tc
    by (intro tc_run.run_Suc [OF tc_run.run_0]) (auto intro: tc_step.begin_step)
qed

lemma my_committed_run: "my_run my_begun 2 my_committed"
proof -
  obtain p1 s1 where 1: "tc_BranchRegister my_conf my_register my_begun = Some (p1, s1)"
    using my_registers [of my_conf my_begun] by auto
  then have s1: "my_registered = s1" by (simp add: my_registered_def)
  obtain p2 s2 where 2: "tc_Commit my_conf 2000 ''tm:1'' s1 = Some (p2, s2)"
    using my_commits s1 by (auto simp: Option.is_none_def)
  show ?thesis
    using tc_run_2 [OF tc_step.branch_register [OF 1] tc_step.commit [OF 2]] 2 s1
    by (simp add: my_run_def sql_run_def my_conf_tc my_committed_def)
qed

lemma my_whole_run: "my_run my_start 3 my_committed"
  using tc_run_trans [OF my_begun_run [unfolded my_run_def sql_run_def] my_committed_run [unfolded my_run_def sql_run_def]]
  by (simp add: my_run_def sql_run_def numeral_3_eq_3)

lemma my_session_stored:
  assumes "my_session s = Some (st, act)"
  obtains a where "sql_gv db_tables (default_driver mysql_server) (wld s) ''tm:1'' = Some a" "gs_Status a = st" "gs_Active a = act"
  using assms by (auto simp: my_session_def sql_gv_def)

subsection \<open>Properties of runs\<close>

text \<open>C23: over either SQL driver, on a database that may fail any statement before or after its
  effect, the session stored under an XID keeps its identity, follows the status graph and leaves
  a status for another only once closed, along any run from an empty database.\<close>

theorem sql_session_history:
  assumes "sql_database dl dv tab dok" and "sql_start tab dok dv s0"
    and "sql_run dl dv tab dok conf s0 n s" and "sql_run dl dv tab dok conf s m s'"
    and "n + m \<le> 2 ^ 53" and "sql_gv tab dv (wld s) x = Some a" and "sql_gv tab dv (wld s') x = Some b"
  shows "session_le a b"
  using sql_history(1) [OF assms(1-6)] assms(7) by simp

theorem sql_session_history_witness:
  "session_le (the (sql_gv db_tables (default_driver mysql_server) (wld my_begun) ''tm:1''))
     (the (sql_gv db_tables (default_driver mysql_server) (wld my_committed) ''tm:1''))"
proof -
  obtain a where a: "sql_gv db_tables (default_driver mysql_server) (wld my_begun) ''tm:1'' = Some a"
    using my_session_stored [OF my_begun_session] by blast
  obtain b where b: "sql_gv db_tables (default_driver mysql_server) (wld my_committed) ''tm:1'' = Some b"
    using my_session_stored [OF my_committed_session] by blast
  from sql_session_history [OF my_database my_start_ok my_begun_run [unfolded my_run_def]
      my_committed_run [unfolded my_run_def] _ a b] a b show ?thesis by simp
qed



subsection \<open>What is written is what is read\<close>

text \<open>C28: over either SQL driver, a session that was added without an error is read back field by
  field: whatever \<open>FindGlobalSession\<close> returns for its XID equals the object that was written.\<close>

theorem sql_session_roundtrip:
  assumes db: "sql_database dl dv tab dok" and ok: "sql_ok tab dok dv w" and g: "g < gtop w"
    and a: "sql_AddGlobalSession dl dv g w = (None, w1)"
    and f: "sql_FindGlobalSession dl dv (gs_XID (gobj w g)) w1 = (Some h, w2)"
  shows "gobj w2 h = gobj w g"
proof -
  obtain fits gdef bdef ldef where
    st: "sql_store (dv_engine dv) tab dok (driver_schema dl dv) fits dl dv gdef bdef ldef"
    using sql_database_store [OF db] by blast
  note m = sql_store.add_session_law [OF st ok a]
  then have ok1: "sql_ok tab dok dv w1" by (auto simp: modifies_def dest: near_ok)
  from sql_store.find_session_law [OF st ok1 f] m show ?thesis
    by (auto simp: modifies_def synced_def quiet_def)
qed

text \<open>Over MySQL, a branch that was added without an error stands in the branch table under its
  ID, and the row scans back to the session that was written, its type, status, application data
  and commit mode included.\<close>

theorem mysql_branch_roundtrip:
  assumes db: "mysql_database dv tab dok" and d: "dok (drv w)"
    and a: "mysql_AddBranchSession dv g b w = (None, w')"
  shows "map_option scan_branch (tab (drv w') (dv_branchTable dv) (VInt (sint (bs_BranchID (bobj w b))))) =
    Some (bobj w b)"
proof -
  let ?s = "bobj w b"
  let ?args = "[VStr (bs_Addressing ?s), VStr (bs_XID ?s), VInt (sint (bs_BranchID ?s)),
            VInt (sint (bs_TransactionID ?s)), VStr (bs_ResourceID ?s), VStr (bs_LockKey ?s),
            VInt (int (BranchType_num (bs_Type ?s))), VInt (int (BranchStatus_num (bs_Status ?s))),
            bytes_val (bs_ApplicationData ?s), VBool (bs_AsyncCommit ?s)]"
  have eng: "sql_engine (dv_engine dv) tab dok (driver_schema mysql_dialect dv) mysql_fits"
    and bt: "table_name (dv_branchTable dv)"
    and sc: "driver_schema mysql_dialect dv (dv_branchTable dv) = Some (table_of mysql_CreateBranchTable)"
    using db by (auto simp: mysql_database_def database_def table_names_def driver_schema_def table_schema_def)
  note t = mysql_InsertBranchTransaction_parse [OF bt]
  obtain d' where e: "eng_Exec (dv_engine dv) (fill mysql_InsertBranchTransaction [dv_branchTable dv]) ?args (drv w) = (None, d')"
    and w': "w' = w\<lparr>drv := d'\<rparr>"
    using a by (auto simp: mysql_AddBranchSession_def sql_AddBranchSession_def on_db_def Let_def split: prod.splits)
  from sql_engine.exec_stmt(2) [OF eng d e t parse_not_create [OF t]] obtain now where
    r: "run_write (driver_schema mysql_dialect dv) mysql_fits now
      (Insert (dv_branchTable dv) (branch_columns @ stamps) [map Arg [0..<10] @ [Now, Now]]) ?args (tab (drv w)) = Some (tab d')"
    by auto
  have i: "insert_rows mysql_fits (table_of mysql_CreateBranchTable)
      [zip (branch_columns @ stamps) (?args @ [VTime now, VTime now])] (tab (drv w) (dv_branchTable dv)) =
      Some (tab d' (dv_branchTable dv))"
    by (rule run_insert1 [OF r sc _ eval_args_stamps]) (simp_all add: column_lists)
  from insert_rows_all [OF i, of "zip (branch_columns @ stamps) (?args @ [VTime now, VTime now])"]
  have "tab d' (dv_branchTable dv) (VInt (sint (bs_BranchID ?s))) =
      Some (map_of (zip (branch_columns @ stamps) (?args @ [VTime now, VTime now])))"
    by (simp add: column_lists table_texts)
  moreover have "scan_branch (map_of (zip (branch_columns @ stamps) (?args @ [VTime now, VTime now]))) = ?s"
    by (cases ?s) (simp add: scan_branch_def column_lists)
  ultimately show ?thesis by (simp add: w')
qed

subsection \<open>Row locks\<close>

text \<open>The lock table after \<open>x\<close> was granted the rows of \<open>K\<close>.\<close>

definition grant :: "'o \<Rightarrow> string set \<Rightarrow> (string \<Rightarrow> 'o option) \<Rightarrow> string \<Rightarrow> 'o option" where
  "grant x K h = (\<lambda>k. if k \<in> K then Some x else h k)"

text \<open>C25: over either SQL driver a lock request of one transaction is atomic, whatever the database
  does: the lock table is unchanged or grants the transaction every requested row, no row that
  anybody held changes hands, and an answer of success means that all rows are granted.\<close>

theorem sql_acquire_atomic:
  assumes db: "sql_database dl dv tab dok" and ok: "sql_ok tab dok dv w"
    and o: "one_owner rl_XID x ls" and a: "sql_AcquireLock dl dv (Some ls) skip w = Some (r, w')"
  shows "(sql_held tab dv w' = sql_held tab dv w \<or>
      sql_held tab dv w' = grant x (row_keys ls) (sql_held tab dv w)) \<and>
    (\<forall>k. sql_held tab dv w k \<noteq> None \<longrightarrow> sql_held tab dv w' k = sql_held tab dv w k) \<and>
    (r \<longrightarrow> sql_held tab dv w' = grant x (row_keys ls) (sql_held tab dv w))"
proof -
  let ?h = "sql_held tab dv w" and ?h' = "sql_held tab dv w'"
  obtain fits gdef bdef ldef where
    st: "sql_store (dv_engine dv) tab dok (driver_schema dl dv) fits dl dv gdef bdef ldef"
    using sql_database_store [OF db] by blast
  have "ls \<noteq> []" using a by (rule sql_store.acquire_nonempty [OF st])
  from sql_store.acquire_spec [OF st ok this, of skip] a o
  have keep: "\<forall>k. ?h k \<noteq> None \<longrightarrow> ?h' k = ?h k" and out: "\<forall>k. k \<notin> row_keys ls \<longrightarrow> ?h' k = ?h k"
    and all: "r \<or> ?h' \<noteq> ?h \<longrightarrow> (\<forall>k \<in> row_keys ls. ?h' k = Some x)" by auto
  have g: "?h' = grant x (row_keys ls) ?h" if "\<forall>k \<in> row_keys ls. ?h' k = Some x"
    using out that by (auto simp: grant_def fun_eq_iff)
  with all keep show ?thesis by blast
qed

definition my_lock :: RowLock where
  "my_lock = mkRowLock ''db'' ''tm:1'' 1 2 ''a'' ''1''"

theorem sql_acquire_atomic_witness:
  "sql_held db_tables (default_driver mysql_server) (snd (the (sql_AcquireLock mysql_dialect
     (default_driver mysql_server) (Some [my_lock]) False (wld my_start)))) ''db^^^a^^^1'' \<in> {None, Some ''tm:1''}"
proof -
  have ok: "sql_ok db_tables my_ok (default_driver mysql_server) (wld my_start)"
    using sql_start_simps(1) [OF my_start_ok] .
  from my.acquire_spec [OF this, of "[my_lock]" False] obtain r w' where
    a: "sql_AcquireLock mysql_dialect (default_driver mysql_server) (Some [my_lock]) False (wld my_start) = Some (r, w')"
    by auto
  have o: "one_owner rl_XID ''tm:1'' [my_lock]" by (simp add: my_lock_def mkRowLock_def)
  have "sql_held db_tables (default_driver mysql_server) (wld my_start) k = None" for k
    using my_start_ok by (simp add: sql_start_def sql_held_def)
  with sql_acquire_atomic [OF my_database ok o a] a show ?thesis by (auto simp: grant_def)
qed

definition my_world :: "db world" where
  "my_world = snd (new_gs (zero_gs\<lparr>gs_XID := ''tm:1'', gs_Status := Begin, gs_Timeout := 60000\<rparr>) (wld my_start))"

lemma my_world_ok: "sql_ok db_tables my_ok (default_driver mysql_server) my_world"
  using sql_start_simps(1) [OF my_start_ok] by (simp add: my_world_def new_gs_def sql_ok_def)

theorem sql_session_roundtrip_witness:
  "gobj (snd (my_FindGlobalSession ''tm:1'' (snd (my_AddGlobalSession 0 my_world)))) 1 = gobj my_world 0"
proof -
  have 1: "fst (my_AddGlobalSession 0 my_world) = None" by code_simp
  have 2: "fst (my_FindGlobalSession ''tm:1'' (snd (my_AddGlobalSession 0 my_world))) = Some 1" by code_simp
  have x: "gs_XID (gobj my_world 0) = ''tm:1''" "0 < gtop my_world"
    by (simp_all add: my_world_def my_start_def tc_start_def new_gs_def)
  show ?thesis
    by (rule sql_session_roundtrip [OF my_database my_world_ok x(2), of "snd (my_AddGlobalSession 0 my_world)"])
      (use 1 2 x in \<open>simp_all add: prod_eq_iff my_AddGlobalSession_def my_FindGlobalSession_def\<close>)
qed

theorem mysql_branch_roundtrip_witness:
  "map_option scan_branch (db_tables (drv (snd (my_AddBranchSession 0 0 my_world))) ''branch_table'' (VInt 0)) =
     Some (bobj my_world 0)"
proof -
  have 1: "fst (my_AddBranchSession 0 0 my_world) = None" by code_simp
  have b: "bs_BranchID (bobj my_world 0) = 0"
    by (simp add: my_world_def my_start_def tc_start_def new_gs_def zero_bs_def)
  have "mysql_AddBranchSession (default_driver mysql_server) 0 0 my_world = (None, snd (my_AddBranchSession 0 0 my_world))"
    using 1 by (simp add: prod_eq_iff my_AddBranchSession_def mysql_AddBranchSession_def)
  from mysql_branch_roundtrip [OF mysql_server_database _ this] my_world_ok b show ?thesis
    by (simp add: sql_ok_def)
qed

text \<open>An insertion of rows whose keys are not distinct has no effect.\<close>

lemma insert_rows_distinct:
  "insert_rows fits td rs T = Some T' \<Longrightarrow> distinct (map (\<lambda>r. map_of r (td_key td)) rs)"
proof (induction rs arbitrary: T)
  case (Cons x xs)
  then obtain k where k: "map_of x (td_key td) = Some k" "insert_rows fits td xs (T(k := Some (map_of x))) = Some T'"
    by (auto split: if_splits option.splits)
  have "map_of y (td_key td) \<noteq> Some k" if "y \<in> set xs" for y
    using insert_rows_all [OF k(2) that] by (auto split: if_splits)
  with k(1) have "map_of x (td_key td) \<notin> set (map (\<lambda>r. map_of r (td_key td)) xs)" by (metis imageE set_map)
  with Cons.IH [OF k(2)] show ?case by simp
qed simp

context sql_store
begin

lemma insert_duplicates:
  assumes w: "ok w" and ne: "ls \<noteq> []" and dup: "\<not> distinct (map rl_RowKey ls)"
    and i: "insert_locks dl dv ls w = Some (r, w')"
  shows "\<not> r \<and> held w' = held w"
proof -
  let ?sql = "fill (di_InsertRowLock dl) [lt, butlast (concat (map (di_lock_values dl) [0..<length ls]))]"
  let ?st = "Insert lt (lock_columns @ stamps) (map (\<lambda>i. tuple_exps (7 * i)) [0..<length ls])"
  have n: "length ls > 0" using ne by simp
  note p = insert_locks_text [OF names(3) n]
  obtain e w2 where e: "on_db (eng_Exec eng ?sql (lock_args ls)) w = (e, w2)" by fastforce
  then obtain d where d: "eng_Exec eng ?sql (lock_args ls) (drv w) = (e, d)" "w2 = w\<lparr>drv := d\<rparr>"
    by (auto simp: on_db_simps)
  have "insert_locks dl dv ls w = Some (e = None, w2)"
    using e lock_values_text [OF n] dv_eng by (simp add: insert_locks_def Let_def)
  with i d(2) have r: "r = (e = None)" "w' = w\<lparr>drv := d\<rparr>" by simp_all
  have no: "run_write schema fits now ?st (lock_args ls) (tab (drv w)) \<noteq> Some (tab d)" for now
  proof
    assume "run_write schema fits now ?st (lock_args ls) (tab (drv w)) = Some (tab d)"
    from insert_rows_distinct [OF run_insert [OF this tables(3) build_lock_rows]] dup show False
      by (simp add: comp_def keys distinct_map inj_on_def)
  qed
  have dok_d: "wf (drv w)" using w by (simp add: sql_ok_def)
  from exec_stmt(2) [OF dok_d d(1) p parse_not_create [OF p]] no have "e \<noteq> None" "tab d = tab (drv w)" by auto
  with r show ?thesis by (simp add: sql_held_def fun_eq_iff)
qed

end

text \<open>The path that skips the check for existing locks inserts the request as it is, duplicates
  included: a request that names a row twice is always refused on it, though nobody else may hold
  any of the rows.\<close>

theorem skipped_check_refuses_duplicates:
  assumes db: "sql_database dl dv tab dok" and ok: "sql_ok tab dok dv w"
    and dup: "\<not> distinct (map rl_RowKey ls)" and a: "sql_AcquireLock dl dv (Some ls) True w = Some (r, w')"
  shows "\<not> r \<and> sql_held tab dv w' = sql_held tab dv w"
proof -
  obtain fits gdef bdef ldef where
    st: "sql_store (dv_engine dv) tab dok (driver_schema dl dv) fits dl dv gdef bdef ldef"
    using sql_database_store [OF db] by blast
  from dup have ne: "ls \<noteq> []" by auto
  obtain locks ks where dk: "distinctByKey [] ls = (locks, ks)" by fastforce
  obtain ex w1 where fl: "find_locks dl dv ks w = (ex, w1)" by fastforce
  note f = sql_store.find_locks_spec [OF st ok fl]
  have "insert_locks dl dv ls w1 = Some (r, w')" using a dk fl by (simp add: sql_AcquireLock_def)
  from sql_store.insert_duplicates [OF st quiet_ok [OF f(1)] ne dup this] f(2) show ?thesis by simp
qed

theorem skipped_check_refuses_duplicates_witness:
  "map_option fst (sql_AcquireLock mysql_dialect (default_driver mysql_server) (Some [my_lock, my_lock]) True (wld my_start)) =
     Some False"
proof -
  have ok: "sql_ok db_tables my_ok (default_driver mysql_server) (wld my_start)"
    using sql_start_simps(1) [OF my_start_ok] .
  from my.acquire_spec [OF this, of "[my_lock, my_lock]" True] obtain r w' where
    a: "sql_AcquireLock mysql_dialect (default_driver mysql_server) (Some [my_lock, my_lock]) True (wld my_start) = Some (r, w')"
    by auto
  from skipped_check_refuses_duplicates [OF my_database ok _ a] a show ?thesis by simp
qed

text \<open>The lock query of either SQL driver takes the owner from the first row lock without a check: on
  a key that names no row, such as one without a colon, the handler panics.\<close>

theorem sql_lock_query_panics:
  "tc_LockQuery (sql_tc dl dv conf) rq s = None \<longleftrightarrow>
   elems (CollectRowLocks (glq_LockKey rq) (glq_ResourceID rq) (glq_XID rq)) = []"
  by (auto simp: tc_LockQuery_def on_wld_opt_def IsLockable_def sql_IsLockable_def Let_def
      split: list.splits prod.splits)

text \<open>\<open>distinctByKey\<close> returns, in order, exactly the locks whose row key no earlier lock of the
  request has, and their keys.\<close>

theorem distinctByKey_first_of_each_key:
  "distinctByKey [] ls =
    (nths ls {i. rl_RowKey (ls ! i) \<notin> row_keys (take i ls)},
     map rl_RowKey (nths ls {i. rl_RowKey (ls ! i) \<notin> row_keys (take i ls)}))"
proof -
  have "distinctByKey seen ls =
    (nths ls {i. rl_RowKey (ls ! i) \<notin> set seen \<union> row_keys (take i ls)},
     map rl_RowKey (nths ls {i. rl_RowKey (ls ! i) \<notin> set seen \<union> row_keys (take i ls)}))" for seen
  proof (induction ls arbitrary: seen)
    case (Cons l ls)
    let ?A = "\<lambda>ls seen. {i. rl_RowKey (ls ! i) \<notin> set seen \<union> row_keys (take i ls)}"
    have tl: "{j. Suc j \<in> ?A (l # ls) seen} = ?A ls (rl_RowKey l # seen)" by auto
    have hd: "0 \<in> ?A (l # ls) seen \<longleftrightarrow> rl_RowKey l \<notin> set seen" by simp
    show ?case
    proof (cases "rl_RowKey l \<in> set seen")
      case True
      then have "?A ls (rl_RowKey l # seen) = ?A ls seen" by auto
      with True tl hd Cons [of seen] show ?thesis by (simp only: nths_Cons distinctByKey.simps) simp
    next
      case False
      with tl hd Cons [of "rl_RowKey l # seen"] show ?thesis by (simp only: nths_Cons distinctByKey.simps) simp
    qed
  qed simp
  from this [of "[]"] show ?thesis by simp
qed

subsection \<open>A session over PostgreSQL\<close>

abbreviation pg_ok :: "db \<Rightarrow> bool" where
  "pg_ok \<equiv> db_wf (default_schema pgsql_dialect)"

definition pg_tc :: "db tc_conf" where
  "pg_tc = sql_tc pgsql_dialect (default_driver pgsql_server) my_conf"

definition pg_begun :: "db tc" where
  "pg_begun = snd (tc_Begin pg_tc 1000 demo_begin my_start)"

lemma pg_database: "sql_database pgsql_dialect (default_driver pgsql_server) db_tables pg_ok"
  by (simp add: sql_database_def pgsql_server_database)

lemma pg_start_ok: "sql_start db_tables pg_ok (default_driver pgsql_server) my_start"
  using demo_wf by (simp add: sql_start_def my_start_def tc_start_def db_empty_def db_wf_def)

lemma pgsql_insert_session_ok:
  "run_write (default_schema pgsql_dialect) pgsql_fits now
     (Insert ''global_table'' (session_columns @ stamps) [map Arg [0..<8] @ [Now, Now]])
     [VStr a, VStr x, VInt i, VStr n, VInt t, VInt bt, VInt st, VBool act] T \<noteq> None \<longleftrightarrow>
   T ''global_table'' (VStr x) = None"
  by (simp add: typing)

lemma pgsql_AddGlobalSession_ok:
  assumes "db_faults (drv w) = []"
  shows "fst (sql_AddGlobalSession pgsql_dialect (default_driver pgsql_server) g w) = None \<longleftrightarrow>
    sql_gv db_tables (default_driver pgsql_server) w (gs_XID (gobj w g)) = None"
proof -
  note t = pgsql_InsertGlobalTransaction_parse [OF default_table_names(1)]
  have run: "fst (on_db (eng_Exec pgsql_server (fill pgsql_InsertGlobalTransaction [''global_table'']) args) w) = None \<longleftrightarrow>
      run_write (default_schema pgsql_dialect) pgsql_fits (Suc (db_clock (drv w)))
        (Insert ''global_table'' (session_columns @ stamps) [map Arg [0..<8] @ [Now, Now]]) args (db_tables (drv w)) \<noteq> None" for args
    unfolding pgsql_server_def exec_text [OF t] by (rule on_db_run [OF assms])
  show ?thesis
    by (simp only: sql_AddGlobalSession_def Let_def default_driver_simps pgsql_dialect_simps run
        pgsql_insert_session_ok sql_gv_def option.map_disc_iff)
qed

lemma pg_begun_run: "sql_run pgsql_dialect (default_driver pgsql_server) db_tables pg_ok my_conf my_start 1 pg_begun"
proof -
  obtain r s where "tc_Begin pg_tc 1000 demo_begin my_start = (r, s)" by fastforce
  then show ?thesis
    unfolding sql_run_def pg_begun_def One_nat_def pg_tc_def
    by (intro tc_run.run_Suc [OF tc_run.run_0]) (auto intro: tc_step.begin_step)
qed

lemma demo_xid: "GenerateXID (gbq_Addressing demo_begin) (fst (NextID (uuid my_start))) = ''tm:1''"
  by code_simp

lemma pg_begun_session: "sql_gv db_tables (default_driver pgsql_server) (wld pg_begun) ''tm:1'' \<noteq> None"
proof -
  obtain r s where b: "tc_Begin pg_tc 1000 demo_begin my_start = (r, s)" by fastforce
  note sys = coordinator_system.axioms(1) [OF sql_store.system [OF pgsql_database_store [OF pgsql_server_database],
      where conf = my_conf]]
  have "\<exists>p. r = Inr p \<and> gbp_ResultCode p = ResultCodeSuccess"
  proof -
    obtain w g where g: "on_wld (new_gs \<lparr>gs_Addressing = gbq_Addressing demo_begin,
        gs_XID = GenerateXID (gbq_Addressing demo_begin) (fst (NextID (uuid my_start))),
        gs_TransactionID = fst (NextID (uuid my_start)), gs_TransactionName = gbq_TransactionName demo_begin,
        gs_Timeout = gbq_Timeout demo_begin, gs_BeginTime = 0, gs_Status = UnknownGlobalStatus, gs_Active = False\<rparr>)
        (snd (next_id my_start)) = (g, w)" by fastforce
    let ?w = "gt_Begin 1000 \<lparr>gt_GlobalSession = g, gt_BranchSessions = []\<rparr> (wld w)"
    have "drv ?w = db_empty []"
      using g by (auto simp: on_wld_def new_gs_def next_id_def my_start_def tc_start_def gt_Begin_def set_gs_def
          split: prod.splits)
    then have "fst (sql_AddGlobalSession pgsql_dialect (default_driver pgsql_server) g ?w) = None"
      using pgsql_AddGlobalSession_ok [of ?w g] by (simp add: db_empty_def sql_gv_def)
    then show ?thesis
      using b g by (auto simp: tc_Begin_def next_id_def Let_def pg_tc_def on_wld_def [of "AddGlobalSession _ _"]
          AddGlobalSession_def split: prod.splits option.splits)
  qed
  with coordinator.Begin_spec(2) [OF sys _ b [unfolded pg_tc_def] refl refl] sql_start_simps(1) [OF pg_start_ok] b
  show ?thesis by (auto simp: demo_xid pg_begun_def)
qed

theorem pgsql_sessions_stay_open_witness:
  "map_option gs_Status (sql_gv db_tables (default_driver pgsql_server) (wld pg_begun) ''tm:1'') = Some Begin"
proof -
  obtain a where a: "sql_gv db_tables (default_driver pgsql_server) (wld pg_begun) ''tm:1'' = Some a"
    using pg_begun_session by auto
  from pgsql_sessions_stay_open [OF pgsql_server_database pg_start_ok pg_begun_run a] a show ?thesis by simp
qed

theorem pgsql_no_branch_registers_witness:
  "map_option (\<lambda>p. brp_ResultCode (fst p)) (tc_BranchRegister pg_tc my_register pg_begun) = Some ResultCodeFailed"
proof -
  obtain p s where ps: "tc_BranchRegister pg_tc my_register pg_begun = Some (p, s)"
    using my_registers [of pg_tc pg_begun] by auto
  from pgsql_no_branch_registers [OF pgsql_server_database sql_run_ok [OF pg_database pg_start_ok pg_begun_run]
      ps [unfolded pg_tc_def]] ps show ?thesis by simp
qed

end
