(* ===== verification/Sql_Start.thy ===== *)
theory Sql_Start
  imports Sql_Typing
begin

text \<open>
  Opening a driver from the parameters of the configuration: the defaults, and the creation of
  the three tables, which MySQL accepts and PostgreSQL refuses.
\<close>

lemma default_parameters:
  "sql_FromParameters [''dsn'' \<mapsto> PString dsn] =
     \<lparr>dp_DSN = dsn, dp_GlobalTable = ''global_table'', dp_BranchTable = ''branch_table'',
      dp_LockTable = ''lock_table'', dp_QueryLimit = 100, dp_MaxOpenConnections = 100,
      dp_MaxIdleConnections = 20, dp_MaxLifeTime = of_nat (4 * Hour)\<rparr>"
  by (simp add: sql_FromParameters_def string_param_def int_param_def duration_param_def)

lemma create_names:
  "map_option (\<lambda>p. known_types mysql_types (snd p))
     (parse_create (fill mysql_CreateGlobalTable [''global_table'', ''global_table'', ''global_table''])) = Some True"
  "map_option (\<lambda>p. known_types mysql_types (snd p))
     (parse_create (fill mysql_CreateBranchTable [''branch_table'', ''branch_table''])) = Some True"
  "map_option (\<lambda>p. known_types mysql_types (snd p))
     (parse_create (fill mysql_CreateLockTable [''lock_table'', ''lock_table''])) = Some True"
  by code_simp+

lemma pgsql_branch_types:
  "map_option (\<lambda>p. known_types pgsql_types (snd p))
     (parse_create (fill pgsql_CreateBranchTable [''branch_table'', ''branch_table''])) = Some False"
  by code_simp

lemma exec_create:
  assumes "map_option (\<lambda>p. known_types tys (snd p)) (parse_create sql) = Some b"
  shows "fst (eng_Exec (db_engine tys schema fits) sql args d) =
      (if fst (tick d) then Some lost else if b then None else Some rejected)"
    and "snd (eng_Exec (db_engine tys schema fits) sql args d) = snd (tick d)"
  using assms by (auto simp: db_engine_def split_beta)

lemma tick_working: "db_faults d = [] \<Longrightarrow> \<not> fst (tick d) \<and> db_faults (snd (tick d)) = []"
  by (simp add: tick_def)

text \<open>With a data source and no other parameter, the MySQL driver opens on a server that works
  with the default table names and query limit, and the PostgreSQL driver opens on no server that
  knows PostgreSQL's column types: its branch table has a column of type \<open>tinyint\<close>.\<close>

theorem drivers_open:
  assumes "dsn \<noteq> []" and "db_faults d = []"
  shows "fst (mysql_FromParameters (\<lambda>name ps. Inr mysql_server) [''dsn'' \<mapsto> PString dsn] d) =
           Inr (default_driver mysql_server) \<and>
         fst (pgsql_FromParameters (\<lambda>name ps. Inr pgsql_server) [''dsn'' \<mapsto> PString dsn] d') \<in>
           {Inl lost, Inl rejected}"
proof -
  note my = exec_create [OF create_names(1), of "default_schema mysql_dialect" mysql_fits "[]", folded mysql_server_def]
    exec_create [OF create_names(2), of "default_schema mysql_dialect" mysql_fits "[]", folded mysql_server_def]
    exec_create [OF create_names(3), of "default_schema mysql_dialect" mysql_fits "[]", folded mysql_server_def]
  note pg = exec_create [OF pgsql_branch_types, of "default_schema pgsql_dialect" pgsql_fits "[]", folded pgsql_server_def]
  have m: "fst (mysql_FromParameters (\<lambda>name ps. Inr mysql_server) [''dsn'' \<mapsto> PString dsn] d) =
           Inr (default_driver mysql_server)"
    using assms my tick_working
    by (simp add: mysql_FromParameters_def mysql_New_def sql_New_def default_parameters Let_def split_beta default_driver_def)
  have errs: "fst (eng_Exec pgsql_server sql args e) \<in> {None, Some lost, Some rejected}" for sql args e
    by (auto simp: pgsql_server_def db_engine_def split_beta split: option.splits)
  have p: "fst (pgsql_FromParameters (\<lambda>name ps. Inr pgsql_server) [''dsn'' \<mapsto> PString dsn] d') \<in>
           {Inl lost, Inl rejected}"
    using assms(1) pg errs [of "fill pgsql_CreateGlobalTable [''global_table'', ''global_table'', ''global_table'']" "[]" d']
    by (auto simp: pgsql_FromParameters_def pgsql_New_def sql_New_def default_parameters Let_def split_beta split: option.splits if_splits)
  from m p show ?thesis by blast
qed

theorem drivers_open_witness:
  "fst (mysql_FromParameters (\<lambda>name ps. Inr mysql_server) [''dsn'' \<mapsto> PString ''root@/seata''] (db_empty [])) =
     Inr (default_driver mysql_server) \<and>
   fst (pgsql_FromParameters (\<lambda>name ps. Inr pgsql_server) [''dsn'' \<mapsto> PString ''root@/seata''] (db_empty [])) \<in>
     {Inl lost, Inl rejected}"
  by (rule drivers_open) (simp_all add: db_empty_def)

end
