(* ===== verification/Tm_Client.thy ===== *)
theory Tm_Client
  imports Root_Context
begin

text \<open>
  \<open>pkg/client/tm/transaction_manager.go\<close> and \<open>global_transaction.go\<close>: the calls of the client to
  the coordinator, and a global transaction as the application sees it. The gRPC client is a
  record of functions on a state \<open>'s\<close>, the world behind the connection. The context that is
  passed along with a call carries deadlines and metadata only and is left out.
\<close>

subsection \<open>The transaction manager\<close>

record 's tm_rpc =
  rpc_Begin :: "GlobalBeginRequest \<Rightarrow> 's \<Rightarrow> (goerror + GlobalBeginResponse) \<times> 's"
  rpc_Commit :: "string \<Rightarrow> 's \<Rightarrow> (goerror + GlobalResponse) \<times> 's"
  rpc_Rollback :: "string \<Rightarrow> 's \<Rightarrow> (goerror + GlobalResponse) \<times> 's"
  rpc_GetStatus :: "string \<Rightarrow> 's \<Rightarrow> (goerror + GlobalResponse) \<times> 's"
  rpc_GlobalReport :: "string \<Rightarrow> GlobalStatus \<Rightarrow> 's \<Rightarrow> (goerror + GlobalResponse) \<times> 's"

record 's TransactionManager =
  tm_addressing :: string
  tm_rpcClient :: "'s tm_rpc"

definition tm_Begin :: "'s TransactionManager \<Rightarrow> string \<Rightarrow> int32 \<Rightarrow> 's \<Rightarrow> (clienterror + string) \<times> 's" where
  "tm_Begin manager name timeout s =
     (case rpc_Begin (tm_rpcClient manager)
             \<lparr>gbq_Addressing = tm_addressing manager, gbq_Timeout = timeout, gbq_TransactionName = name\<rparr> s of
        (Inl err, s1) \<Rightarrow> (Inl (RpcError err), s1)
      | (Inr resp, s1) \<Rightarrow>
          (if gbp_ResultCode resp = ResultCodeSuccess then (Inr (gbp_XID resp), s1)
           else (Inl (TransactionException (gbp_ExceptionCode resp) (gbp_Message resp) None), s1)))"

text \<open>What the other four calls do with the response.\<close>

definition status_of :: "(goerror + GlobalResponse) \<times> 's \<Rightarrow> (clienterror + GlobalStatus) \<times> 's" where
  "status_of p =
     (case p of
        (Inl err, s1) \<Rightarrow> (Inl (RpcError err), s1)
      | (Inr resp, s1) \<Rightarrow>
          (if gr_ResultCode resp = ResultCodeSuccess then (Inr (gr_GlobalStatus resp), s1)
           else (Inl (TransactionException (gr_ExceptionCode resp) (gr_Message resp) None), s1)))"

definition tm_Commit :: "'s TransactionManager \<Rightarrow> string \<Rightarrow> 's \<Rightarrow> (clienterror + GlobalStatus) \<times> 's" where
  "tm_Commit manager xid s = status_of (rpc_Commit (tm_rpcClient manager) xid s)"

definition tm_Rollback :: "'s TransactionManager \<Rightarrow> string \<Rightarrow> 's \<Rightarrow> (clienterror + GlobalStatus) \<times> 's" where
  "tm_Rollback manager xid s = status_of (rpc_Rollback (tm_rpcClient manager) xid s)"

definition tm_GetStatus :: "'s TransactionManager \<Rightarrow> string \<Rightarrow> 's \<Rightarrow> (clienterror + GlobalStatus) \<times> 's" where
  "tm_GetStatus manager xid s = status_of (rpc_GetStatus (tm_rpcClient manager) xid s)"

definition tm_GlobalReport ::
    "'s TransactionManager \<Rightarrow> string \<Rightarrow> GlobalStatus \<Rightarrow> 's \<Rightarrow> (clienterror + GlobalStatus) \<times> 's" where
  "tm_GlobalReport manager xid globalStatus s =
     status_of (rpc_GlobalReport (tm_rpcClient manager) xid globalStatus s)"

subsection \<open>A global transaction\<close>

definition DefaultGlobalTxTimeout :: int32 where "DefaultGlobalTxTimeout = 60000"
definition DefaultGlobalTxName :: string where "DefaultGlobalTxName = ''default''"

datatype GlobalTransactionRole = Launcher | Participant

fun role_String :: "GlobalTransactionRole \<Rightarrow> string" where
  "role_String Launcher = ''Launcher''" | "role_String Participant = ''Participant''"

record TMConfig =
  CommitRetryCount :: int32
  RollbackRetryCount :: int32

record DefaultGlobalTransaction =
  gtx_conf :: TMConfig
  gtx_XID :: string
  gtx_Status :: GlobalStatus
  gtx_Role :: GlobalTransactionRole

text \<open>An operation changes the transaction, the context it is given and the world.\<close>

type_synonym 's client = "DefaultGlobalTransaction \<times> RootContext \<times> 's"

definition BeginWithTimeoutAndName ::
    "'s TransactionManager \<Rightarrow> int32 \<Rightarrow> string \<Rightarrow> 's client \<Rightarrow> clienterror option \<times> 's client" where
  "BeginWithTimeoutAndName manager timeout name c =
     (let (gtx, ctx, s) = c
      in if gtx_Role gtx \<noteq> Launcher then
           (if gtx_XID gtx = [] then (Some (NewError ''xid should not be empty''), c) else (None, c))
         else if gtx_XID gtx \<noteq> [] then (Some (NewError ''xid should be empty''), c)
         else if InGlobalTransaction ctx then (Some (NewError ''xid should be empty''), c)
         else case tm_Begin manager name timeout s of
           (Inl err, s1) \<Rightarrow> (Some (WithStack err), gtx, ctx, s1)
         | (Inr xid, s1) \<Rightarrow> (None, gtx\<lparr>gtx_XID := xid, gtx_Status := Begin\<rparr>, Bind xid ctx, s1))"

definition BeginWithTimeout ::
    "'s TransactionManager \<Rightarrow> int32 \<Rightarrow> 's client \<Rightarrow> clienterror option \<times> 's client" where
  "BeginWithTimeout manager timeout c = BeginWithTimeoutAndName manager timeout DefaultGlobalTxName c"

definition gtx_Begin :: "'s TransactionManager \<Rightarrow> 's client \<Rightarrow> clienterror option \<times> 's client" where
  "gtx_Begin manager c = BeginWithTimeout manager DefaultGlobalTxTimeout c"

text \<open>The deferred function of \<open>Commit\<close>, \<open>Rollback\<close> and \<open>GlobalReport\<close>.\<close>

definition unbind_own :: "'s client \<Rightarrow> 's client" where
  "unbind_own c =
     (let (gtx, ctx, s) = c; ctxXid = GetXID ctx
      in if ctxXid \<noteq> [] \<and> gtx_XID gtx = ctxXid then (gtx, snd (Unbind ctx), s) else c)"

text \<open>The retry loop: \<open>Inl ()\<close> when the last try failed, \<open>Inr None\<close> when there was none.\<close>

fun retry_loop :: "('s \<Rightarrow> (clienterror + GlobalStatus) \<times> 's) \<Rightarrow> nat \<Rightarrow> 's \<Rightarrow> (unit + GlobalStatus option) \<times> 's" where
  "retry_loop call 0 s = (Inr None, s)"
| "retry_loop call (Suc retry) s =
     (case call s of
        (Inr status, s1) \<Rightarrow> (Inr (Some status), s1)
      | (Inl err, s1) \<Rightarrow> (if retry = 0 then (Inl (), s1) else retry_loop call retry s1))"

definition finish_with ::
    "string \<Rightarrow> ('s \<Rightarrow> (clienterror + GlobalStatus) \<times> 's) \<Rightarrow> int32 \<Rightarrow> 's client \<Rightarrow> clienterror option \<times> 's client" where
  "finish_with failure call retry c =
     (let (gtx, ctx, s) = c
      in if gtx_Role gtx = Participant then (None, c)
         else if gtx_XID gtx = [] then (Some (NewError ''xid should not be empty''), c)
         else case retry_loop call (nat (sint retry)) s of
           (Inl (), s1) \<Rightarrow> (Some (NewError failure), gtx, ctx, s1)
         | (Inr None, s1) \<Rightarrow> (None, gtx, ctx, s1)
         | (Inr (Some status), s1) \<Rightarrow> (None, gtx\<lparr>gtx_Status := status\<rparr>, ctx, s1))"

definition gtx_Commit :: "'s TransactionManager \<Rightarrow> 's client \<Rightarrow> clienterror option \<times> 's client" where
  "gtx_Commit manager c =
     (let (r, c1) = finish_with ''Failed to report global commit'' (tm_Commit manager (gtx_XID (fst c)))
                      (CommitRetryCount (gtx_conf (fst c))) c
      in (r, unbind_own c1))"

definition gtx_Rollback :: "'s TransactionManager \<Rightarrow> 's client \<Rightarrow> clienterror option \<times> 's client" where
  "gtx_Rollback manager c =
     (let (r, c1) = finish_with ''Failed to report global rollback'' (tm_Rollback manager (gtx_XID (fst c)))
                      (RollbackRetryCount (gtx_conf (fst c))) c
      in (r, unbind_own c1))"

text \<open>The holder of a suspended transaction is its XID.\<close>

definition Suspend :: "bool \<Rightarrow> RootContext \<Rightarrow> string \<times> RootContext" where
  "Suspend unbindXid ctx =
     (let xid = GetXID ctx in (xid, if xid \<noteq> [] \<and> unbindXid then snd (Unbind ctx) else ctx))"

definition Resume :: "string option \<Rightarrow> RootContext \<Rightarrow> RootContext" where
  "Resume suspendedResourcesHolder ctx =
     (case suspendedResourcesHolder of
        None \<Rightarrow> ctx
      | Some xid \<Rightarrow> (if xid \<noteq> [] then Bind xid ctx else ctx))"

definition gtx_GetStatus :: "'s TransactionManager \<Rightarrow> 's client \<Rightarrow> (clienterror + GlobalStatus) \<times> 's client" where
  "gtx_GetStatus manager c =
     (let (gtx, ctx, s) = c
      in if gtx_XID gtx = [] then (Inr UnknownGlobalStatus, c)
         else case tm_GetStatus manager (gtx_XID gtx) s of
           (Inl err, s1) \<Rightarrow> (Inl (WithStack err), gtx, ctx, s1)
         | (Inr status, s1) \<Rightarrow> (Inr status, gtx\<lparr>gtx_Status := status\<rparr>, ctx, s1))"

definition gtx_GlobalReport ::
    "'s TransactionManager \<Rightarrow> GlobalStatus \<Rightarrow> 's client \<Rightarrow> clienterror option \<times> 's client" where
  "gtx_GlobalReport manager globalStatus c =
     (let (gtx, ctx, s) = c;
          (r, c1) =
            (if gtx_XID gtx = [] then (Some (NewError ''xid should not be empty''), c)
             else if globalStatus = UnknownGlobalStatus then (Some (NewError ''globalStatus should not be zero''), c)
             else case tm_GlobalReport manager (gtx_XID gtx) globalStatus s of
               (Inl err, s1) \<Rightarrow> (Some (WithStack err), gtx, ctx, s1)
             | (Inr status, s1) \<Rightarrow> (None, gtx\<lparr>gtx_Status := status\<rparr>, ctx, s1))
      in (r, unbind_own c1))"

definition CreateNew :: "TMConfig \<Rightarrow> DefaultGlobalTransaction" where
  "CreateNew conf =
     \<lparr>gtx_conf = conf, gtx_XID = [], gtx_Status = UnknownGlobalStatus, gtx_Role = Launcher\<rparr>"

definition GetCurrent :: "TMConfig \<Rightarrow> RootContext \<Rightarrow> DefaultGlobalTransaction option" where
  "GetCurrent conf ctx =
     (let xid = GetXID ctx
      in if xid = [] then None
         else Some \<lparr>gtx_conf = conf, gtx_XID = xid, gtx_Status = Begin, gtx_Role = Participant\<rparr>)"

definition GetCurrentOrCreate :: "TMConfig \<Rightarrow> RootContext \<Rightarrow> DefaultGlobalTransaction" where
  "GetCurrentOrCreate conf ctx = (case GetCurrent conf ctx of None \<Rightarrow> CreateNew conf | Some tx \<Rightarrow> tx)"

subsection \<open>The retry loop\<close>

text \<open>The world after \<open>k\<close> calls.\<close>

definition after_calls :: "('s \<Rightarrow> 'r \<times> 's) \<Rightarrow> nat \<Rightarrow> 's \<Rightarrow> 's" where
  "after_calls call k s = ((\<lambda>s. snd (call s)) ^^ k) s"

lemma after_calls_simps [simp]:
  "after_calls call 0 s = s" "after_calls call (Suc k) s = after_calls call k (snd (call s))"
  using funpow_swap1 [of "\<lambda>s. snd (call s)" k s] by (simp_all add: after_calls_def)

text \<open>The loop makes at most \<open>n\<close> calls: it stops after the first one that succeeds, with its status,
  and reports failure only after \<open>n\<close> failed ones.\<close>

lemma retry_loop_spec:
  assumes "retry_loop call n s = (r, s')" and "n > 0"
  shows "\<exists>k. 0 < k \<and> k \<le> n \<and> s' = after_calls call k s \<and>
    (\<forall>j. Suc j < k \<longrightarrow> (\<exists>e. fst (call (after_calls call j s)) = Inl e)) \<and>
    (case r of Inl _ \<Rightarrow> k = n \<and> (\<exists>e. fst (call (after_calls call (k - 1) s)) = Inl e)
     | Inr st \<Rightarrow> (\<exists>x. st = Some x \<and> fst (call (after_calls call (k - 1) s)) = Inr x))"
  using assms
proof (induction n arbitrary: s)
  case (Suc n)
  obtain r1 s1 where c: "call s = (r1, s1)" by fastforce
  show ?case
  proof (cases "(\<exists>x. r1 = Inr x) \<or> n = 0")
    case True
    with Suc.prems(1) c show ?thesis by (intro exI [of _ 1]) (auto split: sum.splits if_splits)
  next
    case False
    then obtain e where e: "r1 = Inl e" and n: "n > 0" by (cases r1) auto
    with Suc.prems(1) c have "retry_loop call n s1 = (r, s')" by simp
    from Suc.IH [OF this n] obtain k where k: "0 < k" "k \<le> n" "s' = after_calls call k s1"
      "\<forall>j. Suc j < k \<longrightarrow> (\<exists>e. fst (call (after_calls call j s1)) = Inl e)"
      "case r of Inl _ \<Rightarrow> k = n \<and> (\<exists>e. fst (call (after_calls call (k - 1) s1)) = Inl e)
       | Inr st \<Rightarrow> (\<exists>x. st = Some x \<and> fst (call (after_calls call (k - 1) s1)) = Inr x)" by blast
    have "\<exists>e. fst (call (after_calls call j s)) = Inl e" if "Suc j < Suc k" for j
      using that k(4) c e by (cases j) auto
    moreover obtain m where "k = Suc m" using k(1) by (cases k) auto
    ultimately show ?thesis using k c by (intro exI [of _ "Suc k"]) (auto split: sum.splits)
  qed
qed simp

lemma participant_finish: "gtx_Role (fst c) = Participant \<Longrightarrow> finish_with f call r c = (None, c)"
  by (cases c) (simp add: finish_with_def)

text \<open>A participant leaves the coordinator alone, and takes the XID out of its own context.\<close>

lemma participant_calls_nothing:
  assumes "gtx_Role gtx = Participant"
  shows "gtx_Commit manager (gtx, ctx, s) = (None, unbind_own (gtx, ctx, s))"
    and "gtx_Rollback manager (gtx, ctx, s) = (None, unbind_own (gtx, ctx, s))"
    and "gtx_XID gtx \<noteq> [] \<Longrightarrow> BeginWithTimeoutAndName manager t n (gtx, ctx, s) = (None, gtx, ctx, s)"
  using assms by (simp_all add: gtx_Commit_def gtx_Rollback_def participant_finish BeginWithTimeoutAndName_def)

lemma unbind_own_world [simp]: "fst (unbind_own c) = fst c" "snd (snd (unbind_own c)) = snd (snd c)"
  by (simp_all add: unbind_own_def Let_def split_beta)

lemma suspend_resume:
  assumes "bound xid ctx"
  shows "Suspend True ctx = (xid, snd (Unbind ctx))" and "Resume (Some xid) (snd (Unbind ctx)) = ctx"
  using bound_simps [OF assms] by (simp_all add: Suspend_def Resume_def)

end
