(* ===== verification/Tm_Proxy.thy ===== *)
theory Tm_Proxy
  imports Tm_Client Proxy_Service
begin

text \<open>
  \<open>pkg/client/tm/proxy.go\<close>: the function \<open>Implement\<close> puts in place of a method of a service, which
  runs the method inside, outside or without a global transaction as its propagation says. A
  method runs in the root context of the call, which it can read and change, and the world
  \<open>'s\<close> behind the connection to the coordinator.
\<close>

subsection \<open>Propagation (\<open>pkg/client/base/model/transaction_info.go\<close>)\<close>

text \<open>\<open>Propagation\<close> is a byte with six named values.\<close>

datatype Propagation =
  Required | RequiresNew | NotSupported | Supports | Never | Mandatory | OtherPropagation byte

fun Propagation_String :: "Propagation \<Rightarrow> string" where
  "Propagation_String Required = ''Required''"
| "Propagation_String RequiresNew = ''REQUIRES_NEW''"
| "Propagation_String NotSupported = ''NOT_SUPPORTED''"
| "Propagation_String Supports = ''Supports''"
| "Propagation_String Never = ''Never''"
| "Propagation_String Mandatory = ''Mandatory''"
| "Propagation_String (OtherPropagation b) = show_nat (unat b)"

record TransactionInfo =
  TimeOut :: int32
  ti_Name :: string
  ti_Propagation :: Propagation

subsection \<open>The call\<close>

text \<open>The root context of a call: that of the last context argument that is not nil, or that of the
  background context.\<close>

definition invocation_context :: "'v goarg list \<Rightarrow> RootContext option" where
  "invocation_context args =
     fold (\<lambda>arg invCtx. case arg of
         CtxArg (Some value) \<Rightarrow> Option.bind invCtx (\<lambda>_. NewRootContext value)
       | _ \<Rightarrow> invCtx) args (NewRootContext None)"

type_synonym ('v, 's) result = "'v retval list outcome \<times> 's client"

definition run_method ::
    "('v, RootContext \<times> 's) MethodDescriptor \<Rightarrow> 'v goarg list \<Rightarrow> 's client \<Rightarrow> ('v, 's) result" where
  "run_method methodDesc args c =
     (let (tx, ctx, s) = c; (r, ctx1, s1) = Invoke methodDesc True args (ctx, s) in (r, tx, ctx1, s1))"

text \<open>From \<open>BeginWithTimeoutAndName\<close> on.\<close>

definition in_transaction ::
    "(gotype \<Rightarrow> 'v) \<Rightarrow> 's TransactionManager \<Rightarrow> ('v, RootContext \<times> 's) MethodDescriptor \<Rightarrow>
     TransactionInfo \<Rightarrow> 'v goarg list \<Rightarrow> 's client \<Rightarrow> ('v, 's) result" where
  "in_transaction zero manager methodDesc txInfo args c =
     (case BeginWithTimeoutAndName manager (TimeOut txInfo) (ti_Name txInfo) c of
        (Some beginErr, c1) \<Rightarrow> (Return (ReturnWithError zero methodDesc (WithStack beginErr)), c1)
      | (None, c1) \<Rightarrow>
          (case run_method methodDesc args c1 of
             (Panicked, c2) \<Rightarrow> (Panicked, c2)
           | (Return returnValues, c2) \<Rightarrow>
               (case error_value returnValues of
                  None \<Rightarrow> (Panicked, c2)
                | Some (Some err) \<Rightarrow>
                    (case gtx_Rollback manager c2 of
                       (Some rollbackErr, c3) \<Rightarrow>
                         (Return (ReturnWithError zero methodDesc (WithStack rollbackErr)), c3)
                     | (None, c3) \<Rightarrow> (Return returnValues, c3))
                | Some None \<Rightarrow>
                    (case gtx_Commit manager c2 of
                       (Some commitErr, c3) \<Rightarrow>
                         (Return (ReturnWithError zero methodDesc (WithStack commitErr)), c3)
                     | (None, c3) \<Rightarrow> (Return returnValues, c3)))))"

definition single_quoted :: "string \<Rightarrow> string" where
  "single_quoted s = CHR 0x27 # s @ [CHR 0x27]"

definition never_error :: "RootContext \<Rightarrow> clienterror" where
  "never_error ctx = NewError
     (''Existing transaction found for transaction marked with propagation '' @ single_quoted ''never'' @
      '',xid = '' @ GetXID ctx)"

definition mandatory_error :: clienterror where
  "mandatory_error =
     NewError
       (''No existing transaction found for transaction marked with propagation '' @ single_quoted ''mandatory'')"

definition unsupported_error :: "Propagation \<Rightarrow> clienterror" where
  "unsupported_error p = NewError (''Not Supported Propagation: '' @ Propagation_String p)"

text \<open>The switch; beside the result, what was suspended.\<close>

definition propagate ::
    "(gotype \<Rightarrow> 'v) \<Rightarrow> 's TransactionManager \<Rightarrow> ('v, RootContext \<times> 's) MethodDescriptor \<Rightarrow>
     TransactionInfo \<Rightarrow> 'v goarg list \<Rightarrow> 's client \<Rightarrow> string option \<times> ('v, 's) result" where
  "propagate zero manager methodDesc txInfo args c =
     (let (tx, invCtx, s) = c;
          transaction = in_transaction zero manager methodDesc txInfo args;
          refuse = (\<lambda>err. (None, Return (ReturnWithError zero methodDesc err), c))
      in case ti_Propagation txInfo of
           Required \<Rightarrow> (None, transaction c)
         | RequiresNew \<Rightarrow>
             (let (xid, invCtx1) = Suspend True invCtx in (Some xid, transaction (tx, invCtx1, s)))
         | NotSupported \<Rightarrow>
             (let (xid, invCtx1) = Suspend True invCtx in (Some xid, run_method methodDesc args (tx, invCtx1, s)))
         | Supports \<Rightarrow>
             (None, if \<not> InGlobalTransaction invCtx then run_method methodDesc args c else transaction c)
         | Never \<Rightarrow>
             (if InGlobalTransaction invCtx then refuse (never_error invCtx)
              else (None, run_method methodDesc args c))
         | Mandatory \<Rightarrow>
             (if \<not> InGlobalTransaction invCtx then refuse mandatory_error else (None, transaction c))
         | OtherPropagation b \<Rightarrow> refuse (unsupported_error (OtherPropagation b)))"

text \<open>The function \<open>makeCallProxy\<close> returns, \<open>defer\<close> included; what remains of the root context is
  given with the result. A descriptor may be nil, as may the transaction information.\<close>

definition call_proxy ::
    "(gotype \<Rightarrow> 'v) \<Rightarrow> 's TransactionManager \<Rightarrow> TMConfig \<Rightarrow>
     ('v, RootContext \<times> 's) MethodDescriptor option \<Rightarrow> TransactionInfo option \<Rightarrow> 'v goarg list \<Rightarrow> 's \<Rightarrow>
     'v retval list outcome \<times> RootContext option \<times> 's" where
  "call_proxy zero manager conf methodDesc txInfo args s =
     (case (methodDesc, txInfo) of
        (Some md, Some info) \<Rightarrow>
          (if length args + 1 \<noteq> md_ArgsNum md then (Panicked, None, s)
           else case invocation_context args of
             None \<Rightarrow> (Panicked, None, s)
           | Some invCtx \<Rightarrow>
               (let (holder, r, tx, ctx, s1) =
                      propagate zero manager md info args (GetCurrentOrCreate conf invCtx, invCtx, s)
                in (r, Some (Resume holder ctx), s1)))
      | _ \<Rightarrow> (Panicked, None, s))"

subsection \<open>\<open>Implement\<close>\<close>

text \<open>A field of the proxy's struct: whether it is a function that can be set, and its results.\<close>

record proxy_field =
  pf_Name :: string
  pf_Settable :: bool
  pf_Out :: "gotype list"

definition ErrorType :: gotype where "ErrorType = Iface [] [] ''error'' False"

type_synonym ('v, 's) implemented =
  "(string \<times> ('v, RootContext \<times> 's) MethodDescriptor option \<times> TransactionInfo option) list"

fun implement_fields ::
    "('v, RootContext \<times> 's) service \<Rightarrow> (string \<Rightarrow> TransactionInfo option) \<Rightarrow> proxy_field list \<Rightarrow>
     ('v, RootContext \<times> 's) registry \<Rightarrow> (('v, 's) implemented \<times> ('v, RootContext \<times> 's) registry) option" where
  "implement_fields service info [] m = Some ([], m)"
| "implement_fields service info (f # fs) m =
     (if \<not> pf_Settable f then implement_fields service info fs m
      else if pf_Out f = [] then None
      else if last (pf_Out f) \<noteq> ErrorType then implement_fields service info fs m
      else let (d, m1) = Register service (pf_Name f) m
           in case implement_fields service info fs m1 of
                None \<Rightarrow> None
              | Some (ps, m2) \<Rightarrow> Some ((pf_Name f, d, info (pf_Name f)) # ps, m2))"

definition Implement ::
    "bool \<Rightarrow> ('v, RootContext \<times> 's) service \<Rightarrow> (string \<Rightarrow> TransactionInfo option) \<Rightarrow> proxy_field list \<Rightarrow>
     ('v, RootContext \<times> 's) registry \<Rightarrow> (('v, 's) implemented \<times> ('v, RootContext \<times> 's) registry) option" where
  "Implement is_struct service info fs m =
     (if \<not> is_struct then Some ([], m) else implement_fields service info fs m)"

subsection \<open>Roles\<close>

lemma fresh_context: "NewRootContext None = Some \<lparr>ctx_Value = None, localMap = Map.empty\<rparr>"
  by (simp add: NewRootContext_def)

lemma current_bound:
  assumes "bound xid ctx"
  shows "GetCurrentOrCreate conf ctx = \<lparr>gtx_conf = conf, gtx_XID = xid, gtx_Status = Begin, gtx_Role = Participant\<rparr>"
  using bound_simps(1,3) [OF assms] by (simp add: GetCurrentOrCreate_def GetCurrent_def)

lemma current_none:
  assumes "localMap ctx = Map.empty"
  shows "GetCurrentOrCreate conf ctx = CreateNew conf" and "\<not> InGlobalTransaction ctx" and "GetXID ctx = []"
proof -
  show x: "GetXID ctx = []" using assms by (simp add: GetXID_def)
  show "GetCurrentOrCreate conf ctx = CreateNew conf" by (simp add: GetCurrentOrCreate_def GetCurrent_def x)
  show "\<not> InGlobalTransaction ctx" using assms by (simp add: InGlobalTransaction_def)
qed

lemma run_methodE:
  assumes "Invoke md True args (ctx, s) = (r, ctx1, s1)"
  shows "run_method md args (tx, ctx, s) = (r, tx, ctx1, s1)"
  using assms by (simp add: run_method_def)

text \<open>A participant brackets nothing: the method's results and its effects are those of the call.\<close>

lemma in_transaction_participant:
  assumes "gtx_Role tx = Participant" and "gtx_XID tx \<noteq> []"
    and "Invoke md True args (ctx, s) = (Return rs, ctx1, s1)" and "error_value rs \<noteq> None"
  shows "\<exists>ctx2. in_transaction zero manager md info args (tx, ctx, s) = (Return rs, tx, ctx2, s1)"
proof -
  obtain e where e: "error_value rs = Some e" using assms(4) by auto
  have u: "\<exists>ctx2. unbind_own (tx, ctx1, s1) = (tx, ctx2, s1)"
    by (metis fst_conv prod.collapse snd_conv unbind_own_world(1) unbind_own_world(2))
  show ?thesis
    using u e by (cases e)
      (simp_all add: in_transaction_def participant_calls_nothing [OF assms(1)] assms(2) run_methodE [OF assms(3)])
qed

text \<open>A launcher: the transaction is begun, the method runs with the XID bound, and its error decides
  which of the two ends the transaction.\<close>

lemma begin_launcher:
  assumes "rpc_Begin (tm_rpcClient manager)
      \<lparr>gbq_Addressing = tm_addressing manager, gbq_Timeout = t, gbq_TransactionName = n\<rparr> s = (Inr resp, s1)"
    and "gbp_ResultCode resp = ResultCodeSuccess" and "\<not> InGlobalTransaction ctx"
  shows "BeginWithTimeoutAndName manager t n (CreateNew conf, ctx, s) =
    (None, (CreateNew conf)\<lparr>gtx_XID := gbp_XID resp, gtx_Status := Begin\<rparr>, Bind (gbp_XID resp) ctx, s1)"
  using assms by (simp add: BeginWithTimeoutAndName_def CreateNew_def tm_Begin_def)

text \<open>The end of a transaction by its launcher is the retry loop, then the XID is taken out of the
  context that still holds it.\<close>

lemma finish_launcher:
  assumes "gtx_Role tx = Launcher" and "gtx_XID tx \<noteq> []"
  shows "finish_with failure call retry (tx, ctx, s) =
    (case retry_loop call (nat (sint retry)) s of
       (Inl (), s1) \<Rightarrow> (Some (NewError failure), tx, ctx, s1)
     | (Inr None, s1) \<Rightarrow> (None, tx, ctx, s1)
     | (Inr (Some status), s1) \<Rightarrow> (None, tx\<lparr>gtx_Status := status\<rparr>, ctx, s1))"
  using assms by (simp add: finish_with_def)

lemma retry_loop_first:
  assumes "call s = (Inr status, s1)" and "n > 0"
  shows "retry_loop call n s = (Inr (Some status), s1)"
  using assms by (cases n) simp_all

end
