(* ===== verification/Tcc.thy ===== *)
theory Tcc
  imports Rm_Client
begin

text \<open>
  \<open>pkg/client/tcc\<close>: a service with the methods Try, Confirm and Cancel as a resource. The call of
  Try inside a global transaction registers a branch, and the requests of the coordinator call
  Confirm or Cancel. A \<open>BusinessActionContext\<close> is shared through a pointer, so a method runs on it
  beside the world \<open>'s\<close>. \<open>marshal\<close> and \<open>unmarshal\<close> are \<open>encoding/json\<close> on objects, \<open>zero\<close> is
  \<open>reflect.Zero\<close>, \<open>ip\<close> the local address if there is one, \<open>now\<close> the clock.
\<close>

subsection \<open>Data\<close>

datatype json = JNull | JString string | JNumber uint64 | JObject "string \<Rightarrow> json option"

text \<open>\<open>None\<close> is a nil map of the action context.\<close>

record BusinessActionContext =
  bac_RootContext :: "RootContext option"
  bac_XID :: string
  bac_BranchID :: int64
  bac_ActionName :: string
  bac_ActionContext :: "(string \<Rightarrow> json option) option"
  bac_AsyncCommit :: bool

text \<open>The values the methods handle: the pointer to the context, a boolean, or anything else.\<close>

datatype tccval = CtxPtr | VBool bool | VOther nat

type_synonym 's tcc_method = "(tccval, BusinessActionContext \<times> 's) MethodDescriptor"

record 's TCCResource =
  ActionName :: string
  PrepareMethodName :: string
  CommitMethodName :: string
  CommitMethod :: "'s tcc_method option"
  RollbackMethodName :: string
  RollbackMethod :: "'s tcc_method option"

definition TCCResource_GetResourceID :: "'s TCCResource \<Rightarrow> string" where
  "TCCResource_GetResourceID resource = ActionName resource"

definition TCCResource_GetBranchType :: "'s TCCResource \<Rightarrow> BranchType" where
  "TCCResource_GetBranchType resource = TCC"

text \<open>The cache holds values of the interface \<open>Resource\<close>: of this type or of another.\<close>

datatype 's Resource = TccResource "'s TCCResource" | OtherResource string

type_synonym 's TCCResourceManager = "string \<Rightarrow> 's Resource option"

definition GetResourceID :: "'s Resource \<Rightarrow> string" where
  "GetResourceID resource =
     (case resource of TccResource r \<Rightarrow> TCCResource_GetResourceID r | OtherResource i \<Rightarrow> i)"

definition tcc_RegisterResource :: "'s Resource \<Rightarrow> 's TCCResourceManager \<Rightarrow> 's TCCResourceManager" where
  "tcc_RegisterResource resource cache = cache(GetResourceID resource \<mapsto> resource)"

definition tcc_UnregisterResource :: "'s Resource \<Rightarrow> 's TCCResourceManager \<Rightarrow> 's TCCResourceManager" where
  "tcc_UnregisterResource resource cache = cache(GetResourceID resource := None)"

definition TccActionContext :: string where "TccActionContext = ''actionContext''"
definition ActionStartTime :: string where "ActionStartTime = ''action-start-time''"
definition ActionNameKey :: string where "ActionNameKey = ''actionName''"
definition PrepareMethodKey :: string where "PrepareMethodKey = ''sys::prepare''"
definition CommitMethodKey :: string where "CommitMethodKey = ''sys::commit''"
definition RollbackMethodKey :: string where "RollbackMethodKey = ''sys::rollback''"
definition HostName :: string where "HostName = ''host-name''"

subsection \<open>Phase one (\<open>tcc/proxy.go\<close>)\<close>

definition action_log :: "string option \<Rightarrow> uint64 \<Rightarrow> 's TCCResource \<Rightarrow> string \<Rightarrow> (string \<Rightarrow> json option) \<Rightarrow> string \<Rightarrow> json option" where
  "action_log ip now resource name m =
     (let m1 = m(ActionStartTime \<mapsto> JNumber now, PrepareMethodKey \<mapsto> JString (PrepareMethodName resource),
                 CommitMethodKey \<mapsto> JString (CommitMethodName resource),
                 RollbackMethodKey \<mapsto> JString (RollbackMethodName resource), ActionNameKey \<mapsto> JString name)
      in case ip of Some h \<Rightarrow> m1(HostName \<mapsto> JString h) | None \<Rightarrow> m1)"

text \<open>Writing to a nil map panics.\<close>

definition doTccActionLogStore ::
    "((string \<Rightarrow> json option) \<Rightarrow> clienterror + string) \<Rightarrow> string option \<Rightarrow> uint64 \<Rightarrow> 's ResourceManager \<Rightarrow>
     's TCCResource \<Rightarrow> BusinessActionContext \<times> 's \<Rightarrow>
     (clienterror + int64) outcome \<times> BusinessActionContext \<times> 's" where
  "doTccActionLogStore marshal ip now manager resource c =
     (let (ctx, s) = c
      in case bac_ActionContext ctx of
           None \<Rightarrow> (Panicked, c)
         | Some m \<Rightarrow>
             (let actionContext = action_log ip now resource (bac_ActionName ctx) m;
                  ctx1 = ctx\<lparr>bac_ActionContext := Some actionContext\<rparr>
              in case marshal [TccActionContext \<mapsto> JObject actionContext] of
                   Inl err \<Rightarrow> (Return (Inl err), ctx1, s)
                 | Inr applicationData \<Rightarrow>
                     (case rm_BranchRegister manager (bac_XID ctx1) (TCCResource_GetResourceID resource)
                             (TCCResource_GetBranchType resource) (Some applicationData) [] (bac_AsyncCommit ctx1) s of
                        (Inl err, s1) \<Rightarrow> (Return (Inl (WithStack err)), ctx1, s1)
                      | (Inr branchID, s1) \<Rightarrow> (Return (Inr branchID), ctx1, s1))))"

definition proceed ::
    "((string \<Rightarrow> json option) \<Rightarrow> clienterror + string) \<Rightarrow> string option \<Rightarrow> uint64 \<Rightarrow> 's ResourceManager \<Rightarrow>
     's tcc_method \<Rightarrow> 's TCCResource \<Rightarrow> BusinessActionContext \<times> 's \<Rightarrow>
     (clienterror + tccval retval list) outcome \<times> BusinessActionContext \<times> 's" where
  "proceed marshal ip now manager methodDesc resource c =
     (case doTccActionLogStore marshal ip now manager resource c of
        (Panicked, c1) \<Rightarrow> (Panicked, c1)
      | (Return (Inl err), c1) \<Rightarrow> (Return (Inl (WithStack err)), c1)
      | (Return (Inr branchID), ctx1, s1) \<Rightarrow>
          (case Invoke methodDesc False [Arg CtxPtr] (ctx1\<lparr>bac_BranchID := branchID\<rparr>, s1) of
             (Panicked, c2) \<Rightarrow> (Panicked, c2)
           | (Return returnValues, ctx2, s2) \<Rightarrow>
               (case error_value returnValues of
                  None \<Rightarrow> (Panicked, ctx2, s2)
                | Some None \<Rightarrow> (Return (Inr returnValues), ctx2, s2)
                | Some (Some e) \<Rightarrow>
                    (Return (Inr returnValues), ctx2,
                     snd (rm_BranchReport manager (bac_XID ctx2) branchID TCC PhaseOneFailed None s2)))))"

text \<open>The function that takes the place of Try; its descriptor may be nil, and so may the root
  context of the action context.\<close>

definition tcc_call_proxy ::
    "(gotype \<Rightarrow> tccval) \<Rightarrow> ((string \<Rightarrow> json option) \<Rightarrow> clienterror + string) \<Rightarrow> string option \<Rightarrow> uint64 \<Rightarrow>
     's ResourceManager \<Rightarrow> 's tcc_method option \<Rightarrow> 's TCCResource \<Rightarrow> BusinessActionContext \<times> 's \<Rightarrow>
     tccval retval list outcome \<times> BusinessActionContext \<times> 's" where
  "tcc_call_proxy zero marshal ip now manager methodDesc resource c =
     (case bac_RootContext (fst c) of
        None \<Rightarrow> (Panicked, c)
      | Some rootContext \<Rightarrow>
          (let c1 = ((fst c)\<lparr>bac_XID := GetXID rootContext, bac_ActionName := ActionName resource\<rparr>, snd c)
           in if \<not> InGlobalTransaction rootContext then
                (case methodDesc of None \<Rightarrow> (Panicked, c1) | Some md \<Rightarrow> Invoke md False [Arg CtxPtr] c1)
              else case methodDesc of
                None \<Rightarrow> (Panicked, snd (doTccActionLogStore marshal ip now manager resource c1))
              | Some md \<Rightarrow>
                  (case proceed marshal ip now manager md resource c1 of
                     (Panicked, c2) \<Rightarrow> (Panicked, c2)
                   | (Return (Inl err), c2) \<Rightarrow> (Return (ReturnWithError zero md (WithStack err)), c2)
                   | (Return (Inr returnValues), c2) \<Rightarrow> (Return returnValues, c2))))"

text \<open>What \<open>ImplementTCC\<close> registers for the field \<open>Try\<close> of a proxy with the tag \<open>actionName\<close>: the
  descriptor its calls go through, and the resource. Without the tag it panics.\<close>

definition tcc_resource ::
    "(tccval, BusinessActionContext \<times> 's) service \<Rightarrow> string \<Rightarrow>
     (tccval, BusinessActionContext \<times> 's) registry \<Rightarrow> 's TCCResourceManager \<Rightarrow>
     (('s tcc_method option \<times> 's TCCResource) \<times>
      (tccval, BusinessActionContext \<times> 's) registry \<times> 's TCCResourceManager) option" where
  "tcc_resource service actionName m cache =
     (if actionName = [] then None
      else let (commitMethodDesc, m1) = Register service ''Confirm'' m;
               (cancelMethodDesc, m2) = Register service ''Cancel'' m1;
               (tryMethodDesc, m3) = Register service ''Try'' m2;
               resource = \<lparr>ActionName = actionName, PrepareMethodName = ''Try'', CommitMethodName = ''Confirm'',
                  CommitMethod = commitMethodDesc, RollbackMethodName = ''Cancel'', RollbackMethod = cancelMethodDesc\<rparr>
           in Some ((tryMethodDesc, resource), m3, tcc_RegisterResource (TccResource resource) cache))"

subsection \<open>Phase two (\<open>tcc/tcc_resource_manager.go\<close>)\<close>

text \<open>A payload that is no JSON object counts as an empty one; \<open>None\<close> is the failed type assertion.\<close>

definition getBusinessActionContext ::
    "(string \<Rightarrow> (string \<Rightarrow> json option) option) \<Rightarrow> string \<Rightarrow> int64 \<Rightarrow> string \<Rightarrow> string option \<Rightarrow>
     BusinessActionContext option" where
  "getBusinessActionContext unmarshal xid branchID resourceID applicationData =
     (let data = (case applicationData of None \<Rightarrow> [] | Some d \<Rightarrow> d);
          tccContext = (if data \<noteq> [] then case unmarshal data of Some m \<Rightarrow> m | None \<Rightarrow> Map.empty else Map.empty);
          ctx = (\<lambda>m. \<lparr>bac_RootContext = None, bac_XID = xid, bac_BranchID = branchID,
                   bac_ActionName = resourceID, bac_ActionContext = Some m, bac_AsyncCommit = False\<rparr>)
      in case tccContext TccActionContext of
           None \<Rightarrow> Some (ctx Map.empty)
         | Some JNull \<Rightarrow> Some (ctx Map.empty)
         | Some (JObject m) \<Rightarrow> Some (ctx m)
         | Some _ \<Rightarrow> None)"

text \<open>The two operations differ in the method they call and the statuses they report. The result is
  the single return value, false when there is not exactly one; anything but a boolean panics.\<close>

definition bool_result :: "tccval retval list \<Rightarrow> bool option" where
  "bool_result returnValues =
     (if length returnValues \<noteq> 1 then Some False
      else case hd returnValues of RVal (VBool b) \<Rightarrow> Some b | _ \<Rightarrow> None)"

definition phase_two_response :: "BranchRequest \<Rightarrow> BranchStatus \<Rightarrow> BranchResponse" where
  "phase_two_response request status =
     \<lparr>bp_ResultCode = ResultCodeSuccess, bp_ExceptionCode = UnknownErr, bp_Message = [],
      bp_XID = bq_XID request, bp_BranchID = bq_BranchID request, bp_BranchStatus = status\<rparr>"

definition phase_two ::
    "(string \<Rightarrow> (string \<Rightarrow> json option) option) \<Rightarrow> ('s TCCResource \<Rightarrow> 's tcc_method option) \<Rightarrow>
     BranchStatus \<Rightarrow> BranchStatus \<Rightarrow> 's TCCResourceManager \<Rightarrow> 's branch_handler" where
  "phase_two unmarshal method done retryable cache request s =
     (case cache (bq_ResourceID request) of
        None \<Rightarrow>
          (Return (Inr (branch_failed (''TCC resource is not exist, resourceID: '' @ bq_ResourceID request))), s)
      | Some (OtherResource i) \<Rightarrow> (Panicked, s)
      | Some (TccResource resource) \<Rightarrow>
          (case method resource of
             None \<Rightarrow>
               (Return (Inr (branch_failed (''TCC resource is not available, resourceID: '' @ bq_ResourceID request))), s)
           | Some md \<Rightarrow>
               (case getBusinessActionContext unmarshal (bq_XID request) (bq_BranchID request)
                       (bq_ResourceID request) (bq_ApplicationData request) of
                  None \<Rightarrow> (Panicked, s)
                | Some ctx \<Rightarrow>
                    (case Invoke md False [Arg CtxPtr] (ctx, s) of
                       (Panicked, _, s1) \<Rightarrow> (Panicked, s1)
                     | (Return returnValues, _, s1) \<Rightarrow>
                         (case bool_result returnValues of
                            None \<Rightarrow> (Panicked, s1)
                          | Some result \<Rightarrow>
                              (Return (Inr (phase_two_response request (if result then done else retryable))), s1))))))"

definition tcc_BranchCommit ::
    "(string \<Rightarrow> (string \<Rightarrow> json option) option) \<Rightarrow> 's TCCResourceManager \<Rightarrow> 's branch_handler" where
  "tcc_BranchCommit unmarshal cache =
     phase_two unmarshal CommitMethod PhaseTwoCommitted PhaseTwoCommitFailedRetryable cache"

definition tcc_BranchRollback ::
    "(string \<Rightarrow> (string \<Rightarrow> json option) option) \<Rightarrow> 's TCCResourceManager \<Rightarrow> 's branch_handler" where
  "tcc_BranchRollback unmarshal cache =
     phase_two unmarshal RollbackMethod PhaseTwoRolledBack PhaseTwoRollbackFailedRetryable cache"

text \<open>The TCC resource manager as a \<open>ResourceManagerInterface\<close>.\<close>

definition tcc_manager ::
    "(string \<Rightarrow> (string \<Rightarrow> json option) option) \<Rightarrow> 's TCCResourceManager \<Rightarrow> 's ResourceManagerInterface" where
  "tcc_manager unmarshal cache =
     \<lparr>rmi_BranchCommit = tcc_BranchCommit unmarshal cache, rmi_BranchRollback = tcc_BranchRollback unmarshal cache\<rparr>"

subsection \<open>When a branch is reported done\<close>

text \<open>The status reported is the good one only when the method was called, on the context rebuilt
  from the request, and returned the one value true.\<close>

lemma getBusinessActionContext_ids:
  assumes "getBusinessActionContext unmarshal xid b rid d = Some ctx"
  shows "bac_XID ctx = xid" and "bac_BranchID ctx = b" and "bac_ActionName ctx = rid"
  using assms by (auto simp: getBusinessActionContext_def Let_def split: option.splits json.splits)

lemma bool_result_True: "bool_result rs = Some True \<longleftrightarrow> rs = [RVal (VBool True)]"
proof (cases "length rs = 1")
  case True
  then obtain r where "rs = [r]" by (auto simp: length_Suc_conv)
  then show ?thesis by (auto simp: bool_result_def split: retval.splits tccval.splits)
qed (auto simp: bool_result_def)

lemma phase_two_done:
  assumes "phase_two unmarshal method done retryable cache request s = (Return (Inr resp), s')"
    and "bp_ResultCode resp = ResultCodeSuccess" and "bp_BranchStatus resp = done" and "done \<noteq> retryable"
  shows "\<exists>resource md ctx ctx'. cache (bq_ResourceID request) = Some (TccResource resource) \<and> method resource = Some md \<and>
     getBusinessActionContext unmarshal (bq_XID request) (bq_BranchID request) (bq_ResourceID request)
       (bq_ApplicationData request) = Some ctx \<and>
     Invoke md False [Arg CtxPtr] (ctx, s) = (Return [RVal (VBool True)], ctx', s')"
  using assms
  by (auto simp: phase_two_def branch_failed_def phase_two_response_def bool_result_True
      split: option.splits Resource.splits prod.splits outcome.splits if_splits)

text \<open>The response names the branch of the request, or it is a failure.\<close>

lemma phase_two_names:
  assumes "phase_two unmarshal method done retryable cache request s = (Return (Inr resp), s')"
  shows "bp_ResultCode resp = ResultCodeSuccess \<Longrightarrow>
    bp_XID resp = bq_XID request \<and> bp_BranchID resp = bq_BranchID request \<and>
    bp_BranchStatus resp \<in> {done, retryable}"
  using assms
  by (auto simp: phase_two_def branch_failed_def phase_two_response_def Let_def
      split: option.splits Resource.splits prod.splits outcome.splits if_splits)

lemma phase_two_never_errs: "fst (phase_two unmarshal method done retryable cache request s) \<noteq> Return (Inl err)"
  by (auto simp: phase_two_def split: option.splits Resource.splits prod.splits outcome.splits)

end
