(* ===== verification/Client_System.thy ===== *)
theory Client_System
  imports Tm_Proxy Tcc Inmemory_Phase_Two
begin

text \<open>
  The client and the coordinator together: the rpc clients of \<open>tm\<close> and \<open>rm\<close> served by the handlers of
  the coordinator, and the messages of the coordinator answered by the resource manager of the
  client. A handler that panics takes the server process with it; from then on a call fails with
  the error \<open>unavailable\<close> of gRPC.
\<close>

subsection \<open>The connection\<close>

text \<open>The time and the coordinator, \<open>None\<close> when its process is gone.\<close>

record 'd server =
  srv_now :: uint64
  srv_tc :: "'d tc option"

definition served ::
    "goerror \<Rightarrow> (uint64 \<Rightarrow> 'd tc \<Rightarrow> ((goerror + 'p) \<times> 'd tc) option) \<Rightarrow> 'd server \<Rightarrow> (goerror + 'p) \<times> 'd server" where
  "served unavailable handler s =
     (case srv_tc s of
        None \<Rightarrow> (Inl unavailable, s)
      | Some t \<Rightarrow>
          (case handler (srv_now s) t of
             None \<Rightarrow> (Inl unavailable, s\<lparr>srv_tc := None\<rparr>)
           | Some (r, t') \<Rightarrow> (r, s\<lparr>srv_tc := Some t'\<rparr>)))"

definition tm_service :: "goerror \<Rightarrow> 'd tc_conf \<Rightarrow> 'd server tm_rpc" where
  "tm_service unavailable conf =
     \<lparr>rpc_Begin = (\<lambda>rq. served unavailable (\<lambda>now t. Some (tc_Begin conf now rq t))),
      rpc_Commit = (\<lambda>xid. served unavailable (\<lambda>now. tc_Commit conf now xid)),
      rpc_Rollback = (\<lambda>xid. served unavailable (\<lambda>now. tc_Rollback conf now xid)),
      rpc_GetStatus = (\<lambda>xid. served unavailable (\<lambda>now t. Some (tc_GetStatus conf xid t))),
      rpc_GlobalReport = (\<lambda>xid st. served unavailable (\<lambda>now t. Some (tc_GlobalReport xid st, t)))\<rparr>"

definition rm_service :: "goerror \<Rightarrow> 'd tc_conf \<Rightarrow> 'd server rm_rpc" where
  "rm_service unavailable conf =
     \<lparr>rpc_BranchRegister = (\<lambda>rq. served unavailable
        (\<lambda>now t. map_option (\<lambda>(p, t'). (Inr p, t')) (tc_BranchRegister conf rq t))),
      rpc_BranchReport = (\<lambda>rq. served unavailable (\<lambda>now t. let (p, t') = tc_BranchReport conf rq t in Some (Inr p, t'))),
      rpc_LockQuery = (\<lambda>rq. served unavailable
        (\<lambda>now t. map_option (\<lambda>(p, t'). (Inr p, t')) (tc_LockQuery conf rq t)))\<rparr>"

text \<open>What comes back for a branch message when the client at the other end is in state \<open>t\<close>.\<close>

definition client_reply :: "'s ResourceManager \<Rightarrow> 's \<Rightarrow> BranchMessage \<Rightarrow> rm_outcome" where
  "client_reply manager t msg =
     (case fst (handle_message manager msg t) of
        Return (Some a) \<Rightarrow>
          Replied (if an_Type a = TypeBranchCommitResult then CommitReply (an_Message a) else RollbackReply (an_Message a))
      | _ \<Rightarrow> NoReply)"

lemma served_Some:
  "srv_tc s = Some t \<Longrightarrow> handler (srv_now s) t = Some (r, t') \<Longrightarrow>
   served unavailable handler s = (r, s\<lparr>srv_tc := Some t'\<rparr>)"
  by (simp add: served_def)

subsection \<open>Beginning and ending through the proxy\<close>

lemma begin_served:
  assumes "srv_tc s = Some t"
    and "tc_Begin conf (srv_now s) \<lparr>gbq_Addressing = a, gbq_Timeout = tmo, gbq_TransactionName = n\<rparr> t = (Inr resp, t1)"
    and "gbp_ResultCode resp = ResultCodeSuccess" and "localMap ctx = Map.empty"
  shows "BeginWithTimeoutAndName \<lparr>tm_addressing = a, tm_rpcClient = tm_service u conf\<rparr> tmo n (CreateNew tmc, ctx, s) =
    (None, (CreateNew tmc)\<lparr>gtx_XID := gbp_XID resp, gtx_Status := Begin\<rparr>, Bind (gbp_XID resp) ctx, s\<lparr>srv_tc := Some t1\<rparr>)"
  by (rule begin_launcher) (use assms in \<open>simp_all add: tm_service_def served_def InGlobalTransaction_def\<close>)

lemma commit_served:
  assumes "srv_tc s = Some t" and "tc_Commit conf (srv_now s) xid t = Some (Inr resp, t1)"
    and "gr_ResultCode resp = ResultCodeSuccess"
  shows "tm_Commit \<lparr>tm_addressing = a, tm_rpcClient = tm_service u conf\<rparr> xid s =
    (Inr (gr_GlobalStatus resp), s\<lparr>srv_tc := Some t1\<rparr>)"
  using assms by (simp add: tm_Commit_def status_of_def tm_service_def served_def)

lemma rollback_served:
  assumes "srv_tc s = Some t" and "tc_Rollback conf (srv_now s) xid t = Some (Inr resp, t1)"
    and "gr_ResultCode resp = ResultCodeSuccess"
  shows "tm_Rollback \<lparr>tm_addressing = a, tm_rpcClient = tm_service u conf\<rparr> xid s =
    (Inr (gr_GlobalStatus resp), s\<lparr>srv_tc := Some t1\<rparr>)"
  using assms by (simp add: tm_Rollback_def status_of_def tm_service_def served_def)

lemma finish_first:
  assumes "call s = (Inr status, s1)" and "0 <s retry" and "gtx_Role tx = Launcher" and "gtx_XID tx \<noteq> []"
  shows "finish_with failure call retry (tx, ctx, s) = (None, tx\<lparr>gtx_Status := status\<rparr>, ctx, s1)"
proof -
  have "nat (sint retry) > 0" using assms(2) by (simp add: word_sless_alt)
  from retry_loop_first [where call = call, OF assms(1) this] show ?thesis by (simp add: finish_with_def assms)
qed

text \<open>The second call, chosen by the method's error.\<close>

definition ends_with ::
    "clienterror option \<Rightarrow> 'd tc_conf \<Rightarrow> uint64 \<Rightarrow> string \<Rightarrow> 'd tc \<Rightarrow> ((goerror + GlobalResponse) \<times> 'd tc) option" where
  "ends_with err = (case err of None \<Rightarrow> tc_Commit | Some e \<Rightarrow> tc_Rollback)"

lemma in_transaction_served:
  assumes s: "srv_tc s = Some t"
    and b: "tc_Begin conf (srv_now s) \<lparr>gbq_Addressing = a, gbq_Timeout = TimeOut info, gbq_TransactionName = ti_Name info\<rparr> t =
      (Inr resp, t1)" "gbp_ResultCode resp = ResultCodeSuccess" "gbp_XID resp \<noteq> []"
    and ctx: "localMap ctx = Map.empty"
    and m: "Invoke md True args (Bind (gbp_XID resp) ctx, s\<lparr>srv_tc := Some t1\<rparr>) = (Return rs, ctx2, s2)"
      "error_value rs = Some err" "srv_tc s2 = Some t2"
    and e: "ends_with err conf (srv_now s2) (gbp_XID resp) t2 = Some (Inr resp2, t3)" "gr_ResultCode resp2 = ResultCodeSuccess"
    and n: "0 <s CommitRetryCount tmc" "0 <s RollbackRetryCount tmc"
  shows "\<exists>tx ctx3. in_transaction zero \<lparr>tm_addressing = a, tm_rpcClient = tm_service u conf\<rparr> md info args (CreateNew tmc, ctx, s) =
    (Return rs, tx, ctx3, s2\<lparr>srv_tc := Some t3\<rparr>)"
proof -
  let ?m = "\<lparr>tm_addressing = a, tm_rpcClient = tm_service u conf\<rparr>"
  let ?tx = "(CreateNew tmc)\<lparr>gtx_XID := gbp_XID resp, gtx_Status := Begin\<rparr>"
  have r: "gtx_Role ?tx = Launcher" "gtx_XID ?tx = gbp_XID resp" "gtx_XID ?tx \<noteq> []" "gtx_conf ?tx = tmc"
    using b(3) by (simp_all add: CreateNew_def)
  have ub: "\<exists>ctx3. unbind_own (tx, ctx2, w) = (tx, ctx3, w)" for tx and w :: "'a server"
    by (metis fst_conv prod.collapse snd_conv unbind_own_world(1) unbind_own_world(2))
  note start = begin_served [OF s b(1,2) ctx, of u tmc] run_methodE [OF m(1)]
  show ?thesis
  proof (cases err)
    case None
    have "gtx_Commit ?m (?tx, ctx2, s2) =
        (None, unbind_own (?tx\<lparr>gtx_Status := gr_GlobalStatus resp2\<rparr>, ctx2, s2\<lparr>srv_tc := Some t3\<rparr>))"
      using finish_first [where call = "tm_Commit ?m (gbp_XID resp)" and tx = ?tx,
          OF commit_served [where xid = "gbp_XID resp", OF m(3) _ e(2)] n(1) r(1,3)] e(1) None r
      by (simp add: gtx_Commit_def ends_with_def)
    then have "in_transaction zero ?m md info args (CreateNew tmc, ctx, s) =
        (Return rs, unbind_own (?tx\<lparr>gtx_Status := gr_GlobalStatus resp2\<rparr>, ctx2, s2\<lparr>srv_tc := Some t3\<rparr>))"
      using None m(2) start by (simp add: in_transaction_def)
    with ub [of "?tx\<lparr>gtx_Status := gr_GlobalStatus resp2\<rparr>" "s2\<lparr>srv_tc := Some t3\<rparr>"] show ?thesis by force
  next
    case (Some x)
    have "gtx_Rollback ?m (?tx, ctx2, s2) =
        (None, unbind_own (?tx\<lparr>gtx_Status := gr_GlobalStatus resp2\<rparr>, ctx2, s2\<lparr>srv_tc := Some t3\<rparr>))"
      using finish_first [where call = "tm_Rollback ?m (gbp_XID resp)" and tx = ?tx,
          OF rollback_served [where xid = "gbp_XID resp", OF m(3) _ e(2)] n(2) r(1,3)] e(1) Some r
      by (simp add: gtx_Rollback_def ends_with_def)
    then have "in_transaction zero ?m md info args (CreateNew tmc, ctx, s) =
        (Return rs, unbind_own (?tx\<lparr>gtx_Status := gr_GlobalStatus resp2\<rparr>, ctx2, s2\<lparr>srv_tc := Some t3\<rparr>))"
      using Some m(2) start by (simp add: in_transaction_def)
    with ub [of "?tx\<lparr>gtx_Status := gr_GlobalStatus resp2\<rparr>" "s2\<lparr>srv_tc := Some t3\<rparr>"] show ?thesis by force
  qed
qed

lemma call_proxy_required:
  assumes "invocation_context args = Some ctx" and "localMap ctx = Map.empty"
    and "length args + 1 = md_ArgsNum md" and "ti_Propagation info = Required"
    and "in_transaction zero manager md info args (CreateNew tmc, ctx, s) = (r, tx, ctx1, s1)"
  shows "call_proxy zero manager tmc (Some md) (Some info) args s = (r, Some ctx1, s1)"
  using assms current_none(1) [OF assms(2), of tmc]
  by (simp add: call_proxy_def propagate_def Resume_def Let_def)

text \<open>A transaction that the coordinator no longer stores is committed by answering \<open>Finished\<close>.\<close>

lemma commit_unknown:
  assumes "inmem_gv (wld t) xid = None"
  shows "tc_Commit (inmem_tc conf) now xid t = Some (Inr (success Finished), t)"
  using assms
  by (simp add: tc_Commit_def on_wld_def FindGlobalTransaction_def inmem_FindGlobalSession_def inmem_gv_def
      split: option.splits)

lemma begin_inmem:
  assumes "inmem_ok (wld t)" and "tc_Begin (inmem_tc conf) now rq t = (r, t1)"
  obtains resp a where "r = Inr resp" "gbp_ResultCode resp = ResultCodeSuccess"
    "gbp_XID resp = GenerateXID (gbq_Addressing rq) (fst (NextID (uuid t)))"
    "inmem_gv (wld t1) (gbp_XID resp) = Some a" "gs_Status a = Begin" "gs_Active a" "gs_BeginTime a = now"
    "gs_Timeout a = gbq_Timeout rq"
proof -
  obtain resp where r: "r = Inr resp" "gbp_ResultCode resp = ResultCodeSuccess"
    using assms(2)
    by (auto simp: tc_Begin_def on_wld_def AddGlobalSession_def inmem_AddGlobalSession_def Let_def split: prod.splits)
  note sp = inmem_sys.Begin_spec [OF assms refl refl]
  show thesis
    using that [OF r] sp(2) sp(3) [OF r] r by auto
qed

subsection \<open>A branch and its Confirm\<close>

lemma branchCommit_replied:
  assumes "branchCommit conf b s = ((PhaseTwoCommitted, None), s')" and "bs_Status (bobj (wld s) b) \<noteq> PhaseTwoCommitted"
    and "reply conf = client_reply manager t"
  shows "\<exists>n resp t'. handle_message manager
       \<lparr>bm_ID = n, bm_BranchMessageType = TypeBranchCommit, bm_Message = branch_request (bobj (wld s) b)\<rparr> t =
       (Return (Some \<lparr>an_ID = n, an_Type = TypeBranchCommitResult, an_Message = resp\<rparr>), t') \<and>
     bp_ResultCode resp = ResultCodeSuccess \<and> bp_BranchStatus resp = PhaseTwoCommitted"
proof -
  define msg where "msg = \<lparr>bm_ID = idGenerator s + 1, bm_BranchMessageType = TypeBranchCommit,
    bm_Message = branch_request (bobj (wld s) b)\<rparr>"
  obtain resp where r: "reply conf msg = Replied (CommitReply resp)" "bp_ResultCode resp = ResultCodeSuccess"
    "bp_BranchStatus resp = PhaseTwoCommitted"
    using assms(1,2)
    by (auto simp: branchCommit_def send_message_def Let_def msg_def
        split: option.splits rm_outcome.splits rm_reply.splits if_splits)
  obtain x t' where h: "handle_message manager msg t = (x, t')" by fastforce
  with r(1) assms(3) obtain a where a: "x = Return (Some a)" "an_Message a = resp"
    by (auto simp: client_reply_def split: outcome.splits option.splits if_splits)
  from handle_message_answers [OF h [unfolded a(1)]] a(2)
  have "a = \<lparr>an_ID = idGenerator s + 1, an_Type = TypeBranchCommitResult, an_Message = resp\<rparr>"
    by (simp add: msg_def)
  with h a(1) r(2,3) show ?thesis unfolding msg_def by blast
qed

lemma handle_commit:
  assumes "handle_message manager \<lparr>bm_ID = n, bm_BranchMessageType = TypeBranchCommit, bm_Message = rq\<rparr> t =
      (Return (Some \<lparr>an_ID = n, an_Type = TypeBranchCommitResult, an_Message = resp\<rparr>), t')"
    and "managers manager (bq_BranchType rq) = Some (tcc_manager unmarshal cache)"
  shows "phase_two unmarshal CommitMethod PhaseTwoCommitted PhaseTwoCommitFailedRetryable cache rq t = (Return (Inr resp), t')"
  using assms
  by (auto simp: handle_message_def answer_with_def rm_BranchCommit_def tcc_manager_def tcc_BranchCommit_def
      split: prod.splits outcome.splits sum.splits)

end
