(* ===== verification/Client_Runs.thy ===== *)
theory Client_Runs
  imports Client_System
begin

text \<open>
  What a caller of a proxied method observes: the bracket of calls around the method, the calls
  that are not made, and what the answers of the coordinator are taken for.
\<close>

subsection \<open>The bracket\<close>

text \<open>C35: a method with propagation \<open>Required\<close>, called outside a transaction over the in-memory
  coordinator: a session is begun, the method runs with its XID in the root context while the
  session is stored, active and in status \<open>Begin\<close>, and when the method returns the coordinator
  is called once, \<open>Commit\<close> if the method's error is nil and \<open>Rollback\<close> if it is not; once that call
  succeeds the caller gets exactly what the method returned.\<close>

theorem required_call_brackets:
  assumes "srv_tc s = Some t" and "inmem_ok (wld t)"
    and "tc_Begin (inmem_tc conf) (srv_now s)
      \<lparr>gbq_Addressing = a, gbq_Timeout = TimeOut info, gbq_TransactionName = ti_Name info\<rparr> t = (r, t1)"
    and "xid = GenerateXID a (fst (NextID (uuid t)))"
    and "invocation_context args = Some ctx" and "localMap ctx = Map.empty"
    and "length args + 1 = md_ArgsNum md" and "ti_Propagation info = Required"
    and "Invoke md True args (Bind xid ctx, s\<lparr>srv_tc := Some t1\<rparr>) = (Return rs, ctx2, s2)"
    and "error_value rs = Some err" and "srv_tc s2 = Some t2"
    and "(case err of None \<Rightarrow> tc_Commit | Some e \<Rightarrow> tc_Rollback) (inmem_tc conf) (srv_now s2) xid t2 =
      Some (Inr resp, t3)" and "gr_ResultCode resp = ResultCodeSuccess"
    and "0 <s CommitRetryCount tmc" and "0 <s RollbackRetryCount tmc"
  shows "(\<exists>ctx3. call_proxy zero \<lparr>tm_addressing = a, tm_rpcClient = tm_service u (inmem_tc conf)\<rparr> tmc
      (Some md) (Some info) args s = (Return rs, Some ctx3, s2\<lparr>srv_tc := Some t3\<rparr>)) \<and>
    GetXID (Bind xid ctx) = xid \<and>
    (\<exists>g. inmem_gv (wld t1) xid = Some g \<and> gs_Status g = Begin \<and> gs_Active g \<and> gs_Timeout g = TimeOut info)"
proof -
  from begin_inmem [OF assms(2,3)] obtain p g where p: "r = Inr p" "gbp_ResultCode p = ResultCodeSuccess" "gbp_XID p = xid"
    and g: "inmem_gv (wld t1) xid = Some g" "gs_Status g = Begin" "gs_Active g" "gs_Timeout g = TimeOut info"
    using assms(4) by (metis GlobalBeginRequest.select_convs(1,2))
  have x: "xid \<noteq> []" by (simp add: assms(4) GenerateXID_def)
  obtain tx ctx3 where "in_transaction zero \<lparr>tm_addressing = a, tm_rpcClient = tm_service u (inmem_tc conf)\<rparr> md info args
      (CreateNew tmc, ctx, s) = (Return rs, tx, ctx3, s2\<lparr>srv_tc := Some t3\<rparr>)"
    using in_transaction_served [OF assms(1) assms(3) [unfolded p(1)] p(2) _ assms(6) _ assms(10,11) _ assms(13,14,15)]
      x assms(9,12) p(3) by (fastforce simp: ends_with_def)
  from call_proxy_required [OF assms(5,6,7,8) this] g x show ?thesis by simp
qed

text \<open>C36: a method whose transaction is gone from the store by the time the method returns, for
  instance because it timed out and was rolled back, is committed all the same: the coordinator
  answers \<open>Finished\<close>, the status is not looked at, and the caller sees success.\<close>

theorem lost_transaction_reported_done:
  assumes "srv_tc s = Some t" and "inmem_ok (wld t)"
    and "tc_Begin (inmem_tc conf) (srv_now s)
      \<lparr>gbq_Addressing = a, gbq_Timeout = TimeOut info, gbq_TransactionName = ti_Name info\<rparr> t = (r, t1)"
    and "xid = GenerateXID a (fst (NextID (uuid t)))"
    and "invocation_context args = Some ctx" and "localMap ctx = Map.empty"
    and "length args + 1 = md_ArgsNum md" and "ti_Propagation info = Required"
    and "Invoke md True args (Bind xid ctx, s\<lparr>srv_tc := Some t1\<rparr>) = (Return rs, ctx2, s2)"
    and "error_value rs = Some None" and "srv_tc s2 = Some t2" and "inmem_gv (wld t2) xid = None"
    and "0 <s CommitRetryCount tmc" and "0 <s RollbackRetryCount tmc"
  shows "\<exists>ctx3. call_proxy zero \<lparr>tm_addressing = a, tm_rpcClient = tm_service u (inmem_tc conf)\<rparr> tmc
      (Some md) (Some info) args s = (Return rs, Some ctx3, s2)"
proof -
  from begin_inmem [OF assms(2,3)] obtain p where p: "r = Inr p" "gbp_ResultCode p = ResultCodeSuccess" "gbp_XID p = xid"
    using assms(4) by (metis GlobalBeginRequest.select_convs(1))
  have x: "xid \<noteq> []" by (simp add: assms(4) GenerateXID_def)
  have s2: "s2\<lparr>srv_tc := Some t2\<rparr> = s2" using assms(11) by simp
  have e: "ends_with None (inmem_tc conf) (srv_now s2) xid t2 = Some (Inr (success Finished), t2)"
    by (simp add: ends_with_def commit_unknown [OF assms(12)])
  have ok: "gr_ResultCode (success Finished) = ResultCodeSuccess" by (simp add: success_def)
  obtain tx ctx3 where "in_transaction zero \<lparr>tm_addressing = a, tm_rpcClient = tm_service u (inmem_tc conf)\<rparr> md info args
      (CreateNew tmc, ctx, s) = (Return rs, tx, ctx3, s2)"
    using in_transaction_served [OF assms(1) assms(3) [unfolded p(1)] p(2) _ assms(6) _ assms(10,11) _ ok assms(13,14)]
      x assms(9) p(3) e s2 by fastforce
  from call_proxy_required [OF assms(5,6,7,8) this] show ?thesis by blast
qed

subsection \<open>Inside a transaction\<close>

text \<open>C37: inside a transaction a call with propagation \<open>RequiresNew\<close> begins none: its method runs in a
  root context without an XID, the coordinator is not called whatever the outcome, so that the call
  does what one with \<open>NotSupported\<close> does.\<close>

theorem requires_new_runs_without_transaction:
  assumes "invocation_context args = Some ctx" and "bound xid ctx" and "length args + 1 = md_ArgsNum md"
    and "Invoke md True args (snd (Unbind ctx), s) = (Return rs, ctx1, s1)" and "error_value rs \<noteq> None"
    and "ti_Propagation info = RequiresNew" and "ti_Propagation info' = NotSupported"
  shows "\<not> InGlobalTransaction (snd (Unbind ctx)) \<and>
    (\<exists>ctx2. call_proxy zero manager tmc (Some md) (Some info) args s = (Return rs, Some ctx2, s1)) \<and>
    (\<exists>ctx2. call_proxy zero manager tmc (Some md) (Some info') args s = (Return rs, Some ctx2, s1))"
proof -
  let ?tx = "\<lparr>gtx_conf = tmc, gtx_XID = xid, gtx_Status = Begin, gtx_Role = Participant\<rparr>"
  obtain ctx2 where t: "in_transaction zero manager md info args (?tx, snd (Unbind ctx), s) = (Return rs, ?tx, ctx2, s1)"
    using in_transaction_participant [of ?tx, OF _ _ assms(4,5)] bound_simps(3) [OF assms(2)] by fastforce
  note c = assms(1,3,6,7) current_bound [OF assms(2)] suspend_resume(1) [OF assms(2)]
  show ?thesis
    using t c bound_simps(6) [OF assms(2)] run_methodE [OF assms(4)]
    by (simp add: call_proxy_def propagate_def Let_def)
qed

subsection \<open>The retries\<close>

lemma unbind_own_ctx: "\<exists>ctx'. unbind_own (tx, ctx, w) = (tx, ctx', w)"
  by (metis fst_conv prod.collapse snd_conv unbind_own_world(1) unbind_own_world(2))

lemma gtx_Commit_loop:
  assumes "gtx_Role tx = Launcher" and "gtx_XID tx \<noteq> []"
    and "retry_loop (tm_Commit manager (gtx_XID tx)) (nat (sint (CommitRetryCount (gtx_conf tx)))) s = (l, s')"
  shows "\<exists>ctx'. gtx_Commit manager (tx, ctx, s) =
    (case l of
       Inl u \<Rightarrow> (Some (NewError ''Failed to report global commit''), tx, ctx', s')
     | Inr None \<Rightarrow> (None, tx, ctx', s')
     | Inr (Some status) \<Rightarrow> (None, tx\<lparr>gtx_Status := status\<rparr>, ctx', s'))"
  using unbind_own_ctx [of tx ctx s'] unbind_own_ctx [of "tx\<lparr>gtx_Status := the (projr l)\<rparr>" ctx s']
  by (cases l; cases "projr l")
    (auto simp: gtx_Commit_def finish_launcher [OF assms(1,2)] assms(3) split: option.splits unit.splits)

text \<open>C38: the loop of \<open>Commit\<close> ends after at most \<open>CommitRetryCount\<close> calls to the coordinator: all but
  the last of them failed, an error is returned only when all \<open>CommitRetryCount\<close> calls were made and
  failed, and with a count that is not positive no call is made and nil is returned.\<close>

theorem commit_calls_bounded:
  assumes "gtx_Role tx = Launcher" and "gtx_XID tx \<noteq> []"
    and "call = tm_Commit manager (gtx_XID tx)" and "n = nat (sint (CommitRetryCount (gtx_conf tx)))"
  shows "\<exists>k r tx' ctx'. k \<le> n \<and> gtx_Commit manager (tx, ctx, s) = (r, tx', ctx', after_calls call k s) \<and>
    (\<forall>j. Suc j < k \<longrightarrow> isl (fst (call (after_calls call j s)))) \<and>
    (k = 0 \<longleftrightarrow> n = 0) \<and>
    (if k = 0 then r = None
     else case fst (call (after_calls call (k - 1) s)) of
       Inl e \<Rightarrow> k = n \<and> r = Some (NewError ''Failed to report global commit'')
     | Inr st \<Rightarrow> r = None \<and> gtx_Status tx' = st)"
proof -
  obtain l s' where l: "retry_loop call n s = (l, s')" by fastforce
  note f = gtx_Commit_loop [OF assms(1,2) l [unfolded assms(3,4)]]
  show ?thesis
  proof (cases "n = 0")
    case True
    with l f [of ctx] show ?thesis by (intro exI [of _ 0]) auto
  next
    case False
    from retry_loop_spec [OF l] False obtain k where k: "0 < k" "k \<le> n" "s' = after_calls call k s"
      "\<forall>j. Suc j < k \<longrightarrow> (\<exists>e. fst (call (after_calls call j s)) = Inl e)"
      "case l of Inl _ \<Rightarrow> k = n \<and> (\<exists>e. fst (call (after_calls call (k - 1) s)) = Inl e)
       | Inr st \<Rightarrow> (\<exists>x. st = Some x \<and> fst (call (after_calls call (k - 1) s)) = Inr x)" by blast
    have j: "\<forall>j. Suc j < k \<longrightarrow> isl (fst (call (after_calls call j s)))" using k(4) by (metis isl_def)
    show ?thesis
    proof (cases l)
      case (Inl u)
      from f [of ctx] Inl obtain c where "gtx_Commit manager (tx, ctx, s) =
          (Some (NewError ''Failed to report global commit''), tx, c, s')" by auto
      with k(5) Inl k(1,2,3) j False show ?thesis by (intro exI [of _ k]) auto
    next
      case (Inr st)
      with k(5) obtain x where x: "st = Some x" "fst (call (after_calls call (k - 1) s)) = Inr x" by auto
      from f [of ctx] Inr x(1) obtain c where "gtx_Commit manager (tx, ctx, s) = (None, tx\<lparr>gtx_Status := x\<rparr>, c, s')" by auto
      with x(2) k(1,2,3) j False show ?thesis by (intro exI [of _ k]) auto
    qed
  qed
qed

subsection \<open>Services and resources\<close>

text \<open>The descriptors of a service are kept under the name of its type, so a second service whose
  type has the same name is given those of the first: a call through its descriptor runs the
  method of the first service, on the first service's receiver.\<close>

theorem same_name_calls_first_service:
  assumes "serviceDescriptorMap (svc_TypeName first) = None"
    and "Register first methodName serviceDescriptorMap = (Some d, m)"
    and "svc_TypeName second = svc_TypeName first"
  shows "\<exists>method. Register second methodName m = (Some d, m) \<and> svc_MethodByName first methodName = Some method \<and>
    (\<forall>root args s ins. length args = length (gm_In method) \<longrightarrow>
       those (map2 (call_arg root) (gm_In method) args) = Some ins \<longrightarrow>
       Invoke d root args s = gm_Func method (svc_Value first) ins s)"
proof -
  from Register_fresh [OF assms(2,1)] obtain m' where m': "svc_MethodByName first methodName = Some m'"
    "md_Method d = m'" "md_CallerValue d = svc_Value first" "md_ArgsType d = gm_In m'"
    by (auto simp: describes_def)
  with Register_shared [OF assms(2,3)] show ?thesis by (auto simp: Invoke_def)
qed

text \<open>What is registered for a method, and that registering another method leaves it.\<close>

definition registered :: "('v, 's) registry \<Rightarrow> string \<Rightarrow> string \<Rightarrow> ('v, 's) MethodDescriptor option" where
  "registered m svc name = Option.bind (m svc) (\<lambda>ms. ms name)"

lemma Register_keeps:
  assumes "Register service name m = (r, m')" and "name' \<noteq> name"
  shows "registered m' svc name' = registered m svc name'"
  using assms by (cases "svc = svc_TypeName service")
    (auto simp: Register_def Let_def registered_def split: option.splits)

lemma Register_new:
  assumes "Register service name m = (Some d, m')" and "registered m (svc_TypeName service) name = None"
  shows "describes d service name"
  using assms
  by (auto simp: Register_def Let_def registered_def describes_def describeMethod_def split: option.splits if_splits)

lemma tcc_resource_try:
  assumes "registered m (svc_TypeName service) ''Try'' = None"
    and "tcc_resource service actionName m cache = Some ((Some d, resource), m', cache')"
  shows "describes d service ''Try''" and "TCCResource_GetResourceID resource = actionName"
proof -
  obtain c m1 where 1: "Register service ''Confirm'' m = (c, m1)" by fastforce
  obtain k m2 where 2: "Register service ''Cancel'' m1 = (k, m2)" by fastforce
  have 3: "Register service ''Try'' m2 = (Some d, m')" and "ActionName resource = actionName"
    using assms(2) 1 2 by (auto simp: tcc_resource_def Let_def split: prod.splits if_splits)
  then show "TCCResource_GetResourceID resource = actionName" by (simp add: TCCResource_GetResourceID_def)
  have "registered m2 (svc_TypeName service) ''Try'' = None"
    using Register_keeps [OF 2] Register_keeps [OF 1] assms(1) by simp
  with 3 show "describes d service ''Try''" by (rule Register_new)
qed

text \<open>C39: a TCC service, whose Try takes the action context and a flag as the interface \<open>TccService\<close>
  asks, cannot be called through its proxy: the proxy passes the action context alone, so the call
  panics before the method runs. Inside a global transaction its branch is registered first, and
  stays registered.\<close>

theorem tcc_try_panics:
  assumes "registered m (svc_TypeName service) ''Try'' = None"
    and "tcc_resource service actionName m cache = Some ((d, resource), m', cache')"
    and "svc_MethodByName service ''Try'' = Some method" and "length (gm_In method) = 2"
    and "bac_RootContext ctx = Some root" and "bac_ActionContext ctx = Some actionContext"
    and "marshal [TccActionContext \<mapsto> JObject (action_log ip now resource actionName actionContext)] = Inr applicationData"
    and "rm_BranchRegister manager (GetXID root) actionName TCC (Some applicationData) [] (bac_AsyncCommit ctx) s =
      (Inr branchID, s1)"
  shows "\<exists>ctx'. tcc_call_proxy zero marshal ip now manager d resource (ctx, s) =
    (Panicked, ctx', if InGlobalTransaction root then s1 else s)"
proof -
  have an: "ActionName resource = actionName" "TCCResource_GetResourceID resource = actionName"
    using assms(2) by (auto simp: tcc_resource_def TCCResource_GetResourceID_def Let_def split: prod.splits if_splits)
  have arity: "length (md_ArgsType x) = 2" if "d = Some x" for x
    using tcc_resource_try(1) [OF assms(1) assms(2) [unfolded that]] assms(3,4) by (auto simp: describes_def)
  have inv: "Invoke x False [Arg CtxPtr] c = (Panicked, c)" if "d = Some x" for x and c :: "BusinessActionContext \<times> 'a"
    by (rule Invoke_arity) (simp add: arity [OF that])
  show ?thesis
    using assms(5-8) an inv
    by (cases d) (auto simp: tcc_call_proxy_def proceed_def doTccActionLogStore_def TCCResource_GetBranchType_def Let_def)
qed


end
