(* ===== verification/Client_Demo.thy ===== *)
theory Client_Demo
  imports Client_Runs
begin

text \<open>
  Concrete calls through the proxies: a payment service whose method registers a branch, one
  that is so slow that its transaction times out, and TCC services.
\<close>

subsection \<open>Calls over the in-memory coordinator\<close>

definition demo_server :: "inmem server" where
  "demo_server = \<lparr>srv_now = 1000, srv_tc = Some (inmem_start demo_uuid)\<rparr>"

definition demo_tm :: "inmem server TransactionManager" where
  "demo_tm = \<lparr>tm_addressing = ''tm'', tm_rpcClient = tm_service (Errorf ''unavailable'') (inmem_tc demo_conf)\<rparr>"

definition demo_tmc :: TMConfig where
  "demo_tmc = \<lparr>CommitRetryCount = 5, RollbackRetryCount = 5\<rparr>"

definition demo_info :: "Propagation \<Rightarrow> TransactionInfo" where
  "demo_info p = \<lparr>TimeOut = 60000, ti_Name = ''t'', ti_Propagation = p\<rparr>"

text \<open>A method with one parameter, a context, and one result, an error.\<close>

definition ctx_method :: "(RootContext \<times> 's \<Rightarrow> 'v retval list outcome \<times> RootContext \<times> 's) \<Rightarrow> ('v, RootContext \<times> 's) gomethod" where
  "ctx_method f = \<lparr>gm_Name = ''Pay'', gm_PkgPath = [], gm_In = [ContextType], gm_Out = [ErrorType],
     gm_Func = (\<lambda>receiver ins c. f c)\<rparr>"

definition ctx_descriptor :: "(RootContext \<times> 's \<Rightarrow> 'v retval list outcome \<times> RootContext \<times> 's) \<Rightarrow> ('v, RootContext \<times> 's) MethodDescriptor" where
  "ctx_descriptor f = \<lparr>md_Method = ctx_method f, md_CallerValue = 1, md_CtxType = Some ContextType,
     md_ArgsType = [ContextType], md_ArgsNum = 2, md_ReturnValuesType = [ErrorType], md_ReturnValuesNum = 1\<rparr>"

lemma ctx_descriptor_registered:
  "fst (Register \<lparr>svc_TypeName = ''Svc'', svc_Value = 1, svc_MethodByName = [''Pay'' \<mapsto> ctx_method f]\<rparr> ''Pay'' Map.empty) =
   Some (ctx_descriptor f)"
  by (simp add: Register_def Let_def describeMethod_def ctx_method_def ctx_descriptor_def ContextType_def is_ctx_def
      with_package_def isExported_def)

lemma Invoke_ctx [simp]: "Invoke (ctx_descriptor f) True [CtxArg v] c = f c"
  by (simp add: Invoke_def ctx_descriptor_def ctx_method_def call_arg_def is_ctx_def ContextType_def with_package_def)

lemma arity_ctx [simp]: "length [CtxArg v] + 1 = md_ArgsNum (ctx_descriptor f)"
  by (simp add: ctx_descriptor_def)

definition no_xid :: RootContext where "no_xid = \<lparr>ctx_Value = None, localMap = Map.empty\<rparr>"

lemma invocation_background: "invocation_context [CtxArg (Some None)] = Some no_xid"
  by (simp add: invocation_context_def NewRootContext_def no_xid_def)

lemma client_xid: "''tm:1'' = GenerateXID ''tm'' (fst (NextID (uuid (inmem_start demo_uuid))))"
  by code_simp

lemma demo_begin_call:
  "tc_Begin (inmem_tc demo_conf) (srv_now demo_server)
     \<lparr>gbq_Addressing = ''tm'', gbq_Timeout = TimeOut (demo_info p), gbq_TransactionName = ti_Name (demo_info p)\<rparr>
     (inmem_start demo_uuid) = (fst (tc_Begin (inmem_tc demo_conf) 1000 demo_begin (inmem_start demo_uuid)), demo_begun)"
  by (simp add: demo_server_def demo_info_def demo_begun_def demo_begin_def)

lemma demo_server_facts:
  "srv_tc demo_server = Some (inmem_start demo_uuid)" "inmem_ok (wld (inmem_start demo_uuid))"
  "localMap no_xid = Map.empty" "ti_Propagation (demo_info p) = p"
  "0 <s CommitRetryCount demo_tmc" "0 <s RollbackRetryCount demo_tmc"
  by (simp_all add: demo_server_def no_xid_def demo_info_def demo_tmc_def word_sless_alt)

lemma demo_call:
  "f (Bind ''tm:1'' no_xid, demo_server\<lparr>srv_tc := Some demo_begun\<rparr>) = r \<Longrightarrow>
   Invoke (ctx_descriptor f) True [CtxArg (Some None)] (Bind ''tm:1'' no_xid, demo_server\<lparr>srv_tc := Some demo_begun\<rparr>) = r"
  by simp

lemma succeeded: "gr_ResultCode (success st) = ResultCodeSuccess"
  by (simp add: success_def)

lemma no_error: "error_value [RErr None] = Some None"
  by (simp add: error_value_def)

text \<open>The payment registers its branch with the coordinator.\<close>

definition pay :: "RootContext \<times> inmem server \<Rightarrow> nat retval list outcome \<times> RootContext \<times> inmem server" where
  "pay c = (let (ctx, s) = c
     in case fst (rpc_BranchRegister (rm_service (Errorf ''unavailable'') (inmem_tc demo_conf))
                    ((demo_register TCC)\<lparr>brq_XID := GetXID ctx\<rparr>) s) of
          Inl err \<Rightarrow> (Return [RErr (Some (RpcError err))], c)
        | Inr p \<Rightarrow>
            (Return [RErr None], ctx, (snd (rpc_BranchRegister (rm_service (Errorf ''unavailable'') (inmem_tc demo_conf))
                    ((demo_register TCC)\<lparr>brq_XID := GetXID ctx\<rparr>) s))\<lparr>srv_now := 2000\<rparr>))"

definition pay_after :: "inmem server" where
  "pay_after = \<lparr>srv_now = 2000, srv_tc = Some (demo_registered TCC)\<rparr>"

lemma pay_runs:
  "pay (Bind ''tm:1'' no_xid, demo_server\<lparr>srv_tc := Some demo_begun\<rparr>) =
   (Return [RErr None], Bind ''tm:1'' no_xid, pay_after)"
proof -
  obtain p where "tc_BranchRegister (inmem_tc demo_conf) (demo_register TCC) demo_begun = Some (p, demo_registered TCC)"
    using demo_some(2) by (auto simp: Option.is_none_def demo_registered_def)
  moreover have "(demo_register TCC)\<lparr>brq_XID := ''tm:1''\<rparr> = demo_register TCC" by (simp add: demo_register_def)
  ultimately show ?thesis
    by (simp add: pay_def rm_service_def served_def demo_server_def pay_after_def)
qed

lemma pay_commits:
  "tc_Commit (inmem_tc demo_conf) 2000 ''tm:1'' (demo_registered TCC) =
   Some (Inr (success Committed), demo_committed TCC)"
proof -
  have "map_option fst (tc_Commit (inmem_tc demo_conf) 2000 ''tm:1'' (demo_registered TCC)) = Some (Inr (success Committed))"
    by code_simp
  then show ?thesis by (auto simp: demo_committed_def)
qed

theorem required_call_brackets_witness:
  "(\<exists>ctx. call_proxy (\<lambda>_. 0) demo_tm demo_tmc (Some (ctx_descriptor pay)) (Some (demo_info Required)) [CtxArg (Some None)]
      demo_server = (Return [RErr None], Some ctx, \<lparr>srv_now = 2000, srv_tc = Some (demo_committed TCC)\<rparr>)) \<and>
   inmem_gv (wld (demo_committed TCC)) ''tm:1'' = None"
proof -
  have "\<exists>ctx. call_proxy (\<lambda>_. 0) demo_tm demo_tmc (Some (ctx_descriptor pay)) (Some (demo_info Required)) [CtxArg (Some None)]
      demo_server = (Return [RErr None], Some ctx, pay_after\<lparr>srv_tc := Some (demo_committed TCC)\<rparr>)"
    unfolding demo_tm_def
    by (rule required_call_brackets [where err = None and resp = "success Committed", THEN conjunct1, OF demo_server_facts(1,2) demo_begin_call client_xid invocation_background
          demo_server_facts(3) arity_ctx demo_server_facts(4) demo_call [where f = pay, OF pay_runs] no_error _ _ _ demo_server_facts(5,6)])
      (simp_all add: pay_after_def succeeded, rule pay_commits)
  moreover have "Option.is_none (inmem_gv (wld (demo_committed TCC)) ''tm:1'')" by code_simp
  ultimately show ?thesis by (simp add: pay_after_def Option.is_none_def)
qed

subsection \<open>A method slower than its transaction\<close>

text \<open>Ninety-nine seconds pass, the coordinator's passes run, and the method returns.\<close>

definition demo_expired :: "inmem tc" where
  "demo_expired = timeoutCheck (inmem_tc demo_conf) 100000 (snd (the (open_stream (Some [''tm'']) demo_begun)))"

definition demo_lost :: "inmem tc" where
  "demo_lost = the (handleRetryRollingBack (inmem_tc demo_conf) 100000 demo_expired)"

definition sleep_method :: "RootContext \<times> inmem server \<Rightarrow> nat retval list outcome \<times> RootContext \<times> inmem server" where
  "sleep_method c = (Return [RErr None], fst c, \<lparr>srv_now = 100000, srv_tc = Some demo_lost\<rparr>)"

lemma demo_lost_steps:
  "\<not> Option.is_none (open_stream (Some [''tm'']) demo_begun)"
  "demo_history demo_expired ''tm:1'' = Some TimeoutRollingBack"
  "\<not> Option.is_none (handleRetryRollingBack (inmem_tc demo_conf) 100000 demo_expired)"
  "Option.is_none (inmem_gv (wld demo_lost) ''tm:1'')"
  by code_simp+

lemma demo_lost_run: "inmem_run demo_conf demo_begun 3 demo_lost"
proof -
  obtain p s1 where 1: "open_stream (Some [''tm'']) demo_begun = Some (p, s1)"
    using demo_lost_steps(1) by (auto simp: Option.is_none_def)
  have 2: "handleRetryRollingBack (inmem_tc demo_conf) 100000 demo_expired = Some demo_lost"
    using demo_lost_steps(3) by (auto simp: Option.is_none_def demo_lost_def)
  have e: "demo_expired = timeoutCheck (inmem_tc demo_conf) 100000 s1" using 1 by (simp add: demo_expired_def)
  have "inmem_run demo_conf demo_begun 2 demo_expired"
    unfolding inmem_run_def e by (rule tc_run_2 [OF tc_step.connect [OF 1] tc_step.timeout_check])
  then show ?thesis
    unfolding inmem_run_def eval_nat_numeral(3) by (rule tc_run.run_Suc) (rule tc_step.retry_rolling_back [OF 2])
qed

theorem lost_transaction_reported_done_witness:
  "(\<exists>ctx. call_proxy (\<lambda>_. 0) demo_tm demo_tmc (Some (ctx_descriptor sleep_method)) (Some (demo_info Required))
      [CtxArg (Some None)] demo_server = (Return [RErr None], Some ctx, \<lparr>srv_now = 100000, srv_tc = Some demo_lost\<rparr>)) \<and>
   demo_history demo_expired ''tm:1'' = Some TimeoutRollingBack \<and> inmem_run demo_conf demo_begun 3 demo_lost"
proof -
  have c: "sleep_method (Bind ''tm:1'' no_xid, demo_server\<lparr>srv_tc := Some demo_begun\<rparr>) =
      (Return [RErr None], Bind ''tm:1'' no_xid, \<lparr>srv_now = 100000, srv_tc = Some demo_lost\<rparr>)"
    by (simp add: sleep_method_def)
  have "\<exists>ctx. call_proxy (\<lambda>_. 0) demo_tm demo_tmc (Some (ctx_descriptor sleep_method)) (Some (demo_info Required))
      [CtxArg (Some None)] demo_server = (Return [RErr None], Some ctx, \<lparr>srv_now = 100000, srv_tc = Some demo_lost\<rparr>)"
    unfolding demo_tm_def
    by (rule lost_transaction_reported_done [OF demo_server_facts(1,2) demo_begin_call client_xid invocation_background
          demo_server_facts(3) arity_ctx demo_server_facts(4) demo_call [where f = sleep_method, OF c] no_error _ _
          demo_server_facts(5,6)])
      (use demo_lost_steps(4) in \<open>simp_all add: Option.is_none_def\<close>)
  with demo_lost_steps(2) demo_lost_run show ?thesis by blast
qed

subsection \<open>A call inside a transaction\<close>

text \<open>A connection that counts the calls and fails the first two commits.\<close>

definition counting_tm :: "nat TransactionManager" where
  "counting_tm = \<lparr>tm_addressing = ''tm'', tm_rpcClient =
     \<lparr>rpc_Begin = (\<lambda>rq n. (Inl (Errorf ''no''), n + 1)),
      rpc_Commit = (\<lambda>x n. (if n < 2 then Inl (Errorf ''no'') else Inr (success Committed), n + 1)),
      rpc_Rollback = (\<lambda>x n. (Inl (Errorf ''no''), n + 1)), rpc_GetStatus = (\<lambda>x n. (Inl (Errorf ''no''), n + 1)),
      rpc_GlobalReport = (\<lambda>x st n. (Inl (Errorf ''no''), n + 1))\<rparr>\<rparr>"

definition in_tm1 :: RootContext where
  "in_tm1 = Bind ''tm:1'' \<lparr>ctx_Value = Some (AnyStr ''tm:1''), localMap = Map.empty\<rparr>"

theorem requires_new_runs_without_transaction_witness:
  "\<exists>ctx. call_proxy (\<lambda>_. 0 :: nat) counting_tm demo_tmc (Some (ctx_descriptor (\<lambda>(ctx, n).
        (Return [RErr (if InGlobalTransaction ctx then None else Some (NewError ''no transaction''))], ctx, n))))
      (Some (demo_info RequiresNew)) [CtxArg (Some (Some (AnyStr ''tm:1'')))] (0 :: nat) =
      (Return [RErr (Some (NewError ''no transaction''))], Some ctx, 0)"
proof -
  let ?f = "\<lambda>(ctx, n :: nat). (Return [RErr (if InGlobalTransaction ctx then None else Some (NewError ''no transaction''))] ::
    nat retval list outcome, ctx, n)"
  have b: "bound ''tm:1'' in_tm1" by (simp add: bound_def in_tm1_def Bind_def ctx_Set_def)
  have i: "invocation_context [CtxArg (Some (Some (AnyStr ''tm:1'')))] = Some in_tm1"
    by (simp add: invocation_context_def NewRootContext_def in_tm1_def)
  have r: "Invoke (ctx_descriptor ?f) True [CtxArg (Some (Some (AnyStr ''tm:1'')))] (snd (Unbind in_tm1), 0) =
      (Return [RErr (Some (NewError ''no transaction''))], snd (Unbind in_tm1), 0)"
    using bound_simps(6) [OF b] by simp
  show ?thesis
    by (rule requires_new_runs_without_transaction [THEN conjunct2, THEN conjunct1,
          OF i b arity_ctx r _ demo_server_facts(4) demo_server_facts(4)]) (simp add: error_value_def)
qed

theorem commit_calls_bounded_witness:
  "gtx_Commit counting_tm (\<lparr>gtx_conf = demo_tmc, gtx_XID = ''tm:1'', gtx_Status = Begin, gtx_Role = Launcher\<rparr>, in_tm1, 0) =
     (None, \<lparr>gtx_conf = demo_tmc, gtx_XID = ''tm:1'', gtx_Status = Committed, gtx_Role = Launcher\<rparr>, snd (Unbind in_tm1), 3) \<and>
   (\<exists>k. k \<le> 5 \<and> after_calls (tm_Commit counting_tm ''tm:1'') k 0 = 3)"
proof -
  let ?tx = "\<lparr>gtx_conf = demo_tmc, gtx_XID = ''tm:1'', gtx_Status = Begin, gtx_Role = Launcher\<rparr>"
  have g: "gtx_Commit counting_tm (?tx, in_tm1, 0) =
     (None, \<lparr>gtx_conf = demo_tmc, gtx_XID = ''tm:1'', gtx_Status = Committed, gtx_Role = Launcher\<rparr>, snd (Unbind in_tm1), 3)"
    by (simp add: gtx_Commit_def finish_with_def unbind_own_def demo_tmc_def in_tm1_def tm_Commit_def status_of_def
        counting_tm_def success_def eval_nat_numeral Let_def)
  have n: "nat (sint (CommitRetryCount (gtx_conf ?tx))) = 5" by (simp add: demo_tmc_def)
  from commit_calls_bounded [of ?tx, OF _ _ refl n [symmetric], of counting_tm in_tm1 0] g show ?thesis by auto
qed

subsection \<open>Services\<close>

definition shop :: "nat \<Rightarrow> (nat, nat) service" where
  "shop i = \<lparr>svc_TypeName = ''Svc'', svc_Value = i, svc_MethodByName =
     [''Who'' \<mapsto> \<lparr>gm_Name = ''Who'', gm_PkgPath = [], gm_In = [], gm_Out = [],
       gm_Func = (\<lambda>receiver ins s. (Return [RVal receiver], s))\<rparr>]\<rparr>"

theorem same_name_calls_first_service_witness:
  "\<exists>d. fst (Register (shop 2) ''Who'' (snd (Register (shop 1) ''Who'' Map.empty))) = Some d \<and>
     Invoke d False [] (0 :: nat) = (Return [RVal 1], 0)"
proof -
  obtain d m where r: "Register (shop 1) ''Who'' Map.empty = (Some d, m)"
    by (simp add: Register_def Let_def describeMethod_def shop_def)
  from same_name_calls_first_service [OF _ r, of "shop 2"] show ?thesis
    using r by (auto simp: shop_def)
qed

definition tcc_service :: "(tccval, BusinessActionContext \<times> nat) service" where
  "tcc_service = \<lparr>svc_TypeName = ''Stock'', svc_Value = 1, svc_MethodByName = (\<lambda>name.
     if name \<in> {''Try'', ''Confirm'', ''Cancel''} then
       Some \<lparr>gm_Name = name, gm_PkgPath = [],
         gm_In = Ptr (Named ''context'' ''context'' ''BusinessActionContext'') #
           (if name = ''Try'' then [Named [] [] ''bool''] else []),
         gm_Out = Named [] [] ''bool'' # (if name = ''Try'' then [ErrorType] else []),
         gm_Func = (\<lambda>receiver ins s. (Return (RVal (VBool True) # (if name = ''Try'' then [RErr None] else [])), s))\<rparr>
     else None)\<rparr>"

definition counting_rm :: "nat ResourceManager" where
  "counting_rm = InitResourceManager ''rm''
     \<lparr>rpc_BranchRegister = (\<lambda>rq n. (Inr (register_ok (of_nat (n + 1))), n + 1)),
      rpc_BranchReport = (\<lambda>rq n. (Inr report_ok, n)), rpc_LockQuery = (\<lambda>rq n. (Inl (Errorf ''no''), n))\<rparr>"

definition tcc_registered where
  "tcc_registered = the (tcc_resource tcc_service ''stock'' Map.empty Map.empty)"

definition tcc_ctx :: BusinessActionContext where
  "tcc_ctx = \<lparr>bac_RootContext = Some in_tm1, bac_XID = [], bac_BranchID = 0, bac_ActionName = [],
     bac_ActionContext = Some Map.empty, bac_AsyncCommit = False\<rparr>"

text \<open>One branch has been registered when Try panics.\<close>

theorem tcc_try_panics_witness:
  "\<exists>ctx. tcc_call_proxy (\<lambda>_. VOther 0) (\<lambda>m. Inr ''{}'') None 0 counting_rm (fst (fst tcc_registered)) (snd (fst tcc_registered))
     (tcc_ctx, 0) = (Panicked, ctx, 1)"
proof -
  have "tcc_resource tcc_service ''stock'' Map.empty Map.empty =
      Some ((fst (fst tcc_registered), snd (fst tcc_registered)), fst (snd tcc_registered), snd (snd tcc_registered))"
    by (simp add: tcc_registered_def tcc_resource_def Let_def split: prod.splits)
  note t = tcc_try_panics [OF _ this, where ctx = tcc_ctx and root = in_tm1 and actionContext = Map.empty and
      manager = counting_rm and s = 0]
  have "InGlobalTransaction in_tm1" by (simp add: in_tm1_def)
  then show ?thesis
    using t [where marshal = "\<lambda>m. Inr ''{}''" and applicationData = "''{}''" and ip = None and now = 0
        and branchID = 1 and ?s1.0 = 1 and zero = "\<lambda>_. VOther 0"]
    by (auto simp: registered_def tcc_service_def tcc_ctx_def counting_rm_def rm_BranchRegister_def InitResourceManager_def
        register_ok_def)
qed

definition tcc_cache :: "nat TCCResourceManager" where
  "tcc_cache = [''db'' \<mapsto> TccResource (snd (fst tcc_registered))]"

definition tcc_rm :: "nat ResourceManager" where
  "tcc_rm = RegisterTransactionServiceServer TCC (tcc_manager (\<lambda>d. None) tcc_cache) counting_rm"

definition tcc_conf :: "inmem tc_conf" where
  "tcc_conf = demo_conf\<lparr>reply := client_reply tcc_rm 0\<rparr>"

lemma tcc_confirm:
  "\<exists>md. CommitMethod (snd (fst tcc_registered)) = Some md \<and>
     Invoke md False [Arg CtxPtr] c = (Return [RVal (VBool True)], c)"
  by (simp add: tcc_registered_def tcc_resource_def Let_def Register_def describeMethod_def tcc_service_def
      isExported_def Invoke_def call_arg_def is_ctx_def with_package_def split: prod.splits)


end
