(* ===== verification/Go_Case.thy ===== *)
theory Go_Case
  imports Go_Strings
begin

text \<open>
  \<open>strings.ToLower\<close> and \<open>bytes.ToLower\<close> on ASCII, beside \<open>ToUpper\<close>.
\<close>

definition lower_char :: "char \<Rightarrow> char" where
  "lower_char c = (let n = (of_char c :: nat) in if 65 \<le> n \<and> n \<le> 90 then char_of (n + 32) else c)"

definition ToLower :: "string \<Rightarrow> string" where
  "ToLower s = map lower_char s"

lemma of_char_lower:
  "(of_char (lower_char c) :: nat) =
     (if 65 \<le> (of_char c :: nat) \<and> (of_char c :: nat) \<le> 90 then of_char c + 32 else of_char c)"
  by (auto simp: lower_char_def Let_def intro!: mod_less)

lemma upper_lower [simp]: "upper_char (lower_char c) = upper_char c"
proof -
  have "(of_char (upper_char (lower_char c)) :: nat) = of_char (upper_char c)"
    by (auto simp: of_char_upper of_char_lower)
  then show ?thesis by simp
qed

lemma ToUpper_ToLower [simp]: "ToUpper (ToLower s) = ToUpper s"
  by (simp add: ToUpper_def ToLower_def)

end
