(* ===== verification/Config.thy ===== *)
theory Config
  imports Coordinator_System Tm_Client Go_Case
begin

text \<open>
  The configuration of the server (\<open>pkg/tc/config/configuration.go\<close>, \<open>resolveConfiguration\<close> of
  \<open>cmd/tc/main.go\<close>) and of the client (\<open>pkg/client/config/configuration.go\<close>), the registry of
  the storage drivers (\<open>storage/driver/factory/factory.go\<close>), and the log level
  (\<open>pkg/util/log/logging.go\<close>). A duration is an \<open>int64\<close> of nanoseconds. Decoding YAML, reading a
  file and loading a certificate are parameters; \<open>log.Fatalf\<close> ends the process, which is \<open>Ends\<close>
  here as a panic is.
\<close>

datatype 'a exit = Goes_on 'a | Ends

subsection \<open>Log levels\<close>

datatype Level = DebugLevel | InfoLevel | WarnLevel | ErrorLevel | PanicLevel | FatalLevel

definition unmarshalText :: "string \<Rightarrow> Level option" where
  "unmarshalText word =
     (if word = ''debug'' \<or> word = ''DEBUG'' then Some DebugLevel
      else if word = ''info'' \<or> word = ''INFO'' \<or> word = [] then Some InfoLevel
      else if word = ''warn'' \<or> word = ''WARN'' then Some WarnLevel
      else if word = ''error'' \<or> word = ''ERROR'' then Some ErrorLevel
      else if word = ''panic'' \<or> word = ''PANIC'' then Some PanicLevel
      else if word = ''fatal'' \<or> word = ''FATAL'' then Some FatalLevel
      else None)"

text \<open>The error carries the quoted text, which \<open>quote\<close> stands for.\<close>

definition UnmarshalText :: "(string \<Rightarrow> string) \<Rightarrow> string \<Rightarrow> goerror + Level" where
  "UnmarshalText quote word =
     (case unmarshalText word of
        Some l \<Rightarrow> Inr l
      | None \<Rightarrow>
          (case unmarshalText (ToLower word) of
             Some l \<Rightarrow> Inr l
           | None \<Rightarrow> Inl (Errorf (''unrecognized level: '' @ quote word))))"

subsection \<open>Keep-alive parameters\<close>

definition Second :: int64 where "Second = 1000000000"

record EnforcementPolicy =
  MinTime :: int64
  ep_PermitWithoutStream :: bool

record ServerParameters =
  MaxConnectionIdle :: int64
  MaxConnectionAge :: int64
  MaxConnectionAgeGrace :: int64
  sp_Time :: int64
  sp_Timeout :: int64

definition GetEnforcementPolicy :: "EnforcementPolicy \<Rightarrow> EnforcementPolicy" where
  "GetEnforcementPolicy configured =
     (let ep = \<lparr>MinTime = 5 * Second, ep_PermitWithoutStream = True\<rparr>;
          ep = (if 0 <s MinTime configured then ep\<lparr>MinTime := MinTime configured\<rparr> else ep)
      in ep\<lparr>ep_PermitWithoutStream := ep_PermitWithoutStream configured\<rparr>)"

definition GetServerParameters :: "ServerParameters \<Rightarrow> ServerParameters" where
  "GetServerParameters configured =
     (let sp = \<lparr>MaxConnectionIdle = 15 * Second, MaxConnectionAge = 30 * Second,
            MaxConnectionAgeGrace = 5 * Second, sp_Time = 5 * Second, sp_Timeout = Second\<rparr>;
          sp = (if 0 <s MaxConnectionIdle configured then sp\<lparr>MaxConnectionIdle := MaxConnectionIdle configured\<rparr> else sp);
          sp = (if 0 <s MaxConnectionAge configured then sp\<lparr>MaxConnectionAge := MaxConnectionAge configured\<rparr> else sp);
          sp = (if 0 <s MaxConnectionAgeGrace configured
                then sp\<lparr>MaxConnectionAgeGrace := MaxConnectionAgeGrace configured\<rparr> else sp);
          sp = (if 0 <s sp_Time configured then sp\<lparr>sp_Time := sp_Time configured\<rparr> else sp)
      in if 0 <s sp_Timeout configured then sp\<lparr>sp_Timeout := sp_Timeout configured\<rparr> else sp)"

record ClientParameters =
  cp_Time :: int64
  cp_Timeout :: int64
  cp_PermitWithoutStream :: bool

text \<open>The time is set from the timeout.\<close>

definition GetClientParameters :: "ClientParameters \<Rightarrow> ClientParameters" where
  "GetClientParameters configured =
     (let cp = \<lparr>cp_Time = 10 * Second, cp_Timeout = Second, cp_PermitWithoutStream = True\<rparr>;
          cp = (if 0 <s cp_Time configured then cp\<lparr>cp_Time := cp_Timeout configured\<rparr> else cp);
          cp = (if 0 <s cp_Timeout configured then cp\<lparr>cp_Timeout := cp_Timeout configured\<rparr> else cp)
      in cp\<lparr>cp_PermitWithoutStream := cp_PermitWithoutStream configured\<rparr>)"

text \<open>Both sides: no credentials unless enabled, and the end of the process when they do not load.\<close>

definition GetServerTLS :: "(string \<Rightarrow> string \<Rightarrow> goerror + 'cred) \<Rightarrow> bool \<Rightarrow> string \<Rightarrow> string \<Rightarrow> 'cred option exit" where
  "GetServerTLS load enable certFilePath keyFilePath =
     (if \<not> enable then Goes_on None
      else case load certFilePath keyFilePath of Inl err \<Rightarrow> Ends | Inr cred \<Rightarrow> Goes_on (Some cred))"

definition GetClientTLS :: "(string \<Rightarrow> string \<Rightarrow> goerror + 'cred) \<Rightarrow> bool \<Rightarrow> string \<Rightarrow> string \<Rightarrow> 'cred option exit" where
  "GetClientTLS load enable certFilePath serverName =
     (if \<not> enable then Goes_on None
      else case load certFilePath serverName of Inl err \<Rightarrow> Ends | Inr cred \<Rightarrow> Goes_on (Some cred))"

subsection \<open>Storage\<close>

text \<open>A map from driver names to parameters, listed in the order Go visits it; the parameters are a
  map that may be nil. A value is of type \<open>'v\<close>.\<close>

type_synonym 'v Parameters = "(string \<times> 'v) list option"
type_synonym 'v Storage = "(string \<times> 'v Parameters) list"

definition Storage_Type :: "'v Storage \<Rightarrow> string exit" where
  "Storage_Type storage =
     (let storageType = map fst storage
      in if length storageType > 1 then Ends
         else if length storageType = 1 then Goes_on (storageType ! 0) else Goes_on [])"

definition Storage_Parameters :: "'v Storage \<Rightarrow> 'v Parameters exit" where
  "Storage_Parameters storage =
     (case Storage_Type storage of
        Ends \<Rightarrow> Ends
      | Goes_on t \<Rightarrow> Goes_on (case map_of storage t of Some p \<Rightarrow> p | None \<Rightarrow> None))"

text \<open>Writing to a nil map panics.\<close>

definition setParameter :: "string \<Rightarrow> 'v \<Rightarrow> 'v Storage \<Rightarrow> 'v Storage exit" where
  "setParameter key value storage =
     (case Storage_Type storage of
        Ends \<Rightarrow> Ends
      | Goes_on t \<Rightarrow>
          (case map_of storage t of
             Some (Some ps) \<Rightarrow> Goes_on (AList.update t (Some (AList.update key value ps)) storage)
           | _ \<Rightarrow> Ends))"

text \<open>The two attempts at decoding a node, as a map and as a string, are arguments; \<open>shown\<close> is \<open>%v\<close>.\<close>

definition UnmarshalYAML ::
    "(string list \<Rightarrow> string) \<Rightarrow> goerror + 'v Storage \<Rightarrow> goerror + string \<Rightarrow> goerror + 'v Storage" where
  "UnmarshalYAML shown as_map as_string =
     (case as_map of
        Inr storageMap \<Rightarrow>
          (if length storageMap > 1 then
             Inl (Errorf (''must provide exactly one storage type. Provided: '' @ shown (map fst storageMap)))
           else Inr storageMap)
      | Inl _ \<Rightarrow>
          (case as_string of
             Inr storageType \<Rightarrow> Inr [(storageType, Some [])]
           | Inl err \<Rightarrow> Inl err))"

text \<open>A storage is written as its map, or as the name of its driver when that has no parameters.\<close>

definition MarshalYAML :: "'v Storage \<Rightarrow> (string + 'v Storage) exit" where
  "MarshalYAML storage =
     (case Storage_Parameters storage of
        Ends \<Rightarrow> Ends
      | Goes_on None \<Rightarrow> (case Storage_Type storage of Ends \<Rightarrow> Ends | Goes_on t \<Rightarrow> Goes_on (Inl t))
      | Goes_on (Some p) \<Rightarrow> Goes_on (Inr storage))"

subsection \<open>Drivers by name\<close>

text \<open>A factory makes a driver from the parameters or fails; a nil factory is \<open>None\<close>.\<close>

type_synonym ('v, 'd) StorageDriverFactory = "'v Parameters \<Rightarrow> goerror + 'd"

definition Register_driver ::
    "string \<Rightarrow> ('v, 'd) StorageDriverFactory option \<Rightarrow> (string \<Rightarrow> ('v, 'd) StorageDriverFactory option) \<Rightarrow>
     (string \<Rightarrow> ('v, 'd) StorageDriverFactory option) exit" where
  "Register_driver name factory driverFactories =
     (case factory of
        None \<Rightarrow> Ends
      | Some f \<Rightarrow> (if driverFactories name \<noteq> None then Ends else Goes_on (driverFactories(name \<mapsto> f))))"

definition InvalidStorageDriverError :: "string \<Rightarrow> goerror" where
  "InvalidStorageDriverError name = Errorf (''Driver not registered: '' @ name)"

definition Create :: "(string \<Rightarrow> ('v, 'd) StorageDriverFactory option) \<Rightarrow> string \<Rightarrow> 'v Parameters \<Rightarrow> goerror + 'd" where
  "Create driverFactories name parameters =
     (case driverFactories name of
        None \<Rightarrow> Inl (InvalidStorageDriverError name)
      | Some driverFactory \<Rightarrow> driverFactory parameters)"

text \<open>The first step of \<open>NewTransactionCoordinator\<close>.\<close>

definition configured_driver :: "(string \<Rightarrow> ('v, 'd) StorageDriverFactory option) \<Rightarrow> 'v Storage \<Rightarrow> 'd exit" where
  "configured_driver driverFactories storage =
     (case (Storage_Type storage, Storage_Parameters storage) of
        (Goes_on t, Goes_on ps) \<Rightarrow>
          (case Create driverFactories t ps of Inl err \<Rightarrow> Ends | Inr driver \<Rightarrow> Goes_on driver)
      | _ \<Rightarrow> Ends)"

text \<open>The server section of the configuration, and the fields of the coordinator taken from it.\<close>

record ServerConfig =
  sc_Port :: int
  sc_MaxCommitRetryTimeout :: int64
  sc_MaxRollbackRetryTimeout :: int64
  sc_RollbackDeadSeconds :: int64
  sc_RollbackRetryTimeoutUnlockEnable :: bool

definition configured_coordinator :: "ServerConfig \<Rightarrow> 'd tc_conf \<Rightarrow> 'd tc_conf" where
  "configured_coordinator server conf = conf
     \<lparr>maxCommitRetryTimeout := sc_MaxCommitRetryTimeout server,
      maxRollbackRetryTimeout := sc_MaxRollbackRetryTimeout server,
      rollbackDeadSeconds := sc_RollbackDeadSeconds server,
      rollbackRetryTimeoutUnlockEnable := sc_RollbackRetryTimeoutUnlockEnable server\<rparr>"

subsection \<open>Finding and reading the configuration\<close>

text \<open>\<open>Parse\<close>: reading may fail, and so may the parser.\<close>

definition Parse_config :: "goerror + 'i \<Rightarrow> ('i \<Rightarrow> goerror + 'c) \<Rightarrow> goerror + 'c" where
  "Parse_config input parse = (case input of Inl err \<Rightarrow> Inl err | Inr i \<Rightarrow> parse i)"

text \<open>\<open>text\<close> gives the text of an error.\<close>

definition resolveConfiguration ::
    "(goerror \<Rightarrow> string) \<Rightarrow> string \<Rightarrow> (string \<Rightarrow> goerror + (goerror + 'i)) \<Rightarrow> ('i \<Rightarrow> goerror + 'c) \<Rightarrow> string \<Rightarrow> goerror + 'c" where
  "resolveConfiguration error_of env open parse configPath =
     (let configurationPath = (if configPath \<noteq> [] then configPath else if env \<noteq> [] then env else [])
      in if configurationPath = [] then Inl (Errorf ''configuration path unspecified'')
         else case open configurationPath of
           Inl err \<Rightarrow> Inl err
         | Inr input \<Rightarrow>
             (case Parse_config input parse of
                Inl err \<Rightarrow> Inl (Errorf (''error parsing '' @ configurationPath @ '': '' @ error_of err))
              | Inr cfg \<Rightarrow> Inr cfg))"

text \<open>The client's: any failure ends the process.\<close>

definition InitConfiguration :: "(string \<Rightarrow> goerror + (goerror + 'i)) \<Rightarrow> ('i \<Rightarrow> goerror + 'c) \<Rightarrow> string \<Rightarrow> 'c exit" where
  "InitConfiguration open parse configurationPath =
     (case open configurationPath of
        Inl err \<Rightarrow> Ends
      | Inr input \<Rightarrow> (case Parse_config input parse of Inl err \<Rightarrow> Ends | Inr config \<Rightarrow> Goes_on config))"

subsection \<open>Properties\<close>

definition level_texts :: "string list" where
  "level_texts = [''debug'', ''DEBUG'', ''info'', ''INFO'', [], ''warn'', ''WARN'', ''error'', ''ERROR'',
     ''panic'', ''PANIC'', ''fatal'', ''FATAL'']"

lemma level_texts_lower: "list_all (\<lambda>t. unmarshalText (ToLower t) = unmarshalText t) level_texts"
  by code_simp

lemma unmarshalText_texts: "unmarshalText word \<noteq> None \<Longrightarrow> word \<in> set level_texts"
  by (rule ccontr) (simp add: unmarshalText_def level_texts_def)

text \<open>Every mixture of cases of a level's name is accepted: what is decoded is decoded from the text in
  lower case.\<close>

lemma UnmarshalText_eq:
  "UnmarshalText q word =
     (case unmarshalText (ToLower word) of
        Some l \<Rightarrow> Inr l
      | None \<Rightarrow> Inl (Errorf (''unrecognized level: '' @ q word)))"
proof (cases "unmarshalText word")
  case (Some l)
  with unmarshalText_texts [of word] level_texts_lower have "unmarshalText (ToLower word) = Some l"
    by (auto simp: list_all_iff)
  with Some show ?thesis by (simp add: UnmarshalText_def)
qed (simp add: UnmarshalText_def)

text \<open>A parameter that is not positive is the default; a positive one is taken over.\<close>

lemma GetServerParameters_fields:
  "MaxConnectionIdle (GetServerParameters c) = (if 0 <s MaxConnectionIdle c then MaxConnectionIdle c else 15 * Second)"
  "MaxConnectionAge (GetServerParameters c) = (if 0 <s MaxConnectionAge c then MaxConnectionAge c else 30 * Second)"
  "MaxConnectionAgeGrace (GetServerParameters c) =
     (if 0 <s MaxConnectionAgeGrace c then MaxConnectionAgeGrace c else 5 * Second)"
  "sp_Time (GetServerParameters c) = (if 0 <s sp_Time c then sp_Time c else 5 * Second)"
  "sp_Timeout (GetServerParameters c) = (if 0 <s sp_Timeout c then sp_Timeout c else Second)"
  by (simp_all add: GetServerParameters_def Let_def)

text \<open>A configured time is ignored in favour of the timeout, and with a time but no timeout the
  client pings with an interval of nothing.\<close>

lemma GetClientParameters_time:
  "cp_Time (GetClientParameters c) = (if 0 <s cp_Time c then cp_Timeout c else 10 * Second)"
  by (simp add: GetClientParameters_def Let_def)

lemma GetClientParameters_zero:
  "0 <s cp_Time c \<Longrightarrow> cp_Timeout c = 0 \<Longrightarrow>
   cp_Time (GetClientParameters c) = 0 \<and> cp_Timeout (GetClientParameters c) = Second"
  by (simp add: GetClientParameters_def Let_def)

text \<open>A storage that was decoded names at most one driver, so that reading it does not panic.\<close>

lemma UnmarshalYAML_type:
  assumes "UnmarshalYAML shown as_map as_string = Inr storage"
  shows "Storage_Type storage = Goes_on (case storage of [] \<Rightarrow> [] | p # ps \<Rightarrow> fst p)"
proof -
  have "length storage \<le> 1" using assms by (auto simp: UnmarshalYAML_def split: sum.splits if_splits)
  then show ?thesis by (cases storage) (auto simp: Storage_Type_def)
qed

text \<open>Writing a storage and reading it back: a driver without parameters comes back with empty ones.\<close>

lemma Storage_roundtrip:
  assumes "length storage = 1" and "MarshalYAML storage = Goes_on y"
    and "as_map = (case y of Inr m \<Rightarrow> Inr m | Inl t \<Rightarrow> Inl err)"
    and "as_string = (case y of Inl t \<Rightarrow> Inr t | Inr m \<Rightarrow> Inl err)"
  shows "\<exists>s. UnmarshalYAML shown as_map as_string = Inr s \<and> Storage_Type s = Storage_Type storage \<and>
    (case Storage_Parameters storage of Goes_on (Some p) \<Rightarrow> s = storage | _ \<Rightarrow> Storage_Parameters s = Goes_on (Some []))"
proof -
  obtain t p where st: "storage = [(t, p)]" using assms(1) by (cases storage) auto
  show ?thesis
    using assms(2-4) by (cases p) (auto simp: st MarshalYAML_def Storage_Parameters_def Storage_Type_def UnmarshalYAML_def)
qed

text \<open>A driver can be registered once; afterwards, and only then, it is created by that factory.\<close>

lemma Register_driver_twice:
  assumes "Register_driver name (Some f) m = Goes_on m'"
  shows "Register_driver name g m' = Ends" and "Create m' name ps = f ps"
    and "name' \<noteq> name \<Longrightarrow> Create m' name' ps = Create m name' ps"
  using assms by (auto simp: Register_driver_def Create_def split: option.splits if_splits)

lemma configured_driver_empty:
  "driverFactories [] = None \<Longrightarrow> configured_driver driverFactories [] = Ends"
  by (simp add: configured_driver_def Storage_Type_def Storage_Parameters_def Create_def)

end
