(* ===== verification/Parser.thy ===== *)
theory Parser
  imports Go_Case Prelude "HOL-Library.List_Lexorder" "HOL-Library.Char_ord"
begin

text \<open>
  \<open>pkg/util/parser/parser.go\<close>: environment variables override the values a YAML document gave to a
  configuration. What \<open>reflect\<close> shows of a value is modelled as a tree: a struct with its fields, a
  map, a pointer, an interface, or anything else, a leaf. \<open>yaml\<close> decodes a text into a new value of
  a type, \<open>leaf\<close> is the zero value of a leaf type. A value is overwritten in place in the code; here
  the functions return it, and \<open>settable\<close> tells whether \<open>reflect\<close> lets it be set.
\<close>

subsection \<open>Values\<close>

datatype gotype =
    TLeaf string
  | TStruct "(string \<times> gotype) list"
  | TMap bool gotype
  | TPtr gotype
  | TIface bool

text \<open>The flag of a map tells that its keys are strings, that of an interface that it has no method.\<close>

datatype 'a val =
    Leaf string 'a
  | Struct "(string \<times> 'a val) list"
  | Map bool gotype "(string \<times> 'a val) list option"
  | Ptr gotype "'a val option"
  | Iface bool "'a val option"

primrec type_of :: "'a val \<Rightarrow> gotype" where
  "type_of (Leaf n a) = TLeaf n"
| "type_of (Struct fs) = TStruct (map (map_prod id type_of) fs)"
| "type_of (Map b t m) = TMap b t"
| "type_of (Ptr t v) = TPtr t"
| "type_of (Iface b v) = TIface b"

primrec zero_of :: "(string \<Rightarrow> 'a) \<Rightarrow> gotype \<Rightarrow> 'a val" where
  "zero_of leaf (TLeaf n) = Leaf n (leaf n)"
| "zero_of leaf (TStruct fs) = Struct (map (map_prod id (zero_of leaf)) fs)"
| "zero_of leaf (TMap b t) = Map b t None"
| "zero_of leaf (TPtr t) = Ptr t None"
| "zero_of leaf (TIface b) = Iface b None"

lemma type_of_zero [simp]: "type_of (zero_of leaf t) = t"
  by (induction t) (auto simp: map_idI prod.map_comp intro!: map_idI)

datatype 'r result = Ok 'r | Failed goerror | Panics

fun map_result :: "('r \<Rightarrow> 'q) \<Rightarrow> 'r result \<Rightarrow> 'q result" where
  "map_result f (Ok r) = Ok (f r)" | "map_result f (Failed e) = Failed e" | "map_result f Panics = Panics"

text \<open>The position of the first entry whose name in upper case is \<open>key\<close>.\<close>

fun find_upper :: "string \<Rightarrow> (string \<times> 'b) list \<Rightarrow> nat option" where
  "find_upper key [] = None"
| "find_upper key (f # fs) = (if ToUpper (fst f) = key then Some 0 else map_option Suc (find_upper key fs))"

fun is_nil :: "'a val \<Rightarrow> bool" where
  "is_nil (Map b t None) = True" | "is_nil (Ptr t None) = True" | "is_nil (Iface b None) = True" | "is_nil v = False"

lemma is_nil_Map [simp]: "is_nil (Map b t m) \<longleftrightarrow> m = None"
  by (cases m) auto

text \<open>What a struct field that holds a nil map or pointer is set to before it is descended into.\<close>

fun made :: "(string \<Rightarrow> 'a) \<Rightarrow> 'a val \<Rightarrow> 'a val" where
  "made leaf (Map b t None) = Map b t (Some [])"
| "made leaf (Ptr t None) = Ptr t (Some (zero_of leaf t))"
| "made leaf v = v"

definition needs_making :: "'a val \<Rightarrow> bool" where
  "needs_making v = (case v of Map b t None \<Rightarrow> True | Ptr t None \<Rightarrow> True | _ \<Rightarrow> False)"

text \<open>\<open>SetMapIndex\<close> with the key in lower case panics on a nil map.\<close>

definition set_entry :: "bool \<Rightarrow> gotype \<Rightarrow> (string \<times> 'a val) list option \<Rightarrow> string \<Rightarrow> 'a val \<Rightarrow> 'a val result" where
  "set_entry b t m key v =
     (case m of None \<Rightarrow> Panics | Some es \<Rightarrow> Ok (Map b t (Some (AList.update (ToLower key) v es))))"

text \<open>Decoding into a map that has been made leaves it made.\<close>

definition decoded :: "gotype \<Rightarrow> 'a val \<Rightarrow> 'a val" where
  "decoded t v = (case (t, v) of (TMap b u, Map b' u' None) \<Rightarrow> Map b' u' (Some []) | _ \<Rightarrow> v)"

definition of_sum :: "goerror + 'r \<Rightarrow> 'r result" where
  "of_sum x = (case x of Inl e \<Rightarrow> Failed e | Inr r \<Rightarrow> Ok r)"

fun bind_result :: "'r result \<Rightarrow> ('r \<Rightarrow> 'q result) \<Rightarrow> 'q result" where
  "bind_result (Ok r) f = f r" | "bind_result (Failed e) f = Failed e" | "bind_result Panics f = Panics"

subsection \<open>Overwriting\<close>

text \<open>The element of a map is made anew, for \<open>overwriteMap\<close>: a map, or what a new pointer points to.\<close>

definition new_element :: "(string \<Rightarrow> 'a) \<Rightarrow> gotype \<Rightarrow> 'a val" where
  "new_element leaf t = (case t of TMap b u \<Rightarrow> Map b u (Some []) | _ \<Rightarrow> Ptr t (Some (zero_of leaf t)))"

definition indirect :: "'a val \<Rightarrow> 'a val" where
  "indirect v = (case v of Ptr t (Some w) \<Rightarrow> w | _ \<Rightarrow> v)"

function (sequential)
      overwriteFields :: "(gotype \<Rightarrow> string \<Rightarrow> goerror + 'a val) \<Rightarrow> (string \<Rightarrow> 'a) \<Rightarrow> bool \<Rightarrow> 'a val \<Rightarrow> string list \<Rightarrow> string \<Rightarrow> 'a val result"
  and overwriteStruct :: "(gotype \<Rightarrow> string \<Rightarrow> goerror + 'a val) \<Rightarrow> (string \<Rightarrow> 'a) \<Rightarrow> bool \<Rightarrow> (string \<times> 'a val) list \<Rightarrow> string list \<Rightarrow> string \<Rightarrow> 'a val result"
  and overwriteMap :: "(gotype \<Rightarrow> string \<Rightarrow> goerror + 'a val) \<Rightarrow> (string \<Rightarrow> 'a) \<Rightarrow> bool \<Rightarrow> gotype \<Rightarrow> (string \<times> 'a val) list option \<Rightarrow> string list \<Rightarrow> string \<Rightarrow> 'a val result"
where
  "overwriteFields yaml leaf settable (Ptr t None) path payload = Panics"
| "overwriteFields yaml leaf settable (Ptr t (Some v)) path payload =
     map_result (\<lambda>w. Ptr t (Some w)) (overwriteFields yaml leaf True v path payload)"
| "overwriteFields yaml leaf settable (Struct fs) path payload = overwriteStruct yaml leaf settable fs path payload"
| "overwriteFields yaml leaf settable (Map b t m) path payload = overwriteMap yaml leaf b t m path payload"
| "overwriteFields yaml leaf settable (Iface True (Some v)) path payload =
     map_result (\<lambda>w. Iface True (Some w)) (overwriteFields yaml leaf False v path payload)"
| "overwriteFields yaml leaf settable (Iface True None) path payload =
     (if \<not> settable then Panics
      else map_result (\<lambda>w. Iface True (Some w)) (overwriteMap yaml leaf True (TIface True) (Some []) path payload))"
| "overwriteFields yaml leaf settable v path payload = Ok v"
| "overwriteStruct yaml leaf settable fs [] payload = Panics"
| "overwriteStruct yaml leaf settable fs (key # path) payload =
     (if \<not> distinct (map (\<lambda>f. ToUpper (fst f)) fs) then Panics
      else case find_upper key fs of
        None \<Rightarrow> Ok (Struct fs)
      | Some i \<Rightarrow>
          (if path = [] then
             bind_result (of_sum (yaml (type_of (snd (fs ! i))) payload))
               (\<lambda>v. if settable then Ok (Struct (fs[i := (fst (fs ! i), v)])) else Panics)
           else if needs_making (snd (fs ! i)) \<and> \<not> settable then Panics
           else map_result (\<lambda>w. Struct (fs[i := (fst (fs ! i), w)]))
                  (overwriteFields yaml leaf settable (made leaf (snd (fs ! i))) path payload)))"
| "overwriteMap yaml leaf False t m path payload = Ok (Map False t m)"
| "overwriteMap yaml leaf True t m [] payload = Panics"
| "overwriteMap yaml leaf True t m (key # path) payload =
     (let es = (case m of None \<Rightarrow> [] | Some es \<Rightarrow> es);
          found = (if path \<noteq> [] then find_upper key es else None)
      in case found of
           Some i \<Rightarrow>
             (if \<not> is_nil (snd (es ! i)) then
                map_result (\<lambda>w. Map True t (Some (es[i := (fst (es ! i), w)])))
                  (overwriteFields yaml leaf False (snd (es ! i)) path payload)
              else bind_result (overwriteFields yaml leaf False (new_element leaf t) path payload)
                     (\<lambda>w. set_entry True t m key (indirect w)))
         | None \<Rightarrow>
             (if path \<noteq> [] then
                bind_result (overwriteFields yaml leaf False (new_element leaf t) path payload)
                  (\<lambda>w. set_entry True t m key (indirect w))
              else bind_result (of_sum (yaml t payload)) (\<lambda>v. set_entry True t m key (decoded t v))))"
  by pat_completeness auto

termination
  by (relation "measures
     [\<lambda>c. case c of Inl (_, _, _, _, path, _) \<Rightarrow> length path | Inr (Inl (_, _, _, _, path, _)) \<Rightarrow> length path
        | Inr (Inr (_, _, _, _, _, path, _)) \<Rightarrow> length path,
      \<lambda>c. case c of Inl _ \<Rightarrow> 1 | _ \<Rightarrow> 0,
      \<lambda>c. case c of Inl (_, _, _, v, _, _) \<Rightarrow> size v | _ \<Rightarrow> 0]") auto

subsection \<open>The environment\<close>

text \<open>\<open>NewParser\<close>: the variables sorted by name; an entry without an equals sign panics.\<close>

fun split_env :: "string \<Rightarrow> (string \<times> string) option" where
  "split_env [] = None"
| "split_env (c # cs) =
     (if c = CHR ''='' then Some ([], cs) else map_option (\<lambda>(n, v). (c # n, v)) (split_env cs))"

definition env_vars :: "string list \<Rightarrow> (string \<times> string) list option" where
  "env_vars environ =
     (let parts = map split_env environ
      in if list_all (\<lambda>p. p \<noteq> None) parts then Some (sort_key fst (map the parts)) else None)"

definition HasPrefix :: "string \<Rightarrow> string \<Rightarrow> bool" where
  "HasPrefix s p \<longleftrightarrow> take (length p) s = p"

text \<open>The variables whose name starts with the prefix are applied one after the other, until one fails.\<close>

fun apply_env ::
    "(gotype \<Rightarrow> string \<Rightarrow> goerror + 'a val) \<Rightarrow> (string \<Rightarrow> 'a) \<Rightarrow> string \<Rightarrow> (string \<times> string) list \<Rightarrow> 'a val \<Rightarrow> 'a val result" where
  "apply_env yaml leaf prefix [] v = Ok v"
| "apply_env yaml leaf prefix ((name, value) # env) v =
     (if HasPrefix name (ToUpper prefix @ ''_'')
      then bind_result (overwriteFields yaml leaf False v (tl (Split name CHR ''_'')) value)
             (apply_env yaml leaf prefix env)
      else apply_env yaml leaf prefix env v)"

text \<open>\<open>v\<close> is a pointer to the configuration.\<close>

definition Parse ::
    "(gotype \<Rightarrow> string \<Rightarrow> goerror + 'a val) \<Rightarrow> (string \<Rightarrow> 'a) \<Rightarrow> string \<Rightarrow> string list \<Rightarrow> gotype \<Rightarrow> string \<Rightarrow> 'a val result" where
  "Parse yaml leaf prefix environ t doc =
     (case env_vars environ of
        None \<Rightarrow> Panics
      | Some env \<Rightarrow> bind_result (of_sum (yaml t doc)) (\<lambda>v. apply_env yaml leaf prefix env (Ptr t (Some v))))"

subsection \<open>Values keep their types\<close>

text \<open>A value whose parts have the types declared for them.\<close>

inductive wt :: "'a val \<Rightarrow> bool" where
  wt_leaf: "wt (Leaf n a)"
| wt_struct: "(\<And>f. f \<in> set fs \<Longrightarrow> wt (snd f)) \<Longrightarrow> wt (Struct fs)"
| wt_map: "(\<And>es e. m = Some es \<Longrightarrow> e \<in> set es \<Longrightarrow> wt (snd e) \<and> type_of (snd e) = t) \<Longrightarrow> wt (Map b t m)"
| wt_ptr: "(\<And>v. p = Some v \<Longrightarrow> wt v \<and> type_of v = t) \<Longrightarrow> wt (Ptr t p)"
| wt_iface: "(\<And>v. p = Some v \<Longrightarrow> wt v) \<Longrightarrow> wt (Iface b p)"

inductive_cases wt_StructE: "wt (Struct fs)"
inductive_cases wt_MapE: "wt (Map b t m)"
inductive_cases wt_PtrE: "wt (Ptr t p)"
inductive_cases wt_IfaceE: "wt (Iface b p)"

inductive_simps wt_struct_iff: "wt (Struct fs)"
inductive_simps wt_map_iff: "wt (Map b t m)"
inductive_simps wt_ptr_iff: "wt (Ptr t p)"
inductive_simps wt_iface_iff: "wt (Iface b p)"

lemmas wt_iffs [simp] = wt_struct_iff wt_map_iff wt_ptr_iff wt_iface_iff

lemma wt_zero [simp]: "wt (zero_of leaf t)"
  by (induction t) (auto intro: wt_leaf)

lemma wt_made: "wt v \<Longrightarrow> wt (made leaf v)" and type_of_made [simp]: "type_of (made leaf v) = type_of v"
  by (cases "(leaf, v)" rule: made.cases; auto)+

lemma wt_new_element: "wt (new_element leaf t)"
  by (cases t) (simp_all add: new_element_def del: zero_of.simps)

lemma not_nil_new_element [simp]: "\<not> is_nil (new_element leaf t)"
  by (cases t) (simp_all add: new_element_def)

lemma map_result_Ok [simp]: "map_result f r = Ok q \<longleftrightarrow> (\<exists>w. r = Ok w \<and> q = f w)"
  by (cases r) auto

lemma bind_result_Ok [simp]: "bind_result r f = Ok q \<longleftrightarrow> (\<exists>w. r = Ok w \<and> f w = Ok q)"
  by (cases r) auto

lemma of_sum_Ok [simp]: "of_sum x = Ok r \<longleftrightarrow> x = Inr r"
  by (simp add: of_sum_def split: sum.splits)

lemma find_upper_bound: "find_upper key xs = Some i \<Longrightarrow> i < length xs \<and> ToUpper (fst (xs ! i)) = key"
  by (induction xs arbitrary: i) (auto split: if_splits)

lemma find_upper_in: "find_upper key xs = Some i \<Longrightarrow> xs ! i \<in> set xs"
  using find_upper_bound by fastforce

lemma set_entry_Ok:
  assumes "set_entry b t m key v = Ok w" and "wt (Map b t m)" and "wt v" and "type_of v = t"
  shows "wt w" and "type_of w = TMap b t"
proof -
  obtain es where m: "m = Some es" and w: "w = Map b t (Some (AList.update (ToLower key) v es))"
    using assms(1) by (auto simp: set_entry_def split: option.splits)
  have "set (AList.update k v es) \<subseteq> insert (k, v) (set es)" for k by (induction es) auto
  then show "wt w" using assms(2-4) m by (force simp: w)
  show "type_of w = TMap b t" by (simp add: w)
qed

lemma update_struct:
  assumes "wt (Struct fs)" and "i < length fs" and "wt v" and "type_of v = type_of (snd (fs ! i))"
  shows "wt (Struct (fs[i := (fst (fs ! i), v)]))"
    and "map (map_prod id type_of) (fs[i := (fst (fs ! i), v)]) = map (map_prod id type_of) fs"
proof -
  show "wt (Struct (fs[i := (fst (fs ! i), v)]))"
    using assms(1,3) set_update_subset_insert [of fs i "(fst (fs ! i), v)"] by auto
  show "map (map_prod id type_of) (fs[i := (fst (fs ! i), v)]) = map (map_prod id type_of) fs"
    using assms(2,4) by (auto simp: map_update intro!: nth_equalityI simp: nth_list_update map_prod_def split: prod.splits)
qed

lemma indirect_new_element:
  assumes "wt w" and "type_of w = type_of (new_element leaf t)" and "\<not> is_nil w"
  shows "wt (indirect w) \<and> type_of (indirect w) = t"
proof (cases "\<exists>b u. t = TMap b u")
  case True
  then obtain b u where t: "t = TMap b u" by blast
  with assms(2) obtain m where "w = Map b u m" by (cases w) (auto simp: new_element_def)
  with assms(1) t show ?thesis by (simp add: indirect_def)
next
  case False
  then have "new_element leaf t = Ptr t (Some (zero_of leaf t))" by (cases t) (simp_all add: new_element_def)
  with assms(2) obtain p where "w = Ptr t p" by (cases w) auto
  with assms(1,3) show ?thesis by (cases p) (auto simp: indirect_def)
qed

lemma decoded_wt: "wt v \<Longrightarrow> wt (decoded t v)" and decoded_type: "type_of (decoded t v) = type_of v"
  by (auto simp: decoded_def split: gotype.splits val.splits option.splits)

definition yaml_ok :: "(gotype \<Rightarrow> string \<Rightarrow> goerror + 'a val) \<Rightarrow> bool" where
  "yaml_ok yaml \<longleftrightarrow> (\<forall>t d v. yaml t d = Inr v \<longrightarrow> wt v \<and> type_of v = t)"

lemma overwrite_wt:
  "overwriteFields yaml leaf settable v path payload = Ok w \<Longrightarrow> yaml_ok yaml \<Longrightarrow> wt v \<Longrightarrow>
     wt w \<and> type_of w = type_of v \<and> (is_nil w \<longrightarrow> is_nil v)"
  "overwriteStruct yaml leaf settable fs path payload = Ok w \<Longrightarrow> yaml_ok yaml \<Longrightarrow> wt (Struct fs) \<Longrightarrow>
     wt w \<and> type_of w = type_of (Struct fs) \<and> \<not> is_nil w"
  "overwriteMap yaml leaf b t m path payload = Ok w \<Longrightarrow> yaml_ok yaml \<Longrightarrow> wt (Map b t m) \<Longrightarrow>
     wt w \<and> type_of w = TMap b t \<and> (is_nil w \<longrightarrow> m = None)"
proof (induction yaml leaf settable v path payload and yaml leaf settable fs path payload and yaml leaf b t m path payload
    arbitrary: w and w and w rule: overwriteFields_overwriteStruct_overwriteMap.induct)
  case (9 yaml leaf settable fs key path payload)
  note ok = "9.prems"(2,3)
  show ?case
  proof (cases "find_upper key fs")
    case None
    with "9.prems" show ?thesis by (auto split: if_splits)
  next
    case (Some i)
    note b = find_upper_bound [OF Some] find_upper_in [OF Some]
    have v: "wt (snd (fs ! i))" using ok(2) b(2) by (metis prod.collapse wt_StructE)
    have "\<exists>u. w = Struct (fs[i := (fst (fs ! i), u)]) \<and> wt u \<and> type_of u = type_of (snd (fs ! i))"
    proof (cases "path = []")
      case True
      with "9.prems"(1) Some obtain u where "yaml (type_of (snd (fs ! i))) payload = Inr u"
        "w = Struct (fs[i := (fst (fs ! i), u)])" by (auto split: if_splits)
      with ok(1) show ?thesis by (auto simp: yaml_ok_def)
    next
      case False
      with "9.prems"(1) Some have c: "distinct (map (\<lambda>f. ToUpper (fst f)) fs)"
          "\<not> (needs_making (snd (fs ! i)) \<and> \<not> settable)" by (auto split: if_splits)
      with False "9.prems"(1) Some obtain u where u: "overwriteFields yaml leaf settable (made leaf (snd (fs ! i))) path payload = Ok u"
        "w = Struct (fs[i := (fst (fs ! i), u)])" by auto
      from "9.IH" [OF _ Some False c(2) u(1) ok(1) wt_made [OF v]] c(1) have "wt u \<and> type_of u = type_of (snd (fs ! i))"
        by simp
      with u(2) show ?thesis by blast
    qed
    then obtain u where u: "w = Struct (fs[i := (fst (fs ! i), u)])" "wt u" "type_of u = type_of (snd (fs ! i))" by blast
    from update_struct [OF ok(2) _ u(2,3)] b(1) u(1) show ?thesis by simp
  qed
next
  case (12 yaml leaf t m key path payload)
  note ok = "12.prems"(2,3)
  define es where "es = (case m of None \<Rightarrow> [] | Some es \<Rightarrow> es)"
  have fresh: "wt w \<and> type_of w = TMap True t \<and> (is_nil w \<longrightarrow> m = None)"
    if "set_entry True t m key v = Ok w" "wt v" "type_of v = t" for v
    using set_entry_Ok [OF that(1) ok(2) that(2,3)] that(1) by (auto simp: set_entry_def split: option.splits)
  have made: "wt (indirect u) \<and> type_of (indirect u) = t"
    if "wt u \<and> type_of u = type_of (new_element leaf t) \<and> (is_nil u \<longrightarrow> is_nil (new_element leaf t))" for u
    using indirect_new_element [of u leaf t] that by simp
  show ?case
  proof (cases "if path \<noteq> [] then find_upper key es else None")
    case None
    then show ?thesis
    proof (cases "path = []")
      case True
      with "12.prems"(1) None obtain v where "yaml t payload = Inr v" "set_entry True t m key (decoded t v) = Ok w"
        by (auto simp: es_def Let_def)
      with ok(1) show ?thesis by (intro fresh) (auto simp: yaml_ok_def decoded_wt decoded_type)
    next
      case False
      with "12.prems"(1) None obtain u where u: "overwriteFields yaml leaf False (new_element leaf t) path payload = Ok u"
        "set_entry True t m key (indirect u) = Ok w" by (auto simp: es_def Let_def)
      from "12.IH"(1) [OF es_def refl _ False u(1) ok(1) wt_new_element] None show ?thesis
        using made [of u] by (intro fresh [OF u(2)]) simp_all
    qed
  next
    case (Some i)
    then have p: "path \<noteq> []" and f: "find_upper key es = Some i" by (auto split: if_splits)
    from find_upper_bound [OF f] obtain es' where m: "m = Some es'" "es = es'" by (cases m) (auto simp: es_def)
    note in_es = find_upper_in [OF f]
    show ?thesis
    proof (cases "is_nil (snd (es ! i))")
      case False
      with "12.prems"(1) p f obtain u where u: "overwriteFields yaml leaf False (snd (es ! i)) path payload = Ok u"
        "w = Map True t (Some (es[i := (fst (es ! i), u)]))" by (auto simp: es_def Let_def)
      have "wt (snd (es ! i)) \<and> type_of (snd (es ! i)) = t" using ok(2) in_es m by (metis wt_MapE)
      with "12.IH"(2) [OF es_def refl Some False u(1) ok(1)] have "wt u \<and> type_of u = t" by simp
      then show ?thesis
        using ok(2) u(2) m set_update_subset_insert [of es i "(fst (es ! i), u)"] by auto
    next
      case True
      with "12.prems"(1) p f obtain u where u: "overwriteFields yaml leaf False (new_element leaf t) path payload = Ok u"
        "set_entry True t m key (indirect u) = Ok w" by (auto simp: es_def Let_def)
      from "12.IH"(3) [OF es_def refl Some _ u(1) ok(1) wt_new_element] True show ?thesis
        using made [of u] by (intro fresh [OF u(2)]) simp_all
    qed
  qed
qed (auto 0 3 split: if_splits)

lemma apply_env_wt:
  "apply_env yaml leaf prefix env v = Ok w \<Longrightarrow> yaml_ok yaml \<Longrightarrow> wt v \<Longrightarrow> wt w \<and> type_of w = type_of v"
proof (induction env arbitrary: v)
  case (Cons e env)
  then show ?case by (cases e) (auto split: if_splits dest!: overwrite_wt(1))
qed simp


text \<open>A decoder that understands leaves only.\<close>

definition leaf_yaml :: "gotype \<Rightarrow> string \<Rightarrow> goerror + string val" where
  "leaf_yaml t d = (case t of TLeaf n \<Rightarrow> Inr (Leaf n d) | _ \<Rightarrow> Inr (zero_of (\<lambda>n. []) t))"

definition small_config :: gotype where
  "small_config = TStruct [(''Log'', TPtr (TStruct [(''Level'', TLeaf ''string'')]))]"


subsection \<open>Which variable wins\<close>

text \<open>The variables are applied in ascending order of their names, so that a name that continues
  another, and is the more specific one, comes after it.\<close>

lemma env_vars_sorted:
  assumes "env_vars environ = Some env"
  shows "sorted (map fst env)"
  using assms by (auto simp: env_vars_def Let_def split: if_splits)

lemma longer_name_later: "(n :: string) \<le> n @ ext"
  by (induction n) auto

text \<open>A variable that names no field of the configuration is ignored, one that names a field sets it.\<close>

lemma unknown_variable_ignored:
  assumes "find_upper key fs = None" and "distinct (map (\<lambda>f. ToUpper (fst f)) fs)"
  shows "overwriteFields yaml leaf settable (Ptr t (Some (Struct fs))) (key # path) payload = Ok (Ptr t (Some (Struct fs)))"
  using assms by simp

lemma variable_sets_field:
  assumes "find_upper key fs = Some i" and "distinct (map (\<lambda>f. ToUpper (fst f)) fs)"
    and "yaml (type_of (snd (fs ! i))) payload = Inr v"
  shows "overwriteFields yaml leaf settable (Ptr t (Some (Struct fs))) [key] payload =
    Ok (Ptr t (Some (Struct (fs[i := (fst (fs ! i), v)]))))"
  using assms by simp

text \<open>A second driver under \<open>storage\<close> is added, it does not replace the first.\<close>

lemma storage_variable_adds:
  "overwriteFields (\<lambda>t d. Inr (Iface True (Some (Leaf ''string'' d)))) (\<lambda>n. []) False
     (Ptr (TStruct [(''Storage'', TMap True (TMap True (TIface True)))])
       (Some (Struct [(''Storage'', Map True (TMap True (TIface True))
          (Some [(''inmemory'', Map True (TIface True) (Some []))]))])))
     [''STORAGE'', ''MYSQL'', ''DSN''] ''root@db'' =
   Ok (Ptr (TStruct [(''Storage'', TMap True (TMap True (TIface True)))])
       (Some (Struct [(''Storage'', Map True (TMap True (TIface True))
          (Some [(''inmemory'', Map True (TIface True) (Some [])),
                 (''mysql'', Map True (TIface True) (Some [(''dsn'', Iface True (Some (Leaf ''string'' ''root@db'')))]))]))])))"
  by code_simp

end
