(* ===== verification/Metrics.thy ===== *)
theory Metrics
  imports Event Go_Strings "HOL-Library.List_Lexorder" "HOL-Library.Char_ord"
begin

text \<open>
  \<open>pkg/tc/metrics\<close>: the counters that the subscriber of the event channel keeps, and the text the
  Prometheus exporter writes. Of \<open>go-metrics\<close>, a counter and a meter are the sum of what was added
  to them; a histogram is the list of its updates, and the least and the greatest value of its sample are
  parameters. The Go and process collectors of the exporter are third-party code.
\<close>

subsection \<open>The subscriber (\<open>metrics.go\<close>)\<close>

record metrics =
  CounterActive :: int64
  CounterCommitted :: int64
  CounterRollbacked :: int64
  SummaryCommitted :: int64
  SummaryRollbacked :: int64
  TimerCommitted :: "int64 list"
  TimerRollback :: "int64 list"

definition no_metrics :: metrics where
  "no_metrics = \<lparr>CounterActive = 0, CounterCommitted = 0, CounterRollbacked = 0, SummaryCommitted = 0,
     SummaryRollbacked = 0, TimerCommitted = [], TimerRollback = []\<rparr>"

definition elapsed :: "GlobalTransactionEvent \<Rightarrow> int64" where
  "elapsed gtv = ev_endTime gtv - ev_beginTime gtv"

definition process_event :: "GlobalTransactionEvent \<Rightarrow> metrics \<Rightarrow> metrics" where
  "process_event gtv m =
     (case ev_status gtv of
        Begin \<Rightarrow> m\<lparr>CounterActive := CounterActive m + 1\<rparr>
      | Committed \<Rightarrow> m\<lparr>CounterActive := CounterActive m - 1, CounterCommitted := CounterCommitted m + 1,
           SummaryCommitted := SummaryCommitted m + 1, TimerCommitted := TimerCommitted m @ [elapsed gtv]\<rparr>
      | RolledBack \<Rightarrow> m\<lparr>CounterActive := CounterActive m - 1, CounterRollbacked := CounterRollbacked m + 1,
           SummaryRollbacked := SummaryRollbacked m + 1, TimerRollback := TimerRollback m @ [elapsed gtv]\<rparr>
      | CommitFailed \<Rightarrow> m\<lparr>CounterActive := CounterActive m - 1\<rparr>
      | RollbackFailed \<Rightarrow> m\<lparr>CounterActive := CounterActive m - 1\<rparr>
      | TimeoutRolledBack \<Rightarrow> m\<lparr>CounterActive := CounterActive m - 1\<rparr>
      | TimeoutRollbackFailed \<Rightarrow> m\<lparr>CounterActive := CounterActive m - 1\<rparr>
      | _ \<Rightarrow> m)"

text \<open>The loop over the events received so far.\<close>

definition ProcessGlobalTransactionEvent :: "GlobalTransactionEvent list \<Rightarrow> metrics \<Rightarrow> metrics" where
  "ProcessGlobalTransactionEvent gtvs m = fold process_event gtvs m"

subsection \<open>Labels\<close>

definition sortedLabels :: "(string \<times> string) list \<Rightarrow> string list \<times> string list" where
  "sortedLabels labels =
     (let keys = sort (map fst labels)
      in (keys, map (\<lambda>k. case map_of labels k of Some v \<Rightarrow> v | None \<Rightarrow> []) keys))"

text \<open>A metric with its labels, and the sorted labels once they have been asked for. \<open>Counter\<close>,
  \<open>Summary\<close> and \<open>Histogram\<close> have the same fields and the same method.\<close>

record labelled =
  lb_Name :: string
  lb_Labels :: "(string \<times> string) list"
  labelKeys :: "string list option"
  labelVals :: "string list option"

definition SortedLabels :: "labelled \<Rightarrow> (string list \<times> string list) \<times> labelled" where
  "SortedLabels c =
     (case (labelKeys c, labelVals c) of
        (Some keys, Some vals) \<Rightarrow> ((keys, vals), c)
      | _ \<Rightarrow>
          (let (keys, vals) = sortedLabels (lb_Labels c)
           in ((keys, vals), c\<lparr>labelKeys := Some keys, labelVals := Some vals\<rparr>)))"

definition SeataTransaction :: string where "SeataTransaction = ''seata.transaction''"

definition metric :: "string \<Rightarrow> string \<Rightarrow> labelled" where
  "metric meter status = \<lparr>lb_Name = SeataTransaction,
     lb_Labels = [(''role'', ''tc''), (''meter'', meter), (''status'', status)], labelKeys = None, labelVals = None\<rparr>"

subsection \<open>The exporter (\<open>promethues_exporter.go\<close>)\<close>

fun label_pairs :: "string list \<Rightarrow> string list \<Rightarrow> string list" where
  "label_pairs (k # ks) (v # vs) = (k @ ''=\"'' @ v @ ''\"'') # label_pairs ks vs"
| "label_pairs _ _ = []"

text \<open>The first pair, then each other one after a comma.\<close>

definition makeLabelStr :: "string list \<Rightarrow> string list \<Rightarrow> string" where
  "makeLabelStr keys values =
     (case label_pairs keys values of [] \<Rightarrow> [] | p # ps \<Rightarrow> fold (\<lambda>q out. out @ '','' @ q) ps p)"

text \<open>\<open>strings.ReplaceAll(name, ".", "_")\<close>.\<close>

definition metric_name :: "string \<Rightarrow> string" where
  "metric_name name = map (\<lambda>c. if c = CHR ''.'' then CHR ''_'' else c) name"

text \<open>The line of a metric, after the line of its type when \<open>tracker\<close> has not seen the name.\<close>

definition flush_metric :: "string \<Rightarrow> string \<Rightarrow> string \<Rightarrow> int64 \<Rightarrow> string set \<times> string \<Rightarrow> string set \<times> string" where
  "flush_metric kind name labels val st =
     (let (tracker, buf) = st;
          (tracker1, buf1) =
            (if name \<notin> tracker then (insert name tracker, buf @ ''# TYPE '' @ name @ '' '' @ kind @ ''\<newline>'')
             else (tracker, buf))
      in (tracker1, buf1 @ name @ ''{'' @ labels @ ''} '' @ show_int64 val @ ''\<newline>''))"

definition flushGauge :: "string \<Rightarrow> string \<Rightarrow> int64 \<Rightarrow> string set \<times> string \<Rightarrow> string set \<times> string" where
  "flushGauge name labels val st = flush_metric ''gauge'' name labels val st"

definition flushCounter :: "labelled \<Rightarrow> int64 \<Rightarrow> string set \<times> string \<Rightarrow> (string set \<times> string) \<times> labelled" where
  "flushCounter counter val st =
     (let ((keys, vals), counter1) = SortedLabels counter
      in (flush_metric ''counter'' (metric_name (lb_Name counter)) (makeLabelStr keys vals) val st, counter1))"

definition flushHistogram ::
    "labelled \<Rightarrow> int64 \<Rightarrow> int64 \<Rightarrow> string set \<times> string \<Rightarrow> (string set \<times> string) \<times> labelled" where
  "flushHistogram histogram mn mx st =
     (let ((keys, vals), histogram1) = SortedLabels histogram;
          labels = makeLabelStr keys vals; name = metric_name (lb_Name histogram);
          st1 = flushGauge (name @ ''_min'') labels mn st
      in (flushGauge (name @ ''_max'') labels mx st1, histogram1))"

text \<open>What \<open>Flush\<close> writes, with the five metrics as they are at their first use.\<close>

definition Flush :: "(int64 list \<Rightarrow> int64) \<Rightarrow> (int64 list \<Rightarrow> int64) \<Rightarrow> metrics \<Rightarrow> string" where
  "Flush min_of max_of m =
     (let st = ({}, []);
          st = fst (flushCounter (metric ''counter'' ''active'') (CounterActive m) st);
          st = fst (flushCounter (metric ''counter'' ''committed'') (CounterCommitted m) st);
          st = fst (flushCounter (metric ''counter'' ''rollbacked'') (CounterRollbacked m) st);
          st = fst (flushHistogram (metric ''timer'' ''committed'') (min_of (TimerCommitted m)) (max_of (TimerCommitted m)) st);
          st = fst (flushHistogram (metric ''timer'' ''rollbacked'') (min_of (TimerRollback m)) (max_of (TimerRollback m)) st)
      in snd st)"

subsection \<open>What the counters count\<close>

definition ended :: "GlobalStatus \<Rightarrow> bool" where
  "ended st \<longleftrightarrow> st \<in> {Committed, RolledBack, CommitFailed, RollbackFailed, TimeoutRolledBack, TimeoutRollbackFailed}"

definition events_with :: "(GlobalStatus \<Rightarrow> bool) \<Rightarrow> GlobalTransactionEvent list \<Rightarrow> nat" where
  "events_with P gtvs = length (filter (\<lambda>e. P (ev_status e)) gtvs)"

lemma events_with_simps [simp]:
  "events_with P [] = 0" "events_with P (e # es) = (if P (ev_status e) then 1 else 0) + events_with P es"
  by (simp_all add: events_with_def)

text \<open>The active counter is the number of events in \<open>Begin\<close> less that of the events in a final
  status, so it is right only if each transaction is seen once in each.\<close>

lemma active_counts:
  "CounterActive (ProcessGlobalTransactionEvent es m) =
     CounterActive m + of_nat (events_with (\<lambda>st. st = Begin) es) - of_nat (events_with ended es)"
proof (induction es arbitrary: m)
  case (Cons e es)
  then show ?case
    by (cases "ev_status e") (simp_all add: ProcessGlobalTransactionEvent_def process_event_def ended_def)
qed (simp add: ProcessGlobalTransactionEvent_def)

lemma committed_counts:
  "CounterCommitted (ProcessGlobalTransactionEvent es m) =
     CounterCommitted m + of_nat (events_with (\<lambda>st. st = Committed) es)"
  "length (TimerCommitted (ProcessGlobalTransactionEvent es m)) =
     length (TimerCommitted m) + events_with (\<lambda>st. st = Committed) es"
proof (induction es arbitrary: m)
  case (Cons e es)
  {
    case 1
    then show ?case using Cons.IH(1)
      by (cases "ev_status e") (simp_all add: ProcessGlobalTransactionEvent_def process_event_def)
  next
    case 2
    then show ?case using Cons.IH(2)
      by (cases "ev_status e") (simp_all add: ProcessGlobalTransactionEvent_def process_event_def)
  }
qed (simp_all add: ProcessGlobalTransactionEvent_def)

text \<open>The order in which Go visits the labels does not matter.\<close>

lemma sortedLabels_order:
  assumes "distinct (map fst ls)" and "mset ls = mset ls'"
  shows "sortedLabels ls = sortedLabels ls'"
proof -
  have d: "distinct (map fst ls')" using assms by (metis mset_eq_imp_distinct_iff mset_map)
  have k: "sort (map fst ls) = sort (map fst ls')"
    using assms(2) by (metis mset_map properties_for_sort sort_key_id_if_sorted sorted_sort mset_sort)
  have "map_of ls = map_of ls'"
    using assms d by (metis map_of_inject_set mset_eq_setD)
  with k show ?thesis by (simp add: sortedLabels_def)
qed

lemma SortedLabels_cached:
  "SortedLabels (snd (SortedLabels c)) = (fst (SortedLabels c), snd (SortedLabels c))"
  by (simp add: SortedLabels_def Let_def split: option.splits prod.splits)

lemma SortedLabels_fresh:
  "labelKeys c = None \<Longrightarrow> fst (SortedLabels c) = sortedLabels (lb_Labels c)"
  by (simp add: SortedLabels_def Let_def split: prod.splits)

lemma makeLabelStr_example:
  "makeLabelStr [''cluster'', ''host''] [''app1'', ''server2''] = ''cluster=\"app1\",host=\"server2\"''"
  by (simp add: makeLabelStr_def)

text \<open>The type of a name is written before its first line and not again.\<close>

lemma flush_metric_tracks: "name \<in> fst (flush_metric kind name labels val st)"
  by (simp add: flush_metric_def Let_def split: prod.splits)

lemma flush_metric_again:
  assumes "name \<in> tracker"
  shows "flush_metric kind name labels val (tracker, buf) =
    (tracker, buf @ name @ ''{'' @ labels @ ''} '' @ show_int64 val @ ''\<newline>'')"
  using assms by (simp add: flush_metric_def)

end
