(* ===== verification/Monitoring.thy ===== *)
theory Monitoring
  imports Metrics Inmemory_System
begin

text \<open>
  The metrics of a coordinator: its published events, as the subscriber counts them.
\<close>

definition tc_metrics :: "'d tc \<Rightarrow> metrics" where
  "tc_metrics s = ProcessGlobalTransactionEvent (published s) no_metrics"

text \<open>All event goroutines run, in the order in which they were started.\<close>

definition publish_all :: "'d tc \<Rightarrow> 'd tc" where
  "publish_all s = s\<lparr>spawned := [], published := published s @ map (run_thunk (wld s)) (spawned s)\<rparr>"

lemma publish_all_run:
  assumes "spawned s = ts"
  shows "tc_run reorder conf s (length ts) (publish_all s)"
  using assms
proof (induction ts arbitrary: s)
  case Nil
  then show ?case by (simp add: publish_all_def)
next
  case (Cons t ts)
  let ?s = "s\<lparr>spawned := ts, published := published s @ [run_thunk (wld s) t]\<rparr>"
  have 1: "tc_step reorder conf s ?s"
    using tc_step.event_goroutine [of s "[]" t ts reorder conf] Cons.prems by simp
  have "tc_run reorder conf ?s (length ts) (publish_all ?s)" by (rule Cons.IH) simp
  moreover have "publish_all ?s = publish_all s" using Cons.prems by (simp add: publish_all_def)
  ultimately show ?case
    using tc_run_trans [OF tc_run.run_Suc [OF tc_run.run_0 1]] by fastforce
qed

text \<open>An event is built when its goroutine runs, not when it is started. If the goroutines of a
  transaction that was begun and committed all run at the end, then each of the three events has
  status \<open>Committed\<close>: the transaction is counted as committed three times, and the number of active
  transactions is \<open>-3\<close>. If the first runs before the commit, the number is \<open>-1\<close>.\<close>

lemma metrics_depend_on_scheduling:
  "CounterCommitted (tc_metrics (publish_all (demo_committed TCC))) = 3"
  "CounterActive (tc_metrics (publish_all (demo_committed TCC))) = -3"
  "CounterActive (tc_metrics (publish_all
     (snd (the (tc_Commit (inmem_tc demo_conf) 2000 ''tm:1''
       (snd (the (tc_BranchRegister (inmem_tc demo_conf) (demo_register TCC) (publish_all demo_begun))))))))) = -1"
  by code_simp+

end
