(* ===== verification/Mysql_Keywords.thy ===== *)
theory Mysql_Keywords
  imports Go_Strings
begin

text \<open>
  \<open>pkg/util/mysql/mysql_keyword_checker.go\<close>: which table and field names have to be quoted. Every
  key of the map \<open>MySQLKeyword\<close> is its own value.
\<close>

text \<open>The keys in the order of the source, in two parts.\<close>

definition keywords_A_to_L :: "string list" where
  "keywords_A_to_L =
    [''ACCESSIBLE'', ''ADD'', ''ALL'', ''ALTER'', ''ANALYZE'', ''AND'', ''ARRAY'', ''AS'',
     ''ASC'', ''ASENSITIVE'', ''BEFORE'', ''BETWEEN'', ''BIGINT'', ''BINARY'', ''BLOB'',
     ''BOTH'', ''BY'', ''CALL'', ''CASCADE'', ''CASE'', ''CHANGE'', ''CHAR'', ''CHARACTER'',
     ''CHECK'', ''COLLATE'', ''COLUMN'', ''CONDITION'', ''CONSTRAINT'', ''CONTINUE'',
     ''CONVERT'', ''CREATE'', ''CROSS'', ''CUBE'', ''CUME_DIST'', ''CURRENT_DATE'',
     ''CURRENT_TIME'', ''CURRENT_TIMESTAMP'', ''CURRENT_USER'', ''CURSOR'', ''DATABASE'',
     ''DATABASES'', ''DAY_HOUR'', ''DAY_MICROSECOND'', ''DAY_MINUTE'', ''DAY_SECOND'', ''DEC'',
     ''DECIMAL'', ''DECLARE'', ''DEFAULT'', ''DELAYED'', ''DELETE'', ''DENSE_RANK'', ''DESC'',
     ''DESCRIBE'', ''DETERMINISTIC'', ''DISTINCT'', ''DISTINCTROW'', ''DIV'', ''DOUBLE'',
     ''DROP'', ''DUAL'', ''EACH'', ''ELSE'', ''ELSEIF'', ''EMPTY'', ''ENCLOSED'', ''ESCAPED'',
     ''EXCEPT'', ''EXISTS'', ''EXIT'', ''EXPLAIN'', ''FALSE'', ''FETCH'', ''FIRST_VALUE'',
     ''FLOAT'', ''FLOAT4'', ''FLOAT8'', ''FOR'', ''FORCE'', ''FOREIGN'', ''FROM'', ''FULLTEXT'',
     ''FUNCTION'', ''GENERATED'', ''GET'', ''GRANT'', ''GROUP'', ''GROUPING'', ''GROUPS'',
     ''HAVING'', ''HIGH_PRIORITY'', ''HOUR_MICROSECOND'', ''HOUR_MINUTE'', ''HOUR_SECOND'',
     ''IF'', ''IGNORE'', ''IN'', ''INDEX'', ''INFILE'', ''INNER'', ''INOUT'', ''INSENSITIVE'',
     ''INSERT'', ''INT'', ''INT1'', ''INT2'', ''INT3'', ''INT4'', ''INT8'', ''INTEGER'',
     ''INTERVAL'', ''INTO'', ''IO_AFTER_GTIDS'', ''IO_BEFORE_GTIDS'', ''IS'', ''ITERATE'',
     ''JOIN'', ''JSON_TABLE'', ''KEY'', ''KEYS'', ''KILL'', ''LAG'', ''LAST_VALUE'', ''LATERAL'',
     ''LEAD'', ''LEADING'', ''LEAVE'', ''LEFT'', ''LIKE'', ''LIMIT'', ''LINEAR'', ''LINES'',
     ''LOAD'', ''LOCALTIME'', ''LOCALTIMESTAMP'', ''LOCK'', ''LONG'', ''LONGBLOB'', ''LONGTEXT'',
     ''LOOP'', ''LOW_PRIORITY'']"

definition keywords_M_to_Z :: "string list" where
  "keywords_M_to_Z =
    [''MASTER_BIND'', ''MASTER_SSL_VERIFY_SERVER_CERT'', ''MATCH'', ''MAXVALUE'', ''MEDIUMBLOB'',
     ''MEDIUMINT'', ''MEDIUMTEXT'', ''MEMBER'', ''MIDDLEINT'', ''MINUTE_MICROSECOND'',
     ''MINUTE_SECOND'', ''MOD'', ''MODIFIES'', ''NATURAL'', ''NOT'', ''NO_WRITE_TO_BINLOG'',
     ''NTH_VALUE'', ''NTILE'', ''NULL'', ''NUMERIC'', ''OF'', ''ON'', ''OPTIMIZE'',
     ''OPTIMIZER_COSTS'', ''OPTION'', ''OPTIONALLY'', ''OR'', ''ORDER'', ''OUT'', ''OUTER'',
     ''OUTFILE'', ''OVER'', ''PARTITION'', ''PERCENT_RANK'', ''PRECISION'', ''PRIMARY'',
     ''PROCEDURE'', ''PURGE'', ''RANGE'', ''RANK'', ''READ'', ''READS'', ''READ_WRITE'',
     ''REAL'', ''RECURSIVE'', ''REFERENCES'', ''REGEXP'', ''RELEASE'', ''RENAME'', ''REPEAT'',
     ''REPLACE'', ''REQUIRE'', ''RESIGNAL'', ''RESTRICT'', ''RETURN'', ''REVOKE'', ''RIGHT'',
     ''RLIKE'', ''ROW'', ''ROWS'', ''ROW_NUMBER'', ''SCHEMA'', ''SCHEMAS'',
     ''SECOND_MICROSECOND'', ''SELECT'', ''SENSITIVE'', ''SEPARATOR'', ''SET'', ''SHOW'',
     ''SIGNAL'', ''SMALLINT'', ''SPATIAL'', ''SPECIFIC'', ''SQL'', ''SQLEXCEPTION'',
     ''SQLSTATE'', ''SQLWARNING'', ''SQL_BIG_RESULT'', ''SQL_CALC_FOUND_ROWS'',
     ''SQL_SMALL_RESULT'', ''SSL'', ''STARTING'', ''STORED'', ''STRAIGHT_JOIN'', ''SYSTEM'',
     ''TABLE'', ''TERMINATED'', ''THEN'', ''TINYBLOB'', ''TINYINT'', ''TINYTEXT'', ''TO'',
     ''TRAILING'', ''TRIGGER'', ''TRUE'', ''UNDO'', ''UNION'', ''UNIQUE'', ''UNLOCK'',
     ''UNSIGNED'', ''UPDATE'', ''USAGE'', ''USE'', ''USING'', ''UTC_DATE'', ''UTC_TIME'',
     ''UTC_TIMESTAMP'', ''VALUES'', ''VARBINARY'', ''VARCHAR'', ''VARCHARACTER'', ''VARYING'',
     ''VIRTUAL'', ''WHEN'', ''WHERE'', ''WHILE'', ''WINDOW'', ''WITH'', ''WRITE'', ''XOR'',
     ''YEAR_MONTH'', ''ZEROFILL'']"

definition keyword_list :: "string list" where
  "keyword_list = keywords_A_to_L @ keywords_M_to_Z"

definition MySQLKeyword :: "string \<Rightarrow> string option" where
  "MySQLKeyword = map_of (map (\<lambda>k. (k, k)) keyword_list)"

text \<open>The first look-up is with the name as it is, the second in upper case.\<close>

definition Check :: "string \<Rightarrow> bool" where
  "Check fieldOrTableName =
     (if MySQLKeyword fieldOrTableName \<noteq> None then True
      else let name = (if fieldOrTableName \<noteq> [] then ToUpper fieldOrTableName else fieldOrTableName)
           in MySQLKeyword name \<noteq> None)"

definition CheckEscape :: "string \<Rightarrow> bool" where
  "CheckEscape fieldOrTableName = Check fieldOrTableName"

definition CheckAndReplace :: "string \<Rightarrow> string" where
  "CheckAndReplace fieldOrTableName =
     (if Check fieldOrTableName then ''`'' @ fieldOrTableName @ ''`'' else fieldOrTableName)"

subsection \<open>The case of a name does not matter\<close>

lemma keywords_upper: "list_all (\<lambda>k. ToUpper k = k \<and> k \<noteq> [] \<and> hd k \<noteq> CHR ''`'') keyword_list"
  by code_simp

lemma keyword_iff: "MySQLKeyword name \<noteq> None \<longleftrightarrow> name \<in> set keyword_list"
  by (auto simp: MySQLKeyword_def map_of_eq_None_iff image_image simp del: not_None_eq)

lemma Check_iff: "Check name \<longleftrightarrow> ToUpper name \<in> set keyword_list"
proof -
  have "ToUpper name \<in> set keyword_list" if "name \<in> set keyword_list"
    using keywords_upper that by (auto simp: list_all_iff)
  then show ?thesis by (auto simp: Check_def keyword_iff Let_def simp del: not_None_eq)
qed

lemma Check_ToUpper: "Check (ToUpper name) = Check name"
  by (simp add: Check_iff)

text \<open>A replaced name needs no replacing: a backquote starts no keyword.\<close>

lemma CheckAndReplace_done: "\<not> Check (CheckAndReplace name)"
proof (cases "Check name")
  case True
  have "hd (ToUpper (CheckAndReplace name)) = CHR ''`''"
    using True by (simp add: CheckAndReplace_def ToUpper_def upper_char_def)
  then show ?thesis using keywords_upper by (auto simp: Check_iff list_all_iff)
qed (simp add: CheckAndReplace_def)

lemma CheckAndReplace_idem: "CheckAndReplace (CheckAndReplace name) = CheckAndReplace name"
  using CheckAndReplace_done [of name] by (simp add: CheckAndReplace_def)

end
