(* ===== verification/Sql_Types.thy ===== *)
theory Sql_Types
  imports Go_Strings Prelude
begin

text \<open>
  \<open>pkg/util/sql/sql_type.go\<close>: the numbers of the SQL types, as constants and by name.
\<close>

text \<open>The constants, in the order of their declaration, and the map.\<close>

definition Type_constants :: "(string \<times> int32) list" where
  "Type_constants =
    [
     (''BIT'', -7), (''TINYINT'', -6), (''SMALLINT'', 5), (''INTEGER'', 4), (''BIGINT'', -5),
     (''FLOAT'', 6), (''REAL'', 7), (''DOUBLE'', 8), (''NUMERIC'', 2), (''DECIMAL'', 3),
     (''CHAR'', 1), (''VARCHAR'', 12), (''LONGVARCHAR'', -1), (''DATE'', 91), (''TIME'', 92),
     (''TIMESTAMP'', 93), (''BINARY'', -2), (''VARBINARY'', -3), (''LONGVARBINARY'', -4),
     (''NULL'', 0), (''OTHER'', 1111), (''JavaObject'', 2000), (''DISTINCT'', 2001),
     (''STRUCT'', 2002), (''ARRAY'', 2003), (''BLOB'', 2004), (''CLOB'', 2005), (''REF'', 2006),
     (''DATALINK'', 70), (''BOOLEAN'', 16), (''ROWID'', -8), (''NCHAR'', -15), (''NVARCHAR'', -9),
     (''LONGNVARCHAR'', -16), (''NCLOB'', 2011), (''SQLXML'', 2009), (''RefCursor'', 2012),
     (''TimeWithTimezone'', 2013), (''TimestampWithTimezone'', 2014)]"

definition SQLTypes :: "(string \<times> int32) list" where
  "SQLTypes =
    [
     (''BIT'', -7), (''TINYINT'', -6), (''SMALLINT'', 5), (''INTEGER'', 4), (''BIGINT'', -5),
     (''FLOAT'', 6), (''REAL'', 7), (''DOUBLE'', 8), (''NUMERIC'', 2), (''DECIMAL'', 3),
     (''CHAR'', 1), (''VARCHAR'', 12), (''LONGVARCHAR'', -1), (''DATE'', 91), (''TIME'', 92),
     (''TIMESTAMP'', 93), (''BINARY'', -2), (''VARBINARY'', -3), (''LONGVARBINARY'', -4),
     (''NULL'', 0), (''OTHER'', 1111), (''JAVA_OBJECT'', 2000), (''DISTINCT'', 2001),
     (''STRUCT'', 2002), (''ARRAY'', 2003), (''BLOB'', 2004), (''CLOB'', 2005), (''REF'', 2006),
     (''DATALINK'', 70), (''BOOLEAN'', 16), (''ROWID'', -8), (''NCHAR'', -15), (''NVARCHAR'', -9),
     (''LONGNVARCHAR'', -16), (''NCLOB'', 2011), (''SQLXML'', 2009), (''REF_CURSOR'', 2012),
     (''TIME_WITH_TIMEZONE'', 2013), (''TIMESTAMP_WITH_TIMEZONE'', 2014)]"

text \<open>Reading an absent key yields 0.\<close>

definition GetSQLType :: "string \<Rightarrow> int32" where
  "GetSQLType dataType = (case map_of SQLTypes (ToUpper dataType) of Some t \<Rightarrow> t | None \<Rightarrow> 0)"

text \<open>Constants and map agree entry by entry, names and numbers are used once, and 0 is the number
  of \<open>NULL\<close> as well as that of an unknown name.\<close>

lemma SQLTypes_constants: "map snd SQLTypes = map snd Type_constants"
  by code_simp

lemma SQLTypes_distinct: "distinct (map fst SQLTypes)" "distinct (map snd SQLTypes)"
  by code_simp+

lemma GetSQLType_ToUpper: "GetSQLType (ToUpper n) = GetSQLType n"
  by (simp add: GetSQLType_def)

lemma GetSQLType_zero: "GetSQLType n = 0 \<longleftrightarrow> ToUpper n = ''NULL'' \<or> ToUpper n \<notin> fst ` set SQLTypes"
proof (cases "map_of SQLTypes (ToUpper n)")
  case None
  then have "ToUpper n \<notin> fst ` set SQLTypes" by (simp add: map_of_eq_None_iff)
  with None show ?thesis by (simp add: GetSQLType_def)
next
  case (Some t)
  have "list_all (\<lambda>(n, t). t = 0 \<longleftrightarrow> n = ''NULL'') SQLTypes" by code_simp
  with map_of_SomeD [OF Some] have "t = 0 \<longleftrightarrow> ToUpper n = ''NULL''" by (auto simp: list_all_iff)
  with Some map_of_SomeD [OF Some] show ?thesis by (force simp: GetSQLType_def)
qed

lemma GetSQLType_injective:
  assumes "GetSQLType n = GetSQLType m" and "ToUpper n \<in> fst ` set SQLTypes" and "ToUpper m \<in> fst ` set SQLTypes"
  shows "ToUpper n = ToUpper m"
proof -
  obtain t u where t: "map_of SQLTypes (ToUpper n) = Some t" "map_of SQLTypes (ToUpper m) = Some u"
    using assms(2,3) by (metis map_of_eq_None_iff option.exhaust)
  with assms(1) have "t = u" by (simp add: GetSQLType_def)
  with t SQLTypes_distinct(2) show ?thesis
    by (metis (no_types, lifting) distinct_map inj_on_def map_of_SomeD prod.inject snd_conv)
qed

end
