(* ===== verification/Go_Helpers.thy ===== *)
theory Go_Helpers
  imports Proxy_Service Coordinator_Retry
begin

text \<open>
  The small helpers: \<open>pkg/util/time/time.go\<close>, \<open>pkg/util/runtime/goroutine.go\<close>, and \<open>Add\<close> of
  \<open>pkg/tc/model\<close>, which nothing calls.
\<close>

subsection \<open>Times\<close>

definition UnixTimeUnitOffset :: uint64 where "UnixTimeUnitOffset = 1000000"

text \<open>The argument is \<open>time.Now().UnixNano()\<close>; the conversions keep the 64 bits.\<close>

definition CurrentTimeNano :: "int64 \<Rightarrow> uint64" where
  "CurrentTimeNano nano = nano"

definition CurrentTimeMillis :: "int64 \<Rightarrow> uint64" where
  "CurrentTimeMillis nano = CurrentTimeNano nano div UnixTimeUnitOffset"

text \<open>\<open>time.Unix(0, n).Format\<close> with a layout is the parameter \<open>format\<close>: it goes by the time zone of the machine.\<close>

definition FormatTimeMillis :: "(string \<Rightarrow> int64 \<Rightarrow> string) \<Rightarrow> uint64 \<Rightarrow> string" where
  "FormatTimeMillis format tsMillis = format ''2006-01-02 15:04:05'' (tsMillis * UnixTimeUnitOffset)"

definition FormatDate :: "(string \<Rightarrow> int64 \<Rightarrow> string) \<Rightarrow> uint64 \<Rightarrow> string" where
  "FormatDate format tsMillis = format ''2006-01-02'' (tsMillis * UnixTimeUnitOffset)"

text \<open>The clock does not go back when the nanoseconds do not: until the year 2262 they are positive.\<close>

lemma unat_nonneg: "0 \<le> sint (a :: int64) \<Longrightarrow> unat a = nat (sint a)"
  using sint_bounds64 [of a] uint_word_of_int_eq [of "sint a", where 'a = 64]
  by (simp add: take_bit_int_eq_self unat_eq_nat_uint)

lemma CurrentTimeMillis_mono:
  assumes "0 \<le> sint a" and "sint a \<le> sint b"
  shows "CurrentTimeMillis a \<le> CurrentTimeMillis b"
  using assms unat_nonneg [of a] unat_nonneg [of b]
  by (simp add: CurrentTimeMillis_def CurrentTimeNano_def UnixTimeUnitOffset_def word_le_nat_alt unat_div div_le_mono nat_mono)

text \<open>A time that is formatted is the one the clock showed, as long as the product fits.\<close>

lemma millis_roundtrip:
  assumes "unat ts < 2 ^ 63 div 1000000"
  shows "CurrentTimeMillis (ts * UnixTimeUnitOffset) = ts"
proof -
  have "unat (ts * 1000000) = unat ts * 1000000" using assms by (simp add: unat_word_ariths)
  then show ?thesis
    by (simp add: CurrentTimeMillis_def CurrentTimeNano_def UnixTimeUnitOffset_def word_unat_eq_iff unat_div)
qed

subsection \<open>Goroutines\<close>

text \<open>The effect of the goroutine once it has run, and, if it panicked, of the goroutine of the recovery
  handler: panics end in both.\<close>

definition GoWithRecover ::
    "('s \<Rightarrow> unit outcome \<times> 's) \<Rightarrow> ('s \<Rightarrow> unit outcome \<times> 's) option \<Rightarrow> 's \<Rightarrow> 's" where
  "GoWithRecover handler recoverHandler s =
     (case handler s of
        (Return u, s1) \<Rightarrow> s1
      | (Panicked, s1) \<Rightarrow> (case recoverHandler of None \<Rightarrow> s1 | Some h \<Rightarrow> snd (h s1)))"

lemma GoWithRecover_no_handler: "GoWithRecover handler None s = snd (handler s)"
  by (auto simp: GoWithRecover_def split: prod.splits outcome.splits)

subsection \<open>Adding a branch to a transaction\<close>

definition gt_Add :: "GlobalTransaction \<Rightarrow> bref \<Rightarrow> 'd world \<Rightarrow> GlobalTransaction \<times> 'd world" where
  "gt_Add gt b w =
     (gt\<lparr>gt_BranchSessions := (if b \<in> set (gt_BranchSessions gt) then gt_BranchSessions gt
                              else gt_BranchSessions gt @ [b])\<rparr>,
      set_bs b (\<lambda>s. s\<lparr>bs_Status := Registered\<rparr>) w)"

lemma gt_Add_HasBranch: "HasBranch (fst (gt_Add gt b w))"
  by (auto simp: gt_Add_def HasBranch_def)

lemma gt_Remove_Add: "b \<notin> set (gt_BranchSessions gt) \<Longrightarrow> gt_Remove (fst (gt_Add gt b w)) b = gt"
  by (simp add: gt_Add_def gt_Remove_def)

lemma find_last: "\<forall>c \<in> set xs. \<not> P c \<Longrightarrow> P b \<Longrightarrow> find P (xs @ [b]) = Some b"
  by (induction xs) auto

lemma GetBranch_Add:
  assumes "\<forall>c \<in> set (gt_BranchSessions gt). bs_BranchID (bobj w c) \<noteq> bs_BranchID (bobj w b)"
  shows "GetBranch (snd (gt_Add gt b w)) (fst (gt_Add gt b w)) (bs_BranchID (bobj w b)) = Some b"
proof -
  have "b \<notin> set (gt_BranchSessions gt)" using assms by auto
  then show ?thesis using assms by (auto simp: gt_Add_def GetBranch_def intro!: find_last)
qed

end
