(* ===== verification/Spec2Isabelle.thy ===== *)
theory Spec2Isabelle
  imports Anomalies Handler_Races Handler_Schedules Lock_Races Exchange_Runs Deadlines Inmemory_Phase_Two Xid Sql_Runs Sql_Start Client_Demo Config Parser Monitoring Mysql_Keywords Sql_Types Go_Helpers
begin

text \<open>
  A model of seata-golang, a coordinator of distributed transactions with its Go client.

  \<^bold>\<open>The program.\<close> An application calls a service through a proxy (\<open>pkg/client/tm\<close>,
  \<open>pkg/client/proxy\<close>). The proxy begins a global transaction at the coordinator, calls the method
  with the XID bound to its context, and commits or rolls back. A resource manager
  (\<open>pkg/client/rm\<close>, \<open>pkg/client/tcc\<close>) registers a branch with the rows it locks. The coordinator
  (\<open>pkg/tc/server\<close>) keeps sessions and row locks through the session holder (\<open>pkg/tc/holder\<close>)
  and the lock manager (\<open>pkg/tc/lock\<close>) in one of three storage drivers (\<open>pkg/tc/storage\<close>). In
  the second phase it sends a message to the resource manager of every branch and sets the
  status of the session by the answers; background passes repeat what has failed, and finish
  what has timed out. Events of the sessions are counted as metrics (\<open>pkg/tc/event\<close>,
  \<open>pkg/tc/metrics\<close>).

  \<^bold>\<open>The theories.\<close> Shared: \<open>Prelude\<close> (Go's integers as words, errors as values, association
  lists), \<open>Go_Strings\<close>, \<open>Go_Case\<close>, \<open>Go_Time\<close> (what the code uses of \<open>strings\<close> and \<open>time\<close>).
  Data: \<open>Apis\<close> (\<open>pkg/apis/seata.pb.go\<close>), \<open>Xid\<close> (\<open>pkg/util/common\<close>), \<open>Uuid\<close> (\<open>pkg/util/uuid\<close>),
  \<open>Row_Locker\<close> (\<open>storage/row_locker.go\<close>), \<open>Transaction_Model\<close> (\<open>pkg/tc/model\<close>, with the heap of
  the sessions that the coordinator and a driver share by pointer), \<open>Event\<close>.

  Coordinator: \<open>Storage\<close> has the interfaces of the drivers as records of functions;
  \<open>Lock_Manager\<close> and \<open>Session_Holder\<close> are the layers over them. The handlers of
  \<open>transaction_coordinator.go\<close> are in \<open>Coordinator\<close> (begin, commit), \<open>Coordinator_Rollback\<close>,
  \<open>Coordinator_Branch\<close> (branches, lock queries, streams) and \<open>Coordinator_Retry\<close> (the four
  background passes). \<open>Coordinator_System\<close> composes them: \<open>tc_step\<close> is one handler, one pass, one
  stream opened or closed or one event sent; \<open>tc_run\<close> is a run of such steps. \<open>Handler_Steps\<close> has the
  handlers and the passes once more, as threads that make one call at a time (\<open>Interleaving\<close> says
  what a thread and a schedule are). \<open>Message_Exchange\<close>
  goes into the calls that wait for a resource manager and into the streams, one operation of a
  goroutine at a time, under any schedule (\<open>Channels\<close> has what both ends share); \<open>Exchange_Counts\<close>
  is about the counts of connected addresses.

  Drivers: \<open>Inmemory\<close> (\<open>driver/inmemory\<close>; its row locks one map operation at a time in
  \<open>Lock_Races\<close>). The drivers \<open>driver/mysql\<close> and \<open>driver/pgsql\<close> are one
  set of operations, \<open>Sql_Driver\<close>, over two dialects, \<open>Mysql\<close> and \<open>Pgsql\<close>, which hold the
  statement texts and the creation of the tables. \<open>Sql\<close> says what a statement text means,
  \<open>Sql_Text\<close> how a filled template is parsed, \<open>Sql_Server\<close> what tables and types the two servers
  have, \<open>Sql_Start\<close> how a driver is opened.

  Client: \<open>Root_Context\<close> (\<open>pkg/client/base\<close>), \<open>Tm_Client\<close> (\<open>transaction_manager.go\<close>,
  \<open>global_transaction.go\<close>), \<open>Proxy_Service\<close> (\<open>proxy/service.go\<close>), \<open>Tm_Proxy\<close> (\<open>tm/proxy.go\<close>),
  \<open>Rm_Client\<close> (\<open>resource_manager.go\<close>; its loop once more as interleaved goroutines in \<open>Rm_Stream\<close>), \<open>Tcc\<close> (\<open>pkg/client/tcc\<close>). \<open>Client_System\<close> connects it
  to the handlers of the coordinator, \<open>Client_Demo\<close> runs concrete services.

  Around it: \<open>Metrics\<close> and \<open>Monitoring\<close> (\<open>pkg/tc/metrics\<close>, and what it counts of a run),
  \<open>Config\<close> (the server's and the client's configuration, the registry of drivers, the log
  level), \<open>Parser\<close> (\<open>pkg/util/parser\<close>), \<open>Mysql_Keywords\<close> (\<open>pkg/util/mysql\<close>), \<open>Sql_Types\<close>
  (\<open>pkg/util/sql\<close>), \<open>Go_Helpers\<close> (\<open>pkg/util/time\<close>, \<open>pkg/util/runtime\<close>).

  \<^bold>\<open>The interfaces.\<close> A layer is verified once against a locale, and the locale is interpreted on
  the models of the code:
  \<^item> \<open>row_lock_store\<close> (\<open>Storage\<close>): a driver's row locks as a map from rows to owners.
    \<open>lock_manager\<close> extends it. Interpreted as \<open>inmem_locks\<close>, \<open>inmem_lm\<close>, and for SQL as \<open>locks\<close>.
  \<^item> \<open>session_store\<close>, \<open>tx_store\<close> (\<open>Session_Store\<close>): what the coordinator relies on of the stored
    sessions, read by XID, and that lock operations do not touch them; updates may fail before or
    after their effect. Interpreted as \<open>inmem_store\<close>, \<open>inmem_tx\<close>, and for SQL as \<open>store\<close>.
  \<^item> \<open>coordinator\<close>, \<open>coordinator_system\<close>: the lemmas about handlers and runs over any such store.
    Interpreted as \<open>inmem_sys\<close>, and for SQL as \<open>sys\<close>.
  \<^item> \<open>sql_texts\<close> (\<open>Sql_Dialect\<close>): what the texts of a dialect mean for all table names and row
    counts (\<open>mysql_texts\<close>, \<open>pgsql_texts\<close>). \<open>sql_engine\<close> (\<open>Sql_Engine\<close>): what the drivers rely on
    of the database behind xorm, documented behaviour of SQL; the tables with a schedule of faults \<open>db\<close>
    keep it (\<open>db_sql\<close>). \<open>sql_store\<close> joins both, and gives the contracts above
    (\<open>my\<close>, \<open>pg\<close>).
  \<^item> \<open>never_closes\<close> (\<open>Pgsql_System\<close>): a store that closes no session; \<open>pg_stuck\<close>.
  \<^item> \<open>session_keeper\<close> (\<open>Handler_Schedules\<close>): a driver whose operations leave the identity of every
    session object and open none; \<open>inmem_keeper\<close>.

  \<^bold>\<open>What the lemmas show.\<close>
  \<^item> Sessions. Along every run, over every driver, a session keeps its identity, follows the graph
    \<open>status_step\<close>, takes no branch once closed, and is never moved from the commit to the rollback
    side or back (\<open>Inmemory_System\<close>, \<open>Sql_Runs\<close>). When the resource managers answer, the second
    phase completes and frees exactly the rows of the transaction (\<open>Inmemory_Phase_Two\<close>).
  \<^item> Locks. A request over SQL leaves the table as it was or grants every row, and takes no row from
    anybody; what the other drivers do on refusal is in \<open>Anomalies\<close>.
  \<^item> Concurrent handlers (\<open>Handler_Schedules\<close>, \<open>Handler_Races\<close>, \<open>Lock_Races\<close>). The threads do alone what
    the handlers do. However they are interleaved, over the in-memory driver no session changes its
    identity or is opened again, and requests and releases of different transactions leave each
    the rows its own answer says. What the runs of atomic handlers exclude can happen: a branch is
    registered after its session was closed, a committed session is set to be rolled back by a
    check for timeouts, a failed registration keeps its rows, and two releases of one transaction
    free a row of another.
  \<^item> Data. IDs are distinct for up to \<open>2 ^ 53\<close> in a row, after which the 53 bits beside the worker
    number start again; XIDs and lock keys are read back as they were written; sessions
    and branches are read back from their tables; MySQL accepts every statement of its driver.
  \<^item> Time. When exactly the three comparisons fire, on machine integers (\<open>Deadlines\<close>).
  \<^item> Messages (\<open>Exchange_Runs\<close>). Whatever the interleaving, a call returns what the atomic call of
    the other theories returns for some answer, and an answer it takes bears its own number; the
    resource manager's loop does what the function \<open>branchCommunicate\<close> does. An answer that comes
    before its future is stored is lost, one that comes as the timer fires ends the reception of
    its stream, streams that open and close together spoil the counts, and a failed send may stop
    the resource manager for good.
  \<^item> The client. The calls that surround a method, the number of calls of the retry loops, when a
    TCC branch counts as committed (\<open>Client_Runs\<close>).
  \<^item> What fails. \<open>Anomalies\<close>, \<open>Sql_Runs\<close>, \<open>Sql_Typing\<close>, \<open>Pgsql_System\<close> and \<open>Client_Runs\<close> prove
    behaviour that the names and comments of the code do not lead one to expect: over PostgreSQL
    no session is closed and no branch stored, a late commit frees the locks of a transaction that
    rolls back, a commit can stay in \<open>Committing\<close> for good, and others.

  \<^bold>\<open>Conventions.\<close> Go's integers are words of their width, so that sums and differences wrap. A
  function that may panic yields an option or an \<open>outcome\<close>. A loop is a recursion on the list it
  visits, or on a counter with a termination proof; no definition takes fuel. The order in which
  Go visits a map is part of the state of the in-memory driver, and a step of the system may
  change it. Strings are ASCII where their case matters.

  \<^bold>\<open>Parameters.\<close> The answer to a branch message (\<open>reply\<close>), which stands for the exchange of
  messages and the resource manager at its other end; the failures of protobuf's \<open>MarshalAny\<close>;
  \<open>decode\<close>, \<open>marshal\<close> and \<open>unmarshal\<close> for JSON; \<open>yaml\<close>; \<open>leaf\<close> and \<open>zero\<close> for zero values; the
  text of an error; the clock; the network interfaces; the database server behind xorm.

  \<^bold>\<open>Not modelled.\<close>
  \<^item> Interleavings within one call of the session holder, the lock manager or a driver, but for the
    row locks in memory: such a call is one step of a thread. The properties of runs (\<open>tc_run\<close>) take
    a handler as one step; the global session lock would justify that for one session, but its
    implementation does nothing, and \<open>Handler_Races\<close> shows what follows.
  \<^item> The generated gRPC and protobuf code but for its data; the wiring of servers in \<open>cmd/tc\<close>, and
    \<open>pkg/client/client.go\<close>, which dials; the HTTP server of the metrics; zap and the rest of
    \<open>log\<close>; the generated mocks. They contain no logic of this program.
  \<^item> On the client: passing \<open>RegisterResource\<close> on to the manager, which nothing calls, and the
    settings of the AT mode, which nothing in the repository reads.
  \<^item> The goroutines that carry events: \<open>event_thunk\<close> stands for one, the list of published events
    for the channel.
\<close>

end
